(* ===== verification/CPrelude.thy ===== *)
theory CPrelude
  imports Complex_Main "HOL-Library.Word" "HOL-Library.Log_Nat"
begin

text \<open>
  Shared vocabulary of the development: the fixed-width integer types of C, the arrays
  indexed by motor number, and the generic lemmas on lists, loops and words that the
  component theories use.
\<close>

unbundle bit_operations_syntax

section \<open>Integer types of C\<close>

type_synonym u8 = "8 word"
type_synonym u16 = "16 word"
type_synonym u32 = "32 word"
type_synonym u64 = "64 word"

text \<open>\<open>int8_t\<close> and \<open>int16_t\<close> are words read by \<open>sint\<close>.\<close>

type_synonym i8 = "8 word"
type_synonym i16 = "16 word"

section \<open>Automation collections\<close>

named_theorems byte_simps \<open>reading back bytes written into a buffer\<close>
named_theorems len_simps \<open>lengths of buffers and motor arrays\<close>
named_theorems frame_simps \<open>fields an operation leaves alone\<close>

section \<open>Bytes of a word\<close>

lemma word_FF_mask: "(0xFF :: 'a::len word) = mask 8"
  by (simp add: mask_eq_exp_minus_1)

lemma not_bit_beyond8 [simp]: "8 \<le> n \<Longrightarrow> \<not> bit (b :: u8) n"
  using bit_imp_le_length by force

text \<open>The low byte of a word, and the byte above bit \<open>k\<close>.\<close>

lemma ucast_and_FF: "(ucast (v AND 0xFF) :: u8) = ucast (v :: 'a::len word)"
  by (rule bit_word_eqI) (auto simp: bit_simps word_FF_mask dest: bit_imp_le_length)

end
