(* ===== verification/Float32.thy ===== *)
theory Float32
  imports CPrelude
begin

text \<open>
  The C type \<open>float\<close>: IEEE 754 binary32 with round-to-nearest-even, over exact rationals. A
  value is a NaN, an infinity or a sign with a rational; every operation is the exact one
  followed by one rounding (the build uses no optimisation flags, so nothing is contracted or
  kept in a wider format). The lemmas bound magnitudes (\<open>fbnd\<close>) and rounding errors.
\<close>

definition rne :: "rat \<Rightarrow> int" where
  "rne x =
     (let n = \<lfloor>x\<rfloor>; d = x - of_int n in
      if d < 1 / 2 then n else if 1 / 2 < d then n + 1
      else if even n then n else n + 1)"

definition pow2 :: "int \<Rightarrow> rat" where
  "pow2 e = (if 0 \<le> e then 2 ^ nat e else 1 / 2 ^ nat (- e))"

definition ilog2 :: "rat \<Rightarrow> int" where
  "ilog2 q =
     (let (n, d) = quotient_of \<bar>q\<bar>; k = bitlen n - bitlen d
      in if pow2 k \<le> \<bar>q\<bar> then k else k - 1)"

definition ulp_exp :: "rat \<Rightarrow> int" where
  "ulp_exp q = max (ilog2 q - 23) (- 149)"

definition round32 :: "rat \<Rightarrow> rat" where
  "round32 q =
     (if q = 0 then 0
      else let u = pow2 (ulp_exp q) in of_int (rne (q / u)) * u)"

section \<open>The integer rounding\<close>

lemma rne_of_int [simp]: "rne (of_int n) = n"
  by (simp add: rne_def)

lemma rne_cases:
  "rne x = \<lfloor>x\<rfloor> \<and> x - of_int \<lfloor>x\<rfloor> \<le> 1 / 2 \<or>
   rne x = \<lfloor>x\<rfloor> + 1 \<and> 1 / 2 \<le> x - of_int \<lfloor>x\<rfloor>"
  by (auto simp: rne_def Let_def)

lemma rne_bounds: "of_int (rne x) \<le> x + 1 / 2" "x - 1 / 2 \<le> of_int (rne x)"
proof -
  have fl: "of_int \<lfloor>x\<rfloor> \<le> x" "x < of_int \<lfloor>x\<rfloor> + 1"
    by linarith+
  from rne_cases [of x]
  have "of_int (rne x) \<le> x + 1 / 2 \<and> x - 1 / 2 \<le> of_int (rne x)"
  proof (elim disjE conjE)
    assume "rne x = \<lfloor>x\<rfloor>" "x - of_int \<lfloor>x\<rfloor> \<le> 1 / 2"
    with fl show ?thesis unfolding \<open>rne x = \<lfloor>x\<rfloor>\<close> by linarith
  next
    assume r: "rne x = \<lfloor>x\<rfloor> + 1" and "1 / 2 \<le> x - of_int \<lfloor>x\<rfloor>"
    with fl show ?thesis unfolding r of_int_add of_int_1 by linarith
  qed
  then show "of_int (rne x) \<le> x + 1 / 2" "x - 1 / 2 \<le> of_int (rne x)" by simp_all
qed

lemma rne_floor: "\<lfloor>x\<rfloor> \<le> rne x" "rne x \<le> \<lfloor>x\<rfloor> + 1"
  by (auto simp: rne_def Let_def)

lemma rne_mono:
  assumes "x \<le> y" shows "rne x \<le> rne y"
proof (cases "\<lfloor>x\<rfloor> = \<lfloor>y\<rfloor>")
  case True
  with assms show ?thesis by (auto simp: rne_def Let_def)
next
  case False
  with assms have "\<lfloor>x\<rfloor> + 1 \<le> \<lfloor>y\<rfloor>"
    using floor_mono [OF assms] by simp
  with rne_floor [of x] rne_floor [of y] show ?thesis by linarith
qed

lemma rne_le_int: "x \<le> of_int n \<Longrightarrow> rne x \<le> n"
  using rne_mono [of x "of_int n"] by simp

lemma int_le_rne: "of_int n \<le> x \<Longrightarrow> n \<le> rne x"
  using rne_mono [of "of_int n" x] by simp

lemma rne_minus: "rne (- x) = - rne x"
proof (cases "x = of_int \<lfloor>x\<rfloor>")
  case True
  then obtain n where "x = of_int n" by blast
  then show ?thesis
    by (metis of_int_minus rne_of_int)
next
  case False
  then have "\<lfloor>- x\<rfloor> = - \<lfloor>x\<rfloor> - 1"
    by linarith
  then show ?thesis
    by (auto simp: rne_def Let_def)
qed

section \<open>Powers of two\<close>

lemma pow2_pos [simp]: "0 < pow2 e" "0 \<le> pow2 e" "pow2 e \<noteq> 0"
  by (auto simp: pow2_def)

lemma pow2_powi: "pow2 e = 2 powi e"
  by (simp add: pow2_def power_int_def field_simps)

lemma pow2_add: "pow2 (a + b) = pow2 a * pow2 b"
  by (simp add: pow2_powi power_int_add)

lemma pow2_nat: "pow2 (int n) = 2 ^ n"
  by (simp add: pow2_def)

lemma pow2_mono: "a \<le> b \<Longrightarrow> pow2 a \<le> pow2 b"
  by (simp add: pow2_powi power_int_increasing)

lemma pow2_strict_mono: "a < b \<Longrightarrow> pow2 a < pow2 b"
  by (simp add: pow2_powi power_int_strict_increasing)

lemma pow2_less_iff [simp]: "pow2 a < pow2 b \<longleftrightarrow> a < b"
  by (meson linorder_not_less pow2_mono pow2_strict_mono)

lemma pow2_le_iff [simp]: "pow2 a \<le> pow2 b \<longleftrightarrow> a \<le> b"
  by (meson linorder_not_less pow2_mono pow2_strict_mono)

lemma pow2_0 [simp]: "pow2 0 = 1"
  by (simp add: pow2_def)

lemma pow2_minus: "pow2 (- a) = 1 / pow2 a"
  by (simp add: pow2_powi power_int_minus field_simps)

lemma pow2_diff: "pow2 (a - b) = pow2 a / pow2 b"
  using pow2_add [of a "- b"] by (simp add: pow2_minus)

section \<open>The binary exponent\<close>

lemma pow2_bitlen:
  assumes "0 < n" shows "pow2 (bitlen n - 1) \<le> of_int n" "of_int n < pow2 (bitlen n)"
proof -
  from bitlen_bounds [OF assms]
  have b: "2 ^ nat (bitlen n - 1) \<le> n" "n < 2 ^ nat (bitlen n)" by auto
  have l: "1 \<le> bitlen n" using assms by (simp add: bitlen_def floorlog_def)
  have "of_int (2 ^ nat (bitlen n - 1)) \<le> (of_int n :: rat)"
    using b(1) by (simp only: of_int_le_iff)
  then show "pow2 (bitlen n - 1) \<le> of_int n"
    using l by (simp add: pow2_def)
  have "(of_int n :: rat) < of_int (2 ^ nat (bitlen n))"
    using b(2) by (simp only: of_int_less_iff)
  then show "of_int n < pow2 (bitlen n)"
    using l by (simp add: pow2_def)
qed

lemma ilog2_bounds:
  assumes "q \<noteq> 0"
  shows "pow2 (ilog2 q) \<le> \<bar>q\<bar>" "\<bar>q\<bar> < pow2 (ilog2 q + 1)"
proof -
  obtain n d where nd: "quotient_of \<bar>q\<bar> = (n, d)" by (cases "quotient_of \<bar>q\<bar>") auto
  have d: "0 < d" using quotient_of_denom_pos [OF nd] .
  have q: "\<bar>q\<bar> = of_int n / of_int d" by (rule quotient_of_div [OF nd])
  have "0 < of_int n / (of_int d :: rat)" using assms q by (metis zero_less_abs_iff)
  with d have n: "0 < n" by (simp add: zero_less_divide_iff)
  let ?k = "bitlen n - bitlen d"
  have low: "pow2 (?k - 1) \<le> \<bar>q\<bar>"
  proof -
    have "pow2 (?k - 1) = pow2 (bitlen n - 1) / pow2 (bitlen d)"
      by (simp add: pow2_diff [symmetric] algebra_simps)
    also have "\<dots> \<le> of_int n / of_int d"
      using pow2_bitlen [OF n] pow2_bitlen [OF d] n d by (intro frac_le) auto
    finally show ?thesis by (simp add: q)
  qed
  have up: "\<bar>q\<bar> < pow2 (?k + 1)"
  proof -
    have "of_int n / of_int d < pow2 (bitlen n) / pow2 (bitlen d - 1)"
      using pow2_bitlen [OF n] pow2_bitlen [OF d] n by (intro frac_less) auto
    also have "\<dots> = pow2 (?k + 1)"
      by (simp add: pow2_diff [symmetric] algebra_simps)
    finally show ?thesis by (simp add: q)
  qed
  from low up show "pow2 (ilog2 q) \<le> \<bar>q\<bar>" "\<bar>q\<bar> < pow2 (ilog2 q + 1)"
    by (auto simp: ilog2_def nd Let_def)
qed

lemma ilog2_unique:
  assumes "pow2 e \<le> \<bar>q\<bar>" "\<bar>q\<bar> < pow2 (e + 1)"
  shows "ilog2 q = e"
proof -
  have "0 < \<bar>q\<bar>" using pow2_pos(1) [of e] assms(1) by linarith
  then have "q \<noteq> 0" by simp
  note b = ilog2_bounds [OF this]
  have "pow2 e < pow2 (ilog2 q + 1)" using assms(1) b(2) by (rule order_le_less_trans)
  moreover have "pow2 (ilog2 q) < pow2 (e + 1)" using b(1) assms(2) by (rule order_le_less_trans)
  ultimately show ?thesis by simp
qed

lemma ilog2_mono:
  assumes "p \<noteq> 0" "\<bar>p\<bar> \<le> \<bar>q\<bar>" shows "ilog2 p \<le> ilog2 q"
proof -
  have "q \<noteq> 0" using assms by auto
  have "pow2 (ilog2 p) < pow2 (ilog2 q + 1)"
    using ilog2_bounds(1) [OF assms(1)] assms(2) ilog2_bounds(2) [OF \<open>q \<noteq> 0\<close>] by linarith
  then show ?thesis by simp
qed

lemma ilog2_less: "q \<noteq> 0 \<Longrightarrow> \<bar>q\<bar> < pow2 e \<Longrightarrow> ilog2 q < e"
  using ilog2_bounds(1) [of q] by (meson order_le_less_trans pow2_less_iff)

lemma ilog2_minus [simp]: "ilog2 (- q) = ilog2 q"
  by (simp add: ilog2_def)

lemma ulp_exp_minus [simp]: "ulp_exp (- q) = ulp_exp q"
  by (simp add: ulp_exp_def)

lemma ulp_exp_mono: "p \<noteq> 0 \<Longrightarrow> \<bar>p\<bar> \<le> \<bar>q\<bar> \<Longrightarrow> ulp_exp p \<le> ulp_exp q"
  using ilog2_mono by (fastforce simp: ulp_exp_def)

lemma below_ulp_exp:
  assumes "q \<noteq> 0" shows "\<bar>q\<bar> < pow2 (ulp_exp q + 24)"
proof -
  have "\<bar>q\<bar> < pow2 (ilog2 q + 1)" by (rule ilog2_bounds(2) [OF assms])
  also have "\<dots> \<le> pow2 (ulp_exp q + 24)" by (simp add: ulp_exp_def)
  finally show ?thesis .
qed

section \<open>Rounding to binary32\<close>

lemma round32_0 [simp]: "round32 0 = 0"
  by (simp add: round32_def)

lemma round32_nz:
  "q \<noteq> 0 \<Longrightarrow> round32 q = of_int (rne (q / pow2 (ulp_exp q))) * pow2 (ulp_exp q)"
  by (simp add: round32_def Let_def)

lemma round32_minus: "round32 (- q) = - round32 q"
  by (cases "q = 0") (simp_all add: round32_nz rne_minus)

lemma round32_nonneg: "0 \<le> q \<Longrightarrow> 0 \<le> round32 q"
  by (cases "q = 0") (auto simp: round32_nz intro!: mult_nonneg_nonneg int_le_rne)

lemma round32_nonpos: "q \<le> 0 \<Longrightarrow> round32 q \<le> 0"
  using round32_nonneg [of "- q"] by (simp add: round32_minus)

lemma round32_upper:
  assumes "0 < q" shows "round32 q \<le> pow2 (ulp_exp q + 24)"
proof -
  let ?u = "pow2 (ulp_exp q)"
  have "q < 2 ^ 24 * ?u"
    using below_ulp_exp [of q] assms by (simp add: pow2_add pow2_nat [of 24, simplified] mult.commute)
  then have "q / ?u \<le> of_int (2 ^ 24)" by (simp add: field_simps)
  then have "rne (q / ?u) \<le> 2 ^ 24" by (rule rne_le_int)
  then have "of_int (rne (q / ?u)) * ?u \<le> of_int (2 ^ 24) * ?u"
    by (intro mult_right_mono) (simp_all only: of_int_le_iff pow2_pos)
  also have "\<dots> = pow2 (ulp_exp q + 24)"
    by (simp add: pow2_add pow2_nat [of 24, simplified] mult.commute)
  finally show ?thesis using assms by (simp add: round32_nz)
qed

lemma round32_lower:
  assumes "0 < q" "- 149 < ulp_exp q" shows "pow2 (ulp_exp q + 23) \<le> round32 q"
proof -
  let ?u = "pow2 (ulp_exp q)"
  have "ulp_exp q + 23 = ilog2 q" using assms(2) by (auto simp: ulp_exp_def)
  then have "2 ^ 23 * ?u \<le> q"
    using ilog2_bounds(1) [of q] assms(1) pow2_add [of "ulp_exp q" 23]
    by (simp add: pow2_nat [of 23, simplified] mult.commute)
  then have "of_int (2 ^ 23) \<le> q / ?u" by (simp add: field_simps)
  then have "2 ^ 23 \<le> rne (q / ?u)" by (rule int_le_rne)
  then have "of_int (2 ^ 23) * ?u \<le> of_int (rne (q / ?u)) * ?u"
    by (intro mult_right_mono) (simp_all only: of_int_le_iff pow2_pos)
  moreover have "pow2 (ulp_exp q + 23) = of_int (2 ^ 23) * ?u"
    by (simp add: pow2_add pow2_nat [of 23, simplified] mult.commute)
  ultimately show ?thesis using assms by (simp add: round32_nz)
qed

lemma round32_mono_pos:
  assumes "0 < p" "p \<le> q" shows "round32 p \<le> round32 q"
proof -
  have le: "ulp_exp p \<le> ulp_exp q" using assms by (intro ulp_exp_mono) auto
  show ?thesis
  proof (cases "ulp_exp p = ulp_exp q")
    case True
    have "p / pow2 (ulp_exp q) \<le> q / pow2 (ulp_exp q)"
      using assms(2) by (simp add: divide_right_mono)
    then show ?thesis
      using assms True by (simp add: round32_nz rne_mono mult_right_mono)
  next
    case False
    with le have lt: "ulp_exp p + 24 \<le> ulp_exp q + 23" by simp
    moreover have "- 149 \<le> ulp_exp p" by (simp add: ulp_exp_def)
    ultimately have "pow2 (ulp_exp q + 23) \<le> round32 q"
      using assms by (intro round32_lower) auto
    moreover have "round32 p \<le> pow2 (ulp_exp p + 24)" using assms by (simp add: round32_upper)
    ultimately show ?thesis using lt pow2_le_iff by (meson order_trans)
  qed
qed

lemma round32_mono:
  assumes "p \<le> q" shows "round32 p \<le> round32 q"
proof (cases "0 < p")
  case True with assms show ?thesis by (rule round32_mono_pos [rotated]) 
next
  case False
  show ?thesis
  proof (cases "0 \<le> q")
    case True
    then show ?thesis using False round32_nonneg [of q] round32_nonpos [of p] by simp
  next
    case False
    then have "round32 (- q) \<le> round32 (- p)" using assms by (intro round32_mono_pos) auto
    then show ?thesis by (simp add: round32_minus)
  qed
qed

section \<open>Representable values\<close>

definition representable :: "rat \<Rightarrow> bool" where
  "representable q \<longleftrightarrow> (\<exists>m e. q = of_int m * pow2 e \<and> \<bar>m\<bar> < 2 ^ 24 \<and> - 149 \<le> e)"

lemma representableI:
  "q = of_int m * pow2 e \<Longrightarrow> \<bar>m\<bar> < 2 ^ 24 \<Longrightarrow> - 149 \<le> e \<Longrightarrow> representable q"
  by (auto simp: representable_def)

lemma representable_pow2: "- 149 \<le> e \<Longrightarrow> representable (pow2 e)"
  by (rule representableI [of _ 1 e]) simp_all

lemma representable_of_int: "\<bar>n\<bar> < 2 ^ 24 \<Longrightarrow> representable (of_int n)"
  by (rule representableI [of _ n 0]) simp_all

lemma representable_minus: "representable q \<Longrightarrow> representable (- q)"
  unfolding representable_def
  by (metis abs_minus mult_minus_left of_int_minus)

lemma round32_representable_id:
  assumes "representable q" shows "round32 q = q"
proof (cases "q = 0")
  case False
  from assms obtain m e where q: "q = of_int m * pow2 e" and m: "\<bar>m\<bar> < 2 ^ 24" and e: "- 149 \<le> e"
    by (auto simp: representable_def)
  have "\<bar>q\<bar> < pow2 (e + 24)"
  proof -
    have "of_int \<bar>m\<bar> < (of_int (2 ^ 24) :: rat)" using m by (simp only: of_int_less_iff)
    then have "\<bar>of_int m\<bar> * pow2 e < 2 ^ 24 * pow2 e" by simp
    then show ?thesis
      by (simp add: q abs_mult pow2_add pow2_nat [of 24, simplified] mult.commute)
  qed
  with False have "ilog2 q < e + 24" by (rule ilog2_less)
  with e have le: "ulp_exp q \<le> e" by (simp add: ulp_exp_def)
  then obtain k where k: "e = ulp_exp q + int k" by (metis zle_iff_zadd)
  define u where "u = pow2 (ulp_exp q)"
  have u: "0 < u" by (simp add: u_def)
  have q': "q = of_int (m * 2 ^ k) * u"
    unfolding u_def by (subst q, subst k) (simp add: pow2_add pow2_nat)
  have "q / u = of_int (m * 2 ^ k)" by (subst q') (use u in simp)
  then have "round32 q = of_int (m * 2 ^ k) * u"
    using round32_nz [OF False] unfolding u_def by (simp only: rne_of_int)
  with q' show ?thesis by simp
qed simp

lemma representable_round32: "representable (round32 q)"
proof (cases "q = 0")
  case True then show ?thesis using representable_of_int [of 0] by simp
next
  case False
  let ?e = "ulp_exp q" and ?r = "rne (q / pow2 (ulp_exp q))"
  have q: "round32 q = of_int ?r * pow2 ?e" using False by (rule round32_nz)
  have e: "- 149 \<le> ?e" by (simp add: ulp_exp_def)
  have "\<bar>q\<bar> < 2 ^ 24 * pow2 ?e"
    using below_ulp_exp [OF False] by (simp add: pow2_add pow2_nat [of 24, simplified] mult.commute)
  then have "\<bar>q / pow2 ?e\<bar> \<le> of_int (2 ^ 24)" by (simp add: field_simps)
  then have "q / pow2 ?e \<le> of_int (2 ^ 24)" "of_int (- (2 ^ 24)) \<le> q / pow2 ?e"
    unfolding of_int_minus by (rule abs_le_D1, rule minus_le_iff [THEN iffD1, OF abs_le_D2])
  then have "?r \<le> 2 ^ 24" "- (2 ^ 24) \<le> ?r"
    by (auto intro: rne_le_int int_le_rne simp del: of_int_minus of_int_power)
  then consider "\<bar>?r\<bar> < 2 ^ 24" | "?r = 2 ^ 24" | "?r = - (2 ^ 24)" by linarith
  then show ?thesis
  proof cases
    case 1 then show ?thesis using q e by (intro representableI)
  next
    case 2 then show ?thesis using q e
      by (intro representableI [of _ "2 ^ 23" "?e + 1"])
        (simp_all add: pow2_add pow2_nat [of 1, simplified])
  next
    case 3 then show ?thesis using q e
      by (intro representableI [of _ "- (2 ^ 23)" "?e + 1"])
        (simp_all add: pow2_add pow2_nat [of 1, simplified])
  qed
qed

lemma round32_idem [simp]: "round32 (round32 q) = round32 q"
  by (rule round32_representable_id [OF representable_round32])

lemma round32_le: "q \<le> b \<Longrightarrow> representable b \<Longrightarrow> round32 q \<le> b"
  using round32_mono [of q b] by (simp add: round32_representable_id)

lemma round32_ge: "b \<le> q \<Longrightarrow> representable b \<Longrightarrow> b \<le> round32 q"
  using round32_mono [of b q] by (simp add: round32_representable_id)

lemma round32_abs_le: "\<bar>q\<bar> \<le> b \<Longrightarrow> representable b \<Longrightarrow> \<bar>round32 q\<bar> \<le> b"
  using round32_le [of q b] round32_ge [of "- b" q] representable_minus [of b]
  by (auto simp: abs_le_iff)

lemma round32_error: "\<bar>round32 q - q\<bar> \<le> pow2 (ulp_exp q) / 2"
proof (cases "q = 0")
  case False
  let ?u = "pow2 (ulp_exp q)"
  have "\<bar>of_int (rne (q / ?u)) - q / ?u\<bar> \<le> 1 / 2"
    using rne_bounds [of "q / ?u"] unfolding abs_le_iff by linarith
  then have "\<bar>of_int (rne (q / ?u)) - q / ?u\<bar> * ?u \<le> 1 / 2 * ?u"
    by (rule mult_right_mono) simp
  moreover have "\<bar>of_int (rne (q / ?u)) - q / ?u\<bar> * ?u = \<bar>(of_int (rne (q / ?u)) - q / ?u) * ?u\<bar>"
    by (simp add: abs_mult)
  moreover have "(of_int (rne (q / ?u)) - q / ?u) * ?u = round32 q - q"
    using False by (simp add: round32_nz left_diff_distrib)
  ultimately show ?thesis by simp
qed simp

text \<open>The relative form: half a unit in the last place is \<open>2 ^ - 24\<close> of the value.\<close>

lemma round32_rel_error:
  assumes "pow2 (- 126) \<le> \<bar>q\<bar>"
  shows "\<bar>round32 q - q\<bar> \<le> \<bar>q\<bar> * pow2 (- 24)"
proof -
  have "0 < \<bar>q\<bar>" using assms pow2_pos(1) [of "- 126"] by linarith
  then have nz: "q \<noteq> 0" by simp
  have "pow2 (- 126) < pow2 (ilog2 q + 1)"
    using assms ilog2_bounds(2) [OF nz] by (rule order_le_less_trans)
  then have "- 126 \<le> ilog2 q" by simp
  then have "ulp_exp q = ilog2 q + (- 24) + 1" by (simp add: ulp_exp_def)
  then have "pow2 (ulp_exp q) / 2 = pow2 (ilog2 q) * pow2 (- 24)"
    by (simp only: pow2_add) (simp add: pow2_nat [of 1, simplified])
  also have "\<dots> \<le> \<bar>q\<bar> * pow2 (- 24)"
    using ilog2_bounds(1) [OF nz] by (intro mult_right_mono) simp_all
  finally show ?thesis using round32_error [of q] by linarith
qed

section \<open>The values of type float\<close>

datatype f32 = NaN | Inf bool | Fin bool rat

definition f32_round :: "bool \<Rightarrow> rat \<Rightarrow> f32" where
  "f32_round s q =
     (let r = round32 q in
      if 2 ^ 128 \<le> \<bar>r\<bar> then Inf (q < 0)
      else Fin (if q = 0 then s else q < 0) r)"

definition f32_lit :: "rat \<Rightarrow> f32" where
  "f32_lit q = f32_round False q"

definition f32_of_int :: "int \<Rightarrow> f32" where
  "f32_of_int n = f32_round False (of_int n)"

instantiation f32 :: "{zero, uminus, plus, minus, times, divide, ord}"
begin

definition zero_f32 :: f32 where "zero_f32 = Fin False 0"

fun uminus_f32 :: "f32 \<Rightarrow> f32" where
  "uminus_f32 NaN = NaN"
| "uminus_f32 (Inf s) = Inf (\<not> s)"
| "uminus_f32 (Fin s q) = Fin (\<not> s) (- q)"

fun plus_f32 :: "f32 \<Rightarrow> f32 \<Rightarrow> f32" where
  "plus_f32 (Fin s a) (Fin t b) = f32_round (s \<and> t) (a + b)"
| "plus_f32 (Fin s a) (Inf t) = Inf t"
| "plus_f32 (Inf s) (Fin t b) = Inf s"
| "plus_f32 (Inf s) (Inf t) = (if s = t then Inf s else NaN)"
| "plus_f32 _ _ = NaN"

definition minus_f32 :: "f32 \<Rightarrow> f32 \<Rightarrow> f32" where
  "minus_f32 x y = x + (- y)"

fun times_f32 :: "f32 \<Rightarrow> f32 \<Rightarrow> f32" where
  "times_f32 (Fin s a) (Fin t b) = f32_round (s \<noteq> t) (a * b)"
| "times_f32 (Fin s a) (Inf t) = (if a = 0 then NaN else Inf (s \<noteq> t))"
| "times_f32 (Inf s) (Fin t b) = (if b = 0 then NaN else Inf (s \<noteq> t))"
| "times_f32 (Inf s) (Inf t) = Inf (s \<noteq> t)"
| "times_f32 _ _ = NaN"

fun divide_f32 :: "f32 \<Rightarrow> f32 \<Rightarrow> f32" where
  "divide_f32 (Fin s a) (Fin t b) =
     (if b = 0 then (if a = 0 then NaN else Inf (s \<noteq> t)) else f32_round (s \<noteq> t) (a / b))"
| "divide_f32 (Fin s a) (Inf t) = Fin (s \<noteq> t) 0"
| "divide_f32 (Inf s) (Fin t b) = Inf (s \<noteq> t)"
| "divide_f32 _ _ = NaN"

fun less_f32 :: "f32 \<Rightarrow> f32 \<Rightarrow> bool" where
  "less_f32 (Fin s a) (Fin t b) = (a < b)"
| "less_f32 (Fin s a) (Inf t) = (\<not> t)"
| "less_f32 (Inf s) (Fin t b) = s"
| "less_f32 (Inf s) (Inf t) = (s \<and> \<not> t)"
| "less_f32 _ _ = False"

fun less_eq_f32 :: "f32 \<Rightarrow> f32 \<Rightarrow> bool" where
  "less_eq_f32 (Fin s a) (Fin t b) = (a \<le> b)"
| "less_eq_f32 (Fin s a) (Inf t) = (\<not> t)"
| "less_eq_f32 (Inf s) (Fin t b) = s"
| "less_eq_f32 (Inf s) (Inf t) = (s \<or> \<not> t)"
| "less_eq_f32 _ _ = False"

instance ..

end

instantiation f32 :: inverse
begin

definition inverse_f32 :: "f32 \<Rightarrow> f32" where
  "inverse_f32 x = f32_lit 1 div x"

instance ..

end

text \<open>The C operator \<open>==\<close>: no NaN is equal to anything, and the two zeros are equal.\<close>

definition feq :: "f32 \<Rightarrow> f32 \<Rightarrow> bool" where
  "feq x y \<longleftrightarrow> x \<le> y \<and> y \<le> x"

lemma f32_cmp_NaN [simp]:
  "\<not> NaN < x" "\<not> x < NaN" "\<not> NaN \<le> x" "\<not> x \<le> NaN"
  by (cases x; simp)+

lemma f32_arith_NaN [simp]:
  "NaN + x = NaN" "x + NaN = NaN" "NaN - x = NaN" "x - NaN = NaN"
  "NaN * x = NaN" "x * NaN = NaN" "NaN / x = NaN" "x / NaN = NaN"
  by (cases x; simp add: minus_f32_def)+

lemma feq_NaN [simp]: "\<not> feq NaN x" "\<not> feq x NaN"
  by (simp_all add: feq_def)

lemma f32_le_refl [simp]: "x \<le> x \<longleftrightarrow> x \<noteq> (NaN::f32)"
  by (cases x) auto

lemma f32_not_less: "x \<noteq> NaN \<Longrightarrow> y \<noteq> NaN \<Longrightarrow> \<not> x < y \<longleftrightarrow> y \<le> (x::f32)"
  by (cases x; cases y) auto

lemma f32_less_imp_le: "x < y \<Longrightarrow> x \<le> (y::f32)"
  by (cases x; cases y) auto

lemma f32_le_trans: "x \<le> y \<Longrightarrow> y \<le> z \<Longrightarrow> x \<le> (z::f32)"
  by (cases x; cases y; cases z) auto

lemma f32_le_not_NaN: "x \<le> y \<Longrightarrow> x \<noteq> NaN \<and> y \<noteq> (NaN::f32)"
  by (cases x; cases y) auto

lemma f32_less_le_not_le: "x < y \<longleftrightarrow> x \<le> y \<and> \<not> y \<le> (x::f32)"
  by (cases x; cases y) auto

section \<open>Finite values of bounded size\<close>

definition fbnd :: "rat \<Rightarrow> f32 \<Rightarrow> bool" where
  "fbnd b x = (case x of Fin s q \<Rightarrow> \<bar>q\<bar> \<le> b | _ \<Rightarrow> False)"

definition fval :: "f32 \<Rightarrow> rat" where
  "fval x = (case x of Fin s q \<Rightarrow> q | _ \<Rightarrow> 0)"

lemma fbnd_simps [simp]:
  "fbnd b (Fin s q) \<longleftrightarrow> \<bar>q\<bar> \<le> b" "\<not> fbnd b NaN" "\<not> fbnd b (Inf s)"
  by (simp_all add: fbnd_def)

lemma fval_Fin [simp]: "fval (Fin s q) = q"
  by (simp add: fval_def)

lemma fbnd_iff: "fbnd b x \<longleftrightarrow> (\<exists>s q. x = Fin s q \<and> \<bar>q\<bar> \<le> b)"
  by (cases x) auto

lemma fbnd_mono: "fbnd a x \<Longrightarrow> a \<le> b \<Longrightarrow> fbnd b x"
  by (cases x) auto

lemma fbnd_not_NaN: "fbnd b x \<Longrightarrow> x \<noteq> NaN"
  by auto

definition f32_cap :: "rat \<Rightarrow> bool" where
  "f32_cap c \<longleftrightarrow> representable c \<and> c < 2 ^ 128"

lemma f32_cap_pow2: "- 149 \<le> e \<Longrightarrow> e < 128 \<Longrightarrow> f32_cap (pow2 e)"
  using pow2_strict_mono [of e 128]
  by (simp add: f32_cap_def representable_pow2 pow2_nat [of 128, simplified])

lemma fbnd_round:
  assumes "\<bar>q\<bar> \<le> c" "f32_cap c"
  shows "fbnd c (f32_round s q)" "fval (f32_round s q) = round32 q"
proof -
  have "\<bar>round32 q\<bar> \<le> c" using assms by (simp add: round32_abs_le f32_cap_def)
  moreover from this assms(2) have "\<not> 2 ^ 128 \<le> \<bar>round32 q\<bar>" by (simp add: f32_cap_def)
  ultimately show "fbnd c (f32_round s q)" "fval (f32_round s q) = round32 q"
    by (simp_all add: f32_round_def Let_def)
qed

lemma fbnd_minus [simp]: "fbnd c (- x) \<longleftrightarrow> fbnd c x"
  by (cases x) auto

lemma fval_minus [simp]: "fval (- x) = - fval x"
  by (cases x) (auto simp: fval_def)

lemma fbnd_add:
  assumes "fbnd a x" "fbnd b y" "a + b \<le> c" "f32_cap c"
  shows "fbnd c (x + y)" "fval (x + y) = round32 (fval x + fval y)"
proof -
  obtain s p t q where e: "x = Fin s p" "y = Fin t q" "\<bar>p\<bar> \<le> a" "\<bar>q\<bar> \<le> b"
    using assms(1,2) by (auto simp: fbnd_iff)
  then have "\<bar>p + q\<bar> \<le> c" using assms(3) by linarith
  then show "fbnd c (x + y)" "fval (x + y) = round32 (fval x + fval y)"
    using e assms(4) by (simp_all add: fbnd_round)
qed

lemma fbnd_sub:
  assumes "fbnd a x" "fbnd b y" "a + b \<le> c" "f32_cap c"
  shows "fbnd c (x - y)" "fval (x - y) = round32 (fval x - fval y)"
  using fbnd_add [of a x b "- y" c] assms by (simp_all add: minus_f32_def)

lemma fbnd_mult:
  assumes "fbnd a x" "fbnd b y" "a * b \<le> c" "f32_cap c"
  shows "fbnd c (x * y)" "fval (x * y) = round32 (fval x * fval y)"
proof -
  obtain s p t q where e: "x = Fin s p" "y = Fin t q" "\<bar>p\<bar> \<le> a" "\<bar>q\<bar> \<le> b"
    using assms(1,2) by (auto simp: fbnd_iff)
  then have "\<bar>p\<bar> * \<bar>q\<bar> \<le> a * b" by (intro mult_mono) auto
  then have "\<bar>p * q\<bar> \<le> c" using assms(3) by (simp add: abs_mult)
  then show "fbnd c (x * y)" "fval (x * y) = round32 (fval x * fval y)"
    using e assms(4) by (simp_all add: fbnd_round)
qed

lemma fbnd_div:
  assumes "fbnd a x" "y = Fin t q" "0 < b" "b \<le> \<bar>q\<bar>" "a / b \<le> c" "f32_cap c"
  shows "fbnd c (x / y)" "fval (x / y) = round32 (fval x / fval y)"
proof -
  obtain s p where e: "x = Fin s p" "\<bar>p\<bar> \<le> a" using assms(1) by (auto simp: fbnd_iff)
  have "\<bar>p\<bar> / \<bar>q\<bar> \<le> a / b" using e assms by (intro frac_le) auto
  then have "\<bar>p / q\<bar> \<le> c" using assms(5) by (simp add: abs_divide)
  moreover have "q \<noteq> 0" using assms by auto
  ultimately show "fbnd c (x / y)" "fval (x / y) = round32 (fval x / fval y)"
    using e assms by (simp_all add: fbnd_round)
qed

lemma f32_cap_power: "k < 128 \<Longrightarrow> f32_cap (2 ^ k)"
  using f32_cap_pow2 [of "int k"] by (simp add: pow2_nat)

lemma f32_cap_int: "\<bar>n\<bar> < 2 ^ 24 \<Longrightarrow> f32_cap (of_int n)"
proof -
  assume n: "\<bar>n\<bar> < 2 ^ 24"
  then have "n < 2 ^ 128" by simp
  then have "(of_int n :: rat) < of_int (2 ^ 128)" by (simp only: of_int_less_iff)
  with n show ?thesis by (simp add: f32_cap_def representable_of_int)
qed

text \<open>Integers of at most 24 bits, the range of every \<open>int16_t\<close>, convert exactly.\<close>

lemma f32_of_int_exact:
  assumes "\<bar>n\<bar> < 2 ^ 24" shows "f32_of_int n = Fin (n < 0) (of_int n)"
proof -
  have r: "round32 (of_int n) = of_int n"
    using assms by (simp add: round32_representable_id representable_of_int)
  have "\<bar>n\<bar> < 2 ^ 128" using assms by simp
  then have "\<bar>of_int n :: rat\<bar> < of_int (2 ^ 128)"
    by (simp only: of_int_abs [symmetric] of_int_less_iff)
  then show ?thesis
    by (auto simp: f32_of_int_def f32_round_def Let_def r)
qed

lemma f32_lit_int:
  "\<bar>n\<bar> < 2 ^ 24 \<Longrightarrow> f32_lit (of_int n) = Fin (n < 0) (of_int n)"
  using f32_of_int_exact [of n] by (simp add: f32_lit_def f32_of_int_def)

lemma fbnd_of_nat:
  assumes "0 \<le> n" "n \<le> 2 ^ 64"
  shows "fbnd (2 ^ 64) (f32_of_int n)"
proof -
  have "\<bar>of_int n :: rat\<bar> \<le> of_int (2 ^ 64)" using assms by (simp only: of_int_abs [symmetric] of_int_le_iff)
  then show ?thesis
    unfolding f32_of_int_def by (intro fbnd_round(1) f32_cap_power) simp_all
qed

section \<open>Conversions to integers\<close>

text \<open>
  \<open>lrintf\<close> rounds to the nearest \<open>long\<close> (64 bits on this target), ties to even. The C
  standard leaves its result unspecified for a NaN, an infinity or a value outside
  \<open>long\<close>: that result is the parameter \<open>unspec\<close>.
\<close>

definition lrintf :: "(f32 \<Rightarrow> int) \<Rightarrow> f32 \<Rightarrow> int" where
  "lrintf unspec x =
     (case x of
        Fin s q \<Rightarrow> (let n = rne q in if - (2 ^ 63) \<le> n \<and> n < 2 ^ 63 then n else unspec x)
      | _ \<Rightarrow> unspec x)"

lemma lrintf_NaN [simp]: "lrintf u NaN = u NaN"
  by (simp add: lrintf_def)

lemma lrintf_bound:
  assumes "fbnd (of_int b) x" "b < 2 ^ 63" shows "\<bar>lrintf u x\<bar> \<le> b"
proof -
  obtain s q where x: "x = Fin s q" "\<bar>q\<bar> \<le> of_int b" using assms(1) by (auto simp: fbnd_iff)
  then have "q \<le> of_int b" "of_int (- b) \<le> q" by (simp_all add: abs_le_iff minus_le_iff)
  then have "rne q \<le> b" "- b \<le> rne q"
    by (auto intro: rne_le_int int_le_rne simp del: of_int_minus)
  with assms(2) x(1) show ?thesis by (simp add: lrintf_def Let_def abs_le_iff)
qed

text \<open>The conversion \<open>(int16_t)\<close> of a \<open>long\<close> keeps the low 16 bits.\<close>

definition to_i16 :: "int \<Rightarrow> i16" where
  "to_i16 n = word_of_int n"

lemma sint_to_i16: "- (2 ^ 15) \<le> n \<Longrightarrow> n < 2 ^ 15 \<Longrightarrow> sint (to_i16 n) = n"
  by (simp add: to_i16_def sint_sbintrunc' signed_take_bit_int_eq_self)

lemma f32_lit_0 [simp]: "f32_lit 0 = 0"
  using f32_lit_int [of 0] by (simp add: zero_f32_def)

lemma f32_0 [simp]: "fbnd b 0 \<longleftrightarrow> 0 \<le> b" "fval 0 = 0" "(0::f32) \<noteq> NaN"
  by (simp_all add: zero_f32_def)

section \<open>Comparing and bounding finite values\<close>

lemma fbnd_less: "fbnd a x \<Longrightarrow> fbnd b y \<Longrightarrow> x < y \<longleftrightarrow> fval x < fval y"
  by (cases x; cases y) auto

lemma fbnd_le: "fbnd a x \<Longrightarrow> fbnd b y \<Longrightarrow> x \<le> y \<longleftrightarrow> fval x \<le> fval y"
  by (cases x; cases y) auto

lemma fbnd_fval: "fbnd b x \<Longrightarrow> \<bar>fval x\<bar> \<le> b"
  by (cases x) auto

lemma fbnd_tighten: "fbnd b x \<Longrightarrow> \<bar>fval x\<bar> \<le> c \<Longrightarrow> fbnd c x"
  by (cases x) auto

text \<open>The absolute error of one rounding, from a power of two above the value.\<close>

lemma round32_abs_error:
  assumes "\<bar>q\<bar> \<le> pow2 k" "- 124 \<le> k" shows "\<bar>round32 q - q\<bar> \<le> pow2 (k - 25)"
proof (cases "\<bar>q\<bar> = pow2 k \<or> q = 0")
  case True
  have "representable (pow2 k)" using assms(2) by (simp add: representable_pow2)
  moreover from True have "q = pow2 k \<or> q = - pow2 k \<or> q = 0" by auto
  ultimately have "round32 q = q"
    by (auto simp: round32_representable_id round32_minus)
  then show ?thesis by simp
next
  case False
  with assms have "\<bar>q\<bar> < pow2 k" "q \<noteq> 0" by auto
  then have "ilog2 q < k" by (simp add: ilog2_less)
  then have "ulp_exp q \<le> k - 24" using assms(2) by (simp add: ulp_exp_def)
  then have "pow2 (ulp_exp q) \<le> pow2 (k - 25 + 1)" by simp
  also have "\<dots> = pow2 (k - 25) * 2" by (simp only: pow2_add pow2_nat [of 1, simplified])
  finally show ?thesis using round32_error [of q] by simp
qed

end
