(* ===== verification/Pid.thy ===== *)
theory Pid
  imports Float32
begin

text \<open>
  \<open>src/pid.c\<close>: the PID controller with its anti-windup rule, and the interface
  \<open>speed_controller\<close> through which the chassis relies on it.
\<close>

section \<open>The controller\<close>

record PIDController =
  kp :: f32
  ki :: f32
  kd :: f32
  pid_target :: f32
  pid_actual :: f32
  pid_error :: f32
  pid_last_error :: f32
  pid_prev_error :: f32
  pid_integral :: f32
  pid_derivative :: f32
  pid_output :: f32
  output_max :: f32
  output_min :: f32
  integral_max :: f32
  integral_min :: f32

definition pid_reset :: "PIDController \<Rightarrow> PIDController" where
  "pid_reset pid = pid\<lparr>
     pid_target := 0, pid_actual := 0, pid_error := 0, pid_last_error := 0, pid_prev_error := 0,
     pid_integral := 0, pid_derivative := 0, pid_output := 0\<rparr>"

definition pid_init ::
  "PIDController \<Rightarrow> f32 \<Rightarrow> f32 \<Rightarrow> f32 \<Rightarrow> f32 \<Rightarrow> f32 \<Rightarrow> f32 \<Rightarrow> f32 \<Rightarrow> PIDController" where
  "pid_init pid p i d omax omin imax imin =
     pid_reset (pid\<lparr>
       kp := p, ki := i, kd := d,
       output_max := omax, output_min := omin,
       integral_max := imax, integral_min := imin\<rparr>)"

text \<open>The two-sided limiter that the function applies to the integral and to the output.\<close>

definition pid_limit :: "f32 \<Rightarrow> f32 \<Rightarrow> f32 \<Rightarrow> f32" where
  "pid_limit hi lo x = (if hi < x then hi else if x < lo then lo else x)"

text \<open>The condition under which the call keeps the new integral (anti-windup).\<close>

definition pid_accepts :: "f32 \<Rightarrow> f32 \<Rightarrow> f32 \<Rightarrow> f32 \<Rightarrow> bool" where
  "pid_accepts hi lo err out \<longleftrightarrow>
     (out < hi \<and> lo < out) \<or> (feq out hi \<and> err < 0) \<or> (feq out lo \<and> 0 < err)"

definition pid_calculate ::
  "PIDController \<Rightarrow> f32 \<Rightarrow> f32 \<Rightarrow> f32 \<Rightarrow> PIDController \<times> f32" where
  "pid_calculate pid tgt act dt =
     (let dt_s = (if dt \<le> 0 then f32_lit (1 / 1000) else dt);
          pid = pid\<lparr>pid_target := tgt\<rparr>;
          pid = pid\<lparr>pid_actual := act\<rparr>;
          pid = pid\<lparr>pid_prev_error := pid_last_error pid\<rparr>;
          pid = pid\<lparr>pid_last_error := pid_error pid\<rparr>;
          pid = pid\<lparr>pid_error := tgt - act\<rparr>;
          pid = pid\<lparr>pid_derivative := (pid_error pid - pid_last_error pid) / dt_s\<rparr>;
          new_integral = pid_integral pid + pid_error pid * dt_s;
          new_integral = pid_limit (integral_max pid) (integral_min pid) new_integral;
          out = kp pid * pid_error pid + ki pid * new_integral + kd pid * pid_derivative pid;
          out = pid_limit (output_max pid) (output_min pid) out;
          pid = (if pid_accepts (output_max pid) (output_min pid) (pid_error pid) out
                 then pid\<lparr>pid_integral := new_integral\<rparr> else pid);
          pid = pid\<lparr>pid_output := out\<rparr>
      in (pid, out))"

section \<open>What one call computes\<close>

text \<open>The intermediate values of a call, named.\<close>

definition pid_dt :: "f32 \<Rightarrow> f32" where
  "pid_dt dt = (if dt \<le> 0 then f32_lit (1 / 1000) else dt)"

definition pid_new_integral :: "PIDController \<Rightarrow> f32 \<Rightarrow> f32 \<Rightarrow> f32 \<Rightarrow> f32" where
  "pid_new_integral pid tgt act dt =
     pid_limit (integral_max pid) (integral_min pid) (pid_integral pid + (tgt - act) * pid_dt dt)"

definition pid_out :: "PIDController \<Rightarrow> f32 \<Rightarrow> f32 \<Rightarrow> f32 \<Rightarrow> f32" where
  "pid_out pid tgt act dt =
     pid_limit (output_max pid) (output_min pid)
       (kp pid * (tgt - act) + ki pid * pid_new_integral pid tgt act dt +
        kd pid * ((tgt - act - pid_error pid) / pid_dt dt))"

lemma pid_calculate_out: "snd (pid_calculate pid tgt act dt) = pid_out pid tgt act dt"
  unfolding pid_calculate_def pid_out_def pid_new_integral_def pid_dt_def [symmetric] Let_def
  by simp

lemma pid_calculate_fields:
  "kp (fst (pid_calculate pid tgt act dt)) = kp pid"
  "ki (fst (pid_calculate pid tgt act dt)) = ki pid"
  "kd (fst (pid_calculate pid tgt act dt)) = kd pid"
  "output_max (fst (pid_calculate pid tgt act dt)) = output_max pid"
  "output_min (fst (pid_calculate pid tgt act dt)) = output_min pid"
  "integral_max (fst (pid_calculate pid tgt act dt)) = integral_max pid"
  "integral_min (fst (pid_calculate pid tgt act dt)) = integral_min pid"
  "pid_target (fst (pid_calculate pid tgt act dt)) = tgt"
  "pid_actual (fst (pid_calculate pid tgt act dt)) = act"
  "pid_error (fst (pid_calculate pid tgt act dt)) = tgt - act"
  "pid_last_error (fst (pid_calculate pid tgt act dt)) = pid_error pid"
  "pid_prev_error (fst (pid_calculate pid tgt act dt)) = pid_last_error pid"
  "pid_output (fst (pid_calculate pid tgt act dt)) = pid_out pid tgt act dt"
  "pid_derivative (fst (pid_calculate pid tgt act dt)) =
     (tgt - act - pid_error pid) / pid_dt dt"
  unfolding pid_calculate_def pid_out_def pid_new_integral_def pid_dt_def [symmetric] Let_def
  by simp_all

lemma pid_calculate_integral:
  "pid_integral (fst (pid_calculate pid tgt act dt)) =
     (if pid_accepts (output_max pid) (output_min pid) (tgt - act) (pid_out pid tgt act dt)
      then pid_new_integral pid tgt act dt else pid_integral pid)"
  unfolding pid_calculate_def pid_out_def pid_new_integral_def pid_dt_def [symmetric] Let_def
  by simp

lemmas pid_calculate_simps = pid_calculate_out pid_calculate_fields pid_calculate_integral

section \<open>Limits\<close>

lemma pid_limit_NaN [simp]: "pid_limit hi lo NaN = NaN"
  by (simp add: pid_limit_def)

lemma pid_limit_range:
  assumes "lo \<le> hi" "x \<noteq> NaN" shows "lo \<le> pid_limit hi lo x \<and> pid_limit hi lo x \<le> hi"
  using assms f32_not_less [of hi x] f32_not_less [of x lo] f32_le_not_NaN [of lo hi]
  by (auto simp: pid_limit_def)

lemma pid_limit_eq_NaN: "lo \<le> hi \<Longrightarrow> pid_limit hi lo x = NaN \<longleftrightarrow> x = NaN"
  using pid_limit_range [of lo hi x] f32_le_not_NaN by (auto simp: pid_limit_def)

lemma pid_limit_inside: "lo \<le> x \<Longrightarrow> x \<le> hi \<Longrightarrow> pid_limit hi lo x = x"
  by (auto simp: pid_limit_def f32_less_le_not_le)

lemma fbnd_between:
  assumes "fbnd b lo" "fbnd b hi" "lo \<le> x" "x \<le> hi" shows "fbnd b x"
  using assms by (cases x; cases lo; cases hi) auto

lemma fbnd_pid_limit:
  assumes "fbnd b hi" "fbnd b lo" "lo \<le> hi" "x \<noteq> NaN" shows "fbnd b (pid_limit hi lo x)"
  using pid_limit_range [OF assms(3,4)] assms(1,2) fbnd_between by blast

lemma pid_out_range:
  "output_min pid \<le> output_max pid \<Longrightarrow>
     pid_out pid tgt act dt = NaN \<or>
     output_min pid \<le> pid_out pid tgt act dt \<and> pid_out pid tgt act dt \<le> output_max pid"
  unfolding pid_out_def by (metis pid_limit_NaN pid_limit_range)

text \<open>A NaN output keeps the integral; so no input can put a NaN there.\<close>

lemma pid_out_not_NaN_integral:
  assumes "integral_min pid \<le> integral_max pid" "pid_out pid tgt act dt \<noteq> NaN"
  shows "integral_min pid \<le> pid_new_integral pid tgt act dt"
    "pid_new_integral pid tgt act dt \<le> integral_max pid"
proof -
  have "pid_new_integral pid tgt act dt \<noteq> NaN"
    using assms(2) by (auto simp: pid_out_def)
  then show "integral_min pid \<le> pid_new_integral pid tgt act dt"
    "pid_new_integral pid tgt act dt \<le> integral_max pid"
    using assms(1) pid_limit_range unfolding pid_new_integral_def
    by (metis pid_limit_NaN)+
qed

lemma pid_accepts_not_NaN: "pid_accepts hi lo e out \<Longrightarrow> out \<noteq> NaN"
  by (auto simp: pid_accepts_def)

definition pid_integral_ok :: "PIDController \<Rightarrow> bool" where
  "pid_integral_ok pid \<longleftrightarrow>
     integral_min pid \<le> pid_integral pid \<and> pid_integral pid \<le> integral_max pid"

lemma pid_calculate_integral_ok:
  assumes "pid_integral_ok pid"
  shows "pid_integral_ok (fst (pid_calculate pid tgt act dt))"
proof -
  have "integral_min pid \<le> integral_max pid"
    using assms f32_le_trans by (auto simp: pid_integral_ok_def)
  then show ?thesis
    using assms pid_out_not_NaN_integral [of pid tgt act dt] pid_accepts_not_NaN
    by (auto simp: pid_integral_ok_def pid_calculate_simps)
qed

section \<open>Finite inputs give finite outputs\<close>

lemma lit_millisecond: "f32_lit (1 / 1000) = Fin False (8589935 / 8589934592)"
  by code_simp

definition dt_ok :: "f32 \<Rightarrow> bool" where
  "dt_ok dt = (case dt of Fin s q \<Rightarrow> q \<le> 0 \<or> 1 / 1024 \<le> q \<and> q \<le> 2 ^ 64 | _ \<Rightarrow> False)"

lemma pid_dt_bounds:
  assumes "dt_ok dt" obtains s q where "pid_dt dt = Fin s q" "1 / 1024 \<le> q" "q \<le> 2 ^ 64"
proof (cases "dt \<le> 0")
  case True
  show ?thesis by (rule that [of False "8589935 / 8589934592"]) (simp_all add: pid_dt_def True lit_millisecond)
next
  case False
  with assms obtain s q where "dt = Fin s q" "1 / 1024 \<le> q" "q \<le> 2 ^ 64"
    by (auto simp: dt_ok_def zero_f32_def split: f32.splits)
  with False show ?thesis by (intro that [of s q]) (simp_all add: pid_dt_def)
qed

text \<open>
  The state a controller of this program is in: bounded gains and limits, a finite error
  and a finite integral.
\<close>

definition pid_fin :: "PIDController \<Rightarrow> bool" where
  "pid_fin pid \<longleftrightarrow>
     fbnd 16 (kp pid) \<and> fbnd 16 (ki pid) \<and> fbnd 16 (kd pid) \<and>
     fbnd (2 ^ 19) (pid_error pid) \<and>
     fbnd (2 ^ 15) (output_min pid) \<and> fbnd (2 ^ 15) (output_max pid) \<and>
     output_min pid \<le> output_max pid \<and>
     fbnd (2 ^ 15) (integral_min pid) \<and> fbnd (2 ^ 15) (integral_max pid) \<and>
     pid_integral_ok pid"

lemma pid_fin_fbnd:
  assumes "pid_fin pid"
  shows "fbnd 16 (kp pid)" "fbnd 16 (ki pid)" "fbnd 16 (kd pid)" "fbnd (2 ^ 19) (pid_error pid)"
  using assms unfolding pid_fin_def by blast+

lemma pid_fin_not_NaN:
  assumes "pid_fin pid" "fbnd (2 ^ 18) tgt" "fbnd (2 ^ 18) act" "dt_ok dt"
  shows "pid_out pid tgt act dt \<noteq> NaN" "fbnd (2 ^ 19) (tgt - act)"
proof -
  obtain s q where dt: "pid_dt dt = Fin s q" and q: "1 / 1024 \<le> q" "q \<le> 2 ^ 64"
    using assms(4) by (rule pid_dt_bounds)
  have dtb: "fbnd (2 ^ 64) (pid_dt dt)" using dt q by simp
  note p = assms(1) [unfolded pid_fin_def pid_integral_ok_def]
  show e: "fbnd (2 ^ 19) (tgt - act)"
    by (rule fbnd_sub(1) [OF assms(2,3)]) (simp, rule f32_cap_power, simp)
  have i: "fbnd (2 ^ 15) (pid_integral pid)" using p fbnd_between by blast
  have edt: "fbnd (2 ^ 83) ((tgt - act) * pid_dt dt)"
    by (rule fbnd_mult(1) [OF e dtb]) (simp, rule f32_cap_power, simp)
  have "fbnd (2 ^ 84) (pid_integral pid + (tgt - act) * pid_dt dt)"
    by (rule fbnd_add(1) [OF i edt]) (simp, rule f32_cap_power, simp)
  then have ni: "fbnd (2 ^ 15) (pid_new_integral pid tgt act dt)"
    unfolding pid_new_integral_def using p f32_le_trans
    by (intro fbnd_pid_limit) (auto dest: fbnd_not_NaN)
  have d1: "fbnd (2 ^ 20) (tgt - act - pid_error pid)"
    by (rule fbnd_sub(1) [OF e pid_fin_fbnd(4) [OF assms(1)]]) (simp, rule f32_cap_power, simp)
  have d2: "fbnd (2 ^ 30) ((tgt - act - pid_error pid) / pid_dt dt)"
    by (rule fbnd_div(1) [OF d1 dt _ order_trans [OF q(1) abs_ge_self]]) (simp, simp, rule f32_cap_power, simp)
  have t1: "fbnd (2 ^ 23) (kp pid * (tgt - act))"
    by (rule fbnd_mult(1) [OF pid_fin_fbnd(1) [OF assms(1)] e]) (simp, rule f32_cap_power, simp)
  have t2: "fbnd (2 ^ 19) (ki pid * pid_new_integral pid tgt act dt)"
    by (rule fbnd_mult(1) [OF pid_fin_fbnd(2) [OF assms(1)] ni]) (simp, rule f32_cap_power, simp)
  have t3: "fbnd (2 ^ 34) (kd pid * ((tgt - act - pid_error pid) / pid_dt dt))"
    by (rule fbnd_mult(1) [OF pid_fin_fbnd(3) [OF assms(1)] d2]) (simp, rule f32_cap_power, simp)
  have t12: "fbnd (2 ^ 24) (kp pid * (tgt - act) + ki pid * pid_new_integral pid tgt act dt)"
    by (rule fbnd_add(1) [OF t1 t2]) (simp, rule f32_cap_power, simp)
  have "fbnd (2 ^ 35) (kp pid * (tgt - act) + ki pid * pid_new_integral pid tgt act dt +
      kd pid * ((tgt - act - pid_error pid) / pid_dt dt))"
    by (rule fbnd_add(1) [OF t12 t3]) (simp, rule f32_cap_power, simp)
  then show "pid_out pid tgt act dt \<noteq> NaN"
    unfolding pid_out_def using p by (auto simp: pid_limit_eq_NaN)
qed

lemma pid_calculate_fin:
  assumes "pid_fin pid" "fbnd (2 ^ 18) tgt" "fbnd (2 ^ 18) act" "dt_ok dt"
  shows "pid_fin (fst (pid_calculate pid tgt act dt))"
  using assms(1) pid_fin_not_NaN(2) [OF assms] pid_calculate_integral_ok [of pid tgt act dt]
  by (simp add: pid_fin_def pid_calculate_fields)

section \<open>The controller as an interface\<close>

text \<open>
  What the chassis relies on when it drives a motor: a state predicate that every call
  keeps, and a bound on the command that comes out.
\<close>

locale speed_controller =
  fixes calc :: "'c \<Rightarrow> f32 \<Rightarrow> f32 \<Rightarrow> f32 \<Rightarrow> 'c \<times> f32"
    and reset :: "'c \<Rightarrow> 'c"
    and ok :: "'c \<Rightarrow> bool"
    and lim :: int
  assumes calc_ok: "ok c \<Longrightarrow> fbnd (2 ^ 18) t \<Longrightarrow> fbnd (2 ^ 18) a \<Longrightarrow> dt_ok dt \<Longrightarrow>
      ok (fst (calc c t a dt))"
    and calc_bound: "ok c \<Longrightarrow> fbnd (2 ^ 18) t \<Longrightarrow> fbnd (2 ^ 18) a \<Longrightarrow> dt_ok dt \<Longrightarrow>
      fbnd (of_int lim) (snd (calc c t a dt))"
    and reset_ok: "ok c \<Longrightarrow> ok (reset c)"
    and lim_range: "0 \<le> lim" "lim < 2 ^ 15"
begin

lemma command_bound:
  assumes "ok c" "fbnd (2 ^ 18) t" "fbnd (2 ^ 18) a" "dt_ok dt"
  shows "\<bar>sint (to_i16 (lrintf u (snd (calc c t a dt))))\<bar> \<le> lim"
proof -
  have "lim < 2 ^ 63" using lim_range(2) by simp
  then have "\<bar>lrintf u (snd (calc c t a dt))\<bar> \<le> lim"
    by (rule lrintf_bound [OF calc_bound [OF assms]])
  with lim_range show ?thesis by (subst sint_to_i16) auto
qed

lemma bank_update_ok:
  "(\<forall>i\<in>I. ok (cs i)) \<Longrightarrow> ok (cs j) \<Longrightarrow> fbnd (2 ^ 18) t \<Longrightarrow> fbnd (2 ^ 18) a \<Longrightarrow> dt_ok dt \<Longrightarrow>
    \<forall>i\<in>I. ok ((cs(j := fst (calc (cs j) t a dt))) i)"
  by (simp add: calc_ok)

end

text \<open>A controller set up by the chassis: output limit 6500, integral limit 2500.\<close>

definition drive_ok :: "PIDController \<Rightarrow> bool" where
  "drive_ok pid \<longleftrightarrow> pid_fin pid \<and>
     output_max pid = f32_lit 6500 \<and> output_min pid = - f32_lit 6500 \<and>
     integral_max pid = f32_lit 2500 \<and> integral_min pid = - f32_lit 2500"

lemma lit_limits:
  "f32_lit 6500 = Fin False 6500" "f32_lit 2500 = Fin False 2500"
  using f32_lit_int [of 6500] f32_lit_int [of 2500] by simp_all

lemma pid_reset_params [simp]:
  "kp (pid_reset p) = kp p" "ki (pid_reset p) = ki p" "kd (pid_reset p) = kd p"
  "output_max (pid_reset p) = output_max p" "output_min (pid_reset p) = output_min p"
  "integral_max (pid_reset p) = integral_max p" "integral_min (pid_reset p) = integral_min p"
  "pid_error (pid_reset p) = 0" "pid_integral (pid_reset p) = 0" "pid_output (pid_reset p) = 0"
  "pid_target (pid_reset p) = 0" "pid_actual (pid_reset p) = 0" "pid_derivative (pid_reset p) = 0"
  "pid_last_error (pid_reset p) = 0" "pid_prev_error (pid_reset p) = 0"
  by (simp_all add: pid_reset_def)

lemma drive_ok_reset: "drive_ok p \<Longrightarrow> drive_ok (pid_reset p)"
  by (simp add: drive_ok_def pid_fin_def pid_integral_ok_def lit_limits zero_f32_def)

lemma drive_ok_calculate:
  assumes "drive_ok p" "fbnd (2 ^ 18) t" "fbnd (2 ^ 18) a" "dt_ok dt"
  shows "drive_ok (fst (pid_calculate p t a dt))"
    "fbnd (of_int 6500) (snd (pid_calculate p t a dt))"
proof -
  have fin: "pid_fin p" using assms(1) by (simp add: drive_ok_def)
  then show "drive_ok (fst (pid_calculate p t a dt))"
    using assms pid_calculate_fin [of p t a dt] by (simp add: drive_ok_def pid_calculate_fields)
  have "- Fin False 6500 \<le> pid_out p t a dt \<and> pid_out p t a dt \<le> Fin False 6500"
    using pid_out_range [of p t a dt] pid_fin_not_NaN(1) [OF fin assms(2-4)] assms(1)
    by (auto simp: drive_ok_def lit_limits)
  then show "fbnd (of_int 6500) (snd (pid_calculate p t a dt))"
    by (cases "pid_out p t a dt") (auto simp: pid_calculate_out)
qed

interpretation drive: speed_controller pid_calculate pid_reset drive_ok 6500
  by unfold_locales (simp_all add: drive_ok_calculate drive_ok_reset del: of_int_numeral)

section \<open>Properties\<close>

text \<open>C9. Whatever the target, the measurement, the time step and the
  controller's history, the output of \<open>pid_calculate\<close> is within the configured limits,
  or it is a NaN: the limiter lets a NaN through.\<close>

theorem pid_output_in_limits:
  assumes "output_min pid \<le> output_max pid"
  shows "snd (pid_calculate pid tgt act dt) = NaN \<or>
    output_min pid \<le> snd (pid_calculate pid tgt act dt) \<and>
    snd (pid_calculate pid tgt act dt) \<le> output_max pid"
  unfolding pid_calculate_out by (rule pid_out_range [OF assms])

definition demo_pid :: PIDController where
  "demo_pid = \<lparr>kp = f32_lit 2, ki = 0, kd = 0, pid_target = 0, pid_actual = 0, pid_error = 0,
     pid_last_error = 0, pid_prev_error = 0, pid_integral = 0, pid_derivative = 0,
     pid_output = 0, output_max = f32_lit 6500, output_min = - f32_lit 6500,
     integral_max = f32_lit 2500, integral_min = - f32_lit 2500\<rparr>"

lemma pid_output_in_limits_witness:
  "snd (pid_calculate demo_pid (f32_lit 9000) 0 0) = NaN \<or>
    - f32_lit 6500 \<le> snd (pid_calculate demo_pid (f32_lit 9000) 0 0) \<and>
    snd (pid_calculate demo_pid (f32_lit 9000) 0 0) \<le> f32_lit 6500"
  using pid_output_in_limits [of demo_pid "f32_lit 9000" 0 0]
  by (simp add: demo_pid_def lit_limits)

text \<open>C31. The stored integral never leaves its limits, for any
  sequence of inputs, NaNs and infinities included.\<close>

primrec pid_run :: "PIDController \<Rightarrow> (f32 \<times> f32 \<times> f32) list \<Rightarrow> PIDController" where
  "pid_run pid [] = pid"
| "pid_run pid (x # xs) =
     pid_run (fst (pid_calculate pid (fst x) (fst (snd x)) (snd (snd x)))) xs"

lemma pid_run_limits [frame_simps]:
  "integral_min (pid_run pid xs) = integral_min pid" "integral_max (pid_run pid xs) = integral_max pid"
  by (induction xs arbitrary: pid) (simp_all add: pid_calculate_fields)

theorem pid_integral_stays_in_limits:
  assumes "integral_min pid \<le> pid_integral pid" "pid_integral pid \<le> integral_max pid"
  shows "integral_min pid \<le> pid_integral (pid_run pid xs) \<and>
    pid_integral (pid_run pid xs) \<le> integral_max pid"
proof -
  have "pid_integral_ok pid" using assms by (simp add: pid_integral_ok_def)
  then have "pid_integral_ok (pid_run pid xs)"
    by (induction xs arbitrary: pid) (simp_all add: pid_calculate_integral_ok)
  then show ?thesis by (simp add: pid_integral_ok_def pid_run_limits)
qed

lemma pid_integral_stays_in_limits_witness:
  "- f32_lit 2500 \<le> pid_integral (pid_run demo_pid [(NaN, Inf True, 0), (f32_lit 1, 0, NaN)]) \<and>
   pid_integral (pid_run demo_pid [(NaN, Inf True, 0), (f32_lit 1, 0, NaN)]) \<le> f32_lit 2500"
  using pid_integral_stays_in_limits [of demo_pid "[(NaN, Inf True, 0), (f32_lit 1, 0, NaN)]"]
  by (simp add: demo_pid_def lit_limits zero_f32_def)

text \<open>C32. While the output sits at a limit and the error still pushes it
  there, the integral does not move.\<close>

theorem pid_antiwindup:
  assumes "output_min pid < output_max pid"
    and "snd (pid_calculate pid tgt act dt) = output_max pid \<and> 0 \<le> tgt - act \<or>
         snd (pid_calculate pid tgt act dt) = output_min pid \<and> tgt - act \<le> 0"
  shows "pid_integral (fst (pid_calculate pid tgt act dt)) = pid_integral pid"
  using assms by (auto simp: pid_calculate_simps pid_accepts_def feq_def f32_less_le_not_le)

lemma demo_pid_saturates:
  "snd (pid_calculate demo_pid (f32_lit 9000) 0 0) = output_max demo_pid"
  by code_simp

lemma pid_antiwindup_witness:
  "pid_integral (fst (pid_calculate demo_pid (f32_lit 9000) 0 0)) = 0"
proof -
  have "(0::f32) \<le> f32_lit 9000 - 0"  "output_min demo_pid < output_max demo_pid" by code_simp+
  then show ?thesis
    using pid_antiwindup [of demo_pid "f32_lit 9000" 0 0] demo_pid_saturates
    by (simp add: demo_pid_def)
qed

text \<open>One NaN target spoils two calls, not one: the NaN error is kept
  for the derivative of the next call, where even a zero \<open>kd\<close> multiplies it into the
  output. After that the controller is as healthy as before.\<close>

theorem pid_nan_recovery:
  assumes "pid_fin pid" "fbnd (2 ^ 18) tgt" "fbnd (2 ^ 18) act" "dt_ok dt"
  defines "p1 \<equiv> fst (pid_calculate pid NaN act dt)"
  defines "p2 \<equiv> fst (pid_calculate p1 tgt act dt)"
  shows "snd (pid_calculate pid NaN act dt) = NaN \<and>
    snd (pid_calculate p1 tgt act dt) = NaN \<and>
    pid_fin p2 \<and> snd (pid_calculate p2 tgt act dt) \<noteq> NaN"
proof (intro conjI)
  have ok: "pid_integral_ok pid" using assms(1) by (simp add: pid_fin_def)
  show "snd (pid_calculate pid NaN act dt) = NaN"
    by (simp add: pid_calculate_out pid_out_def)
  show "snd (pid_calculate p1 tgt act dt) = NaN"
    by (simp add: p1_def pid_calculate_simps pid_out_def)
  have "pid_integral_ok p2"
    unfolding p2_def p1_def using ok by (intro pid_calculate_integral_ok)
  moreover have "pid_error p2 = tgt - act" by (simp add: p2_def pid_calculate_fields)
  ultimately show fin: "pid_fin p2"
    using assms(1) pid_fin_not_NaN(2) [OF assms(1-4)]
    by (simp add: pid_fin_def p2_def p1_def pid_calculate_fields)
  show "snd (pid_calculate p2 tgt act dt) \<noteq> NaN"
    using pid_fin_not_NaN(1) [OF fin assms(2-4)] by (simp add: pid_calculate_out)
qed

lemma pid_fin_demo: "pid_fin demo_pid"
  using f32_lit_int [of 2]
  by (simp add: pid_fin_def demo_pid_def lit_limits zero_f32_def pid_integral_ok_def)

lemma pid_nan_recovery_witness:
  "snd (pid_calculate (fst (pid_calculate demo_pid NaN 0 0)) (f32_lit 1) 0 0) = NaN"
  using pid_nan_recovery [OF pid_fin_demo, of "f32_lit 1" 0 0] f32_lit_int [of 1]
  by (simp add: dt_ok_def zero_f32_def)

text \<open>Resetting discards the whole history: two controllers with the
  same gains and limits answer alike after a reset, whatever happened to them before.\<close>

theorem pid_reset_forgets:
  assumes "kp p = kp q" "ki p = ki q" "kd p = kd q"
    "output_max p = output_max q" "output_min p = output_min q"
    "integral_max p = integral_max q" "integral_min p = integral_min q"
  shows "pid_calculate (pid_reset p) tgt act dt = pid_calculate (pid_reset q) tgt act dt"
proof -
  have "pid_reset p = pid_reset q"
    using assms by (intro PIDController.equality) simp_all
  then show ?thesis by simp
qed

lemma pid_reset_forgets_witness:
  "pid_calculate (pid_reset (demo_pid\<lparr>pid_integral := NaN\<rparr>)) 0 0 0 =
   pid_calculate (pid_reset demo_pid) 0 0 0"
  by (rule pid_reset_forgets) simp_all

text \<open>A zero or negative time step counts as one millisecond.\<close>

theorem pid_nonpositive_dt:
  assumes "dt \<le> 0"
  shows "pid_calculate pid tgt act dt = pid_calculate pid tgt act (f32_lit (1 / 1000))"
proof -
  have "\<not> f32_lit (1 / 1000) \<le> 0" by code_simp
  with assms show ?thesis by (simp add: pid_calculate_def)
qed

lemma pid_nonpositive_dt_witness:
  "pid_calculate demo_pid 0 0 (- f32_lit 3) = pid_calculate demo_pid 0 0 (f32_lit (1 / 1000))"
  by (rule pid_nonpositive_dt) (use f32_lit_int [of 3] in \<open>simp add: zero_f32_def\<close>)

end
