(* ===== verification/Motor3508.thy ===== *)
theory Motor3508
  imports CPrelude
begin

text \<open>
  \<open>src/motor_3508.c\<close> and \<open>include/chassis_types.h\<close>: command frames packed and feedback
  frames parsed. The arrays of the program have five slots, indexed by motor number 1 to 4;
  here they are lists of length five.
\<close>

section \<open>Bytes and 16-bit values\<close>

definition bytes_to_i16 :: "u8 \<Rightarrow> u8 \<Rightarrow> i16" where
  "bytes_to_i16 high low = push_bit 8 (ucast high) OR ucast low"

definition i16_to_bytes :: "i16 \<Rightarrow> u8 \<times> u8" where
  "i16_to_bytes value = (ucast (drop_bit 8 value), ucast (value AND 0xFF))"

lemma bytes_to_i16_to_bytes: "i16_to_bytes (bytes_to_i16 h l) = (h, l)"
  unfolding i16_to_bytes_def bytes_to_i16_def ucast_and_FF
  by (auto intro!: bit_word_eqI simp: bit_simps)

lemma bytes_to_i16_value: "bytes_to_i16 h l = word_of_int (256 * uint h + uint l)"
proof -
  have "push_bit 8 (ucast h :: i16) AND ucast l = 0" by (rule bit_word_eqI) (auto simp: bit_simps)
  then have "bytes_to_i16 h l = push_bit 8 (ucast h) + ucast l"
    by (simp add: bytes_to_i16_def disjunctive_add_eq_or)
  moreover have "push_bit 8 (ucast h) = (word_of_int (uint h) * 256 :: i16)"
    unfolding push_bit_eq_mult ucast_eq by (rule arg_cong [of _ _ "(*) _"]) simp
  moreover have "ucast l = (word_of_int (uint l) :: i16)" by (rule ucast_eq)
  ultimately show ?thesis by (simp only: of_int_add of_int_mult of_int_numeral mult.commute)
qed

lemma i16_to_bytes_to_i16: "bytes_to_i16 (fst (i16_to_bytes v)) (snd (i16_to_bytes v)) = v"
  unfolding i16_to_bytes_def bytes_to_i16_def ucast_and_FF fst_conv snd_conv
  by (rule bit_word_eqI) (auto simp: bit_simps)

section \<open>Feedback record\<close>

record Motor3508Feedback =
  fb_id :: u8
  fb_angle :: i16
  fb_speed_rpm :: i16
  fb_current :: i16
  fb_temperature :: i8
  fb_last_update_ms :: u64
  fb_online :: u8

definition CHASSIS_MOTOR_COUNT :: nat where "CHASSIS_MOTOR_COUNT = 4"
definition MOTOR3508_CMD_ID_1_TO_4 :: u32 where "MOTOR3508_CMD_ID_1_TO_4 = 0x200"
definition MOTOR3508_FEEDBACK_ID_BASE :: u32 where "MOTOR3508_FEEDBACK_ID_BASE = 0x200"
definition MOTOR3508_FIRST_FEEDBACK_ID :: u32 where "MOTOR3508_FIRST_FEEDBACK_ID = 0x201"
definition MOTOR3508_LAST_FEEDBACK_ID :: u32 where "MOTOR3508_LAST_FEEDBACK_ID = 0x204"

lemmas motor_consts =
  CHASSIS_MOTOR_COUNT_def MOTOR3508_CMD_ID_1_TO_4_def MOTOR3508_FEEDBACK_ID_BASE_def
  MOTOR3508_FIRST_FEEDBACK_ID_def MOTOR3508_LAST_FEEDBACK_ID_def

text \<open>\<open>for (i = 1; i <= CHASSIS_MOTOR_COUNT; ++i)\<close>, and the same from 0.\<close>

definition motors :: "nat list" where "motors = [1..<CHASSIS_MOTOR_COUNT + 1]"
definition slots :: "nat list" where "slots = [0..<CHASSIS_MOTOR_COUNT + 1]"

lemma motors_list: "motors = [1, 2, 3, 4]" "slots = [0, 1, 2, 3, 4]"
  by (simp_all add: motors_def slots_def CHASSIS_MOTOR_COUNT_def upt_rec)

lemma len5: "length xs = 5 \<Longrightarrow> \<exists>a b c d e. xs = [a, b, c, d, e]"
  by (auto simp: numeral_eq_Suc length_Suc_conv)

text \<open>A zero-initialised feedback record, \<open>= {0}\<close> in the tools.\<close>

definition fb_zero :: Motor3508Feedback where
  "fb_zero = \<lparr>fb_id = 0, fb_angle = 0, fb_speed_rpm = 0, fb_current = 0, fb_temperature = 0,
     fb_last_update_ms = 0, fb_online = 0\<rparr>"

section \<open>Command frames\<close>

definition motor3508_pack_current :: "i16 \<Rightarrow> i16 \<Rightarrow> i16 \<Rightarrow> i16 \<Rightarrow> u8 list \<Rightarrow> u8 list" where
  "motor3508_pack_current m1 m2 m3 m4 data =
     (let data = data[0 := fst (i16_to_bytes m1), 1 := snd (i16_to_bytes m1)];
          data = data[2 := fst (i16_to_bytes m2), 3 := snd (i16_to_bytes m2)];
          data = data[4 := fst (i16_to_bytes m3), 5 := snd (i16_to_bytes m3)];
          data = data[6 := fst (i16_to_bytes m4), 7 := snd (i16_to_bytes m4)]
      in data)"

definition motor3508_pack_current_array :: "i16 list \<Rightarrow> u8 list \<Rightarrow> u8 list" where
  "motor3508_pack_current_array currents data =
     motor3508_pack_current (currents ! 1) (currents ! 2) (currents ! 3) (currents ! 4) data"

lemma length_pack_current [len_simps]:
  "length (motor3508_pack_current m1 m2 m3 m4 data) = length data"
  "length (motor3508_pack_current_array currents data) = length data"
  by (simp_all add: motor3508_pack_current_def motor3508_pack_current_array_def)

lemma nth_pack_current [byte_simps]:
  assumes "length data = 8"
  shows "motor3508_pack_current m1 m2 m3 m4 data ! 0 = fst (i16_to_bytes m1)"
    "motor3508_pack_current m1 m2 m3 m4 data ! 1 = snd (i16_to_bytes m1)"
    "motor3508_pack_current m1 m2 m3 m4 data ! 2 = fst (i16_to_bytes m2)"
    "motor3508_pack_current m1 m2 m3 m4 data ! 3 = snd (i16_to_bytes m2)"
    "motor3508_pack_current m1 m2 m3 m4 data ! 4 = fst (i16_to_bytes m3)"
    "motor3508_pack_current m1 m2 m3 m4 data ! 5 = snd (i16_to_bytes m3)"
    "motor3508_pack_current m1 m2 m3 m4 data ! 6 = fst (i16_to_bytes m4)"
    "motor3508_pack_current m1 m2 m3 m4 data ! 7 = snd (i16_to_bytes m4)"
  using assms by (simp_all add: motor3508_pack_current_def)

section \<open>Feedback frames\<close>

text \<open>
  \<open>feedback\<close> is the pointer argument: \<open>None\<close> is \<open>NULL\<close>, \<open>Some fb\<close> the record it points
  to. The result is the return value and what the pointer points to afterwards.
\<close>

definition motor3508_parse_feedback ::
  "u32 \<Rightarrow> u8 list \<Rightarrow> Motor3508Feedback option \<Rightarrow> u64 \<Rightarrow> int \<times> Motor3508Feedback option" where
  "motor3508_parse_feedback can_id data feedback now_ms =
     (case feedback of
        None \<Rightarrow> (0, None)
      | Some fb \<Rightarrow>
          if can_id < MOTOR3508_FIRST_FEEDBACK_ID \<or> MOTOR3508_LAST_FEEDBACK_ID < can_id
          then (0, Some fb)
          else (1, Some (fb\<lparr>
                 fb_id := ucast (can_id - MOTOR3508_FEEDBACK_ID_BASE),
                 fb_angle := bytes_to_i16 (data ! 0) (data ! 1),
                 fb_speed_rpm := bytes_to_i16 (data ! 2) (data ! 3),
                 fb_current := bytes_to_i16 (data ! 4) (data ! 5),
                 fb_temperature := data ! 6,
                 fb_last_update_ms := now_ms,
                 fb_online := 1\<rparr>)))"

definition motor3508_update_feedback ::
  "u32 \<Rightarrow> u8 list \<Rightarrow> Motor3508Feedback \<Rightarrow> Motor3508Feedback list \<Rightarrow> u64 \<Rightarrow>
   int \<times> Motor3508Feedback list" where
  "motor3508_update_feedback can_id data local feedbacks now_ms =
     (case motor3508_parse_feedback can_id data (Some local) now_ms of
        (r, Some feedback) \<Rightarrow>
          if r = 0 then (0, feedbacks)
          else (1, feedbacks[unat (fb_id feedback) := feedback])
      | (r, None) \<Rightarrow> (0, feedbacks))"

definition motor3508_feedback_name :: "u8 \<Rightarrow> string" where
  "motor3508_feedback_name motor_id =
     (if motor_id = 1 then ''M1'' else if motor_id = 2 then ''M2''
      else if motor_id = 3 then ''M3'' else if motor_id = 4 then ''M4'' else ''M?'')"

text \<open>The frame as a value: what a feedback frame says at a given time.\<close>

definition feedback_of :: "u32 \<Rightarrow> u8 list \<Rightarrow> u64 \<Rightarrow> Motor3508Feedback" where
  "feedback_of can_id data now_ms =
     \<lparr>fb_id = ucast (can_id - MOTOR3508_FEEDBACK_ID_BASE),
      fb_angle = bytes_to_i16 (data ! 0) (data ! 1),
      fb_speed_rpm = bytes_to_i16 (data ! 2) (data ! 3),
      fb_current = bytes_to_i16 (data ! 4) (data ! 5),
      fb_temperature = data ! 6, fb_last_update_ms = now_ms, fb_online = 1\<rparr>"

definition is_feedback_id :: "u32 \<Rightarrow> bool" where
  "is_feedback_id can_id \<longleftrightarrow> can_id \<in> {0x201, 0x202, 0x203, 0x204}"

lemma is_feedback_id_range:
  "is_feedback_id can_id \<longleftrightarrow>
     \<not> (can_id < MOTOR3508_FIRST_FEEDBACK_ID \<or> MOTOR3508_LAST_FEEDBACK_ID < can_id)"
proof
  show "\<not> (can_id < MOTOR3508_FIRST_FEEDBACK_ID \<or> MOTOR3508_LAST_FEEDBACK_ID < can_id)"
    if "is_feedback_id can_id" using that by (auto simp: is_feedback_id_def motor_consts)
next
  assume "\<not> (can_id < MOTOR3508_FIRST_FEEDBACK_ID \<or> MOTOR3508_LAST_FEEDBACK_ID < can_id)"
  then have "0x201 \<le> uint can_id" "uint can_id \<le> 0x204"
    by (auto simp: motor_consts word_less_def)
  then have "uint can_id \<in> {0x201, 0x202, 0x203, 0x204}" by auto
  then have "can_id \<in> word_of_int ` {0x201, 0x202, 0x203, 0x204}"
    using word_of_int_uint [of can_id] by (metis imageI)
  then show "is_feedback_id can_id" by (auto simp: is_feedback_id_def)
qed

lemma parse_feedback_eq:
  "motor3508_parse_feedback can_id data (Some fb) now_ms =
     (if is_feedback_id can_id then (1, Some (feedback_of can_id data now_ms)) else (0, Some fb))"
  by (auto simp: motor3508_parse_feedback_def is_feedback_id_range feedback_of_def)

lemma feedback_of_id:
  "is_feedback_id can_id \<Longrightarrow> unat (fb_id (feedback_of can_id data now)) \<in> {1, 2, 3, 4}"
  by (auto simp: is_feedback_id_def feedback_of_def motor_consts)

lemma feedback_id_motor:
  assumes "is_feedback_id can_id"
  shows "\<exists>k\<in>{1, 2, 3, 4}. can_id = of_nat (0x200 + k) \<and>
    unat (fb_id (feedback_of can_id data now)) = k \<and> fb_id (feedback_of can_id data now) = of_nat k"
proof -
  from assms consider "can_id = 0x201" | "can_id = 0x202" | "can_id = 0x203" | "can_id = 0x204"
    unfolding is_feedback_id_def by blast
  then show ?thesis
  proof cases
    case 1 then show ?thesis by (intro bexI [of _ 1]) (simp_all add: feedback_of_def motor_consts)
  next
    case 2 then show ?thesis by (intro bexI [of _ 2]) (simp_all add: feedback_of_def motor_consts)
  next
    case 3 then show ?thesis by (intro bexI [of _ 3]) (simp_all add: feedback_of_def motor_consts)
  next
    case 4 then show ?thesis by (intro bexI [of _ 4]) (simp_all add: feedback_of_def motor_consts)
  qed
qed

lemma update_feedback_eq:
  "motor3508_update_feedback can_id data local fbs now =
     (if is_feedback_id can_id
      then (1, fbs[unat (fb_id (feedback_of can_id data now)) := feedback_of can_id data now])
      else (0, fbs))"
  by (simp add: motor3508_update_feedback_def parse_feedback_eq)

section \<open>Properties\<close>

text \<open>The command frame carries the four currents of the array in
  motor order, high byte first: reading the byte pairs back gives the currents, and nothing
  of the buffer's old content is left.\<close>

theorem pack_current_roundtrip:
  assumes "length data = 8" "k < 4"
  shows "bytes_to_i16 (motor3508_pack_current_array currents data ! (2 * k))
           (motor3508_pack_current_array currents data ! (2 * k + 1)) = currents ! (k + 1)"
proof -
  from assms(2) have "k = 0 \<or> k = 1 \<or> k = 2 \<or> k = 3" by auto
  then show ?thesis
    using nth_pack_current [OF assms(1)]
    by (auto simp: motor3508_pack_current_array_def i16_to_bytes_to_i16 numeral_eq_Suc)
qed

lemma pack_current_roundtrip_witness:
  "bytes_to_i16 (motor3508_pack_current_array [0, 1, 2, -3, 4] (replicate 8 0xAA) ! (2 * 2))
     (motor3508_pack_current_array [0, 1, 2, -3, 4] (replicate 8 0xAA) ! (2 * 2 + 1)) =
   [0, 1, 2, -3, 4] ! (2 + 1)"
  by (rule pack_current_roundtrip) simp_all

text \<open>A frame is feedback exactly when its identifier is one of
  \<open>0x201\<close> to \<open>0x204\<close>; then the call returns 1 and writes every field of the record (so the
  caller's uninitialised local is never read), and otherwise it returns 0 and writes nothing.\<close>

theorem parse_feedback_spec:
  "motor3508_parse_feedback can_id data (Some fb) now =
     (if can_id \<in> {0x201, 0x202, 0x203, 0x204}
      then (1, Some \<lparr>fb_id = ucast (can_id - 0x200),
                fb_angle = bytes_to_i16 (data ! 0) (data ! 1),
                fb_speed_rpm = bytes_to_i16 (data ! 2) (data ! 3),
                fb_current = bytes_to_i16 (data ! 4) (data ! 5),
                fb_temperature = data ! 6, fb_last_update_ms = now, fb_online = 1\<rparr>)
      else (0, Some fb))"
  unfolding parse_feedback_eq feedback_of_def is_feedback_id_def motor_consts by simp

text \<open>Storing a parsed frame writes exactly one of the slots 1 to 4
  of the five-element array, the one of the frame's motor; slot 0 and the other motors keep
  their records, and a frame that is not feedback changes nothing.\<close>

theorem update_feedback_in_bounds:
  assumes "length fbs = 5"
  shows "case motor3508_update_feedback can_id data local fbs now of (r, fbs') \<Rightarrow>
    length fbs' = 5 \<and> fbs' ! 0 = fbs ! 0 \<and>
    (r = 0 \<longrightarrow> fbs' = fbs) \<and>
    (r \<noteq> 0 \<longrightarrow> (\<exists>k\<in>{1, 2, 3, 4}. can_id = of_nat (0x200 + k) \<and>
        fb_id (fbs' ! k) = of_nat k \<and> fb_last_update_ms (fbs' ! k) = now \<and>
        (\<forall>j<5. j \<noteq> k \<longrightarrow> fbs' ! j = fbs ! j)))"
proof (cases "is_feedback_id can_id")
  case False
  then show ?thesis using assms by (simp add: update_feedback_eq)
next
  case True
  then obtain k where k: "k \<in> {1, 2, 3, 4::nat}" "can_id = of_nat (0x200 + k)"
      "unat (fb_id (feedback_of can_id data now)) = k" "fb_id (feedback_of can_id data now) = of_nat k"
    using feedback_id_motor by blast
  let ?fb = "feedback_of can_id data now"
  have upd: "motor3508_update_feedback can_id data local fbs now = (1, fbs[k := ?fb])"
    using True k(3) by (simp add: update_feedback_eq)
  have k5: "0 < k" "k < 5" using k(1) by auto
  have "length (fbs[k := ?fb]) = 5" "fbs[k := ?fb] ! 0 = fbs ! 0" "fbs[k := ?fb] ! k = ?fb"
    "\<forall>j<5. j \<noteq> k \<longrightarrow> fbs[k := ?fb] ! j = fbs ! j"
    using k5 assms by simp_all
  moreover have "fb_last_update_ms ?fb = now" by (simp add: feedback_of_def)
  ultimately show ?thesis unfolding upd prod.case using k(1,2,4) by (metis zero_neq_one)
qed

lemma update_feedback_in_bounds_witness:
  "length (snd (motor3508_update_feedback 0x203 (replicate 8 1) fb_zero (replicate 5 fb_zero) 7)) = 5"
  using update_feedback_in_bounds [where fbs = "replicate 5 fb_zero" and can_id = "0x203" and
      data = "replicate 8 1" and local = fb_zero and now = 7]
  by (simp add: case_prod_beta)

end
