(* ===== verification/Chassis.thy ===== *)
theory Chassis
  imports Pid Motor3508
begin

text \<open>
  \<open>src/chassis_control.c\<close>: the chassis controller. A controller is a value and an operation
  returns the new one; the \<open>NULL\<close> guards of the C interface are in \<open>PointerApi\<close>.
\<close>

section \<open>State\<close>

record ChassisCommand =
  cmd_forward :: f32
  cmd_strafe :: f32
  cmd_rotate :: f32

record ChassisConfig =
  max_translate_rpm :: f32
  max_rotate_rpm :: f32
  command_timeout_ms :: f32
  feedback_timeout_ms :: f32

record ChassisController =
  cc_config :: ChassisConfig
  cc_pid :: "PIDController list"
  cc_feedback :: "Motor3508Feedback list"
  cc_target_rpm :: "f32 list"
  cc_command :: ChassisCommand
  cc_last_command_ms :: u64

definition CHASSIS_PID_OUTPUT_LIMIT :: f32 where "CHASSIS_PID_OUTPUT_LIMIT = f32_lit 6500"
definition CHASSIS_PID_INTEGRAL_LIMIT :: f32 where "CHASSIS_PID_INTEGRAL_LIMIT = f32_lit 2500"

section \<open>Operations\<close>

definition clamp_float :: "f32 \<Rightarrow> f32 \<Rightarrow> f32 \<Rightarrow> f32" where
  "clamp_float value min_value max_value =
     (if max_value < value then max_value
      else if value < min_value then min_value
      else value)"

definition abs_float :: "f32 \<Rightarrow> f32" where
  "abs_float value = (if 0 \<le> value then value else - value)"

definition command_is_zero :: "ChassisCommand \<Rightarrow> bool" where
  "command_is_zero command \<longleftrightarrow>
     abs_float (cmd_forward command) < f32_lit (1 / 10000) \<and>
     abs_float (cmd_strafe command) < f32_lit (1 / 10000) \<and>
     abs_float (cmd_rotate command) < f32_lit (1 / 10000)"

definition elapsed_ms :: "u64 \<Rightarrow> u64 \<Rightarrow> u64" where
  "elapsed_ms now_ms previous_ms = (if previous_ms \<le> now_ms then now_ms - previous_ms else 0)"

text \<open>\<open>(float)\<close> of an unsigned 64-bit value.\<close>

definition f32_of_u64 :: "u64 \<Rightarrow> f32" where
  "f32_of_u64 x = f32_of_int (uint x)"

definition zero_command :: ChassisCommand where
  "zero_command = \<lparr>cmd_forward = 0, cmd_strafe = 0, cmd_rotate = 0\<rparr>"

definition reset_motor :: "nat \<Rightarrow> ChassisController \<Rightarrow> ChassisController" where
  "reset_motor i c =
     (let c = c\<lparr>cc_target_rpm := (cc_target_rpm c)[i := 0]\<rparr>
      in c\<lparr>cc_pid := (cc_pid c)[i := pid_reset (cc_pid c ! i)]\<rparr>)"

definition reset_motion_state :: "ChassisController \<Rightarrow> ChassisController" where
  "reset_motion_state c =
     (let c = c\<lparr>cc_command := zero_command\<rparr>
      in fold reset_motor motors c)"

definition peak_target :: "f32 list \<Rightarrow> f32" where
  "peak_target target =
     fold (\<lambda>i peak. let value = abs_float (target ! i) in if peak < value then value else peak)
       [2..<CHASSIS_MOTOR_COUNT + 1] (abs_float (target ! 1))"

definition normalize_wheel_targets :: "f32 list \<Rightarrow> f32 \<Rightarrow> f32 list" where
  "normalize_wheel_targets target max_abs_rpm =
     (let peak = peak_target target in
      if max_abs_rpm < peak \<and> 0 < peak
      then (let scale = max_abs_rpm / peak
            in fold (\<lambda>i target. target[i := target ! i * scale]) motors target)
      else target)"

text \<open>
  The four wheel targets of \<open>update_targets_from_command\<close>; the wheels are numbered
  2 and 4 in front, 1 and 3 behind, the odd pair and the even pair on the left and right.
\<close>

definition wheel_targets :: "f32 \<Rightarrow> f32 \<Rightarrow> f32 \<Rightarrow> f32 list \<Rightarrow> f32 list" where
  "wheel_targets forward strafe rotation target = target
     [1 := - (forward + strafe) - rotation,
      2 := - (forward - strafe) - rotation,
      3 := (forward - strafe) - rotation,
      4 := (forward + strafe) - rotation]"

definition update_targets_from_command :: "ChassisController \<Rightarrow> ChassisController" where
  "update_targets_from_command c =
     (let forward = - clamp_float (cmd_forward (cc_command c)) (- f32_lit 1) (f32_lit 1) *
                      max_translate_rpm (cc_config c);
          strafe = clamp_float (cmd_strafe (cc_command c)) (- f32_lit 1) (f32_lit 1) *
                      max_translate_rpm (cc_config c);
          rotation = clamp_float (cmd_rotate (cc_command c)) (- f32_lit 1) (f32_lit 1) *
                      max_rotate_rpm (cc_config c);
          target = wheel_targets forward strafe rotation (cc_target_rpm c)
      in c\<lparr>cc_target_rpm := normalize_wheel_targets target (max_translate_rpm (cc_config c))\<rparr>)"

definition chassis_default_config :: ChassisConfig where
  "chassis_default_config =
     \<lparr>max_translate_rpm = f32_lit 500, max_rotate_rpm = f32_lit 400,
      command_timeout_ms = f32_lit 300, feedback_timeout_ms = f32_lit 250\<rparr>"

definition chassis_init_slot :: "nat \<Rightarrow> ChassisController \<Rightarrow> ChassisController" where
  "chassis_init_slot i c =
     (let c = c\<lparr>cc_feedback := (cc_feedback c)[i := (cc_feedback c ! i)\<lparr>fb_id := of_nat i\<rparr>]\<rparr>;
          c = c\<lparr>cc_feedback := (cc_feedback c)[i := (cc_feedback c ! i)\<lparr>fb_online := 0\<rparr>]\<rparr>
      in c\<lparr>cc_target_rpm := (cc_target_rpm c)[i := 0]\<rparr>)"

definition chassis_init_pid :: "nat \<Rightarrow> f32 \<Rightarrow> ChassisController \<Rightarrow> ChassisController" where
  "chassis_init_pid i integral_gain c =
     c\<lparr>cc_pid := (cc_pid c)[i := pid_init (cc_pid c ! i) (f32_lit 2) integral_gain 0
        CHASSIS_PID_OUTPUT_LIMIT (- CHASSIS_PID_OUTPUT_LIMIT)
        CHASSIS_PID_INTEGRAL_LIMIT (- CHASSIS_PID_INTEGRAL_LIMIT)]\<rparr>"

text \<open>
  \<open>c\<close> is what the caller's variable holds, uninitialised memory in the tools; \<open>config = None\<close>
  is the \<open>NULL\<close> configuration.
\<close>

definition chassis_init ::
  "ChassisController \<Rightarrow> ChassisConfig option \<Rightarrow> u64 \<Rightarrow> ChassisController" where
  "chassis_init c config now_ms =
     (let cfg = (case config of None \<Rightarrow> chassis_default_config | Some cfg \<Rightarrow> cfg);
          c = c\<lparr>cc_config := cfg\<rparr>;
          c = c\<lparr>cc_command := zero_command\<rparr>;
          c = c\<lparr>cc_last_command_ms := now_ms\<rparr>;
          c = fold chassis_init_slot slots c;
          c = chassis_init_pid 1 (f32_lit (35 / 100)) c;
          c = chassis_init_pid 2 (f32_lit (30 / 100)) c;
          c = chassis_init_pid 3 (f32_lit (40 / 100)) c;
          c = chassis_init_pid 4 (f32_lit (60 / 100)) c
      in c)"

definition chassis_set_command ::
  "ChassisController \<Rightarrow> f32 \<Rightarrow> f32 \<Rightarrow> f32 \<Rightarrow> u64 \<Rightarrow> ChassisController" where
  "chassis_set_command c forward strafe rotation now_ms =
     c\<lparr>cc_command :=
         \<lparr>cmd_forward = clamp_float forward (- f32_lit 1) (f32_lit 1),
          cmd_strafe = clamp_float strafe (- f32_lit 1) (f32_lit 1),
          cmd_rotate = clamp_float rotation (- f32_lit 1) (f32_lit 1)\<rparr>,
       cc_last_command_ms := now_ms\<rparr>"

definition chassis_stop :: "ChassisController \<Rightarrow> u64 \<Rightarrow> ChassisController" where
  "chassis_stop c now_ms = reset_motion_state (c\<lparr>cc_last_command_ms := now_ms\<rparr>)"

definition chassis_update_feedback ::
  "ChassisController \<Rightarrow> Motor3508Feedback \<Rightarrow> ChassisController" where
  "chassis_update_feedback c fb =
     (if fb_id fb < 1 \<or> of_nat CHASSIS_MOTOR_COUNT < fb_id fb then c
      else c\<lparr>cc_feedback := (cc_feedback c)[unat (fb_id fb) := fb]\<rparr>)"

text \<open>The loop body of \<open>chassis_feedback_all_online\<close>: motor \<open>i\<close> does not make it return 0.\<close>

definition motor_online :: "ChassisController \<Rightarrow> u64 \<Rightarrow> nat \<Rightarrow> bool" where
  "motor_online c now_ms i \<longleftrightarrow>
     (let feedback = cc_feedback c ! i in
      fb_online feedback \<noteq> 0 \<and>
      \<not> feedback_timeout_ms (cc_config c) < f32_of_u64 (elapsed_ms now_ms (fb_last_update_ms feedback)))"

definition chassis_feedback_all_online :: "ChassisController \<Rightarrow> u64 \<Rightarrow> int" where
  "chassis_feedback_all_online c now_ms = (if list_all (motor_online c now_ms) motors then 1 else 0)"

text \<open>One turn of the control loop of \<open>chassis_step\<close>; \<open>u\<close> is what \<open>lrintf\<close> returns out of range.\<close>

definition drive_motor ::
  "(f32 \<Rightarrow> int) \<Rightarrow> f32 \<Rightarrow> nat \<Rightarrow> ChassisController \<times> i16 list \<Rightarrow> ChassisController \<times> i16 list" where
  "drive_motor u dt_s i s =
     (let c = fst s; currents = snd s;
          r = pid_calculate (cc_pid c ! i) (cc_target_rpm c ! i)
                (f32_of_int (sint (fb_speed_rpm (cc_feedback c ! i)))) dt_s
      in (c\<lparr>cc_pid := (cc_pid c)[i := fst r]\<rparr>, currents[i := to_i16 (lrintf u (snd r))]))"

definition reset_target :: "nat \<Rightarrow> ChassisController \<Rightarrow> ChassisController" where
  "reset_target i c =
     (let c = c\<lparr>cc_pid := (cc_pid c)[i := pid_reset (cc_pid c ! i)]\<rparr>
      in c\<lparr>cc_target_rpm := (cc_target_rpm c)[i := 0]\<rparr>)"

definition chassis_step ::
  "(f32 \<Rightarrow> int) \<Rightarrow> ChassisController \<Rightarrow> u64 \<Rightarrow> f32 \<Rightarrow> i16 list \<Rightarrow>
   ChassisController \<times> int \<times> i16 list" where
  "chassis_step u c now_ms dt_s currents =
     (let currents = fold (\<lambda>i cur. cur[i := 0]) slots currents;
          c = (if command_timeout_ms (cc_config c) <
                  f32_of_u64 (elapsed_ms now_ms (cc_last_command_ms c))
               then reset_motion_state c else c)
      in if command_is_zero (cc_command c)
         then let c = reset_motion_state c
              in (c, chassis_feedback_all_online c now_ms, currents)
         else
           let c = update_targets_from_command c
           in if chassis_feedback_all_online c now_ms = 0
              then (fold reset_target motors c, 0, currents)
              else let (c, currents) = fold (drive_motor u dt_s) motors (c, currents)
                   in (c, 1, currents))"

section \<open>Five-element arrays\<close>

definition chassis_wf :: "ChassisController \<Rightarrow> bool" where
  "chassis_wf c \<longleftrightarrow>
     length (cc_pid c) = 5 \<and> length (cc_feedback c) = 5 \<and> length (cc_target_rpm c) = 5"

lemma chassis_wf_explicit:
  assumes "chassis_wf c"
  obtains cfg p0 p1 p2 p3 p4 f0 f1 f2 f3 f4 t0 t1 t2 t3 t4 cmd l where
    "c = \<lparr>cc_config = cfg, cc_pid = [p0, p1, p2, p3, p4], cc_feedback = [f0, f1, f2, f3, f4],
       cc_target_rpm = [t0, t1, t2, t3, t4], cc_command = cmd, cc_last_command_ms = l\<rparr>"
proof -
  obtain cfg ps fs ts cmd l where c: "c = \<lparr>cc_config = cfg, cc_pid = ps, cc_feedback = fs,
      cc_target_rpm = ts, cc_command = cmd, cc_last_command_ms = l\<rparr>"
    by (cases c) blast
  with assms have "length ps = 5" "length fs = 5" "length ts = 5" by (simp_all add: chassis_wf_def)
  then show ?thesis using c that len5 by metis
qed

section \<open>What the operations do, slot by slot\<close>

lemma fold_reset_motor:
  "fold reset_motor is c = c\<lparr>
     cc_target_rpm := fold (\<lambda>i ts. ts[i := 0]) is (cc_target_rpm c),
     cc_pid := fold (\<lambda>i ps. ps[i := pid_reset (ps ! i)]) is (cc_pid c)\<rparr>"
  by (induction "is" arbitrary: c) (simp_all add: reset_motor_def Let_def)

lemma fold_reset_target:
  "fold reset_target is c = c\<lparr>
     cc_target_rpm := fold (\<lambda>i ts. ts[i := 0]) is (cc_target_rpm c),
     cc_pid := fold (\<lambda>i ps. ps[i := pid_reset (ps ! i)]) is (cc_pid c)\<rparr>"
  by (induction "is" arbitrary: c) (simp_all add: reset_target_def Let_def)

text \<open>Arrays after a loop over the motors: slot 0 is untouched.\<close>

definition on_motors :: "('a \<Rightarrow> 'a) \<Rightarrow> 'a list \<Rightarrow> 'a list" where
  "on_motors f xs = [xs ! 0, f (xs ! 1), f (xs ! 2), f (xs ! 3), f (xs ! 4)]"

lemma on_motors_nth [simp]:
  "length (on_motors f xs) = 5"
  "on_motors f xs ! 0 = xs ! 0"
  "i \<in> {1, 2, 3, 4} \<Longrightarrow> on_motors f xs ! i = f (xs ! i)"
  by (auto simp: on_motors_def numeral_eq_Suc)

lemma fold_motors_set:
  "length xs = 5 \<Longrightarrow> fold (\<lambda>i xs. xs[i := x]) motors xs = on_motors (\<lambda>_. x) xs"
  "length xs = 5 \<Longrightarrow> fold (\<lambda>i xs. xs[i := f (xs ! i)]) motors xs = on_motors f xs"
  by (auto simp: motors_list on_motors_def dest!: len5)

lemma fold_slots_set: "length xs = 5 \<Longrightarrow> fold (\<lambda>i xs. xs[i := x]) slots xs = [x, x, x, x, x]"
  by (auto simp: motors_list dest!: len5)

lemma reset_motion_state_eq:
  assumes "chassis_wf c"
  shows "reset_motion_state c = c\<lparr>
    cc_command := zero_command,
    cc_target_rpm := on_motors (\<lambda>_. 0) (cc_target_rpm c),
    cc_pid := on_motors pid_reset (cc_pid c)\<rparr>"
  using assms
  by (simp add: reset_motion_state_def fold_reset_motor fold_motors_set chassis_wf_def Let_def)

definition motor_result :: "ChassisController \<Rightarrow> f32 \<Rightarrow> nat \<Rightarrow> PIDController \<times> f32" where
  "motor_result c dt i = pid_calculate (cc_pid c ! i) (cc_target_rpm c ! i)
     (f32_of_int (sint (fb_speed_rpm (cc_feedback c ! i)))) dt"

definition motor_current :: "(f32 \<Rightarrow> int) \<Rightarrow> ChassisController \<Rightarrow> f32 \<Rightarrow> nat \<Rightarrow> i16" where
  "motor_current u c dt i = to_i16 (lrintf u (snd (motor_result c dt i)))"

lemma fold_drive_motor:
  assumes "chassis_wf c" "length cur = 5"
  shows "fold (drive_motor u dt) motors (c, cur) =
    (c\<lparr>cc_pid := [cc_pid c ! 0, fst (motor_result c dt 1), fst (motor_result c dt 2),
        fst (motor_result c dt 3), fst (motor_result c dt 4)]\<rparr>,
     [cur ! 0, motor_current u c dt 1, motor_current u c dt 2, motor_current u c dt 3,
      motor_current u c dt 4])"
proof -
  obtain cfg p0 p1 p2 p3 p4 f0 f1 f2 f3 f4 t0 t1 t2 t3 t4 cmd l where
    c: "c = \<lparr>cc_config = cfg, cc_pid = [p0, p1, p2, p3, p4], cc_feedback = [f0, f1, f2, f3, f4],
       cc_target_rpm = [t0, t1, t2, t3, t4], cc_command = cmd, cc_last_command_ms = l\<rparr>"
    using assms(1) by (rule chassis_wf_explicit)
  obtain a b d e f where cur: "cur = [a, b, d, e, f]" using len5 [OF assms(2)] by blast
  show ?thesis
    by (simp add: c cur motors_list drive_motor_def motor_result_def motor_current_def Let_def
        numeral_eq_Suc)
qed

lemma all_online_cong:
  "cc_feedback c = cc_feedback d \<Longrightarrow> cc_config c = cc_config d \<Longrightarrow>
     chassis_feedback_all_online c now = chassis_feedback_all_online d now"
  by (simp add: chassis_feedback_all_online_def motor_online_def cong: list.pred_cong)

lemma all_online_01: "chassis_feedback_all_online c now = 0 \<or> chassis_feedback_all_online c now = 1"
  by (simp add: chassis_feedback_all_online_def)

lemma all_online_iff:
  "chassis_feedback_all_online c now = 1 \<longleftrightarrow> (\<forall>i\<in>{1, 2, 3, 4}. motor_online c now i)"
  by (auto simp: chassis_feedback_all_online_def motors_list)

definition command_expired :: "ChassisController \<Rightarrow> u64 \<Rightarrow> bool" where
  "command_expired c now \<longleftrightarrow>
     command_timeout_ms (cc_config c) < f32_of_u64 (elapsed_ms now (cc_last_command_ms c))"

lemma zero_command_is_zero: "command_is_zero zero_command"
  by code_simp

lemma reset_wf [simp]: "chassis_wf c \<Longrightarrow> chassis_wf (reset_motion_state c)"
  by (simp add: reset_motion_state_eq) (simp add: chassis_wf_def)

lemma reset_frame [frame_simps]:
  assumes "chassis_wf c"
  shows "cc_config (reset_motion_state c) = cc_config c"
    "cc_feedback (reset_motion_state c) = cc_feedback c"
    "cc_command (reset_motion_state c) = zero_command"
    "cc_last_command_ms (reset_motion_state c) = cc_last_command_ms c"
  by (simp_all add: reset_motion_state_eq [OF assms])

lemma pid_reset_reset [simp]: "pid_reset (pid_reset p) = pid_reset p"
  by (simp add: pid_reset_def)

lemma reset_idem: "chassis_wf c \<Longrightarrow> reset_motion_state (reset_motion_state c) = reset_motion_state c"
  by (simp add: reset_motion_state_eq [OF reset_wf])
    (simp add: reset_motion_state_eq on_motors_def numeral_eq_Suc)

lemma update_targets_frame [frame_simps]:
  "cc_config (update_targets_from_command c) = cc_config c"
  "cc_feedback (update_targets_from_command c) = cc_feedback c"
  "cc_command (update_targets_from_command c) = cc_command c"
  "cc_pid (update_targets_from_command c) = cc_pid c"
  "cc_last_command_ms (update_targets_from_command c) = cc_last_command_ms c"
  by (simp_all add: update_targets_from_command_def Let_def)

lemma length_normalize [len_simps]:
  "length (normalize_wheel_targets target m) = length target"
proof -
  have "length (fold (\<lambda>i t. t[i := t ! i * s]) is target) = length target" for s "is"
    by (induction "is" arbitrary: target) simp_all
  then show ?thesis by (simp add: normalize_wheel_targets_def Let_def)
qed

lemma update_targets_wf [simp]: "chassis_wf c \<Longrightarrow> chassis_wf (update_targets_from_command c)"
  by (simp add: chassis_wf_def frame_simps)
    (simp add: update_targets_from_command_def wheel_targets_def Let_def len_simps)

section \<open>The three outcomes of a step\<close>

text \<open>Stale or zero command: reset, zero currents.\<close>

lemma step_idle:
  assumes "chassis_wf c" "length cur = 5" "command_expired c now \<or> command_is_zero (cc_command c)"
  shows "chassis_step u c now dt cur =
    (reset_motion_state c, chassis_feedback_all_online c now, [0, 0, 0, 0, 0])"
proof (cases "command_expired c now")
  case True
  then show ?thesis
    using assms all_online_cong [of "reset_motion_state c" c now]
    by (simp add: chassis_step_def command_expired_def Let_def fold_slots_set reset_idem
        frame_simps zero_command_is_zero)
next
  case False
  then show ?thesis
    using assms all_online_cong [of "reset_motion_state c" c now]
    by (simp add: chassis_step_def command_expired_def Let_def fold_slots_set frame_simps)
qed

text \<open>A command, but a motor is offline: targets and controllers reset, zero currents.\<close>

lemma step_offline:
  assumes "chassis_wf c" "length cur = 5" "\<not> command_expired c now"
    "\<not> command_is_zero (cc_command c)" "chassis_feedback_all_online c now = 0"
  shows "chassis_step u c now dt cur =
    (c\<lparr>cc_target_rpm := on_motors (\<lambda>_. 0) (cc_target_rpm (update_targets_from_command c)),
       cc_pid := on_motors pid_reset (cc_pid c)\<rparr>, 0, [0, 0, 0, 0, 0])"
proof -
  let ?d = "update_targets_from_command c"
  have "chassis_wf ?d" using assms(1) by simp
  then have "fold reset_target motors ?d =
      ?d\<lparr>cc_target_rpm := on_motors (\<lambda>_. 0) (cc_target_rpm ?d), cc_pid := on_motors pid_reset (cc_pid ?d)\<rparr>"
    by (simp add: fold_reset_target fold_motors_set chassis_wf_def)
  also have "\<dots> = c\<lparr>cc_target_rpm := on_motors (\<lambda>_. 0) (cc_target_rpm ?d),
       cc_pid := on_motors pid_reset (cc_pid c)\<rparr>"
    by (simp add: update_targets_from_command_def Let_def)
  finally show ?thesis
    using assms all_online_cong [of ?d c now]
    by (simp add: chassis_step_def command_expired_def Let_def fold_slots_set frame_simps)
qed

text \<open>The closed loop runs.\<close>

lemma step_drive:
  fixes c dt defines "d \<equiv> update_targets_from_command c"
  assumes "chassis_wf c" "length cur = 5" "\<not> command_expired c now"
    "\<not> command_is_zero (cc_command c)" "chassis_feedback_all_online c now = 1"
  shows "chassis_step u c now dt cur =
    (d\<lparr>cc_pid := [cc_pid d ! 0, fst (motor_result d dt 1), fst (motor_result d dt 2),
        fst (motor_result d dt 3), fst (motor_result d dt 4)]\<rparr>, 1,
     [0, motor_current u d dt 1, motor_current u d dt 2, motor_current u d dt 3,
      motor_current u d dt 4])"
proof -
  have "chassis_wf d" using assms(2) by (simp add: d_def)
  then show ?thesis
    using assms(2-) all_online_cong [of d c now] unfolding d_def
    by (simp add: chassis_step_def command_expired_def Let_def fold_slots_set frame_simps
        fold_drive_motor)
qed

lemma step_cases:
  assumes "chassis_wf c" "length cur = 5"
  obtains (idle) "command_expired c now \<or> command_is_zero (cc_command c)"
  | (offline) "\<not> command_expired c now" "\<not> command_is_zero (cc_command c)"
      "chassis_feedback_all_online c now = 0"
  | (drive) "\<not> command_expired c now" "\<not> command_is_zero (cc_command c)"
      "chassis_feedback_all_online c now = 1"
  using all_online_01 [of c now] by blast

section \<open>Wheel targets stay bounded\<close>

lemma lit_1: "f32_lit 1 = Fin False 1"
  using f32_lit_int [of 1] by simp

lemma clamp_float_NaN [simp]: "clamp_float NaN a b = NaN"
  by (simp add: clamp_float_def)

lemma clamp_unit:
  assumes "v \<noteq> NaN" shows "fbnd 1 (clamp_float v (- f32_lit 1) (f32_lit 1))"
  using assms by (cases v) (auto simp: clamp_float_def lit_1)

lemma clamp_unit_id: "fbnd 1 v \<Longrightarrow> clamp_float v (- f32_lit 1) (f32_lit 1) = v"
  by (cases v) (auto simp: clamp_float_def lit_1)

lemma abs_float_fin:
  assumes "fbnd b x" shows "fbnd b (abs_float x)" "fval (abs_float x) = \<bar>fval x\<bar>"
  using assms by (cases x; auto simp: abs_float_def zero_f32_def)+

definition motors_fbnd :: "rat \<Rightarrow> f32 list \<Rightarrow> bool" where
  "motors_fbnd b t \<longleftrightarrow> (\<forall>i\<in>{1, 2, 3, 4}. fbnd b (t ! i))"

lemma motors_fbndD: "motors_fbnd b t \<Longrightarrow> i \<in> {1, 2, 3, 4} \<Longrightarrow> fbnd b (t ! i)"
  by (auto simp: motors_fbnd_def)

lemma peak_step:
  assumes "fbnd b p" "fbnd b x"
  defines "r \<equiv> (if p < abs_float x then abs_float x else p)"
  shows "fbnd b r \<and> fval p \<le> fval r \<and> \<bar>fval x\<bar> \<le> fval r"
  using assms(1,2) abs_float_fin [OF assms(2)] fbnd_less [of b p b "abs_float x"]
  by (auto simp: r_def)

lemma peak_target_bounds:
  assumes "motors_fbnd b t"
  shows "fbnd b (peak_target t) \<and> (\<forall>i\<in>{1, 2, 3, 4}. \<bar>fval (t ! i)\<bar> \<le> fval (peak_target t))"
proof -
  let ?g = "\<lambda>p x. if p < abs_float x then abs_float x else p"
  define p1 where "p1 = abs_float (t ! 1)"
  define p2 where "p2 = ?g p1 (t ! 2)"
  define p3 where "p3 = ?g p2 (t ! 3)"
  define p4 where "p4 = ?g p3 (t ! 4)"
  have t: "fbnd b (t ! 1)" "fbnd b (t ! 2)" "fbnd b (t ! 3)" "fbnd b (t ! 4)"
    using assms by (auto simp: motors_fbnd_def)
  have 1: "fbnd b p1" "fval p1 = \<bar>fval (t ! 1)\<bar>"
    unfolding p1_def using abs_float_fin [OF t(1)] by auto
  have 2: "fbnd b p2 \<and> fval p1 \<le> fval p2 \<and> \<bar>fval (t ! 2)\<bar> \<le> fval p2"
    unfolding p2_def by (rule peak_step [OF 1(1) t(2)])
  have 3: "fbnd b p3 \<and> fval p2 \<le> fval p3 \<and> \<bar>fval (t ! 3)\<bar> \<le> fval p3"
    unfolding p3_def using 2 t(3) by (intro peak_step) auto
  have 4: "fbnd b p4 \<and> fval p3 \<le> fval p4 \<and> \<bar>fval (t ! 4)\<bar> \<le> fval p4"
    unfolding p4_def using 3 t(4) by (intro peak_step) auto
  have "[2..<CHASSIS_MOTOR_COUNT + 1] = [2, 3, 4]" by (simp add: CHASSIS_MOTOR_COUNT_def upt_rec)
  then have "peak_target t = p4"
    by (simp add: peak_target_def p4_def p3_def p2_def p1_def Let_def)
  with 1 2 3 4 show ?thesis by auto
qed

definition config_ok :: "ChassisConfig \<Rightarrow> bool" where
  "config_ok cfg \<longleftrightarrow>
     fbnd (2 ^ 15) (max_translate_rpm cfg) \<and> 0 \<le> fval (max_translate_rpm cfg) \<and>
     fbnd (2 ^ 15) (max_rotate_rpm cfg)"

lemma normalize_nth:
  assumes "length t = 5" "i \<in> {1, 2, 3, 4}"
  shows "normalize_wheel_targets t m ! i =
    (if m < peak_target t \<and> 0 < peak_target t then t ! i * (m / peak_target t) else t ! i)"
  using assms fold_motors_set(2) [OF assms(1), of "\<lambda>x. x * (m / peak_target t)"]
  by (simp add: normalize_wheel_targets_def Let_def)

lemma scale_bounds:
  assumes "motors_fbnd (2 ^ 17) t" "fbnd (2 ^ 15) m" "0 \<le> fval m" "m < peak_target t"
  defines "p \<equiv> peak_target t"
  shows "fbnd 1 (m / p)" "fval (m / p) = round32 (fval m / fval p)" "fval m < fval p" "fval p \<le> 2 ^ 17"
proof -
  have pb: "fbnd (2 ^ 17) p" using peak_target_bounds [OF assms(1)] by (simp add: p_def)
  show lt: "fval m < fval p"
    using fbnd_less [OF assms(2) pb] assms(4) by (simp add: p_def)
  show "fval p \<le> 2 ^ 17" using fbnd_fval [OF pb] by linarith
  obtain s where ps: "p = Fin s (fval p)" using pb by (cases p) auto
  have mb: "fbnd (fval m) m" using assms(2,3) by (cases m) auto
  have cap: "f32_cap 1" using f32_cap_int [of 1] by simp
  have b: "0 < fval p" "fval m / fval p \<le> 1" using lt assms(3) by auto
  show "fbnd 1 (m / p)" by (rule fbnd_div(1) [OF mb ps b(1) abs_ge_self b(2) cap])
  show "fval (m / p) = round32 (fval m / fval p)"
    by (rule fbnd_div(2) [OF mb ps b(1) abs_ge_self b(2) cap])
qed

lemma normalize_fbnd:
  assumes "length t = 5" "motors_fbnd (2 ^ 17) t" "fbnd (2 ^ 15) m" "0 \<le> fval m"
  shows "motors_fbnd (2 ^ 17) (normalize_wheel_targets t m)"
proof (unfold motors_fbnd_def, rule ballI)
  fix i :: nat assume i: "i \<in> {1, 2, 3, 4}"
  have ti: "fbnd (2 ^ 17) (t ! i)" using assms(2) i by (rule motors_fbndD)
  show "fbnd (2 ^ 17) (normalize_wheel_targets t m ! i)"
  proof (cases "m < peak_target t \<and> 0 < peak_target t")
    case True
    then have "fbnd 1 (m / peak_target t)" using scale_bounds(1) [OF assms(2-4)] by blast
    then have "fbnd (2 ^ 17) (t ! i * (m / peak_target t))"
      by (rule fbnd_mult(1) [OF ti]) (simp, rule f32_cap_power, simp)
    then show ?thesis using True by (simp add: normalize_nth [OF assms(1) i])
  next
    case False
    with ti show ?thesis unfolding normalize_nth [OF assms(1) i] if_not_P [OF False] by simp
  qed
qed

text \<open>Up to the last bits, no wheel target exceeds the configured maximum.\<close>

lemma normalize_tight:
  assumes "length t = 5" "motors_fbnd (2 ^ 17) t" "fbnd (2 ^ 15) m" "1 \<le> fval m" "i \<in> {1, 2, 3, 4}"
  shows "\<bar>fval (normalize_wheel_targets t m ! i)\<bar> \<le> fval m * (1 + pow2 (- 22))"
proof (cases "m < peak_target t \<and> 0 < peak_target t")
  case False
  have pk: "fbnd (2 ^ 17) (peak_target t)" "\<bar>fval (t ! i)\<bar> \<le> fval (peak_target t)"
    using peak_target_bounds [OF assms(2)] assms(5) by auto
  have "fval (peak_target t) \<le> fval m"
    using False fbnd_less [OF assms(3) pk(1)] fbnd_less [of 0 0 "2 ^ 17" "peak_target t"] pk assms(4)
    by auto
  moreover have "fval m * 1 \<le> fval m * (1 + pow2 (- 22))" using assms(4) by (intro mult_left_mono) simp_all
  ultimately show ?thesis using pk(2)
    unfolding normalize_nth [OF assms(1,5)] if_not_P [OF False] by linarith
next
  case True
  let ?M = "fval m" and ?p = "fval (peak_target t)" and ?x = "fval (t ! i)"
  have M0: "0 \<le> ?M" using assms(4) by simp
  note sc = scale_bounds [OF assms(2,3) M0 conjunct1 [OF True]]
  have x: "\<bar>?x\<bar> \<le> ?p" using peak_target_bounds [OF assms(2)] assms(5) by auto
  have p: "0 < ?p" using sc(3) M0 by simp
  have "fval (t ! i * (m / peak_target t)) = round32 (?x * round32 (?M / ?p))"
    unfolding sc(2) [symmetric]
    by (rule fbnd_mult(2) [OF motors_fbndD [OF assms(2,5)] sc(1), of "2 ^ 17"])
      (simp, rule f32_cap_power, simp)
  then have v: "fval (normalize_wheel_targets t m ! i) = round32 (?x * round32 (?M / ?p))"
    using True by (simp add: normalize_nth [OF assms(1,5)])
  have e24: "1 + pow2 (- 24) \<le> 2" by (simp add: pow2_def)
  have "pow2 (- 126) \<le> ?M / ?p"
  proof -
    have "pow2 (- 126) \<le> pow2 (- 17)" by simp
    also have "\<dots> = 1 / 2 ^ 17" by (simp add: pow2_def)
    also have "\<dots> \<le> ?M / ?p" using sc(4) p assms(4) by (intro frac_le) auto
    finally show ?thesis .
  qed
  then have r: "round32 (?M / ?p) \<le> ?M / ?p * (1 + pow2 (- 24))"
    using round32_rel_error [of "?M / ?p"] p M0 by (simp add: distrib_left abs_le_iff)
  have "\<bar>?x * round32 (?M / ?p)\<bar> \<le> ?p * (?M / ?p * (1 + pow2 (- 24)))"
    unfolding abs_mult using x r p M0 round32_nonneg [of "?M / ?p"] by (intro mult_mono) auto
  also have "\<dots> = ?M * (1 + pow2 (- 24))" using p by simp
  finally have q: "\<bar>?x * round32 (?M / ?p)\<bar> \<le> ?M * (1 + pow2 (- 24))" .
  let ?y = "?M * (1 + pow2 (- 24))"
  have y1: "1 \<le> ?y" using assms(4) by (simp add: pow2_def)
  have "\<bar>round32 (?x * round32 (?M / ?p))\<bar> \<le> round32 ?y"
    using round32_mono [of "?x * round32 (?M / ?p)" ?y] round32_mono [of "- ?y" "?x * round32 (?M / ?p)"] q
    by (auto simp: abs_le_iff round32_minus)
  also have "\<dots> \<le> ?y * (1 + pow2 (- 24))"
  proof -
    have "pow2 (- 126) \<le> pow2 0" by (subst pow2_le_iff) simp
    then have "pow2 (- 126) \<le> \<bar>?y\<bar>" using y1 by simp
    then show ?thesis using round32_rel_error [of ?y] y1 by (simp add: distrib_left abs_le_iff)
  qed
  also have "\<dots> \<le> ?M * (1 + pow2 (- 22))"
    unfolding mult.assoc using M0 by (intro mult_left_mono) (simp_all add: pow2_def)
  finally show ?thesis by (simp add: v)
qed

definition command_ok :: "ChassisCommand \<Rightarrow> bool" where
  "command_ok cmd \<longleftrightarrow> cmd_forward cmd \<noteq> NaN \<and> cmd_strafe cmd \<noteq> NaN \<and> cmd_rotate cmd \<noteq> NaN"

definition unit_clamp :: "f32 \<Rightarrow> f32" where
  "unit_clamp v = clamp_float v (- f32_lit 1) (f32_lit 1)"

lemma scaled_command:
  assumes "v \<noteq> NaN" "fbnd (2 ^ 15) m"
  shows "fbnd (2 ^ 15) (unit_clamp v * m)" "fval (unit_clamp v * m) = round32 (fval (unit_clamp v) * fval m)"
proof -
  have "fbnd 1 (unit_clamp v)" unfolding unit_clamp_def by (rule clamp_unit [OF assms(1)])
  then show "fbnd (2 ^ 15) (unit_clamp v * m)"
    by (rule fbnd_mult(1) [OF _ assms(2)]) (simp, rule f32_cap_power, simp)
  show "fval (unit_clamp v * m) = round32 (fval (unit_clamp v) * fval m)"
    by (rule fbnd_mult(2) [OF \<open>fbnd 1 (unit_clamp v)\<close> assms(2), of "2 ^ 15"]) (simp, rule f32_cap_power, simp)
qed

lemma wheel_targets_fbnd:
  assumes "length t = 5" "fbnd (2 ^ 15) f" "fbnd (2 ^ 15) s" "fbnd (2 ^ 15) r"
  shows "motors_fbnd (2 ^ 17) (wheel_targets f s r t)" "length (wheel_targets f s r t) = 5"
proof -
  have a: "fbnd (2 ^ 16) (f + s)"
    by (rule fbnd_add(1) [OF assms(2,3)]) (simp, rule f32_cap_power, simp)
  have b: "fbnd (2 ^ 16) (f - s)"
    by (rule fbnd_sub(1) [OF assms(2,3)]) (simp, rule f32_cap_power, simp)
  have c: "fbnd (2 ^ 17) (x - r)" if "fbnd (2 ^ 16) x" for x
    by (rule fbnd_sub(1) [OF that assms(4)]) (simp, rule f32_cap_power, simp)
  have "fbnd (2 ^ 17) (- (f + s) - r)" "fbnd (2 ^ 17) (- (f - s) - r)"
    "fbnd (2 ^ 17) (f - s - r)" "fbnd (2 ^ 17) (f + s - r)"
    using a b by (auto intro!: c simp only: fbnd_minus)
  then show "motors_fbnd (2 ^ 17) (wheel_targets f s r t)"
    using assms(1) by (auto simp add: motors_fbnd_def wheel_targets_def simp del: power_numeral)
qed (use assms in \<open>simp add: wheel_targets_def\<close>)

text \<open>The wheel targets of a step, before normalisation.\<close>

definition raw_targets :: "ChassisController \<Rightarrow> f32 list" where
  "raw_targets c = wheel_targets
     (- unit_clamp (cmd_forward (cc_command c)) * max_translate_rpm (cc_config c))
     (unit_clamp (cmd_strafe (cc_command c)) * max_translate_rpm (cc_config c))
     (unit_clamp (cmd_rotate (cc_command c)) * max_rotate_rpm (cc_config c)) (cc_target_rpm c)"

lemma update_targets_eq:
  "update_targets_from_command c =
     c\<lparr>cc_target_rpm := normalize_wheel_targets (raw_targets c) (max_translate_rpm (cc_config c))\<rparr>"
  by (simp add: update_targets_from_command_def raw_targets_def unit_clamp_def Let_def)

lemma unit_clamp_minus_NaN [simp]: "unit_clamp v = NaN \<longleftrightarrow> v = NaN"
  using clamp_unit [of v] fbnd_not_NaN by (auto simp: unit_clamp_def)

lemma raw_targets_fbnd:
  assumes "chassis_wf c" "command_ok (cc_command c)" "config_ok (cc_config c)"
  shows "motors_fbnd (2 ^ 17) (raw_targets c)" "length (raw_targets c) = 5"
proof -
  let ?cmd = "cc_command c" and ?cfg = "cc_config c"
  have m: "fbnd (2 ^ 15) (max_translate_rpm ?cfg)" "fbnd (2 ^ 15) (max_rotate_rpm ?cfg)"
    using assms(3) unfolding config_ok_def by blast+
  have n: "cmd_forward ?cmd \<noteq> NaN" "cmd_strafe ?cmd \<noteq> NaN" "cmd_rotate ?cmd \<noteq> NaN"
    using assms(2) by (auto simp: command_ok_def)
  have "fbnd 1 (- unit_clamp (cmd_forward ?cmd))"
    using clamp_unit [OF n(1)] by (simp add: unit_clamp_def)
  then have f: "fbnd (2 ^ 15) (- unit_clamp (cmd_forward ?cmd) * max_translate_rpm ?cfg)"
    by (rule fbnd_mult(1) [OF _ m(1)]) (simp, rule f32_cap_power, simp)
  have "length (cc_target_rpm c) = 5" using assms(1) by (simp add: chassis_wf_def)
  from wheel_targets_fbnd [OF this f scaled_command(1) [OF n(2) m(1)] scaled_command(1) [OF n(3) m(2)]]
  show "motors_fbnd (2 ^ 17) (raw_targets c)" "length (raw_targets c) = 5"
    unfolding raw_targets_def by blast+
qed

lemma update_targets_fbnd:
  assumes "chassis_wf c" "command_ok (cc_command c)" "config_ok (cc_config c)"
  shows "motors_fbnd (2 ^ 17) (cc_target_rpm (update_targets_from_command c))"
  using normalize_fbnd [OF raw_targets_fbnd(2,1) [OF assms]] assms(3)
  by (simp add: update_targets_eq config_ok_def)

section \<open>The invariant of a running chassis\<close>

definition chassis_ok :: "ChassisController \<Rightarrow> bool" where
  "chassis_ok c \<longleftrightarrow> chassis_wf c \<and> command_ok (cc_command c) \<and> config_ok (cc_config c) \<and>
     (\<forall>i\<in>{1, 2, 3, 4}. drive_ok (cc_pid c ! i))"

lemma i16_fbnd: "fbnd (2 ^ 15) (f32_of_int (sint (w :: i16)))"
proof -
  have "- (2 ^ 15) \<le> sint w" "sint w < 2 ^ 15"
    using sint_greater_eq [of w] sint_lt [of w] by simp_all
  then have "\<bar>sint w\<bar> \<le> 2 ^ 15" "\<bar>sint w\<bar> < 2 ^ 24" by auto
  moreover from this(1) have "of_int \<bar>sint w\<bar> \<le> (of_int (2 ^ 15) :: rat)" by (simp only: of_int_le_iff)
  ultimately show ?thesis by (simp add: f32_of_int_exact)
qed

lemma chassis_wfI: "chassis_ok c \<Longrightarrow> chassis_wf c"
  by (simp add: chassis_ok_def)

lemma motor_result_ok:
  assumes "chassis_ok c" "motors_fbnd (2 ^ 17) (cc_target_rpm c)" "dt_ok dt" "i \<in> {1, 2, 3, 4}"
  shows "drive_ok (fst (motor_result c dt i))" "\<bar>sint (motor_current u c dt i)\<bar> \<le> 6500"
proof -
  have d: "drive_ok (cc_pid c ! i)" using assms(1,4) by (auto simp: chassis_ok_def)
  have t: "fbnd (2 ^ 18) (cc_target_rpm c ! i)"
    by (rule fbnd_mono [OF motors_fbndD [OF assms(2,4)]]) simp
  have a: "fbnd (2 ^ 18) (f32_of_int (sint (fb_speed_rpm (cc_feedback c ! i))))"
    by (rule fbnd_mono [OF i16_fbnd]) simp
  show "drive_ok (fst (motor_result c dt i))"
    unfolding motor_result_def by (rule drive.calc_ok [OF d t a assms(3)])
  show "\<bar>sint (motor_current u c dt i)\<bar> \<le> 6500"
    unfolding motor_current_def motor_result_def by (rule drive.command_bound [OF d t a assms(3)])
qed

lemma reset_motion_ok:
  assumes "chassis_ok c" shows "chassis_ok (reset_motion_state c)"
proof -
  have wf: "chassis_wf c" using assms by (rule chassis_wfI)
  have "\<forall>i\<in>{1, 2, 3, 4}. drive_ok (cc_pid (reset_motion_state c) ! i)"
  proof
    fix i :: nat assume i: "i \<in> {1, 2, 3, 4}"
    then have "drive_ok (cc_pid c ! i)" using assms by (auto simp: chassis_ok_def)
    then show "drive_ok (cc_pid (reset_motion_state c) ! i)"
      using i by (simp add: reset_motion_state_eq [OF wf] drive_ok_reset del: insert_iff)
  qed
  then show ?thesis
    using assms wf by (simp add: chassis_ok_def frame_simps command_ok_def zero_command_def)
qed

lemma step_drive_ok:
  assumes "chassis_ok c" "dt_ok dt"
  defines "d \<equiv> update_targets_from_command c"
  shows "chassis_ok d" "motors_fbnd (2 ^ 17) (cc_target_rpm d)"
    "chassis_ok (d\<lparr>cc_pid := [cc_pid d ! 0, fst (motor_result d dt 1), fst (motor_result d dt 2),
        fst (motor_result d dt 3), fst (motor_result d dt 4)]\<rparr>)"
proof -
  show d: "chassis_ok d" using assms(1) by (simp add: chassis_ok_def d_def frame_simps)
  show t: "motors_fbnd (2 ^ 17) (cc_target_rpm d)"
    unfolding d_def using assms(1) by (intro update_targets_fbnd) (simp_all add: chassis_ok_def)
  have "\<forall>i\<in>{1, 2, 3, 4}. drive_ok (fst (motor_result d dt i))"
    using motor_result_ok(1) [OF d t assms(2)] by blast
  then show "chassis_ok (d\<lparr>cc_pid := [cc_pid d ! 0, fst (motor_result d dt 1),
      fst (motor_result d dt 2), fst (motor_result d dt 3), fst (motor_result d dt 4)]\<rparr>)"
    using d by (simp add: chassis_ok_def chassis_wf_def numeral_eq_Suc)
qed

lemma chassis_step_ok:
  assumes "chassis_ok c" "dt_ok dt" "length cur = 5" "chassis_step u c now dt cur = (c', r, cur')"
  shows "chassis_ok c' \<and> length cur' = 5 \<and> (\<forall>x\<in>set cur'. \<bar>sint x\<bar> \<le> 6500)"
proof -
  have wf: "chassis_wf c" using assms(1) by (rule chassis_wfI)
  show ?thesis
    using wf assms(3)
  proof (cases rule: step_cases [where now = now])
    case idle
    then show ?thesis
      using assms reset_motion_ok by (simp add: step_idle [OF wf assms(3)]) force
  next
    case offline
    let ?t = "cc_target_rpm (update_targets_from_command c)"
    have "chassis_ok (c\<lparr>cc_target_rpm := on_motors (\<lambda>_. 0) ?t, cc_pid := on_motors pid_reset (cc_pid c)\<rparr>)"
      using assms(1) by (auto simp: chassis_ok_def chassis_wf_def drive_ok_reset)
    then show ?thesis
      using assms step_offline [OF wf assms(3) offline] by force
  next
    case drive
    let ?d = "update_targets_from_command c"
    note d = step_drive_ok [OF assms(1,2)]
    have m: "\<bar>sint (motor_current u ?d dt i)\<bar> \<le> 6500" if "i \<in> {1, 2, 3, 4}" for i
      by (rule motor_result_ok(2) [OF d(1,2) assms(2) that])
    have "c' = ?d\<lparr>cc_pid := [cc_pid ?d ! 0, fst (motor_result ?d dt 1), fst (motor_result ?d dt 2),
        fst (motor_result ?d dt 3), fst (motor_result ?d dt 4)]\<rparr>"
      and cur: "cur' = [0, motor_current u ?d dt 1, motor_current u ?d dt 2,
        motor_current u ?d dt 3, motor_current u ?d dt 4]"
      using assms(4) unfolding step_drive [OF wf assms(3) drive] prod.inject by blast+
    then have "chassis_ok c'" using d(3) by simp
    moreover have "\<forall>x\<in>set cur'. \<bar>sint x\<bar> \<le> 6500"
      unfolding cur using m by simp
    ultimately show ?thesis by (simp add: cur)
  qed
qed

end
