(* ===== verification/ChassisProps.thy ===== *)
theory ChassisProps
  imports Chassis
begin

text \<open>
  The properties of the chassis controller: what it can command, when it lets the robot move,
  what makes it stop, and what a NaN command does.
\<close>

section \<open>Initialisation\<close>

lemma fbnd_lit: "\<bar>q\<bar> \<le> of_int n \<Longrightarrow> \<bar>n\<bar> < 2 ^ 24 \<Longrightarrow> fbnd (of_int n) (f32_lit q)"
  unfolding f32_lit_def by (rule fbnd_round(1)) (simp_all add: f32_cap_int)

lemma default_config_ok: "config_ok chassis_default_config"
  using f32_lit_int [of 500] f32_lit_int [of 400]
  by (simp add: config_ok_def chassis_default_config_def)

definition init_pid :: "rat \<Rightarrow> PIDController \<Rightarrow> PIDController" where
  "init_pid g p = pid_init p (f32_lit 2) (f32_lit g) 0
     (f32_lit 6500) (- f32_lit 6500) (f32_lit 2500) (- f32_lit 2500)"

lemma chassis_init_eq:
  assumes "chassis_wf c"
  shows "chassis_init c config now =
    \<lparr>cc_config = (case config of None \<Rightarrow> chassis_default_config | Some cfg \<Rightarrow> cfg),
     cc_pid = [cc_pid c ! 0, init_pid (35 / 100) (cc_pid c ! 1), init_pid (30 / 100) (cc_pid c ! 2),
       init_pid (40 / 100) (cc_pid c ! 3), init_pid (60 / 100) (cc_pid c ! 4)],
     cc_feedback = map (\<lambda>i. (cc_feedback c ! i)\<lparr>fb_id := of_nat i, fb_online := 0\<rparr>) [0, 1, 2, 3, 4],
     cc_target_rpm = [0, 0, 0, 0, 0], cc_command = zero_command, cc_last_command_ms = now\<rparr>"
proof -
  obtain cfg p0 p1 p2 p3 p4 f0 f1 f2 f3 f4 t0 t1 t2 t3 t4 cmd l where
    c: "c = \<lparr>cc_config = cfg, cc_pid = [p0, p1, p2, p3, p4], cc_feedback = [f0, f1, f2, f3, f4],
       cc_target_rpm = [t0, t1, t2, t3, t4], cc_command = cmd, cc_last_command_ms = l\<rparr>"
    using assms by (rule chassis_wf_explicit)
  show ?thesis
    by (simp add: c chassis_init_def chassis_init_slot_def chassis_init_pid_def init_pid_def motors_list
        CHASSIS_PID_OUTPUT_LIMIT_def CHASSIS_PID_INTEGRAL_LIMIT_def Let_def numeral_eq_Suc)
qed

lemma init_pid_ok: "\<bar>g\<bar> \<le> 16 \<Longrightarrow> drive_ok (init_pid g p)"
  using fbnd_lit [of 2 16] fbnd_lit [of g 16]
  by (simp add: init_pid_def pid_init_def drive_ok_def pid_fin_def pid_integral_ok_def
      lit_limits zero_f32_def)

lemma chassis_init_ok:
  assumes "chassis_wf c" "config = None \<or> (\<exists>cfg. config = Some cfg \<and> config_ok cfg)"
  shows "chassis_ok (chassis_init c config now)"
  using assms init_pid_ok [of "35 / 100"] init_pid_ok [of "30 / 100"] init_pid_ok [of "40 / 100"]
    init_pid_ok [of "60 / 100"] default_config_ok
  by (auto simp: chassis_init_eq [OF assms(1)] chassis_ok_def chassis_wf_def command_ok_def
      zero_command_def numeral_eq_Suc)

section \<open>Runs of the controller\<close>

text \<open>
  The states a program can bring a controller into: set up by \<open>chassis_init\<close> on whatever the
  variable held, then any commands that are not NaN, any feedback, any stops and any steps.
\<close>

inductive chassis_reach :: "(f32 \<Rightarrow> int) \<Rightarrow> ChassisController \<Rightarrow> bool" for u where
  reach_init: "chassis_wf c \<Longrightarrow> config = None \<or> (\<exists>cfg. config = Some cfg \<and> config_ok cfg) \<Longrightarrow>
     chassis_reach u (chassis_init c config now)"
| reach_command: "chassis_reach u c \<Longrightarrow> f \<noteq> NaN \<Longrightarrow> s \<noteq> NaN \<Longrightarrow> r \<noteq> NaN \<Longrightarrow>
     chassis_reach u (chassis_set_command c f s r now)"
| reach_stop: "chassis_reach u c \<Longrightarrow> chassis_reach u (chassis_stop c now)"
| reach_feedback: "chassis_reach u c \<Longrightarrow> chassis_reach u (chassis_update_feedback c fb)"
| reach_step: "chassis_reach u c \<Longrightarrow> dt_ok dt \<Longrightarrow> length cur = 5 \<Longrightarrow>
     chassis_step u c now dt cur = (c', r, cur') \<Longrightarrow> chassis_reach u c'"

lemma set_command_ok:
  assumes "chassis_ok c" "f \<noteq> NaN" "s \<noteq> NaN" "r \<noteq> NaN"
  shows "chassis_ok (chassis_set_command c f s r now)"
  using assms clamp_unit [of f] clamp_unit [of s] clamp_unit [of r]
  by (auto simp: chassis_ok_def chassis_set_command_def command_ok_def chassis_wf_def dest: fbnd_not_NaN)

lemma update_feedback_ok: "chassis_ok c \<Longrightarrow> chassis_ok (chassis_update_feedback c fb)"
  by (simp add: chassis_ok_def chassis_update_feedback_def chassis_wf_def)

lemma stop_ok: "chassis_ok c \<Longrightarrow> chassis_ok (chassis_stop c now)"
  unfolding chassis_stop_def by (rule reset_motion_ok) (simp add: chassis_ok_def chassis_wf_def)

lemma reach_ok: "chassis_reach u c \<Longrightarrow> chassis_ok c"
proof (induction rule: chassis_reach.induct)
  case (reach_init c config now)
  then show ?case by (rule chassis_init_ok)
next
  case (reach_step c dt cur now c' r cur')
  then show ?case using chassis_step_ok by blast
qed (simp_all add: set_command_ok stop_ok update_feedback_ok)

text \<open>A controller for the witnesses: set up with the default configuration, every motor
  heard from at time 1000.\<close>

definition demo_fb :: "nat \<Rightarrow> Motor3508Feedback" where
  "demo_fb i = \<lparr>fb_id = of_nat i, fb_angle = 0, fb_speed_rpm = 0, fb_current = 0,
     fb_temperature = 20, fb_last_update_ms = 1000, fb_online = 1\<rparr>"

definition demo_blank :: ChassisController where
  "demo_blank = \<lparr>cc_config = chassis_default_config, cc_pid = replicate 5 demo_pid,
     cc_feedback = replicate 5 fb_zero, cc_target_rpm = replicate 5 NaN,
     cc_command = zero_command, cc_last_command_ms = 0\<rparr>"

definition demo_chassis :: ChassisController where
  "demo_chassis = (chassis_init demo_blank None 1000)
     \<lparr>cc_feedback := map demo_fb [0, 1, 2, 3, 4]\<rparr>"

lemma demo_blank_wf: "chassis_wf demo_blank"
  by (simp add: chassis_wf_def demo_blank_def)

lemma demo_chassis_ok: "chassis_ok demo_chassis"
  using chassis_init_ok [OF demo_blank_wf, of None 1000]
  by (simp add: demo_chassis_def chassis_ok_def chassis_wf_def)

lemma demo_chassis_fields:
  "cc_config demo_chassis = chassis_default_config" "cc_last_command_ms demo_chassis = 1000"
  "cc_feedback demo_chassis = map demo_fb [0, 1, 2, 3, 4]"
  by (simp_all add: demo_chassis_def chassis_init_eq [OF demo_blank_wf])

lemma f32_of_u64_0 [simp]: "f32_of_u64 0 = 0"
  using f32_of_int_exact [of 0] by (simp add: f32_of_u64_def zero_f32_def)

lemma default_timeouts_nonneg:
  "\<not> command_timeout_ms chassis_default_config < 0" "\<not> feedback_timeout_ms chassis_default_config < 0"
  using f32_lit_int [of 300] f32_lit_int [of 250]
  by (simp_all add: chassis_default_config_def zero_f32_def)

lemma demo_chassis_online: "chassis_feedback_all_online demo_chassis 1000 = 1"
  by (simp add: all_online_iff motor_online_def demo_chassis_fields demo_fb_def elapsed_ms_def
      default_timeouts_nonneg numeral_eq_Suc Let_def)

section \<open>Properties\<close>

text \<open>C1. Take any sequence of commands, stops, feedback and steps after
  \<open>chassis_init\<close>, in any order, under three conditions: the configuration is the default one
  (\<open>NULL\<close>) or satisfies \<open>config_ok\<close> (speed limits of at most 32768 rpm, none of them NaN), no
  command is a NaN, and every time step satisfies \<open>dt_ok\<close> (not positive, or between 1/1024 s and
  \<open>2 ^ 64\<close> s). Then a step commands no motor more than 6500 in either direction, slot 0 included,
  and leaves the controller in a state the same holds of again. Without the conditions a current
  can be the unspecified conversion of a NaN.\<close>

theorem chassis_currents_bounded:
  assumes "chassis_reach u c" "dt_ok dt" "length cur = 5"
    "chassis_step u c now dt cur = (c', r, cur')"
  shows "chassis_reach u c' \<and> length cur' = 5 \<and> (\<forall>x\<in>set cur'. \<bar>sint x\<bar> \<le> 6500)"
  using chassis_step_ok [OF reach_ok [OF assms(1)] assms(2-4)] chassis_reach.reach_step [OF assms]
  by simp

lemma chassis_currents_bounded_witness:
  "list_all (\<lambda>x. \<bar>sint x\<bar> \<le> 6500)
     (snd (snd (chassis_step (\<lambda>_. 0) (chassis_init demo_blank None 7) 8 0 [1, 2, 3, 4, 5])))"
proof -
  have "chassis_reach (\<lambda>_. 0) (chassis_init demo_blank None 7)"
    by (rule chassis_reach.reach_init [OF demo_blank_wf]) simp
  then show ?thesis
    using chassis_currents_bounded [where u = "\<lambda>_. 0" and c = "chassis_init demo_blank None 7" and
        dt = 0 and cur = "[1, 2, 3, 4, 5]" and now = 8]
    by (cases "chassis_step (\<lambda>_. 0) (chassis_init demo_blank None 7) 8 0 [1, 2, 3, 4, 5]")
      (auto simp: dt_ok_def zero_f32_def list_all_iff)
qed

lemma nan_step:
  assumes "chassis_wf c" "length cur = 5" "\<not> command_timeout_ms (cc_config c) < 0"
    "chassis_feedback_all_online c now = 1"
  shows "snd (chassis_step u (chassis_set_command c NaN s r now) now dt cur) =
    (1, [0, to_i16 (u NaN), to_i16 (u NaN), to_i16 (u NaN), to_i16 (u NaN)])"
proof -
  define d where "d = chassis_set_command c NaN s r now"
  have d: "chassis_wf d" "cc_config d = cc_config c" "cc_feedback d = cc_feedback c"
    "cmd_forward (cc_command d) = NaN" "cc_last_command_ms d = now"
    using assms(1) by (simp_all add: d_def chassis_set_command_def chassis_wf_def)
  have "\<not> command_expired d now" using assms(3) d by (simp add: command_expired_def elapsed_ms_def)
  moreover have "\<not> command_is_zero (cc_command d)"
    by (simp add: command_is_zero_def d(4) abs_float_def)
  moreover have "chassis_feedback_all_online d now = 1"
    using assms(4) all_online_cong [of d c now] d by simp
  ultimately have step: "snd (chassis_step u d now dt cur) =
      (1, [0, motor_current u (update_targets_from_command d) dt 1,
        motor_current u (update_targets_from_command d) dt 2,
        motor_current u (update_targets_from_command d) dt 3,
        motor_current u (update_targets_from_command d) dt 4])"
    using step_drive [OF d(1) assms(2), of now u dt] by simp
  obtain t0 t1 t2 t3 t4 where t: "cc_target_rpm d = [t0, t1, t2, t3, t4]"
    using d(1) len5 [of "cc_target_rpm d"] by (auto simp: chassis_wf_def)
  have raw: "raw_targets d = [t0, NaN, NaN, NaN, NaN]"
    using clamp_float_NaN by (simp add: raw_targets_def wheel_targets_def t d(4) unit_clamp_def)
  have "\<not> m < peak_target (raw_targets d)" for m
    by (simp add: peak_target_def raw CHASSIS_MOTOR_COUNT_def upt_rec abs_float_def Let_def)
  then have "cc_target_rpm (update_targets_from_command d) = [t0, NaN, NaN, NaN, NaN]"
    by (simp add: update_targets_eq normalize_wheel_targets_def raw Let_def)
  then have "motor_current u (update_targets_from_command d) dt i = to_i16 (u NaN)"
    if "i \<in> {1, 2, 3, 4}" for i
    using that by (auto simp: motor_current_def motor_result_def pid_calculate_out pid_out_def)
  with step show ?thesis unfolding d_def by simp
qed

text \<open>C6. A step makes a motor move only if the last command is recent
  and not zero and every motor reported within its timeout; then and only then can a current
  be non-zero. No assumption is made on the controller's numbers.\<close>

theorem motion_needs_permission:
  assumes "chassis_wf c" "length cur = 5" "chassis_step u c now dt cur = (c', r, cur')"
    "x \<in> set cur'" "x \<noteq> 0"
  shows "r = 1 \<and>
    \<not> command_timeout_ms (cc_config c) < f32_of_u64 (elapsed_ms now (cc_last_command_ms c)) \<and>
    \<not> command_is_zero (cc_command c) \<and>
    (\<forall>i\<in>{1, 2, 3, 4}. fb_online (cc_feedback c ! i) \<noteq> 0 \<and>
       \<not> feedback_timeout_ms (cc_config c) <
         f32_of_u64 (elapsed_ms now (fb_last_update_ms (cc_feedback c ! i))))"
  using assms(1,2)
proof (cases rule: step_cases [where now = now])
  case idle
  then show ?thesis using assms step_idle [OF assms(1,2), of now u dt] by auto
next
  case offline
  then show ?thesis using assms step_offline [OF assms(1,2) offline, of u dt] by auto
next
  case drive
  then have "r = 1" using assms(3) step_drive [OF assms(1,2) drive, of u dt] by simp
  with drive show ?thesis
    by (simp add: all_online_iff motor_online_def command_expired_def Let_def)
qed

lemma demo_forward_not_idle:
  "\<not> command_is_zero (cc_command (chassis_set_command demo_chassis (f32_lit 1) 0 0 1000))"
proof -
  have "\<not> f32_lit 1 < f32_lit (1 / 10000)" by code_simp
  then show ?thesis
    by (simp add: command_is_zero_def chassis_set_command_def clamp_float_def abs_float_def lit_1 zero_f32_def)
qed

lemma motion_needs_permission_witness:
  "fst (snd (chassis_step (\<lambda>_. 12345) (chassis_set_command demo_chassis NaN 0 0 1000) 1000 0
     [0, 0, 0, 0, 0])) = 1 \<and>
   \<not> command_is_zero (cc_command (chassis_set_command demo_chassis NaN 0 0 1000))"
proof -
  let ?c = "chassis_set_command demo_chassis NaN 0 0 1000"
  have wf: "chassis_wf ?c"
    using chassis_wfI [OF demo_chassis_ok] by (simp add: chassis_wf_def chassis_set_command_def)
  obtain c' r cur' where step: "chassis_step (\<lambda>_. 12345) ?c 1000 0 [0, 0, 0, 0, 0] = (c', r, cur')"
    by (cases "chassis_step (\<lambda>_. 12345) ?c 1000 0 [0, 0, 0, 0, 0]") blast
  have "cur' = [0, 12345, 12345, 12345, 12345]"
    using nan_step [OF chassis_wfI [OF demo_chassis_ok], of "[0, 0, 0, 0, 0]" 1000 "\<lambda>_. 12345" 0 0 0]
      default_timeouts_nonneg demo_chassis_online step
    by (simp add: demo_chassis_fields to_i16_def)
  then show ?thesis
    using motion_needs_permission [OF wf _ step, of 12345] step by simp
qed

text \<open>In every branch the value \<open>chassis_step\<close> returns is exactly whether
  all four motors are online at \<open>now_ms\<close>.\<close>

theorem step_reports_online:
  assumes "chassis_wf c" "length cur = 5"
  shows "fst (snd (chassis_step u c now dt cur)) = chassis_feedback_all_online c now"
  using assms
proof (cases rule: step_cases [where now = now])
  case idle then show ?thesis by (simp add: step_idle [OF assms])
next
  case offline then show ?thesis by (simp add: step_offline [OF assms offline])
next
  case drive then show ?thesis by (simp add: step_drive [OF assms drive])
qed

lemma step_reports_online_witness:
  "fst (snd (chassis_step (\<lambda>_. 0) demo_chassis 1000 0 [0, 0, 0, 0, 0])) = 1"
  using step_reports_online [where c = demo_chassis and cur = "[0, 0, 0, 0, 0]" and now = 1000]
    chassis_wfI [OF demo_chassis_ok] demo_chassis_online
  by simp

text \<open>C17. When the command is older than the timeout, or is zero, a
  step sends four zero currents and forgets the motion: command, wheel targets and the whole
  state of the four controllers are reset, so nothing is left to wind up while standing.\<close>

theorem stale_or_zero_command_stops:
  assumes "chassis_wf c" "length cur = 5"
    "command_timeout_ms (cc_config c) < f32_of_u64 (elapsed_ms now (cc_last_command_ms c)) \<or>
     command_is_zero (cc_command c)"
  shows "chassis_step u c now dt cur =
    (c\<lparr>cc_command := \<lparr>cmd_forward = 0, cmd_strafe = 0, cmd_rotate = 0\<rparr>,
       cc_target_rpm := [cc_target_rpm c ! 0, 0, 0, 0, 0],
       cc_pid := [cc_pid c ! 0, pid_reset (cc_pid c ! 1), pid_reset (cc_pid c ! 2),
         pid_reset (cc_pid c ! 3), pid_reset (cc_pid c ! 4)]\<rparr>,
     chassis_feedback_all_online c now, [0, 0, 0, 0, 0])"
proof -
  have "command_expired c now \<or> command_is_zero (cc_command c)"
    using assms(3) by (simp add: command_expired_def)
  then show ?thesis
    unfolding step_idle [OF assms(1,2) \<open>command_expired c now \<or> _\<close>]
    by (simp add: reset_motion_state_eq [OF assms(1)] on_motors_def zero_command_def)
qed

lemma stale_or_zero_command_stops_witness:
  "snd (snd (chassis_step (\<lambda>_. 0) demo_chassis 1000 0 [9, 9, 9, 9, 9])) = [0, 0, 0, 0, 0]"
proof -
  have "command_is_zero (cc_command demo_chassis)"
    using zero_command_is_zero by (simp add: demo_chassis_def chassis_init_eq [OF demo_blank_wf])
  then show ?thesis
    using stale_or_zero_command_stops [OF chassis_wfI [OF demo_chassis_ok], of "[9, 9, 9, 9, 9]" 1000]
    by simp
qed

text \<open>C18. If one motor is silent for longer than the feedback timeout, a
  step under a live command still sends zero to all four, returns 0 and resets the targets and
  the controllers; the command itself is kept, so motion resumes by itself when the motor is
  back within the command timeout.\<close>

theorem offline_motor_stops_all:
  assumes "chassis_wf c" "length cur = 5"
    "\<not> command_timeout_ms (cc_config c) < f32_of_u64 (elapsed_ms now (cc_last_command_ms c))"
    "\<not> command_is_zero (cc_command c)"
    "i \<in> {1, 2, 3, 4}"
    "fb_online (cc_feedback c ! i) = 0 \<or>
     feedback_timeout_ms (cc_config c) <
       f32_of_u64 (elapsed_ms now (fb_last_update_ms (cc_feedback c ! i)))"
  shows "case chassis_step u c now dt cur of (c', r, cur') \<Rightarrow>
    r = 0 \<and> cur' = [0, 0, 0, 0, 0] \<and> cc_command c' = cc_command c \<and>
    (\<forall>j\<in>{1, 2, 3, 4}. cc_target_rpm c' ! j = 0 \<and> cc_pid c' ! j = pid_reset (cc_pid c ! j))"
proof -
  have "\<not> motor_online c now i" using assms(6) by (auto simp: motor_online_def Let_def)
  then have "chassis_feedback_all_online c now = 0"
    using assms(5) all_online_iff [of c now] all_online_01 [of c now] by auto
  then have "chassis_step u c now dt cur =
      (c\<lparr>cc_target_rpm := on_motors (\<lambda>_. 0) (cc_target_rpm (update_targets_from_command c)),
         cc_pid := on_motors pid_reset (cc_pid c)\<rparr>, 0, [0, 0, 0, 0, 0])"
    using assms by (intro step_offline) (simp_all add: command_expired_def)
  then show ?thesis by (simp add: on_motors_def numeral_eq_Suc)
qed

lemma offline_motor_stops_all_witness:
  "snd (snd (chassis_step (\<lambda>_. 0)
     (chassis_set_command (demo_chassis\<lparr>cc_feedback := (cc_feedback demo_chassis)[3 := fb_zero]\<rparr>)
       (f32_lit 1) 0 0 1000) 1000 0 [0, 0, 0, 0, 0])) = [0, 0, 0, 0, 0]"
proof -
  let ?c = "chassis_set_command (demo_chassis\<lparr>cc_feedback := (cc_feedback demo_chassis)[3 := fb_zero]\<rparr>)
      (f32_lit 1) 0 0 1000"
  have "chassis_wf ?c" "cc_last_command_ms ?c = 1000" "cc_config ?c = chassis_default_config"
    "cc_command ?c = cc_command (chassis_set_command demo_chassis (f32_lit 1) 0 0 1000)"
    "fb_online (cc_feedback ?c ! 3) = 0"
    using chassis_wfI [OF demo_chassis_ok]
    by (simp_all add: chassis_wf_def chassis_set_command_def demo_chassis_fields fb_zero_def)
  then show ?thesis
    using offline_motor_stops_all [of ?c "[0, 0, 0, 0, 0]" 1000 3 "\<lambda>_. 0" 0]
      demo_forward_not_idle default_timeouts_nonneg
    by (simp add: elapsed_ms_def case_prod_beta)
qed

text \<open>\<open>chassis_set_command\<close> stamps the time and stores each component
  clamped to \<open>[- 1, 1]\<close>: unchanged inside the range, the nearer bound outside, infinities
  included. The one value that passes unclamped is a NaN.\<close>

theorem set_command_clamps:
  "let c' = chassis_set_command c f s r now in
     cc_last_command_ms c' = now \<and>
     (\<forall>(v, w)\<in>{(f, cmd_forward (cc_command c')), (s, cmd_strafe (cc_command c')),
         (r, cmd_rotate (cc_command c'))}.
       if v = NaN then w = NaN
       else fbnd 1 w \<and> (fbnd 1 v \<longrightarrow> w = v) \<and> (f32_lit 1 < v \<longrightarrow> fval w = 1) \<and>
         (v < - f32_lit 1 \<longrightarrow> fval w = - 1))"
proof -
  have "if v = NaN then clamp_float v (- f32_lit 1) (f32_lit 1) = NaN
    else fbnd 1 (clamp_float v (- f32_lit 1) (f32_lit 1)) \<and>
      (fbnd 1 v \<longrightarrow> clamp_float v (- f32_lit 1) (f32_lit 1) = v) \<and>
      (f32_lit 1 < v \<longrightarrow> fval (clamp_float v (- f32_lit 1) (f32_lit 1)) = 1) \<and>
      (v < - f32_lit 1 \<longrightarrow> fval (clamp_float v (- f32_lit 1) (f32_lit 1)) = - 1)" for v
    by (cases v) (auto simp: clamp_float_def lit_1)
  then show ?thesis by (simp add: chassis_set_command_def Let_def)
qed

lemma set_command_clamps_witness:
  "fval (cmd_forward (cc_command (chassis_set_command demo_chassis (Inf False) 0 0 5))) = 1"
  using set_command_clamps [of demo_chassis "Inf False" 0 0 5]
  by (simp add: Let_def lit_1 zero_f32_def)

text \<open>A NaN in the forward component is not clamped, is not a zero
  command and survives the mixing, the normalisation and the PID limits: with all motors online
  every wheel is sent \<open>(int16_t)\<close> of whatever \<open>lrintf\<close> returns for a NaN, a value the C standard
  leaves unspecified, and the step reports success.\<close>

theorem nan_command_reaches_motors:
  assumes "chassis_wf c" "length cur = 5" "\<not> command_timeout_ms (cc_config c) < 0"
    "chassis_feedback_all_online c now = 1"
  shows "snd (chassis_step u (chassis_set_command c NaN s r now) now dt cur) =
    (1, [0, to_i16 (u NaN), to_i16 (u NaN), to_i16 (u NaN), to_i16 (u NaN)])"
  by (rule nan_step [OF assms])

lemma nan_command_reaches_motors_witness:
  "snd (snd (chassis_step (\<lambda>_. 12345) (chassis_set_command demo_chassis NaN 0 0 1000) 1000 0
     [0, 0, 0, 0, 0])) = [0, 12345, 12345, 12345, 12345]"
  using nan_command_reaches_motors [OF chassis_wfI [OF demo_chassis_ok], of "[0, 0, 0, 0, 0]" 1000]
    default_timeouts_nonneg demo_chassis_online
  by (simp add: demo_chassis_fields to_i16_def)

text \<open>A timeout that is a whole number of milliseconds below \<open>2 ^ 24\<close>: the comparison in \<open>float\<close> is
  the comparison of the integers.\<close>

lemma timeout_float_exact:
  assumes "0 \<le> T" "T < 2 ^ 24"
  shows "f32_lit (of_int T) < f32_of_u64 n \<longleftrightarrow> T < uint n"
proof -
  have T: "f32_lit (of_int T) = Fin False (of_int T)" using f32_lit_int [of T] assms by simp
  show ?thesis
  proof (cases "uint n < 2 ^ 24")
    case True
    then have "f32_of_u64 n = Fin False (of_int (uint n))"
      using f32_of_int_exact [of "uint n"] by (simp only: f32_of_u64_def) (simp del: of_int_uint)
    then show ?thesis by (simp add: T del: of_int_uint)
  next
    case False
    have "\<bar>of_int (uint n) :: rat\<bar> \<le> 2 ^ 64"
    proof -
      have "uint n \<le> 2 ^ 64" using uint_lt2p [of n] by simp
      then have "(of_int (uint n) :: rat) \<le> of_int (2 ^ 64)" by (simp only: of_int_le_iff)
      moreover have "(0 :: rat) \<le> of_int (uint n)" by (simp only: of_int_0_le_iff) simp
      ultimately show ?thesis by (simp del: of_int_uint)
    qed
    from fbnd_round [OF this f32_cap_power, of False] have
      fin: "fbnd (2 ^ 64) (f32_of_u64 n)" "fval (f32_of_u64 n) = round32 (of_int (uint n))"
      by (simp_all add: f32_of_u64_def f32_of_int_def)
    have "pow2 24 \<le> round32 (of_int (uint n))"
    proof (rule round32_ge)
      have "(of_int (2 ^ 24) :: rat) \<le> of_int (uint n)" using False by (simp only: of_int_le_iff)
      then show "pow2 24 \<le> of_int (uint n)" by (simp add: pow2_def)
    qed (simp add: representable_pow2)
    moreover have "(of_int T :: rat) < pow2 24"
    proof -
      have "(of_int T :: rat) < of_int (2 ^ 24)" using assms(2) by (simp only: of_int_less_iff)
      then show ?thesis by (simp add: pow2_def)
    qed
    ultimately have "f32_lit (of_int T) < f32_of_u64 n"
      using fin by (cases "f32_of_u64 n") (auto simp: T)
    with False assms(2) show ?thesis by simp
  qed
qed

lemma uint_elapsed: "0 \<le> T \<Longrightarrow> T < uint (elapsed_ms now last_ms) \<longleftrightarrow> T < uint now - uint last_ms"
  by (auto simp: elapsed_ms_def word_le_def uint_sub_if')

lemma timeout_exact:
  assumes "limit = f32_lit (of_int T)" "0 \<le> T" "T < 2 ^ 24"
  shows "limit < f32_of_u64 (elapsed_ms now last_ms) \<longleftrightarrow> T < uint now - uint last_ms"
  unfolding assms(1) timeout_float_exact [OF assms(2,3)] by (rule uint_elapsed [OF assms(2)])

text \<open>C33. The code keeps its timeouts as \<open>float\<close>s and converts the elapsed times
  to \<open>float\<close>; what it decides is what the same code with integers would decide. For timeouts
  that are whole numbers of milliseconds below \<open>2 ^ 24\<close>: a step under a command that is not zero
  drops it exactly when more than that many milliseconds passed since it was given, and keeps it
  otherwise; and it reports the motors online exactly when each has reported and its report is
  not more than that many milliseconds old. A time stamp ahead of the clock counts as age 0.\<close>

theorem timeouts_are_exact:
  assumes "chassis_wf c" "length cur = 5" "\<not> command_is_zero (cc_command c)"
    "command_timeout_ms (cc_config c) = f32_lit (of_int T)" "0 \<le> T" "T < 2 ^ 24"
    "feedback_timeout_ms (cc_config c) = f32_lit (of_int F)" "0 \<le> F" "F < 2 ^ 24"
  shows "cc_command (fst (chassis_step u c now dt cur)) =
      (if T < uint now - uint (cc_last_command_ms c) then zero_command else cc_command c) \<and>
    (fst (snd (chassis_step u c now dt cur)) = 1 \<longleftrightarrow>
      (\<forall>i\<in>{1, 2, 3, 4}. fb_online (cc_feedback c ! i) \<noteq> 0 \<and>
         uint now - uint (fb_last_update_ms (cc_feedback c ! i)) \<le> F))"
proof
  have late: "command_expired c now \<longleftrightarrow> T < uint now - uint (cc_last_command_ms c)"
    unfolding command_expired_def by (rule timeout_exact [OF assms(4-6)])
  show "cc_command (fst (chassis_step u c now dt cur)) =
      (if T < uint now - uint (cc_last_command_ms c) then zero_command else cc_command c)"
    using assms(1,2)
  proof (cases rule: step_cases [where now = now])
    case idle
    then show ?thesis using assms(3) late by (simp add: step_idle [OF assms(1,2) idle] reset_frame [OF assms(1)])
  next
    case offline
    then show ?thesis using late by (simp add: step_offline [OF assms(1,2) offline] frame_simps)
  next
    case drive
    then show ?thesis using late by (simp add: step_drive [OF assms(1,2) drive] frame_simps)
  qed
  show "fst (snd (chassis_step u c now dt cur)) = 1 \<longleftrightarrow>
      (\<forall>i\<in>{1, 2, 3, 4}. fb_online (cc_feedback c ! i) \<noteq> 0 \<and>
         uint now - uint (fb_last_update_ms (cc_feedback c ! i)) \<le> F)"
    unfolding step_reports_online [OF assms(1,2)] all_online_iff motor_online_def Let_def timeout_exact [OF assms(7-9)] by auto
qed

text \<open>Full speed ahead since 1000: at 1300 the command stands, at 1301 it is gone.\<close>

lemma timeouts_are_exact_witness:
  "let c = chassis_set_command demo_chassis (f32_lit 1) 0 0 1000;
       step = \<lambda>now. chassis_step (\<lambda>_. 0) c now 0 [0, 0, 0, 0, 0]
   in cc_command (fst (step 1300)) = cc_command c \<and> cc_command (fst (step 1301)) = zero_command \<and>
     fst (snd (step 1250)) = 1 \<and> fst (snd (step 1251)) \<noteq> 1"
proof -
  let ?c = "chassis_set_command demo_chassis (f32_lit 1) 0 0 1000"
  have wf: "chassis_wf ?c"
    using chassis_wfI [OF demo_chassis_ok] by (simp add: chassis_wf_def chassis_set_command_def)
  have c: "command_timeout_ms (cc_config ?c) = f32_lit (of_int 300)"
    "feedback_timeout_ms (cc_config ?c) = f32_lit (of_int 250)" "cc_last_command_ms ?c = 1000"
    "cc_feedback ?c = map demo_fb [0, 1, 2, 3, 4]"
    by (simp_all add: chassis_set_command_def demo_chassis_fields chassis_default_config_def)
  have len: "length [0, 0, 0, 0, 0 :: i16] = 5" by simp
  have fb: "fb_online (demo_fb i) = 1" "fb_last_update_ms (demo_fb i) = 1000" for i
    by (simp_all add: demo_fb_def)
  note exact = timeouts_are_exact [OF wf len demo_forward_not_idle c(1) _ _ c(2), where u = "\<lambda>_. 0" and dt = 0]
  show ?thesis
    using exact [of 1300] exact [of 1301] exact [of 1250] exact [of 1251]
    by (simp add: c(3,4) fb Let_def)
qed

end
