(* ===== verification/ChassisWheels.thy ===== *)
theory ChassisWheels
  imports ChassisProps
begin

text \<open>
  The wheel mixing of \<open>update_targets_from_command\<close> against the mecanum equations over exact
  rationals, and the bound on what normalisation leaves.
\<close>

section \<open>The specification\<close>

text \<open>
  The wheel speed the mecanum layout asks of motor \<open>i\<close> for a forward, a leftward and a turning
  speed, in exact arithmetic: the specification the float code is compared with.
\<close>

definition ideal_wheel :: "rat \<Rightarrow> rat \<Rightarrow> rat \<Rightarrow> nat \<Rightarrow> rat" where
  "ideal_wheel f s r i =
     (if i = 1 then f - s - r
      else if i = 2 then f + s - r
      else if i = 3 then - f - s - r
      else - f + s - r)"

text \<open>What the present command asks of motor \<open>i\<close>, before any limit.\<close>

definition ideal_target :: "ChassisController \<Rightarrow> nat \<Rightarrow> rat" where
  "ideal_target c i =
     ideal_wheel (fval (unit_clamp (cmd_forward (cc_command c))) * fval (max_translate_rpm (cc_config c)))
       (fval (unit_clamp (cmd_strafe (cc_command c))) * fval (max_translate_rpm (cc_config c)))
       (fval (unit_clamp (cmd_rotate (cc_command c))) * fval (max_rotate_rpm (cc_config c))) i"

text \<open>The common factor that brings the fastest wheel down to the configured maximum.\<close>

definition ideal_peak :: "ChassisController \<Rightarrow> rat" where
  "ideal_peak c = Max ((\<lambda>i. \<bar>ideal_target c i\<bar>) ` {1, 2, 3, 4})"

definition ideal_scale :: "ChassisController \<Rightarrow> rat" where
  "ideal_scale c =
     (let m = fval (max_translate_rpm (cc_config c)) in if m < ideal_peak c then m / ideal_peak c else 1)"

section \<open>Rounding errors\<close>

lemma round_error_within:
  assumes "\<bar>q - p\<bar> \<le> e" "\<bar>q\<bar> \<le> pow2 k" "- 124 \<le> k"
  shows "\<bar>round32 q - p\<bar> \<le> e + pow2 (k - 25)"
  using round32_abs_error [OF assms(2,3)] assms(1) by linarith

text \<open>\<open>x\<close> is a float of magnitude at most \<open>b\<close> within \<open>e\<close> of the rational \<open>p\<close>.\<close>

definition near :: "rat \<Rightarrow> rat \<Rightarrow> rat \<Rightarrow> f32 \<Rightarrow> bool" where
  "near b e p x \<longleftrightarrow> fbnd b x \<and> \<bar>fval x - p\<bar> \<le> e"

lemma near_minus: "near b e p x \<Longrightarrow> near b e (- p) (- x)"
  by (auto simp: near_def abs_minus_commute)

lemma near_product:
  assumes "fbnd 1 x" "fbnd (pow2 k) y" "f32_cap (pow2 k)" "- 124 \<le> k"
  shows "near (pow2 k) (pow2 (k - 25)) (fval x * fval y) (x * y)"
proof -
  have "1 * pow2 k \<le> pow2 k" by simp
  note m = fbnd_mult [OF assms(1,2) this assms(3)]
  have "\<bar>fval x * fval y\<bar> \<le> 1 * pow2 k"
    unfolding abs_mult using fbnd_fval [OF assms(1)] fbnd_fval [OF assms(2)] by (intro mult_mono) simp_all
  then have "\<bar>round32 (fval x * fval y) - fval x * fval y\<bar> \<le> pow2 (k - 25)"
    using assms(4) by (intro round32_abs_error) simp_all
  then show ?thesis using m by (simp add: near_def)
qed

lemma near_add:
  assumes "near a e p x" "near b d q y" "a + b \<le> pow2 k" "f32_cap (pow2 k)" "- 124 \<le> k"
  shows "near (pow2 k) (e + d + pow2 (k - 25)) (p + q) (x + y)"
proof -
  have f: "fbnd a x" "fbnd b y" "\<bar>fval x - p\<bar> \<le> e" "\<bar>fval y - q\<bar> \<le> d"
    using assms(1,2) by (simp_all add: near_def)
  note m = fbnd_add [OF f(1,2) assms(3,4)]
  have "\<bar>round32 (fval x + fval y) - (p + q)\<bar> \<le> e + d + pow2 (k - 25)"
    using f(3,4) fbnd_fval [OF f(1)] fbnd_fval [OF f(2)] assms(3,5)
    by (intro round_error_within) (unfold abs_le_iff, linarith+)
  then show ?thesis using m by (simp add: near_def)
qed

lemma near_sub:
  assumes "near a e p x" "near b d q y" "a + b \<le> pow2 k" "f32_cap (pow2 k)" "- 124 \<le> k"
  shows "near (pow2 k) (e + d + pow2 (k - 25)) (p - q) (x - y)"
  using near_add [OF assms(1) near_minus [OF assms(2)] assms(3-5)] by (simp add: minus_f32_def)

lemma caps: "f32_cap (pow2 9)" "f32_cap (pow2 10)" "f32_cap (pow2 11)"
  "pow2 9 + pow2 9 \<le> pow2 10" "pow2 10 + pow2 9 \<le> pow2 11"
  "pow2 (- 16) = 1 / 65536" "pow2 (- 15) = 1 / 32768" "pow2 (- 14) = 1 / 16384"
  using f32_cap_int [of 512] f32_cap_int [of 1024] f32_cap_int [of 2048] by (simp_all add: pow2_def)

lemma near_weaken: "near b e p x \<Longrightarrow> e \<le> d \<Longrightarrow> near b d p x"
  by (simp add: near_def)

text \<open>One wheel: three products, two sums.\<close>

lemma near_wheel:
  assumes "near (pow2 9) (1 / 65536) p x" "near (pow2 9) (1 / 65536) q y" "near (pow2 9) (1 / 65536) r z"
  shows "near (pow2 11) (1 / 4096) (- (p + q) - r) (- (x + y) - z)"
    "near (pow2 11) (1 / 4096) (- (p - q) - r) (- (x - y) - z)"
    "near (pow2 11) (1 / 4096) (p - q - r) (x - y - z)"
    "near (pow2 11) (1 / 4096) (p + q - r) (x + y - z)"
proof -
  have s: "near (pow2 10) (1 / 16384) (p + q) (x + y)" "near (pow2 10) (1 / 16384) (p - q) (x - y)"
    using near_add [OF assms(1,2) caps(4,2)] near_sub [OF assms(1,2) caps(4,2)] by (simp_all add: caps)
  have "near (pow2 11) (1 / 4096) (t - r) (w - z)" if "near (pow2 10) (1 / 16384) t w" for t w
  proof -
    have "near (pow2 11) (1 / 16384 + 1 / 65536 + pow2 (11 - 25)) (t - r) (w - z)"
      by (rule near_sub [OF that assms(3) caps(5,3)]) simp
    then show ?thesis by (rule near_weaken) (simp add: caps)
  qed
  with s near_minus [OF s(1)] near_minus [OF s(2)] show
    "near (pow2 11) (1 / 4096) (- (p + q) - r) (- (x + y) - z)"
    "near (pow2 11) (1 / 4096) (- (p - q) - r) (- (x - y) - z)"
    "near (pow2 11) (1 / 4096) (p - q - r) (x - y - z)"
    "near (pow2 11) (1 / 4096) (p + q - r) (x + y - z)" by blast+
qed

lemma near_raw_target:
  assumes "chassis_wf c" "command_ok (cc_command c)" "fbnd 512 (max_translate_rpm (cc_config c))"
    "fbnd 512 (max_rotate_rpm (cc_config c))" "i \<in> {1, 2, 3, 4}"
  shows "near (pow2 11) (1 / 4096) (ideal_target c i) (raw_targets c ! i)"
proof -
  have p9: "pow2 9 = 512" by (simp add: pow2_def)
  have u: "fbnd 1 (unit_clamp v)" if "v \<noteq> NaN" for v
    unfolding unit_clamp_def by (rule clamp_unit [OF that])
  have pr: "near (pow2 9) (1 / 65536) (fval x * fval m) (x * m)" if "fbnd 1 x" "fbnd 512 m" for x m
    using near_product [OF that(1), of 9 m] that(2) by (simp add: p9 caps(1) [unfolded p9] caps(6))
  let ?f = "- unit_clamp (cmd_forward (cc_command c))" and ?s = "unit_clamp (cmd_strafe (cc_command c))"
    and ?r = "unit_clamp (cmd_rotate (cc_command c))"
  have "fbnd 1 ?f" "fbnd 1 ?s" "fbnd 1 ?r"
    using u assms(2) by (simp_all add: command_ok_def)
  note n = pr [OF this(1) assms(3)] pr [OF this(2) assms(3)] pr [OF this(3) assms(4)]
  have "length (cc_target_rpm c) = 5" using assms(1) by (simp add: chassis_wf_def)
  then show ?thesis
    using assms(5) near_wheel [OF n]
    by (auto simp: raw_targets_def wheel_targets_def ideal_target_def ideal_wheel_def algebra_simps)
qed

section \<open>Scaling\<close>

lemma ratio_gap:
  assumes "\<bar>x\<bar> \<le> p" "M < p" "0 \<le> M" shows "\<bar>x * (M / p) - x\<bar> \<le> p - (M::rat)"
proof -
  have p: "0 < p" using assms by linarith
  have "x * (M / p) - x = - (x * ((p - M) / p))" using p by (simp add: field_simps)
  then have "\<bar>x * (M / p) - x\<bar> = \<bar>x\<bar> * ((p - M) / p)" using p assms by (simp add: abs_mult)
  also have "\<dots> \<le> p * ((p - M) / p)" using assms p by (intro mult_right_mono) simp_all
  finally show ?thesis using p by simp
qed

lemma scale_error:
  fixes x a p P e M :: rat
  assumes "\<bar>x - a\<bar> \<le> e" "\<bar>p - P\<bar> \<le> e" "\<bar>x\<bar> \<le> p" "\<bar>a\<bar> \<le> P" "0 \<le> M"
  shows "\<bar>x * (if M < p then M / p else 1) - a * (if M < P then M / P else 1)\<bar> \<le> 2 * e"
proof (cases "M < p \<and> M < P")
  case True
  have pos: "0 < p" "0 < P" using True assms(5) by linarith+
  have "x * (M / p) - a * (M / P) = M / p * (x - a) + a / P * (M / p) * (P - p)"
    using pos by (simp add: field_simps)
  moreover have "\<bar>M / p * (x - a)\<bar> \<le> 1 * e"
    unfolding abs_mult using assms(1,5) pos True by (intro mult_mono) simp_all
  moreover have "\<bar>a / P * (M / p) * (P - p)\<bar> \<le> 1 * 1 * e"
    unfolding abs_mult using assms(2,4,5) pos True
    by (intro mult_mono) (simp_all add: abs_minus_commute)
  ultimately have "\<bar>x * (M / p) - a * (M / P)\<bar> \<le> 2 * e" by linarith
  then show ?thesis using True by simp
next
  case False
  then consider "M < p" "\<not> M < P" | "\<not> M < p" "M < P" | "\<not> M < p" "\<not> M < P" by blast
  then show ?thesis
  proof cases
    case 1
    with ratio_gap [OF assms(3) _ assms(5)] have "\<bar>x * (M / p) - x\<bar> \<le> p - M" by simp
    with 1 assms(1,2) have "\<bar>x * (M / p) - a\<bar> \<le> 2 * e" unfolding abs_le_iff by linarith
    with 1 show ?thesis by simp
  next
    case 2
    with ratio_gap [OF assms(4) _ assms(5)] have "\<bar>a * (M / P) - a\<bar> \<le> P - M" by simp
    with 2 assms(1,2) have "\<bar>x - a * (M / P)\<bar> \<le> 2 * e" unfolding abs_le_iff by linarith
    with 2 show ?thesis by simp
  next
    case 3
    then show ?thesis using assms(1) by simp
  qed
qed

lemma ideal_peak_ge: "i \<in> {1, 2, 3, 4} \<Longrightarrow> \<bar>ideal_target c i\<bar> \<le> ideal_peak c"
  unfolding ideal_peak_def by (rule Max_ge) auto

lemma ideal_peak_le: "(\<And>i. i \<in> {1, 2, 3, 4} \<Longrightarrow> \<bar>ideal_target c i\<bar> \<le> b) \<Longrightarrow> ideal_peak c \<le> b"
  unfolding ideal_peak_def by (rule Max.boundedI) auto

lemma peak_near:
  assumes "\<And>i. i \<in> {1, 2, 3, 4} \<Longrightarrow> near b (1 / 4096) (ideal_target c i) (t ! i)"
  shows "\<bar>fval (peak_target t) - ideal_peak c\<bar> \<le> 1 / 4096"
proof -
  have "fbnd (ideal_peak c + 1 / 4096) (t ! i)" if i: "i \<in> {1, 2, 3, 4}" for i
  proof (rule fbnd_tighten)
    show "fbnd b (t ! i)" using assms [OF i] by (simp add: near_def)
    show "\<bar>fval (t ! i)\<bar> \<le> ideal_peak c + 1 / 4096"
      using assms [OF i] ideal_peak_ge [OF i, of c] unfolding near_def by linarith
  qed
  then have "motors_fbnd (ideal_peak c + 1 / 4096) t" by (simp add: motors_fbnd_def)
  note pk = peak_target_bounds [OF this]
  have "fval (peak_target t) \<le> ideal_peak c + 1 / 4096"
    using pk fbnd_fval [of "ideal_peak c + 1 / 4096" "peak_target t"] by linarith
  moreover have "ideal_peak c \<le> fval (peak_target t) + 1 / 4096"
  proof (rule ideal_peak_le)
    fix i :: nat assume i: "i \<in> {1, 2, 3, 4}"
    have "\<bar>fval (t ! i)\<bar> \<le> fval (peak_target t)" using pk i by blast
    with assms [OF i] show "\<bar>ideal_target c i\<bar> \<le> fval (peak_target t) + 1 / 4096"
      unfolding near_def by linarith
  qed
  ultimately show ?thesis by linarith
qed

text \<open>The float normalisation against exact scaling by the same ratio.\<close>

lemma normalize_near:
  assumes "length t = 5" "motors_fbnd (pow2 11) t" "fbnd 512 m" "0 \<le> fval m" "i \<in> {1, 2, 3, 4}"
  defines "p \<equiv> fval (peak_target t)"
  shows "\<bar>fval (normalize_wheel_targets t m ! i) -
    fval (t ! i) * (if fval m < p then fval m / p else 1)\<bar> \<le> 1 / 8192"
proof -
  have t17: "motors_fbnd (2 ^ 17) t"
    using assms(2) by (auto simp: motors_fbnd_def pow2_def intro: fbnd_mono)
  have m15: "fbnd (2 ^ 15) m" by (rule fbnd_mono [OF assms(3)]) simp
  have pk: "fbnd (2 ^ 17) (peak_target t)" using peak_target_bounds [OF t17] by blast
  have c: "m < peak_target t \<and> 0 < peak_target t \<longleftrightarrow> fval m < p"
    using fbnd_less [OF m15 pk] fbnd_less [of 0 0 "2 ^ 17" "peak_target t"] pk assms(4)
    by (auto simp: p_def)
  show ?thesis
  proof (cases "fval m < p")
    case False
    with c have n: "\<not> (m < peak_target t \<and> 0 < peak_target t)" by blast
    show ?thesis using False unfolding normalize_nth [OF assms(1,5)] if_not_P [OF n] by simp
  next
    case True
    with c have y: "m < peak_target t \<and> 0 < peak_target t" by blast
    note sc = scale_bounds [OF t17 m15 assms(4) conjunct1 [OF y], folded p_def]
    let ?k = "fval m / p" and ?x = "fval (t ! i)"
    have k: "0 \<le> ?k" "?k \<le> 1" using True assms(4) by simp_all
    have kr: "\<bar>round32 ?k - ?k\<bar> \<le> pow2 (- 25)"
      using round32_abs_error [of ?k 0] k by simp
    have k1: "fbnd 1 (m / peak_target t)" by (rule sc(1))
    have xb: "fbnd (pow2 11) (t ! i)" by (rule motors_fbndD [OF assms(2,5)])
    then have x: "\<bar>?x\<bar> \<le> pow2 11" by (rule fbnd_fval)
    have le: "pow2 11 * 1 \<le> pow2 11" by simp
    have v: "fval (normalize_wheel_targets t m ! i) = round32 (?x * round32 ?k)"
      using fbnd_mult(2) [OF xb k1 le caps(3)] y sc(2) by (simp add: normalize_nth [OF assms(1,5)])
    have "?x * round32 ?k - ?x * ?k = ?x * (round32 ?k - ?k)" by (simp add: right_diff_distrib)
    also have "\<bar>\<dots>\<bar> \<le> pow2 11 * pow2 (- 25)"
      unfolding abs_mult using x kr by (intro mult_mono) simp_all
    also have "pow2 11 * pow2 (- 25) = (1 / 16384 :: rat)" by (simp add: pow2_def)
    finally have d: "\<bar>?x * round32 ?k - ?x * ?k\<bar> \<le> 1 / 16384" .
    have "\<bar>?x * round32 ?k\<bar> \<le> pow2 11 * 1"
      unfolding abs_mult using x fbnd_fval [OF sc(1)] sc(2) by (intro mult_mono) simp_all
    then have "\<bar>round32 (?x * round32 ?k) - ?x * ?k\<bar> \<le> 1 / 16384 + pow2 (11 - 25)"
      by (intro round_error_within [OF d]) simp_all
    then show ?thesis unfolding v using True by (simp add: caps)
  qed
qed

section \<open>Properties\<close>

text \<open>C8. The four wheel targets are the mecanum equations of the
  command, all scaled by the one factor that brings the fastest wheel down to the configured
  maximum (1 when no wheel exceeds it), to within a thousandth of a revolution per minute for
  speeds up to 512 rpm: the float mixing and normalisation keep the direction of travel.\<close>

theorem wheel_targets_follow_mecanum:
  assumes "chassis_wf c" "command_ok (cc_command c)" "fbnd 512 (max_translate_rpm (cc_config c))"
    "fbnd 512 (max_rotate_rpm (cc_config c))" "0 \<le> fval (max_translate_rpm (cc_config c))"
    "i \<in> {1, 2, 3, 4}"
  shows "\<bar>fval (cc_target_rpm (update_targets_from_command c) ! i) - ideal_scale c * ideal_target c i\<bar>
    \<le> 1 / 1024"
proof -
  let ?t = "raw_targets c" and ?m = "max_translate_rpm (cc_config c)"
  let ?p = "fval (peak_target ?t)" and ?M = "fval ?m"
  note near = near_raw_target [OF assms(1-4)]
  have fb: "motors_fbnd (pow2 11) ?t" using near unfolding motors_fbnd_def near_def by blast
  have len: "length ?t = 5" using assms(1) by (simp add: raw_targets_def wheel_targets_def chassis_wf_def)
  have pk: "\<bar>fval (?t ! i)\<bar> \<le> ?p" using peak_target_bounds [OF fb] assms(6) by blast
  have "\<bar>fval (?t ! i) - ideal_target c i\<bar> \<le> 1 / 4096" using near [OF assms(6)] by (simp add: near_def)
  from scale_error [OF this peak_near [OF near] pk ideal_peak_ge [OF assms(6)] assms(5)]
  have "\<bar>fval (?t ! i) * (if ?M < ?p then ?M / ?p else 1) - ideal_target c i * ideal_scale c\<bar> \<le> 1 / 2048"
    by (simp add: ideal_scale_def Let_def)
  with normalize_near [OF len fb assms(3,5,6)]
  have "\<bar>fval (normalize_wheel_targets ?t ?m ! i) - ideal_target c i * ideal_scale c\<bar> \<le> 1 / 1024"
    by linarith
  then show ?thesis by (simp add: update_targets_eq mult.commute)
qed

text \<open>Normalisation keeps every wheel target within the configured
  maximum up to a relative error of \<open>2 ^ - 22\<close>, whatever the command and the rotation limit.\<close>

theorem wheel_targets_bounded:
  assumes "chassis_wf c" "command_ok (cc_command c)" "config_ok (cc_config c)"
    "1 \<le> fval (max_translate_rpm (cc_config c))" "i \<in> {1, 2, 3, 4}"
  shows "\<bar>fval (cc_target_rpm (update_targets_from_command c) ! i)\<bar>
    \<le> fval (max_translate_rpm (cc_config c)) * (1 + 1 / 2 ^ 22)"
proof -
  have "fbnd (2 ^ 15) (max_translate_rpm (cc_config c))" using assms(3) by (simp add: config_ok_def)
  from normalize_tight [OF raw_targets_fbnd(2,1) [OF assms(1-3)] this assms(4,5)]
  show ?thesis by (simp add: update_targets_eq pow2_def)
qed

lemma demo_turn:
  "chassis_wf (chassis_set_command demo_chassis (f32_lit 1) 0 (f32_lit (- 1)) 1000)"
  "command_ok (cc_command (chassis_set_command demo_chassis (f32_lit 1) 0 (f32_lit (- 1)) 1000))"
  "max_translate_rpm (cc_config (chassis_set_command demo_chassis (f32_lit 1) 0 (f32_lit (- 1)) 1000))
     = Fin False 500"
  "max_rotate_rpm (cc_config (chassis_set_command demo_chassis (f32_lit 1) 0 (f32_lit (- 1)) 1000))
     = Fin False 400"
  using chassis_wfI [OF demo_chassis_ok] f32_lit_int [of 1] f32_lit_int [of "- 1"]
    f32_lit_int [of 500] f32_lit_int [of 400]
  by (simp_all add: chassis_wf_def chassis_set_command_def demo_chassis_fields
      chassis_default_config_def command_ok_def clamp_float_def zero_f32_def)

lemma demo_turn_ideal:
  "ideal_target (chassis_set_command demo_chassis (f32_lit 1) 0 (f32_lit (- 1)) 1000) 1 = 900"
  "ideal_scale (chassis_set_command demo_chassis (f32_lit 1) 0 (f32_lit (- 1)) 1000) = 5 / 9"
  unfolding ideal_scale_def ideal_peak_def ideal_target_def demo_turn
  using f32_lit_int [of 1] f32_lit_int [of "- 1"]
  by (simp_all add: chassis_set_command_def ideal_wheel_def unit_clamp_def clamp_float_def
      zero_f32_def Let_def)

text \<open>Full speed ahead with a full turn: wheel 1 would need 900 rpm and gets 500.\<close>

lemma wheel_targets_follow_mecanum_witness:
  "\<bar>fval (cc_target_rpm (update_targets_from_command
     (chassis_set_command demo_chassis (f32_lit 1) 0 (f32_lit (- 1)) 1000)) ! 1) - 500\<bar> \<le> 1 / 1024"
  using wheel_targets_follow_mecanum [OF demo_turn(1,2), of 1] demo_turn(3,4) demo_turn_ideal by simp

lemma wheel_targets_bounded_witness:
  "\<bar>fval (cc_target_rpm (update_targets_from_command
     (chassis_set_command demo_chassis (f32_lit 1) 0 (f32_lit (- 1)) 1000)) ! 2)\<bar>
   \<le> 500 * (1 + 1 / 2 ^ 22)"
  using wheel_targets_bounded [OF demo_turn(1,2), of 2] demo_turn(3,4) by (simp add: config_ok_def)

end
