(* ===== verification/ChassisDrive.thy ===== *)
theory ChassisDrive
  imports ChassisProps
begin

text \<open>
  That the chassis moves when it should: a controller that starts afresh pushes its motor
  towards the target at once.
\<close>

section \<open>Signs of rounded values\<close>

text \<open>A direction is 1 or -1; a value goes that way by at least \<open>c\<close> after rounding as before.\<close>

lemma directed_round:
  assumes "d \<in> {1, - 1}" "c \<le> d * q" "representable c" shows "c \<le> d * round32 q"
  using assms round32_ge [of c q] round32_ge [of c "- q"] by (auto simp: round32_minus)

lemma representable_small: "representable 0" "representable 2"
  using representable_pow2 [of 1] round32_0 by (simp_all add: pow2_def representable_of_int [of 0, simplified])

lemma pid_limit_directed:
  assumes "d \<in> {1, - 1}" "fbnd b x" "c \<le> d * fval x" "c \<le> of_int n" "0 \<le> n" "\<bar>n\<bar> < 2 ^ 24"
  shows "c \<le> d * fval (pid_limit (f32_lit (of_int n)) (- f32_lit (of_int n)) x)"
proof -
  have l: "f32_lit (of_int n) = Fin False (of_int n)" using f32_lit_int [of n] assms(5,6) by simp
  have "0 \<le> (of_int n :: rat)" using assms(5) by simp
  then show ?thesis
    using assms(1-4) by (cases x) (auto simp: pid_limit_def l)
qed

section \<open>The first output of a fresh controller\<close>

text \<open>The gains the chassis sets, and a controller without history.\<close>

definition drive_gains :: "PIDController \<Rightarrow> bool" where
  "drive_gains p \<longleftrightarrow> kp p = f32_lit 2 \<and> 0 \<le> fval (ki p) \<and> kd p = 0"

definition pid_fresh :: "PIDController \<Rightarrow> bool" where
  "pid_fresh p \<longleftrightarrow> pid_error p = 0 \<and> pid_integral p = 0"

lemma pid_fresh_reset [simp]: "pid_fresh (pid_reset p)"
  by (simp add: pid_fresh_def)

lemma drive_limits:
  assumes "drive_ok p"
  shows "integral_max p = f32_lit (of_int 2500)" "integral_min p = - f32_lit (of_int 2500)"
    "output_max p = f32_lit (of_int 6500)" "output_min p = - f32_lit (of_int 6500)"
  using assms by (simp_all add: drive_ok_def)

text \<open>The integral term of the first call: no push against the error.\<close>

lemma fresh_integral:
  assumes "drive_ok p" "pid_fresh p" "fbnd (2 ^ 19) (tgt - act)" "dt_ok dt"
    "d \<in> {1, - 1}" "0 \<le> d * fval (tgt - act)"
  shows "0 \<le> d * fval (pid_new_integral p tgt act dt)" "fbnd (2 ^ 15) (pid_new_integral p tgt act dt)"
proof -
  let ?e = "tgt - act"
  have zero: "pid_integral p = 0" using assms(2) by (simp add: pid_fresh_def)
  obtain s q where dt: "pid_dt dt = Fin s q" and q: "1 / 1024 \<le> q" "q \<le> 2 ^ 64"
    using assms(4) by (rule pid_dt_bounds)
  then have dtb: "fbnd (2 ^ 64) (pid_dt dt)" and fv: "fval (pid_dt dt) = q" by simp_all
  have edt: "fbnd (2 ^ 83) (?e * pid_dt dt)" "fval (?e * pid_dt dt) = round32 (fval ?e * fval (pid_dt dt))"
    by (rule fbnd_mult [OF assms(3) dtb, of "2 ^ 83"], simp, rule f32_cap_power, simp)+
  have "0 \<le> d * fval ?e * q" using assms(6) q(1) by simp
  then have e1: "0 \<le> d * fval (?e * pid_dt dt)"
    unfolding edt(2) fv by (intro directed_round [OF assms(5)]) (simp_all add: representable_small mult.assoc)
  have z: "fbnd 0 (0 :: f32)" by simp
  have sum: "fbnd (2 ^ 84) (0 + ?e * pid_dt dt)"
    "fval (0 + ?e * pid_dt dt) = round32 (fval 0 + fval (?e * pid_dt dt))"
    by (rule fbnd_add [OF z edt(1), of "2 ^ 84"], simp, rule f32_cap_power, simp)+
  have "0 \<le> d * fval (0 + ?e * pid_dt dt)"
    unfolding sum(2) f32_0 add_0 by (rule directed_round [OF assms(5) e1 representable_small(1)])
  then show "0 \<le> d * fval (pid_new_integral p tgt act dt)"
    unfolding pid_new_integral_def zero drive_limits [OF assms(1)]
    by (intro pid_limit_directed [OF assms(5) sum(1)]) simp_all
  show "fbnd (2 ^ 15) (pid_new_integral p tgt act dt)"
    unfolding pid_new_integral_def zero drive_limits [OF assms(1)] lit_limits of_int_numeral
    by (rule fbnd_pid_limit) (use fbnd_not_NaN [OF sum(1)] in simp_all)
qed

text \<open>The derivative term: its gain is zero.\<close>

lemma fresh_derivative:
  assumes "pid_fin p" "drive_gains p" "fbnd (2 ^ 19) (tgt - act)" "dt_ok dt"
  shows "fbnd (2 ^ 34) (kd p * ((tgt - act - pid_error p) / pid_dt dt))"
    "fval (kd p * ((tgt - act - pid_error p) / pid_dt dt)) = 0"
proof -
  obtain s q where dt: "pid_dt dt = Fin s q" and q: "1 / 1024 \<le> q" "q \<le> 2 ^ 64"
    using assms(4) by (rule pid_dt_bounds)
  have kd: "fval (kd p) = 0" using assms(2) by (simp add: drive_gains_def)
  have d1: "fbnd (2 ^ 20) (tgt - act - pid_error p)"
    by (rule fbnd_sub(1) [OF assms(3) pid_fin_fbnd(4) [OF assms(1)]]) (simp, rule f32_cap_power, simp)
  have d2: "fbnd (2 ^ 30) ((tgt - act - pid_error p) / pid_dt dt)"
    by (rule fbnd_div(1) [OF d1 dt _ order_trans [OF q(1) abs_ge_self]]) (simp, simp, rule f32_cap_power, simp)
  have t: "fbnd (2 ^ 34) (kd p * ((tgt - act - pid_error p) / pid_dt dt))"
    "fval (kd p * ((tgt - act - pid_error p) / pid_dt dt)) =
      round32 (fval (kd p) * fval ((tgt - act - pid_error p) / pid_dt dt))"
    by (rule fbnd_mult [OF pid_fin_fbnd(3) [OF assms(1)] d2, of "2 ^ 34"], simp, rule f32_cap_power, simp)+
  show "fbnd (2 ^ 34) (kd p * ((tgt - act - pid_error p) / pid_dt dt))" by (rule t(1))
  show "fval (kd p * ((tgt - act - pid_error p) / pid_dt dt)) = 0"
    unfolding t(2) kd by simp
qed

lemma fresh_output:
  assumes "drive_ok p" "drive_gains p" "pid_fresh p" "fbnd (2 ^ 18) tgt" "fbnd (2 ^ 18) act" "dt_ok dt"
    "d \<in> {1, - 1}" "1 \<le> d * fval (tgt - act)"
  shows "2 \<le> d * fval (snd (pid_calculate p tgt act dt))"
proof -
  let ?e = "tgt - act"
  let ?ni = "pid_new_integral p tgt act dt"
  let ?p = "kp p * ?e" and ?i = "ki p * ?ni" and ?d = "kd p * ((?e - pid_error p) / pid_dt dt)"
  have fin: "pid_fin p" using assms(1) by (simp add: drive_ok_def)
  have e: "fbnd (2 ^ 19) ?e"
    by (rule fbnd_sub(1) [OF assms(4,5)]) (simp, rule f32_cap_power, simp)
  have gains: "fval (kp p) = 2" "0 \<le> fval (ki p)"
    using assms(2) f32_lit_int [of 2] by (simp_all add: drive_gains_def)
  have "0 \<le> d * fval ?e" using assms(8) by simp
  note ni = fresh_integral [OF assms(1,3) e assms(6,7) this]
  note dd = fresh_derivative [OF fin assms(2) e assms(6)]
  have t1: "fbnd (2 ^ 23) ?p" "fval ?p = round32 (fval (kp p) * fval ?e)"
    by (rule fbnd_mult [OF pid_fin_fbnd(1) [OF fin] e, of "2 ^ 23"], simp, rule f32_cap_power, simp)+
  have t2: "fbnd (2 ^ 19) ?i" "fval ?i = round32 (fval (ki p) * fval ?ni)"
    by (rule fbnd_mult [OF pid_fin_fbnd(2) [OF fin] ni(2), of "2 ^ 19"], simp, rule f32_cap_power, simp)+
  have t12: "fbnd (2 ^ 24) (?p + ?i)" "fval (?p + ?i) = round32 (fval ?p + fval ?i)"
    by (rule fbnd_add [OF t1(1) t2(1), of "2 ^ 24"], simp, rule f32_cap_power, simp)+
  have t123: "fbnd (2 ^ 35) (?p + ?i + ?d)" "fval (?p + ?i + ?d) = round32 (fval (?p + ?i) + fval ?d)"
    by (rule fbnd_add [OF t12(1) dd(1), of "2 ^ 35"], simp, rule f32_cap_power, simp)+
  have "2 \<le> d * fval ?p"
    unfolding t1(2) gains using assms(8)
    by (intro directed_round [OF assms(7)]) (simp_all add: representable_small algebra_simps)
  moreover have "0 \<le> d * fval ?i"
    unfolding t2(2) using gains(2) ni(1)
    by (intro directed_round [OF assms(7)])
      (simp_all add: representable_small mult.left_commute [of d] mult_nonneg_nonneg)
  ultimately have "2 \<le> d * fval (?p + ?i)"
    unfolding t12(2)
    by (intro directed_round [OF assms(7)]) (simp_all add: representable_small distrib_left)
  then have "2 \<le> d * fval (?p + ?i + ?d)"
    unfolding t123(2) dd(2) add_0_right by (rule directed_round [OF assms(7) _ representable_small(2)])
  then show ?thesis
    unfolding pid_calculate_out pid_out_def drive_limits [OF assms(1)]
    by (intro pid_limit_directed [OF assms(7) t123(1)]) simp_all
qed

section \<open>The gains never change\<close>

definition chassis_gains :: "ChassisController \<Rightarrow> bool" where
  "chassis_gains c \<longleftrightarrow> (\<forall>i\<in>{1, 2, 3, 4}. drive_gains (cc_pid c ! i))"

lemma drive_gains_reset [simp]: "drive_gains (pid_reset p) = drive_gains p"
  by (simp add: drive_gains_def)

lemma drive_gains_calculate: "drive_gains p \<Longrightarrow> drive_gains (fst (pid_calculate p t a dt))"
  by (simp add: drive_gains_def pid_calculate_fields)

lemma init_pid_gains: "0 \<le> g \<Longrightarrow> g \<le> 16 \<Longrightarrow> drive_gains (init_pid g p)"
proof -
  assume g: "0 \<le> g" "g \<le> 16"
  then have "fval (f32_lit g) = round32 g"
    unfolding f32_lit_def by (intro fbnd_round(2) [of g 16]) (simp, rule f32_cap_power [of 4, simplified])
  then show ?thesis
    using round32_nonneg [OF g(1)] by (simp add: init_pid_def pid_init_def drive_gains_def)
qed

lemma on_motors_gains:
  "chassis_wf c \<Longrightarrow> chassis_gains c \<Longrightarrow> \<forall>i\<in>{1, 2, 3, 4}. drive_gains (on_motors pid_reset (cc_pid c) ! i)"
  unfolding chassis_gains_def by (auto simp: chassis_wf_def)

lemma step_gains:
  assumes "chassis_wf c" "chassis_gains c" "length cur = 5" "chassis_step u c now dt cur = (c', r, cur')"
  shows "chassis_gains c'"
  using assms(1,3)
proof (cases rule: step_cases [where now = now])
  case idle
  then have "c' = reset_motion_state c" using assms(4) by (simp add: step_idle [OF assms(1,3)])
  then show ?thesis
    using on_motors_gains [OF assms(1,2)] by (simp add: chassis_gains_def reset_motion_state_eq [OF assms(1)])
next
  case offline
  then have "cc_pid c' = on_motors pid_reset (cc_pid c)"
    using assms(4) by (auto simp: step_offline [OF assms(1,3) offline])
  then show ?thesis using on_motors_gains [OF assms(1,2)] by (simp add: chassis_gains_def)
next
  case drive
  let ?d = "update_targets_from_command c"
  have "cc_pid c' = [cc_pid ?d ! 0, fst (motor_result ?d dt 1), fst (motor_result ?d dt 2),
      fst (motor_result ?d dt 3), fst (motor_result ?d dt 4)]"
    using assms(4) by (auto simp: step_drive [OF assms(1,3) drive])
  then show ?thesis
    using assms(2) by (simp add: chassis_gains_def motor_result_def drive_gains_calculate frame_simps numeral_eq_Suc)
qed

lemma reach_gains: "chassis_reach u c \<Longrightarrow> chassis_gains c"
proof (induction rule: chassis_reach.induct)
  case (reach_init c config now)
  then show ?case
    using init_pid_gains [of "35 / 100"] init_pid_gains [of "30 / 100"] init_pid_gains [of "40 / 100"]
      init_pid_gains [of "60 / 100"]
    by (simp add: chassis_gains_def chassis_init_eq numeral_eq_Suc)
next
  case (reach_stop c now)
  have wf: "chassis_wf c" using chassis_wfI [OF reach_ok [OF reach_stop.hyps]] .
  then have wf': "chassis_wf (c\<lparr>cc_last_command_ms := now\<rparr>)" by (simp add: chassis_wf_def)
  show ?case
    using on_motors_gains [OF wf reach_stop.IH]
    by (simp add: chassis_gains_def chassis_stop_def reset_motion_state_eq [OF wf'])
next
  case (reach_step c dt cur now c' r cur')
  then show ?case using step_gains chassis_wfI reach_ok by blast
qed (simp_all add: chassis_gains_def chassis_set_command_def chassis_update_feedback_def)

section \<open>Properties\<close>

text \<open>C7. A robot that may move does move, and the right way. After any
  history that left the controllers reset (as \<open>chassis_init\<close>, \<open>chassis_stop\<close> and every idle or
  offline step do), the first step under a live command with all motors online gives each motor
  that is at least 1 rpm below its target a current of at least 2, and each that is 1 rpm above
  one of at most -2.\<close>

theorem fresh_command_drives_motors:
  assumes "chassis_reach u c" "list_all (\<lambda>i. pid_fresh (cc_pid c ! i)) [1, 2, 3, 4]"
    "\<not> command_timeout_ms (cc_config c) < f32_of_u64 (elapsed_ms now (cc_last_command_ms c))"
    "\<not> command_is_zero (cc_command c)" "chassis_feedback_all_online c now = 1"
    "dt_ok dt" "length cur = 5" "i \<in> {1, 2, 3, 4}"
    "chassis_step u c now dt cur = (c', r, cur')"
  shows "(1 \<le> fval (cc_target_rpm c' ! i - f32_of_int (sint (fb_speed_rpm (cc_feedback c ! i)))) \<longrightarrow>
      2 \<le> sint (cur' ! i)) \<and>
    (fval (cc_target_rpm c' ! i - f32_of_int (sint (fb_speed_rpm (cc_feedback c ! i)))) \<le> - 1 \<longrightarrow>
      sint (cur' ! i) \<le> - 2)"
proof (intro conjI impI)
  let ?d = "update_targets_from_command c"
  let ?e = "cc_target_rpm ?d ! i - f32_of_int (sint (fb_speed_rpm (cc_feedback c ! i)))"
  have ok: "chassis_ok c" and gains: "chassis_gains c" using assms(1) reach_ok reach_gains by auto
  then have wf: "chassis_wf c" by (simp add: chassis_ok_def)
  have live: "\<not> command_expired c now" using assms(3) by (simp add: command_expired_def)
  have res: "c' = ?d\<lparr>cc_pid := [cc_pid ?d ! 0, fst (motor_result ?d dt 1), fst (motor_result ?d dt 2),
        fst (motor_result ?d dt 3), fst (motor_result ?d dt 4)]\<rparr>"
    "cur' = [0, motor_current u ?d dt 1, motor_current u ?d dt 2, motor_current u ?d dt 3, motor_current u ?d dt 4]"
    using assms(9) unfolding step_drive [OF wf assms(7) live assms(4,5)] prod.inject by blast+
  have cur: "cur' ! i = motor_current u ?d dt i" using assms(8) by (auto simp: res(2) numeral_eq_Suc)
  have tgt: "cc_target_rpm c' = cc_target_rpm ?d" by (simp add: res(1))
  note d = step_drive_ok [OF ok assms(6)]
  have p: "drive_ok (cc_pid c ! i)" "drive_gains (cc_pid c ! i)" "pid_fresh (cc_pid c ! i)"
    using ok gains assms(2,8) by (auto simp: chassis_ok_def chassis_gains_def)
  have t: "fbnd (2 ^ 18) (cc_target_rpm ?d ! i)"
    by (rule fbnd_mono [OF motors_fbndD [OF d(2) assms(8)]]) simp
  have a: "fbnd (2 ^ 18) (f32_of_int (sint (fb_speed_rpm (cc_feedback c ! i))))"
    by (rule fbnd_mono [OF i16_fbnd]) simp
  let ?out = "snd (pid_calculate (cc_pid c ! i) (cc_target_rpm ?d ! i)
      (f32_of_int (sint (fb_speed_rpm (cc_feedback c ! i)))) dt)"
  have out: "fbnd (of_int 6500) ?out" by (rule drive.calc_bound [OF p(1) t a assms(6)])
  have mc: "motor_current u ?d dt i = to_i16 (lrintf u ?out)"
    by (simp add: motor_current_def motor_result_def frame_simps)
  have bound: "\<bar>lrintf u ?out\<bar> \<le> 6500" by (rule lrintf_bound [OF out]) simp
  then have s: "sint (cur' ! i) = lrintf u ?out" unfolding cur mc by (intro sint_to_i16) auto
  obtain sg q where q: "?out = Fin sg q" "\<bar>q\<bar> \<le> 6500" using out by (auto simp: fbnd_iff)
  have "\<bar>rne q\<bar> \<le> 6500"
    using rne_le_int [of q 6500] int_le_rne [of "- 6500" q] q(2) by (auto simp: abs_le_iff)
  then have "- (2 ^ 63) \<le> rne q \<and> rne q < 2 ^ 63" by (simp add: abs_le_iff)
  then have l: "lrintf u ?out = rne q" unfolding lrintf_def q(1) f32.case Let_def by (rule if_P)
  note l = l [unfolded q(1)]
  note fo = fresh_output [OF p t a assms(6)]
  show "2 \<le> sint (cur' ! i)"
    if "1 \<le> fval (cc_target_rpm c' ! i - f32_of_int (sint (fb_speed_rpm (cc_feedback c ! i))))"
    using fo [of 1] that int_le_rne [of 2 q] by (simp add: s l tgt q(1))
  show "sint (cur' ! i) \<le> - 2"
    if "fval (cc_target_rpm c' ! i - f32_of_int (sint (fb_speed_rpm (cc_feedback c ! i)))) \<le> - 1"
    using fo [of "- 1"] that rne_le_int [of q "- 2"] by (simp add: s l tgt q(1))
qed

text \<open>Full speed ahead after power-up, all motors at rest.\<close>

definition demo_moving :: ChassisController where
  "demo_moving = chassis_set_command
     (fold (\<lambda>i c. chassis_update_feedback c (demo_fb i)) [1, 2, 3, 4] (chassis_init demo_blank None 1000))
     (f32_lit 1) 0 0 1000"

lemma demo_moving_reach: "chassis_reach u demo_moving"
proof -
  have "chassis_reach u (fold (\<lambda>i c. chassis_update_feedback c (demo_fb i)) is c)" if "chassis_reach u c" for "is" c
    using that by (induction "is" arbitrary: c) (simp_all add: reach_feedback)
  note fold = this
  have "chassis_reach u (chassis_init demo_blank None 1000)" by (rule reach_init [OF demo_blank_wf]) simp
  from fold [OF this] show ?thesis
    unfolding demo_moving_def by (rule reach_command) (simp_all add: lit_1)
qed

lemma update_demo_fb:
  "k \<in> {1, 2, 3, 4} \<Longrightarrow> chassis_update_feedback c (demo_fb k) = c\<lparr>cc_feedback := (cc_feedback c)[k := demo_fb k]\<rparr>"
  by (auto simp: chassis_update_feedback_def demo_fb_def motor_consts)

lemma demo_moving_eq:
  "cc_config demo_moving = chassis_default_config" "cc_last_command_ms demo_moving = 1000"
  "cc_pid demo_moving = cc_pid (chassis_init demo_blank None 1000)"
  "cc_command demo_moving = cc_command (chassis_set_command demo_chassis (f32_lit 1) 0 0 1000)"
  by (simp_all add: demo_moving_def chassis_set_command_def update_demo_fb chassis_init_eq [OF demo_blank_wf])

lemma demo_moving_feedback:
  assumes "i \<in> {1, 2, 3, 4}" shows "cc_feedback demo_moving ! i = demo_fb i"
proof -
  have "length (cc_feedback (chassis_init demo_blank None 1000)) = 5"
    by (simp add: chassis_init_eq [OF demo_blank_wf])
  moreover have "cc_feedback demo_moving = (cc_feedback (chassis_init demo_blank None 1000))
      [1 := demo_fb 1, 2 := demo_fb 2, 3 := demo_fb 3, 4 := demo_fb 4]"
    by (simp add: demo_moving_def chassis_set_command_def update_demo_fb)
  ultimately show ?thesis using assms by (auto simp: nth_list_update)
qed

lemma demo_moving_fields:
  "list_all (\<lambda>i. pid_fresh (cc_pid demo_moving ! i)) [1, 2, 3, 4]"
  "\<not> command_timeout_ms (cc_config demo_moving) < f32_of_u64 (elapsed_ms 1000 (cc_last_command_ms demo_moving))"
  "\<not> command_is_zero (cc_command demo_moving)" "chassis_feedback_all_online demo_moving 1000 = 1"
proof -
  show "list_all (\<lambda>i. pid_fresh (cc_pid demo_moving ! i)) [1, 2, 3, 4]"
    by (simp add: demo_moving_eq chassis_init_eq [OF demo_blank_wf] pid_fresh_def init_pid_def pid_init_def
        numeral_eq_Suc)
  show "\<not> command_timeout_ms (cc_config demo_moving) < f32_of_u64 (elapsed_ms 1000 (cc_last_command_ms demo_moving))"
    by (simp add: demo_moving_eq elapsed_ms_def default_timeouts_nonneg)
  show "\<not> command_is_zero (cc_command demo_moving)" using demo_forward_not_idle by (simp add: demo_moving_eq)
  show "chassis_feedback_all_online demo_moving 1000 = 1"
    unfolding all_online_iff motor_online_def
    by (auto simp: demo_moving_eq demo_moving_feedback demo_fb_def elapsed_ms_def default_timeouts_nonneg Let_def)
qed

lemma demo_moving_target:
  "fval (cc_target_rpm (update_targets_from_command demo_moving) ! 1 -
     f32_of_int (sint (fb_speed_rpm (cc_feedback demo_moving ! 1)))) = 500"
proof -
  have "cc_target_rpm demo_moving = [0, 0, 0, 0, 0]"
    by (simp add: demo_moving_def chassis_set_command_def update_demo_fb chassis_init_eq [OF demo_blank_wf])
  moreover have "cc_command demo_moving = \<lparr>cmd_forward = f32_lit 1, cmd_strafe = 0, cmd_rotate = 0\<rparr>"
    by (simp add: demo_moving_def chassis_set_command_def clamp_float_def lit_1 zero_f32_def)
  moreover have "fval (normalize_wheel_targets (wheel_targets (- clamp_float (f32_lit 1) (- f32_lit 1) (f32_lit 1) *
        max_translate_rpm chassis_default_config) (clamp_float 0 (- f32_lit 1) (f32_lit 1) *
        max_translate_rpm chassis_default_config) (clamp_float 0 (- f32_lit 1) (f32_lit 1) *
        max_rotate_rpm chassis_default_config) [0, 0, 0, 0, 0]) (max_translate_rpm chassis_default_config) ! 1 -
      f32_of_int 0) = 500"
    by code_simp
  ultimately show ?thesis
    by (simp add: update_targets_from_command_def demo_moving_eq(1) demo_moving_feedback demo_fb_def Let_def)
qed

lemma fresh_command_drives_motors_witness:
  "2 \<le> sint (snd (snd (chassis_step (\<lambda>_. 0) demo_moving 1000 (f32_lit (1 / 64)) [0, 0, 0, 0, 0])) ! 1)"
proof -
  let ?step = "chassis_step (\<lambda>_. 0) demo_moving 1000 (f32_lit (1 / 64)) [0, 0, 0, 0, 0]"
  obtain c' r cur' where st: "?step = (c', r, cur')" by (metis surj_pair)
  have wf: "chassis_wf demo_moving" using chassis_wfI [OF reach_ok [OF demo_moving_reach]] .
  have "cc_target_rpm c' = cc_target_rpm (update_targets_from_command demo_moving)"
    using st step_drive [OF wf, of "[0, 0, 0, 0, 0]" 1000 "\<lambda>_. 0" "f32_lit (1 / 64)"] demo_moving_fields(2-4)
    by (auto simp: command_expired_def)
  then have e: "1 \<le> fval (cc_target_rpm c' ! 1 - f32_of_int (sint (fb_speed_rpm (cc_feedback demo_moving ! 1))))"
    using demo_moving_target by simp
  have "dt_ok (f32_lit (1 / 64))" unfolding dt_ok_def by code_simp
  from fresh_command_drives_motors [OF demo_moving_reach demo_moving_fields this _ _ st, THEN conjunct1] e
  show ?thesis by (simp add: st)
qed

end
