(* ===== verification/PointerApi.thy ===== *)
theory PointerApi
  imports ChassisProps
begin

text \<open>
  The functions of \<open>pid.c\<close> and \<open>chassis_control.c\<close> as their callers see them, through
  pointers: \<open>None\<close> is \<open>NULL\<close> and \<open>Some x\<close> the address of a variable holding \<open>x\<close>. Every one
  starts with a guard against \<open>NULL\<close> and otherwise is the operation on the object.
\<close>

definition pid_reset_ptr :: "PIDController option \<Rightarrow> PIDController option" where
  "pid_reset_ptr pid = (case pid of None \<Rightarrow> None | Some p \<Rightarrow> Some (pid_reset p))"

definition pid_init_ptr ::
  "PIDController option \<Rightarrow> f32 \<Rightarrow> f32 \<Rightarrow> f32 \<Rightarrow> f32 \<Rightarrow> f32 \<Rightarrow> f32 \<Rightarrow> f32 \<Rightarrow> PIDController option" where
  "pid_init_ptr pid p i d omax omin imax imin =
     (case pid of None \<Rightarrow> None | Some q \<Rightarrow> Some (pid_init q p i d omax omin imax imin))"

definition pid_calculate_ptr ::
  "PIDController option \<Rightarrow> f32 \<Rightarrow> f32 \<Rightarrow> f32 \<Rightarrow> PIDController option \<times> f32" where
  "pid_calculate_ptr pid target actual dt_s =
     (case pid of None \<Rightarrow> (None, 0)
      | Some p \<Rightarrow> (case pid_calculate p target actual dt_s of (p, out) \<Rightarrow> (Some p, out)))"

definition chassis_default_config_ptr :: "ChassisConfig option \<Rightarrow> ChassisConfig option" where
  "chassis_default_config_ptr config =
     (case config of None \<Rightarrow> None | Some cfg \<Rightarrow> Some chassis_default_config)"

definition chassis_init_ptr ::
  "ChassisController option \<Rightarrow> ChassisConfig option \<Rightarrow> u64 \<Rightarrow> ChassisController option" where
  "chassis_init_ptr controller config now_ms =
     (case controller of None \<Rightarrow> None | Some c \<Rightarrow> Some (chassis_init c config now_ms))"

definition chassis_set_command_ptr ::
  "ChassisController option \<Rightarrow> f32 \<Rightarrow> f32 \<Rightarrow> f32 \<Rightarrow> u64 \<Rightarrow> ChassisController option" where
  "chassis_set_command_ptr controller f s r now_ms =
     (case controller of None \<Rightarrow> None | Some c \<Rightarrow> Some (chassis_set_command c f s r now_ms))"

definition chassis_stop_ptr :: "ChassisController option \<Rightarrow> u64 \<Rightarrow> ChassisController option" where
  "chassis_stop_ptr controller now_ms =
     (case controller of None \<Rightarrow> None | Some c \<Rightarrow> Some (chassis_stop c now_ms))"

definition chassis_update_feedback_ptr ::
  "ChassisController option \<Rightarrow> Motor3508Feedback option \<Rightarrow> ChassisController option" where
  "chassis_update_feedback_ptr controller feedback =
     (case (controller, feedback) of
        (Some c, Some fb) \<Rightarrow> Some (chassis_update_feedback c fb)
      | (c, fb) \<Rightarrow> c)"

definition chassis_feedback_all_online_ptr :: "ChassisController option \<Rightarrow> u64 \<Rightarrow> int" where
  "chassis_feedback_all_online_ptr controller now_ms =
     (case controller of None \<Rightarrow> 0 | Some c \<Rightarrow> chassis_feedback_all_online c now_ms)"

definition chassis_step_ptr ::
  "(f32 \<Rightarrow> int) \<Rightarrow> ChassisController option \<Rightarrow> u64 \<Rightarrow> f32 \<Rightarrow> i16 list option \<Rightarrow>
   ChassisController option \<times> int \<times> i16 list option" where
  "chassis_step_ptr u controller now_ms dt_s currents =
     (case (controller, currents) of
        (Some c, Some cur) \<Rightarrow>
          (case chassis_step u c now_ms dt_s cur of (c, r, cur) \<Rightarrow> (Some c, r, Some cur))
      | (c, cur) \<Rightarrow> (c, 0, cur))"

text \<open>A \<open>NULL\<close> in either place makes a step do nothing at all and report 0.\<close>

lemma step_ptr_null:
  "chassis_step_ptr u None now dt cur = (None, 0, cur)"
  "chassis_step_ptr u c now dt None = (c, 0, None)"
  by (simp_all add: chassis_step_ptr_def split: option.split)

lemma step_ptr_defined:
  "chassis_step_ptr u (Some c) now dt (Some cur) =
     (Some (fst (chassis_step u c now dt cur)), fst (snd (chassis_step u c now dt cur)),
      Some (snd (snd (chassis_step u c now dt cur))))"
  by (simp add: chassis_step_ptr_def case_prod_beta)

text \<open>Calls through pointers never make a valid pointer invalid, nor the other way round.\<close>

lemma ptr_kept:
  "(pid_reset_ptr p = None) = (p = None)"
  "(fst (pid_calculate_ptr p t a dt) = None) = (p = None)"
  "(chassis_stop_ptr c now = None) = (c = None)"
  "(chassis_update_feedback_ptr c fb = None) = (c = None)"
  "(fst (chassis_step_ptr u c now dt cur) = None) = (c = None)"
  by (simp_all add: pid_reset_ptr_def pid_calculate_ptr_def chassis_stop_ptr_def
      chassis_update_feedback_ptr_def chassis_step_ptr_def case_prod_beta split: option.split)

end
