(* ===== verification/EventLoop.thy ===== *)
theory EventLoop
  imports CPrelude
begin

text \<open>
  The receive loops of the program, \<open>for (;;)\<close> around a non-blocking receive, as an
  interface: the loop stops at the first event that says "nothing more" and otherwise runs
  its body on the event. The events are the answers the kernel gives, in order; a list that
  runs out stands for a queue that is empty from then on.
\<close>

locale receive_loop =
  fixes loop :: "'e list \<Rightarrow> 's \<Rightarrow> 's \<times> 'e list"
    and stop :: "'e \<Rightarrow> bool"
    and body :: "'e \<Rightarrow> 's \<Rightarrow> 's"
  assumes loop_nil: "loop [] s = (s, [])"
    and loop_stop: "stop e \<Longrightarrow> loop (e # es) s = (s, es)"
    and loop_step: "\<not> stop e \<Longrightarrow> loop (e # es) s = loop es (body e s)"
begin

text \<open>The loop is a fold of its body over the events before the first stop.\<close>

lemma loop_fold: "fst (loop es s) = fold body (takeWhile (\<lambda>e. \<not> stop e) es) s"
  by (induction es arbitrary: s) (auto simp: loop_nil loop_stop loop_step)

lemma loop_rest: "snd (loop es s) = tl (dropWhile (\<lambda>e. \<not> stop e) es)"
  by (induction es arbitrary: s) (auto simp: loop_nil loop_stop loop_step)

lemma loop_invariant:
  assumes "P s" "\<And>e s. e \<in> set es \<Longrightarrow> \<not> stop e \<Longrightarrow> P s \<Longrightarrow> P (body e s)"
  shows "P (fst (loop es s))"
  using assms
proof (induction es arbitrary: s)
  case (Cons e es)
  then show ?case by (cases "stop e") (auto simp: loop_stop loop_step)
qed (simp add: loop_nil)

text \<open>A quantity the body leaves alone is left alone by the loop.\<close>

lemma loop_frame:
  assumes "\<And>e s. \<not> stop e \<Longrightarrow> f (body e s) = f s"
  shows "f (fst (loop es s)) = f s"
  using loop_invariant [of "\<lambda>t. f t = f s" s es] assms by simp

text \<open>An event handled last decides what holds after the loop.\<close>

lemma loop_last:
  assumes "\<forall>e\<in>set es. \<not> stop e" "\<not> stop e"
  shows "fst (loop (es @ [e]) s) = body e (fst (loop es s))"
  using assms by (induction es arbitrary: s) (auto simp: loop_nil loop_step)

lemma loop_all_consumed: "\<forall>e\<in>set es. \<not> stop e \<Longrightarrow> snd (loop es s) = []"
  by (induction es arbitrary: s) (auto simp: loop_nil loop_step)

end

text \<open>
  The control loops, \<open>while (g_running)\<close> around a turn that may \<open>break\<close>. The inputs are what the
  world gives each turn; the signal that clears \<open>g_running\<close> comes after the last. The flag of
  the result tells whether the loop was left by \<open>break\<close>.
\<close>

locale turn_loop =
  fixes loop :: "'i list \<Rightarrow> 's \<Rightarrow> 's \<times> bool"
    and turn :: "'i \<Rightarrow> 's \<Rightarrow> 's \<times> bool"
  assumes loop_signal: "loop [] s = (s, False)"
    and loop_turn: "loop (i # is) s =
      (if snd (turn i s) then loop is (fst (turn i s)) else (fst (turn i s), True))"
begin

lemma turns_invariant:
  assumes "P s" "\<And>i s. i \<in> set is \<Longrightarrow> P s \<Longrightarrow> P (fst (turn i s))"
  shows "P (fst (loop is s))"
  using assms by (induction "is" arbitrary: s) (auto simp: loop_signal loop_turn)

text \<open>A turn that breaks whatever the state ends the loop, and later inputs are not read.\<close>

lemma turns_end:
  assumes "i \<in> set is" "\<And>s. \<not> snd (turn i s)" shows "snd (loop is s)"
  using assms(1)
proof (induction "is" arbitrary: s)
  case (Cons j js)
  then show ?case using assms(2) by (cases "j = i") (auto simp: loop_turn)
qed simp

lemma turns_cut:
  assumes "\<And>s. \<not> snd (turn i s)" shows "loop (is @ i # js) s = loop (is @ [i]) s"
  using assms by (induction "is" arbitrary: s) (auto simp: loop_turn)

text \<open>A quantity that grows by at most one in each turn grows by at most one for each input.\<close>

lemma turns_count:
  fixes f :: "'s \<Rightarrow> nat"
  assumes "\<And>i s. i \<in> set is \<Longrightarrow> f (fst (turn i s)) \<le> f s + (if k i then 1 else 0)"
  shows "f (fst (loop is s)) \<le> f s + length (filter k is)"
  using assms
proof (induction "is" arbitrary: s)
  case (Cons j js)
  have "f (fst (turn j s)) \<le> f s + (if k j then 1 else 0)" using Cons.prems by simp
  moreover have "f (fst (loop js (fst (turn j s)))) \<le> f (fst (turn j s)) + length (filter k js)"
    using Cons.IH Cons.prems by simp
  ultimately show ?case by (auto simp: loop_turn)
qed (simp add: loop_signal)

end

end
