(* ===== verification/SocketCan.thy ===== *)
theory SocketCan
  imports Motor3508 EventLoop
begin

text \<open>
  \<open>src/socketcan.c\<close>: the CAN socket. What the kernel answers is a parameter; the writes
  made are a log.
\<close>

section \<open>Frames and the kernel\<close>

record can_frame =
  cf_can_id :: u32
  cf_can_dlc :: u8
  cf_data :: "u8 list"

definition CAN_MAX_DLEN :: u8 where "CAN_MAX_DLEN = 8"
definition CAN_SFF_MASK :: u32 where "CAN_SFF_MASK = 0x7FF"
definition sizeof_can_frame :: int where "sizeof_can_frame = 16"

text \<open>
  What the driver promises of a received frame: a data length of at most 8, eight data bytes.
\<close>

definition frame_wf :: "can_frame \<Rightarrow> bool" where
  "frame_wf f \<longleftrightarrow> cf_can_dlc f \<le> CAN_MAX_DLEN \<and> length (cf_data f) = 8"

text \<open>
  The transmit side of a socket is the log of the \<open>write\<close> calls made on it, each frame with
  the value the kernel returned. \<open>write\<close> itself is the parameter \<open>kern\<close>: the result of
  writing a frame, given everything written before.
\<close>

type_synonym can_port = "(can_frame \<times> int) list"
type_synonym can_kernel = "can_port \<Rightarrow> can_frame \<Rightarrow> int"

text \<open>The frames that reached the bus, and those a program tried to send.\<close>

definition sent_frames :: "can_port \<Rightarrow> can_frame list" where
  "sent_frames port = map fst (filter (\<lambda>(f, w). w = sizeof_can_frame) port)"

definition tried_frames :: "can_port \<Rightarrow> can_frame list" where
  "tried_frames port = map fst port"

definition socketcan_send ::
  "can_kernel \<Rightarrow> can_port \<Rightarrow> u32 \<Rightarrow> u8 list \<Rightarrow> u8 \<Rightarrow> int \<times> can_port" where
  "socketcan_send kern port can_id data dlc =
     (if CAN_MAX_DLEN < dlc then (- 1, port)
      else
        let frame = \<lparr>cf_can_id = 0, cf_can_dlc = 0, cf_data = replicate 8 0\<rparr>;
            frame = frame\<lparr>cf_can_id := can_id\<rparr>;
            frame = frame\<lparr>cf_can_dlc := dlc\<rparr>;
            frame = frame\<lparr>cf_data := take (unat dlc) data @ drop (unat dlc) (cf_data frame)\<rparr>;
            written = kern port frame;
            port = port @ [(frame, written)]
        in if written \<noteq> sizeof_can_frame then (- 1, port) else (0, port))"

text \<open>
  One answer of the kernel to \<open>socketcan_receive\<close>: \<open>poll\<close> fails, or times out, or the
  socket is readable and \<open>read\<close> returns a length and, when it is a whole frame, the frame.
\<close>

datatype rx_event = PollError | PollTimeout | ReadShort int | ReadFrame can_frame

record rx_result =
  rx_ret :: int
  rx_can_id :: u32
  rx_data :: "u8 list"
  rx_dlc :: u8

text \<open>
  The out-parameters \<open>can_id\<close>, \<open>data\<close> and \<open>dlc\<close> keep the caller's values unless a frame
  arrives.
\<close>

fun socketcan_receive :: "rx_event \<Rightarrow> u32 \<Rightarrow> u8 list \<Rightarrow> u8 \<Rightarrow> rx_result" where
  "socketcan_receive PollError can_id data dlc =
     \<lparr>rx_ret = - 1, rx_can_id = can_id, rx_data = data, rx_dlc = dlc\<rparr>"
| "socketcan_receive PollTimeout can_id data dlc =
     \<lparr>rx_ret = 0, rx_can_id = can_id, rx_data = data, rx_dlc = dlc\<rparr>"
| "socketcan_receive (ReadShort n) can_id data dlc =
     \<lparr>rx_ret = - 1, rx_can_id = can_id, rx_data = data, rx_dlc = dlc\<rparr>"
| "socketcan_receive (ReadFrame frame) can_id data dlc =
     \<lparr>rx_ret = 1, rx_can_id = cf_can_id frame AND CAN_SFF_MASK,
      rx_data = take (unat (cf_can_dlc frame)) (cf_data frame) @
                drop (unat (cf_can_dlc frame)) data,
      rx_dlc = cf_can_dlc frame\<rparr>"

text \<open>
  \<open>socketcan_open\<close> with the kernel's answers as arguments: the descriptor \<open>socket\<close> returns,
  the result of the interface lookup for the name as copied into the 16-byte field, and the
  result of \<open>bind\<close>. The second component tells whether the descriptor is still open.
\<close>

definition IFNAMSIZ :: nat where "IFNAMSIZ = 16"

definition socketcan_open :: "int \<Rightarrow> (string \<Rightarrow> int) \<Rightarrow> int \<Rightarrow> string \<Rightarrow> int \<times> bool" where
  "socketcan_open fd ioctl_ret bind_ret ifname =
     (if fd < 0 then (- 1, False)
      else if ioctl_ret (take (IFNAMSIZ - 1) ifname) < 0 then (- 1, False)
      else if bind_ret < 0 then (- 1, False)
      else (fd, True))"

text \<open>The answers as one value, and what the tools keep of the call: the descriptor.\<close>

record can_answers =
  ca_socket :: int
  ca_ioctl :: "string \<Rightarrow> int"
  ca_bind :: int

definition can_answer :: "can_answers \<Rightarrow> string \<Rightarrow> int" where
  "can_answer w ifname = fst (socketcan_open (ca_socket w) (ca_ioctl w) (ca_bind w) ifname)"

text \<open>\<open>socketcan_close\<close>: whether the call closes the descriptor.\<close>

definition socketcan_close :: "int \<Rightarrow> bool" where
  "socketcan_close fd \<longleftrightarrow> 0 \<le> fd"

section \<open>Sending\<close>

lemma sent_frames_simps [simp]:
  "sent_frames [] = []"
  "sent_frames (p @ q) = sent_frames p @ sent_frames q"
  "sent_frames [(f, w)] = (if w = sizeof_can_frame then [f] else [])"
  by (simp_all add: sent_frames_def)

lemma tried_frames_simps [simp]:
  "tried_frames [] = []" "tried_frames (p @ q) = tried_frames p @ tried_frames q"
  "tried_frames [(f, w)] = [f]"
  by (simp_all add: tried_frames_def)

lemma sent_subset_tried: "set (sent_frames p) \<subseteq> set (tried_frames p)"
  by (auto simp: sent_frames_def tried_frames_def)

lemma socketcan_send_8:
  assumes "length data = 8" "f = \<lparr>cf_can_id = can_id, cf_can_dlc = 8, cf_data = data\<rparr>"
  shows "socketcan_send kern port can_id data 8 =
    (if kern port f = sizeof_can_frame then 0 else - 1, port @ [(f, kern port f)])"
  using assms by (simp add: socketcan_send_def CAN_MAX_DLEN_def Let_def)

section \<open>The receive side of a tool\<close>

text \<open>
  Every tool drains its socket with the same locals: \<open>can_id = 0\<close>, \<open>data = {0}\<close>, \<open>dlc = 0\<close>.
\<close>

definition drain_receive :: "rx_event \<Rightarrow> rx_result" where
  "drain_receive ev = socketcan_receive ev 0 (replicate 8 0) 0"

definition rx_stop :: "rx_event \<Rightarrow> bool" where
  "rx_stop ev \<longleftrightarrow> rx_ret (drain_receive ev) \<le> 0"

lemma rx_stop_simps [simp]:
  "rx_stop PollError" "rx_stop PollTimeout" "rx_stop (ReadShort n)" "\<not> rx_stop (ReadFrame f)"
  by (simp_all add: rx_stop_def drain_receive_def)

lemma rx_not_stop: "\<not> rx_stop ev \<longleftrightarrow> (\<exists>f. ev = ReadFrame f)"
  by (cases ev) simp_all

lemma drain_receive_frame [simp]:
  "rx_dlc (drain_receive (ReadFrame f)) = cf_can_dlc f"
  "rx_can_id (drain_receive (ReadFrame f)) = cf_can_id f AND CAN_SFF_MASK"
  by (simp_all add: drain_receive_def)

lemma drain_receive_data:
  "length (cf_data f) = 8 \<Longrightarrow> cf_can_dlc f = 8 \<Longrightarrow> rx_data (drain_receive (ReadFrame f)) = cf_data f"
  by (simp add: drain_receive_def)

text \<open>The motor a received frame is taken to come from, if it is taken for feedback at all.\<close>

definition frame_feedback :: "rx_event \<Rightarrow> u64 \<Rightarrow> Motor3508Feedback option" where
  "frame_feedback ev now =
     (let r = drain_receive ev in
      if 0 < rx_ret r \<and> 8 \<le> rx_dlc r \<and> is_feedback_id (rx_can_id r)
      then Some (feedback_of (rx_can_id r) (rx_data r) now) else None)"

section \<open>Properties\<close>

text \<open>What one program sends with \<open>socketcan_send\<close> is what another
  reads with \<open>socketcan_receive\<close>: a standard identifier, the data and its length come back
  unchanged, whatever the receiver's buffers held, and the frame is one the driver may
  deliver.\<close>

theorem can_send_receive_roundtrip:
  assumes "can_id < 0x800" "dlc \<le> 8" "length data = unat dlc" "length buf = 8"
    and "socketcan_send kern port can_id data dlc = (0, port')"
  shows "\<exists>frame. sent_frames port' = sent_frames port @ [frame] \<and> frame_wf frame \<and>
    socketcan_receive (ReadFrame frame) id0 buf dlc0 =
      \<lparr>rx_ret = 1, rx_can_id = can_id, rx_data = data @ drop (unat dlc) buf, rx_dlc = dlc\<rparr>"
proof -
  let ?f = "\<lparr>cf_can_id = can_id, cf_can_dlc = dlc, cf_data = data @ replicate (8 - unat dlc) 0\<rparr>"
  have dlc: "unat dlc \<le> 8" using assms(2) by (simp add: word_le_nat_alt)
  have "port' = port @ [(?f, kern port ?f)]" "kern port ?f = sizeof_can_frame"
    using assms(2,3,5) by (auto simp: socketcan_send_def CAN_MAX_DLEN_def Let_def split: if_splits)
  moreover have "can_id AND CAN_SFF_MASK = can_id"
  proof -
    have m: "CAN_SFF_MASK = (mask 11 :: u32)" by (simp add: CAN_SFF_MASK_def mask_eq_exp_minus_1)
    have "uint can_id < 2 ^ 11" using assms(1) by (simp add: word_less_def)
    then show ?thesis unfolding m by (simp only: mask_eq_iff)
  qed
  moreover have "frame_wf ?f" using assms(2,3) dlc by (simp add: frame_wf_def CAN_MAX_DLEN_def)
  ultimately show ?thesis using assms(3) by (intro exI [of _ ?f]) simp
qed

lemma can_send_receive_roundtrip_witness:
  "\<exists>frame. sent_frames (snd (socketcan_send (\<lambda>_ _. 16) [] 0x200 [1, 2] 2)) = [frame] \<and>
    rx_data (socketcan_receive (ReadFrame frame) 0 (replicate 8 0) 0) = [1, 2] @ drop 2 (replicate 8 0)"
proof -
  have "socketcan_send (\<lambda>_ _. 16) [] 0x200 [1, 2] 2 =
      (0, snd (socketcan_send (\<lambda>_ _. 16) [] 0x200 [1, 2] 2))"
    by (simp add: socketcan_send_def CAN_MAX_DLEN_def sizeof_can_frame_def)
  from can_send_receive_roundtrip [OF _ _ _ _ this, of "replicate 8 0" 0 0]
  show ?thesis by auto
qed

text \<open>A data length above 8 is refused before anything is written; otherwise
  exactly one \<open>write\<close> is made, and the call reports success exactly when the kernel took the
  whole frame.\<close>

theorem can_send_checks:
  "case socketcan_send kern port can_id data dlc of (r, port') \<Rightarrow>
    (if 8 < dlc then r = - 1 \<and> port' = port
     else length port' = length port + 1 \<and> take (length port) port' = port \<and>
       (r = 0 \<longleftrightarrow> snd (last port') = 16) \<and> (r = 0 \<or> r = - 1) \<and>
       (r = - 1 \<longrightarrow> sent_frames port' = sent_frames port))"
  by (auto simp: socketcan_send_def CAN_MAX_DLEN_def Let_def sizeof_can_frame_def sent_frames_def)

lemma can_send_checks_witness:
  "socketcan_send (\<lambda>_ _. 16) [] 0x200 (replicate 9 0) 9 = (- 1, [])"
  using can_send_checks [where kern = "\<lambda>_ _. 16" and port = "[]" and can_id = "0x200" and
      data = "replicate 9 0" and dlc = 9] by (simp add: case_prod_beta prod_eq_iff)

text \<open>C34. The receive path keeps only the low 11 bits of the
  identifier: the flags that mark an extended frame (bit 31), a remote request (bit 30) or an
  error frame (bit 29), and the upper identifier bits, are dropped by \<open>socketcan_receive\<close>. What
  it delivers then passes the identifier test of \<open>motor3508_parse_feedback\<close>, and a frame that is
  no motor feedback at all is turned into a complete feedback record, fresh and online, of the
  motor its low bits name; for any other low bits the record is left alone. The speed, angle and
  current are the big-endian byte pairs of the frame, the temperature its byte 6.\<close>

theorem can_receive_ignores_frame_kind:
  assumes "cf_can_dlc f = 8" "length (cf_data f) = 8"
  defines "r \<equiv> socketcan_receive (ReadFrame f) 0 (replicate 8 0) 0"
  shows "rx_ret r = 1 \<and> rx_dlc r = 8 \<and>
    motor3508_parse_feedback (rx_can_id r) (rx_data r) (Some fb) now =
      (if uint (cf_can_id f) mod 2 ^ 11 \<in> {0x201, 0x202, 0x203, 0x204}
       then (1, Some
         \<lparr>fb_id = word_of_int (uint (cf_can_id f) mod 2 ^ 11 - 0x200),
          fb_angle = word_of_int (256 * uint (cf_data f ! 0) + uint (cf_data f ! 1)),
          fb_speed_rpm = word_of_int (256 * uint (cf_data f ! 2) + uint (cf_data f ! 3)),
          fb_current = word_of_int (256 * uint (cf_data f ! 4) + uint (cf_data f ! 5)),
          fb_temperature = cf_data f ! 6, fb_last_update_ms = now, fb_online = 1\<rparr>)
       else (0, Some fb))"
proof -
  let ?id = "cf_can_id f AND 0x7FF"
  have low: "uint ?id = uint (cf_can_id f) mod 2 ^ 11"
    using take_bit_eq_mask [of 11 "uint (cf_can_id f)"] by (simp add: uint_and take_bit_eq_mod mask_eq_exp_minus_1)
  have eqs: "x = 0x201 \<longleftrightarrow> uint x = 0x201" "x = 0x202 \<longleftrightarrow> uint x = 0x202"
    "x = 0x203 \<longleftrightarrow> uint x = 0x203" "x = 0x204 \<longleftrightarrow> uint x = 0x204" for x :: u32
    by (simp_all add: word_uint_eq_iff)
  have feedback: "is_feedback_id ?id \<longleftrightarrow> uint (cf_can_id f) mod 2 ^ 11 \<in> {0x201, 0x202, 0x203, 0x204}"
    unfolding is_feedback_id_def low [symmetric] using eqs [of ?id] by auto
  have id: "ucast (?id - 0x200) = (word_of_int (uint (cf_can_id f) mod 2 ^ 11 - 0x200) :: u8)"
    if "is_feedback_id ?id"
    using that unfolding low [symmetric] is_feedback_id_def by auto
  have bytes: "bytes_to_i16 a b = word_of_int (256 * uint a + uint b)" for a b
    by (rule bytes_to_i16_value)
  have r: "rx_ret r = 1" "rx_dlc r = 8" "rx_can_id r = ?id" "rx_data r = cf_data f"
    using assms by (simp_all add: CAN_SFF_MASK_def)
  show ?thesis
    unfolding r parse_feedback_eq feedback
    using id feedback by (auto simp: r feedback_of_def bytes motor_consts)
qed

text \<open>An extended remote-request frame, identifier \<open>0x1201\<close>, taken for motor 1.\<close>

lemma can_receive_ignores_frame_kind_witness:
  "let r = socketcan_receive (ReadFrame \<lparr>cf_can_id = 0xC0001201, cf_can_dlc = 8, cf_data = [0, 0, 1, 2, 0, 0, 0, 0]\<rparr>)
       0 (replicate 8 0) 0
   in fst (motor3508_parse_feedback (rx_can_id r) (rx_data r) (Some fb_zero) 5) = 1 \<and>
     map_option fb_speed_rpm (snd (motor3508_parse_feedback (rx_can_id r) (rx_data r) (Some fb_zero) 5)) = Some 258"
  using can_receive_ignores_frame_kind [where now = 5 and fb = fb_zero and
      f = "\<lparr>cf_can_id = 0xC0001201, cf_can_dlc = 8, cf_data = [0, 0, 1, 2, 0, 0, 0, 0]\<rparr>"]
  by (simp add: Let_def)

text \<open>\<open>socketcan_open\<close> returns either a usable open descriptor or -1 with
  nothing left open, and it never passes the kernel a name longer than the 15 characters the
  field holds.\<close>

theorem can_open_never_leaks:
  "case socketcan_open fd ioctl_ret bind_ret ifname of (r, still_open) \<Rightarrow>
     (still_open \<longleftrightarrow> 0 \<le> r) \<and> (r = fd \<or> r = - 1) \<and>
     (0 \<le> r \<longrightarrow> 0 \<le> ioctl_ret (take 15 ifname) \<and> 0 \<le> bind_ret) \<and>
     (still_open \<longrightarrow> socketcan_close r)"
  by (auto simp: socketcan_open_def IFNAMSIZ_def socketcan_close_def)

lemma can_open_never_leaks_witness:
  "snd (socketcan_open 5 (\<lambda>_. 0) (- 1) ''can0'') = False"
  using can_open_never_leaks [where fd = 5 and ioctl_ret = "\<lambda>_. 0" and bind_ret = "- 1" and
      ifname = "''can0''"] by (auto simp: case_prod_beta)

end
