(* ===== verification/CommandFrames.thy ===== *)
theory CommandFrames
  imports SocketCan
begin

text \<open>
  The command frames the programs write to the bus, and the interface of the function that
  writes one: each program has its own copy of \<open>send_currents\<close>.
\<close>

section \<open>Frames of four currents\<close>

text \<open>The commands a state may hold: five of them, each within the limit.\<close>

definition commands_within :: "int \<Rightarrow> i16 list \<Rightarrow> bool" where
  "commands_within b cs \<longleftrightarrow> length cs = 5 \<and> (\<forall>x\<in>set cs. \<bar>sint x\<bar> \<le> b)"

lemma zero_within: "0 \<le> b \<Longrightarrow> commands_within b (replicate 5 0)"
  by (simp add: commands_within_def)

text \<open>The four currents a frame carries.\<close>

definition frame_currents :: "can_frame \<Rightarrow> i16 list" where
  "frame_currents f =
     map (\<lambda>k. bytes_to_i16 (cf_data f ! (2 * k)) (cf_data f ! (2 * k + 1))) [0..<4]"

definition command_frame :: "i16 list \<Rightarrow> can_frame" where
  "command_frame cs = \<lparr>cf_can_id = 0x200, cf_can_dlc = 8,
     cf_data = motor3508_pack_current_array cs (replicate 8 0)\<rparr>"

lemma upt4: "[0..<4] = [0, 1, 2, 3 :: nat]"
  by (simp add: upt_rec)

lemma frame_currents_command: "frame_currents (command_frame cs) = [cs ! 1, cs ! 2, cs ! 3, cs ! 4]"
proof -
  have "length (replicate 8 (0::u8)) = 8" by simp
  note n = nth_pack_current [OF this]
  show ?thesis
    unfolding frame_currents_def command_frame_def motor3508_pack_current_array_def upt4
    using n by (simp add: i16_to_bytes_to_i16 numeral_eq_Suc)
qed

text \<open>A frame that commands the four motors within a limit.\<close>

definition command_frame_ok :: "int \<Rightarrow> can_frame \<Rightarrow> bool" where
  "command_frame_ok b f \<longleftrightarrow> cf_can_id f = 0x200 \<and> cf_can_dlc f = 8 \<and> length (cf_data f) = 8 \<and>
     (\<forall>x\<in>set (frame_currents f). \<bar>sint x\<bar> \<le> b)"

lemma command_frame_ok:
  assumes "commands_within b cs" shows "command_frame_ok b (command_frame cs)"
proof -
  have "cs ! i \<in> set cs" if "i < 5" for i using assms that by (simp add: commands_within_def)
  then show ?thesis
    using assms unfolding command_frame_ok_def frame_currents_command commands_within_def
    by (simp add: command_frame_def len_simps)
qed

lemma zero_frame_currents: "frame_currents (command_frame (replicate 5 0)) = [0, 0, 0, 0]"
  by (simp add: frame_currents_command)

section \<open>Senders\<close>

text \<open>
  A sender tries exactly one frame, the command frame of its currents, and succeeds when the
  kernel takes all of it. Sending again and again is what stops the motors.
\<close>

locale current_sender =
  fixes send :: "can_port \<Rightarrow> i16 list \<Rightarrow> int \<times> can_port"
    and kern :: can_kernel
  assumes send_eq: "send port cs =
     (if kern port (command_frame cs) = sizeof_can_frame then 0 else - 1,
      port @ [(command_frame cs, kern port (command_frame cs))])"
begin

lemma send_frames: "tried_frames (snd (send port cs)) = tried_frames port @ [command_frame cs]"
  by (simp add: send_eq)

lemma burst_frames:
  "tried_frames (((\<lambda>port. snd (send port cs)) ^^ n) port) = tried_frames port @ replicate n (command_frame cs)"
  by (induction n) (simp_all add: send_eq replicate_append_same)

end

end
