(* ===== verification/ControlCycle.thy ===== *)
theory ControlCycle
  imports ChassisProps CommandFrames
begin

text \<open>
  What the tools that drive the chassis have in common: the clock they read, the time step
  they compute from it, and the currents they send after a step of the controller.
\<close>

section \<open>The clock\<close>

record timespec =
  tv_sec :: int
  tv_nsec :: int

text \<open>\<open>CLOCK_MONOTONIC\<close> in milliseconds; both fields are \<open>long\<close> and not negative.\<close>

definition monotonic_ms :: "timespec \<Rightarrow> u64" where
  "monotonic_ms ts = word_of_int (tv_sec ts) * 1000 + word_of_int (tv_nsec ts) div 1000000"

text \<open>What \<open>sleep_ms\<close> asks \<open>nanosleep\<close> for.\<close>

definition sleep_request :: "int \<Rightarrow> timespec" where
  "sleep_request ms = \<lparr>tv_sec = ms div 1000, tv_nsec = ms mod 1000 * 1000000\<rparr>"

text \<open>Times of the kernel: the nanoseconds are below one second, and 64 bits are enough.\<close>

definition time_ok :: "timespec \<Rightarrow> bool" where
  "time_ok ts \<longleftrightarrow> 0 \<le> tv_sec ts \<and> tv_sec ts < 2 ^ 53 \<and> 0 \<le> tv_nsec ts \<and> tv_nsec ts < 1000000000"

lemma monotonic_ms_value:
  assumes "time_ok ts"
  shows "uint (monotonic_ms ts) = tv_sec ts * 1000 + tv_nsec ts div 1000000"
proof -
  have b: "0 \<le> tv_sec ts" "tv_sec ts < 2 ^ 53" "0 \<le> tv_nsec ts" "tv_nsec ts < 1000000000"
    using assms by (simp_all add: time_ok_def)
  have "uint (word_of_int (tv_sec ts) * 1000 :: u64) = tv_sec ts * 1000"
    using b by (simp add: uint_word_ariths uint_word_of_int take_bit_eq_mod)
  moreover have "uint (word_of_int (tv_nsec ts) div 1000000 :: u64) = tv_nsec ts div 1000000"
    using b by (simp add: uint_div uint_word_of_int take_bit_eq_mod)
  ultimately show ?thesis using b by (simp add: monotonic_ms_def uint_word_ariths)
qed

text \<open>The clock of the program does not go back when that of the kernel does not.\<close>

lemma monotonic_ms_mono:
  assumes "time_ok a" "time_ok b" "tv_sec a * 1000000000 + tv_nsec a \<le> tv_sec b * 1000000000 + tv_nsec b"
  shows "monotonic_ms a \<le> monotonic_ms b"
proof -
  have ns: "tv_sec t * 1000 + tv_nsec t div 1000000 = (tv_sec t * 1000000000 + tv_nsec t) div 1000000" for t
    by simp
  show ?thesis
    unfolding word_le_def monotonic_ms_value [OF assms(1)] monotonic_ms_value [OF assms(2)] ns
    by (rule zdiv_mono1 [OF assms(3)]) simp
qed

section \<open>The time step\<close>

definition loop_dt :: "u64 \<Rightarrow> u64 \<Rightarrow> f32" where
  "loop_dt now last_loop_ms = f32_of_u64 (now - last_loop_ms) / f32_lit 1000"

lemma f32_of_u64_bounds:
  assumes "n \<noteq> 0"
  shows "\<exists>q. f32_of_u64 n = Fin False q \<and> 1 \<le> q \<and> q \<le> 2 ^ 64"
proof -
  have n: "1 \<le> uint n" "uint n \<le> 2 ^ 64"
    using assms uint_lt2p [of n] uint_ge_0 [of n] by (simp_all add: int_one_le_iff_zero_less word_neq_0_conv word_less_def)
  have "(of_int 1 :: rat) \<le> of_int (uint n)" "(of_int (uint n) :: rat) \<le> of_int (2 ^ 64)"
    using n by (simp_all only: of_int_le_iff)
  then have q: "1 \<le> (of_int (uint n) :: rat)" "of_int (uint n) \<le> (2 ^ 64 :: rat)" by simp_all
  have r1: "representable 1" using representable_pow2 [of 0] by simp
  have r64: "representable (2 ^ 64)" using representable_pow2 [of 64] by (simp add: pow2_def)
  have "1 \<le> round32 (of_int (uint n))" by (rule round32_ge [OF q(1) r1])
  moreover have "round32 (of_int (uint n)) \<le> 2 ^ 64" by (rule round32_le [OF q(2) r64])
  moreover have "\<not> of_int (uint n) < (0 :: rat)" "(of_int (uint n) :: rat) \<noteq> 0" using q(1) by linarith+
  ultimately show ?thesis
    by (simp add: f32_of_u64_def f32_of_int_def f32_round_def Let_def del: of_int_uint)
qed

lemma loop_dt_ok: "dt_ok (loop_dt now prev)"
proof (cases "now - prev = 0")
  case True
  then show ?thesis
    using f32_lit_int [of 1000] by (simp add: loop_dt_def dt_ok_def zero_f32_def f32_round_def)
next
  case False
  then obtain q where q: "f32_of_u64 (now - prev) = Fin False q" "1 \<le> q" "q \<le> 2 ^ 64"
    using f32_of_u64_bounds by blast
  have "representable (pow2 (- 10))" by (rule representable_pow2) simp
  moreover have "pow2 (- 10) \<le> q / 1000" using q(2) by (simp add: pow2_def)
  ultimately have lo: "pow2 (- 10) \<le> round32 (q / 1000)" by (intro round32_ge)
  have "representable (2 ^ 64)" using representable_pow2 [of 64] by (simp add: pow2_def)
  then have hi: "round32 (q / 1000) \<le> 2 ^ 64" using q by (intro round32_le) simp_all
  have "loop_dt now prev = Fin False (round32 (q / 1000))"
    using q lo hi f32_lit_int [of 1000]
    by (simp add: loop_dt_def f32_round_def Let_def pow2_def)
  then show ?thesis using lo hi by (simp add: dt_ok_def pow2_def)
qed

section \<open>The currents of a turn\<close>

text \<open>The loop that forces the currents to zero when \<open>chassis_step\<close> reports a motor offline.\<close>

definition zero_if_offline :: "int \<Rightarrow> i16 list \<Rightarrow> i16 list" where
  "zero_if_offline online currents =
     (if online = 0 then fold (\<lambda>i cur. cur[i := 0]) slots currents else currents)"

lemma zero_if_offline_within:
  assumes "length cur = 5" "\<forall>x\<in>set cur. \<bar>sint x\<bar> \<le> b" "0 \<le> b"
  shows "commands_within b (zero_if_offline online cur)"
  using assms by (simp add: commands_within_def zero_if_offline_def fold_slots_set)

text \<open>A step of a sound controller, then the zeros, then the frame: always within the limit.\<close>

lemma cycle_ok:
  assumes "chassis_ok c" "length cur = 5" "chassis_step u c now (loop_dt now prev) cur = (c', online, cur')"
  shows "chassis_ok c'" "commands_within 6500 (zero_if_offline online cur')"
    "command_frame_ok 6500 (command_frame (zero_if_offline online cur'))"
  using chassis_step_ok [OF assms(1) loop_dt_ok assms(2,3)] zero_if_offline_within [of cur' 6500 online]
    command_frame_ok [of 6500 "zero_if_offline online cur'"] by simp_all

section \<open>The shape of the controller's state\<close>

text \<open>
  Five slots in every array, and the feedback in slot \<open>i\<close> is that of motor \<open>i\<close>. Unlike the
  bounds, this needs nothing of the configuration, the commands or the time step.
\<close>

definition chassis_typed :: "ChassisController \<Rightarrow> bool" where
  "chassis_typed c \<longleftrightarrow> chassis_wf c \<and> map fb_id (cc_feedback c) = [0, 1, 2, 3, 4]"

lemma typed_init: "chassis_wf c \<Longrightarrow> chassis_typed (chassis_init c config now)"
  by (simp add: chassis_init_eq chassis_typed_def chassis_wf_def)

lemma typed_set_command: "chassis_typed c \<Longrightarrow> chassis_typed (chassis_set_command c f s r now)"
  by (simp add: chassis_typed_def chassis_set_command_def chassis_wf_def)

lemma typed_reset: "chassis_typed c \<Longrightarrow> chassis_typed (reset_motion_state c)"
  by (simp add: chassis_typed_def frame_simps)

lemma typed_stop: "chassis_typed c \<Longrightarrow> chassis_typed (chassis_stop c now)"
  unfolding chassis_stop_def by (rule typed_reset) (simp add: chassis_typed_def chassis_wf_def)

lemma typed_update_feedback:
  assumes "chassis_typed c" shows "chassis_typed (chassis_update_feedback c fb)"
proof (cases "fb_id fb < 1 \<or> of_nat CHASSIS_MOTOR_COUNT < fb_id fb")
  case True
  then show ?thesis using assms by (simp add: chassis_update_feedback_def)
next
  case False
  let ?k = "unat (fb_id fb)"
  have k: "?k < 5" using False by (simp add: motor_consts word_less_nat_alt not_less)
  have ids: "map fb_id (cc_feedback c) = [0, 1, 2, 3, 4]" using assms by (simp add: chassis_typed_def)
  have same: "[0, 1, 2, 3, 4 :: u8] ! n = of_nat n" if "n < 5" for n
    using that by (auto simp: less_Suc_eq numeral_eq_Suc)
  have "map fb_id ((cc_feedback c)[?k := fb]) = [0, 1, 2, 3, 4 :: u8][?k := fb_id fb]"
    by (simp add: map_update ids)
  also have "\<dots> = [0, 1, 2, 3, 4]"
    by (rule list_update_same_conv [THEN iffD2]) (use k same [OF k] in simp_all)
  finally show ?thesis
    using assms False by (simp add: chassis_typed_def chassis_update_feedback_def chassis_wf_def)
qed

lemma typed_step:
  assumes "chassis_typed c" "length cur = 5" "chassis_step u c now dt cur = (c', r, cur')"
  shows "chassis_typed c' \<and> length cur' = 5 \<and> cur' ! 0 = 0 \<and> r \<in> {0, 1}"
proof -
  have wf: "chassis_wf c" using assms(1) by (simp add: chassis_typed_def)
  have d: "chassis_typed (update_targets_from_command c)"
    using assms(1) by (simp add: chassis_typed_def frame_simps)
  show ?thesis
    using wf assms(2)
  proof (cases rule: step_cases [where now = now])
    case idle
    then show ?thesis
      using assms typed_reset [OF assms(1)] all_online_01 [of c now] by (simp add: step_idle [OF wf assms(2)]) auto
  next
    case offline
    then show ?thesis
      using assms d by (auto simp: step_offline [OF wf assms(2) offline] chassis_typed_def chassis_wf_def frame_simps)
  next
    case drive
    then show ?thesis
      using assms d by (auto simp: step_drive [OF wf assms(2) drive] chassis_typed_def chassis_wf_def frame_simps)
  qed
qed

lemma zero_if_offline_typed:
  "length cur = 5 \<Longrightarrow> cur ! 0 = 0 \<Longrightarrow> length (zero_if_offline online cur) = 5 \<and> zero_if_offline online cur ! 0 = 0"
  by (simp add: zero_if_offline_def fold_slots_set)

end
