(* ===== verification/CScan.thy ===== *)
theory CScan
  imports Float32
begin

text \<open>
  The text input of the tools: \<open>strtol\<close>, \<open>strtof\<close> and the \<open>%f\<close> of \<open>sscanf\<close> as the C
  standard describes them (7.22.1 and 7.21.6.2) in the "C" locale. A string ends where its
  first NUL byte is; a character stands for a byte.
\<close>

section \<open>Characters\<close>

definition char_code :: "char \<Rightarrow> nat" where
  "char_code c = of_char c"

definition is_space :: "char \<Rightarrow> bool" where
  "is_space c \<longleftrightarrow> char_code c = 32 \<or> 9 \<le> char_code c \<and> char_code c \<le> 13"

definition is_digit :: "char \<Rightarrow> bool" where
  "is_digit c \<longleftrightarrow> 48 \<le> char_code c \<and> char_code c \<le> 57"

definition lower :: "char \<Rightarrow> char" where
  "lower c = (if 65 \<le> char_code c \<and> char_code c \<le> 90 then char_of (char_code c + 32) else c)"

definition is_letter :: "char \<Rightarrow> bool" where
  "is_letter c \<longleftrightarrow> 97 \<le> char_code (lower c) \<and> char_code (lower c) \<le> 122"

definition is_xdigit :: "char \<Rightarrow> bool" where
  "is_xdigit c \<longleftrightarrow> is_digit c \<or> 97 \<le> char_code (lower c) \<and> char_code (lower c) \<le> 102"

definition digit_val :: "char \<Rightarrow> nat" where
  "digit_val c = (if is_digit c then char_code c - 48 else char_code (lower c) - 87)"

definition number_of :: "int \<Rightarrow> string \<Rightarrow> int" where
  "number_of base ds = fold (\<lambda>c n. base * n + int (digit_val c)) ds 0"

definition c_string :: "string \<Rightarrow> string" where
  "c_string bytes = takeWhile (\<lambda>c. char_code c \<noteq> 0) bytes"

section \<open>Integers\<close>

fun scan_sign :: "string \<Rightarrow> bool \<times> string" where
  "scan_sign (c # s) =
     (if char_code c = 45 then (True, s) else if char_code c = 43 then (False, s) else (False, c # s))"
| "scan_sign [] = (False, [])"

definition LONG_MAX :: int where "LONG_MAX = 2 ^ 63 - 1"
definition LONG_MIN :: int where "LONG_MIN = - (2 ^ 63)"

text \<open>\<open>strtol\<close> in base 10: the value, held to the range of \<open>long\<close>, and the rest of the text;
  \<open>None\<close> when there is no number (\<open>end == text\<close>).\<close>

definition c_strtol :: "string \<Rightarrow> (int \<times> string) option" where
  "c_strtol text =
     (let (neg, s) = scan_sign (dropWhile is_space text);
          ds = takeWhile is_digit s;
          v = number_of 10 ds
      in if ds = [] then None
         else Some (max LONG_MIN (min LONG_MAX (if neg then - v else v)), dropWhile is_digit s))"

section \<open>Floating-point numbers\<close>

text \<open>Digits with an optional point among them; at least one digit.\<close>

definition scan_mantissa :: "(char \<Rightarrow> bool) \<Rightarrow> int \<Rightarrow> string \<Rightarrow> (rat \<times> string) option" where
  "scan_mantissa digit base s =
     (let ip = takeWhile digit s;
          r = dropWhile digit s;
          (fp, r) = (case r of
              c # t \<Rightarrow> if char_code c = 46 then (takeWhile digit t, dropWhile digit t) else ([], r)
            | [] \<Rightarrow> ([], r))
      in if ip @ fp = [] then None
         else Some (of_int (number_of base (ip @ fp)) / of_int base ^ length fp, r))"

text \<open>An exponent: the letter, a sign, digits. The letter without digits is not a number.\<close>

definition scan_exponent :: "char \<Rightarrow> string \<Rightarrow> (int \<times> string) option" where
  "scan_exponent letter s =
     (case s of
        c # t \<Rightarrow>
          if lower c = letter
          then (let (neg, t) = scan_sign t; ds = takeWhile is_digit t; v = number_of 10 ds
                in if ds = [] then None else Some (if neg then - v else v, dropWhile is_digit t))
          else Some (0, s)
      | [] \<Rightarrow> Some (0, s))"

definition scale_by :: "int \<Rightarrow> int \<Rightarrow> rat" where
  "scale_by base e = (if 0 \<le> e then of_int base ^ nat e else 1 / of_int base ^ nat (- e))"

definition scan_magnitude :: "bool \<Rightarrow> (char \<Rightarrow> bool) \<Rightarrow> int \<Rightarrow> char \<Rightarrow> int \<Rightarrow> string \<Rightarrow> (f32 \<times> string) option" where
  "scan_magnitude neg digit base letter radix s =
     (case scan_mantissa digit base s of
        None \<Rightarrow> None
      | Some (m, r) \<Rightarrow>
          (case scan_exponent letter r of
             None \<Rightarrow> None
           | Some (e, r) \<Rightarrow>
               Some (f32_round neg ((if neg then - m else m) * scale_by radix e), r)))"

text \<open>
  The input item of a \<open>%f\<close> conversion: after white space, the longest text that is or begins a
  number; \<open>None\<close> when that text is not a number. \<open>inf\<close>, \<open>infinity\<close>, \<open>nan\<close>, \<open>nan(...)\<close> in
  either case and hexadecimal numbers belong to it, and values are rounded to \<open>float\<close>.
\<close>

definition scan_float :: "string \<Rightarrow> (f32 \<times> string) option" where
  "scan_float text =
     (let (neg, s) = scan_sign (dropWhile is_space text);
          word = map lower (take 3 s);
          r = drop 3 s
      in if word = ''nan''
         then (if take 1 r = ''(''
               then let t = dropWhile (\<lambda>c. is_digit c \<or> is_letter c \<or> char_code c = 95) (drop 1 r)
                    in if take 1 t = '')'' then Some (NaN, drop 1 t) else None
               else Some (NaN, r))
         else if word = ''inf''
         then (if map lower (take 1 r) = ''i''
               then if map lower (take 5 r) = ''inity'' then Some (Inf neg, drop 5 r) else None
               else Some (Inf neg, r))
         else if map lower (take 2 s) = ''0x''
         then scan_magnitude neg is_xdigit 16 (CHR ''p'') 2 (drop 2 s)
         else scan_magnitude neg is_digit 10 (CHR ''e'') 10 s)"

text \<open>
  \<open>sscanf(buffer, " %f %f %f %c", ...)\<close>: the number of conversions (\<open>EOF\<close>, -1, when the text
  ends before the first) and the three variables, which were set to zero before.
\<close>

definition scan_velocity :: "string \<Rightarrow> int \<times> f32 \<times> f32 \<times> f32" where
  "scan_velocity s =
     (case scan_float s of
        None \<Rightarrow> (if dropWhile is_space s = [] then - 1 else 0, 0, 0, 0)
      | Some (forward, s) \<Rightarrow>
          (case scan_float s of
             None \<Rightarrow> (1, forward, 0, 0)
           | Some (strafe, s) \<Rightarrow>
               (case scan_float s of
                  None \<Rightarrow> (2, forward, strafe, 0)
                | Some (rotation, s) \<Rightarrow>
                    (if dropWhile is_space s = [] then 3 else 4, forward, strafe, rotation))))"

text \<open>\<open>strtof\<close> on a whole argument: \<open>Some\<close> when a number stands there and nothing after it. (A
  text whose longest beginning of a number is not a number, as in \<open>1e\<close>, is not consumed whole
  by \<open>strtof\<close> either, so \<open>scan_float\<close> decides the same texts.)\<close>

definition c_strtof_whole :: "string \<Rightarrow> f32 option" where
  "c_strtof_whole text =
     (case scan_float text of Some (v, r) \<Rightarrow> if r = [] then Some v else None | None \<Rightarrow> None)"

section \<open>Decimal numbers\<close>

text \<open>The plain decimal notation every sender uses: sign, digits, point, digits.\<close>

lemma scan_decimal:
  assumes "ds \<noteq> []" "\<forall>c\<in>set (ds @ fs). is_digit c" "map lower (take 2 (ds @ CHR ''.'' # fs @ r)) \<noteq> ''0x''"
    "\<forall>c\<in>set (take 1 r). \<not> is_digit c \<and> lower c \<noteq> CHR ''e''"
  shows "scan_float (ds @ CHR ''.'' # fs @ r) =
    Some (f32_lit (of_int (number_of 10 (ds @ fs)) / 10 ^ length fs), r)"
proof -
  obtain d ds' where ds: "ds = d # ds'" using assms(1) by (cases ds) auto
  then have d: "is_digit d" using assms(2) by simp
  then have c: "48 \<le> char_code d" "char_code d \<le> 57" by (simp_all add: is_digit_def)
  let ?s = "ds @ CHR ''.'' # fs @ r"
  have "dropWhile is_space ?s = ?s" using c by (simp add: ds is_space_def)
  moreover have "scan_sign ?s = (False, ?s)" using c by (simp add: ds)
  moreover have "lower d = d" using c by (simp add: lower_def)
  then have "map lower (take 3 ?s) \<noteq> ''nan''" "map lower (take 3 ?s) \<noteq> ''inf''"
    using c by (auto simp: ds char_code_def)
  moreover have "char_code (CHR ''.'') = 46" by (simp add: char_code_def)
  then have nd: "\<not> is_digit (CHR ''.'')" by (simp add: is_digit_def)
  have "scan_mantissa is_digit 10 ?s = Some (of_int (number_of 10 (ds @ fs)) / 10 ^ length fs, r)"
  proof -
    have "takeWhile is_digit ?s = ds" "dropWhile is_digit ?s = CHR ''.'' # fs @ r"
      using assms(2) nd by (simp_all add: takeWhile_append2 dropWhile_append2)
    moreover have "takeWhile is_digit (fs @ r) = fs" "dropWhile is_digit (fs @ r) = r"
      using assms(2,4) by (cases r; simp add: takeWhile_append2 dropWhile_append2)+
    ultimately show ?thesis
      using assms(1) \<open>char_code (CHR ''.'') = 46\<close> by (simp add: scan_mantissa_def Let_def)
  qed
  moreover have "scan_exponent (CHR ''e'') r = Some (0, r)"
    using assms(4) by (cases r) (auto simp: scan_exponent_def)
  ultimately show ?thesis
    using assms(3) by (simp add: scan_float_def scan_magnitude_def f32_lit_def scale_by_def Let_def)
qed

end
