(* ===== verification/CFormat.thy ===== *)
theory CFormat
  imports CScan
begin

text \<open>
  The text output of the tools: the conversions of \<open>printf\<close> they use, as the C standard
  describes them (7.21.6.1), and the proof that \<open>CScan\<close> reads them back.
\<close>

section \<open>Digits\<close>

definition digit_char :: "int \<Rightarrow> char" where
  "digit_char d = char_of (nat (if d < 10 then 48 + d else 55 + d))"

text \<open>The digits of a number that is not negative, most significant first; at least one.\<close>

function show_digits :: "int \<Rightarrow> int \<Rightarrow> string" where
  "show_digits base n =
     (if base \<le> 1 \<or> n < base then [digit_char n]
      else show_digits base (n div base) @ [digit_char (n mod base)])"
  by auto
termination
  by (relation "measure (\<lambda>(base, n). nat n)") (auto intro: int_div_less_self)

declare show_digits.simps [simp del]

section \<open>Conversions\<close>

text \<open>\<open>%u\<close>, \<open>%llu\<close>, \<open>%d\<close>, \<open>%X\<close>; padding to a width with blanks or zeros.\<close>

definition show_uint :: "int \<Rightarrow> string" where
  "show_uint n = show_digits 10 n"

definition show_int :: "int \<Rightarrow> string" where
  "show_int n = (if n < 0 then CHR ''-'' # show_uint (- n) else show_uint n)"

definition show_hex :: "int \<Rightarrow> string" where
  "show_hex n = show_digits 16 n"

definition pad :: "char \<Rightarrow> nat \<Rightarrow> string \<Rightarrow> string" where
  "pad c width s = replicate (width - length s) c @ s"

text \<open>
  \<open>%.pf\<close>: the exact value of the \<open>float\<close> (it is passed as a \<open>double\<close>, which changes nothing),
  rounded to \<open>p\<close> decimals, ties to even. The sign of a NaN is not part of the model of \<open>float\<close>
  and is left out.
\<close>

fun show_fixed :: "nat \<Rightarrow> f32 \<Rightarrow> string" where
  "show_fixed p (Fin neg q) =
     (let n = rne (\<bar>q\<bar> * 10 ^ p);
          whole = show_uint (n div 10 ^ p);
          decimals = pad (CHR ''0'') p (show_uint (n mod 10 ^ p))
      in (if neg then ''-'' else []) @ whole @ (if p = 0 then [] else CHR ''.'' # decimals))"
| "show_fixed p (Inf neg) = (if neg then ''-inf'' else ''inf'')"
| "show_fixed p NaN = ''nan''"

definition newline :: string where "newline = [CHR 0x0A]"

section \<open>Reading back\<close>

lemma digit_char_code:
  assumes "0 \<le> d" "d < 10" shows "char_code (digit_char d) = nat (48 + d)"
  using assms by (simp add: digit_char_def char_code_def nat_add_distrib)

lemma digit_char_digit:
  assumes "0 \<le> d" "d < 10"
  shows "is_digit (digit_char d)" "int (digit_val (digit_char d)) = d"
  using assms by (auto simp: is_digit_def digit_val_def digit_char_code)

lemma number_of_append: "number_of b (ds @ [c]) = b * number_of b ds + int (digit_val c)"
  by (simp add: number_of_def)

lemma show_uint_reads:
  assumes "0 \<le> n"
  shows "show_uint n \<noteq> []" "\<forall>c\<in>set (show_uint n). is_digit c" "number_of 10 (show_uint n) = n"
proof -
  have "show_digits b n \<noteq> [] \<and> (\<forall>c\<in>set (show_digits b n). is_digit c) \<and> number_of b (show_digits b n) = n"
    if "b = 10" "0 \<le> n" for b n
    using that
  proof (induction b n rule: show_digits.induct)
    case (1 b n)
    show ?case
    proof (cases "n < 10")
      case True
      with 1(2,3) show ?thesis
        by (subst (1 2 3) show_digits.simps) (simp add: digit_char_digit number_of_def)
    next
      case False
      with 1 have "show_digits 10 n = show_digits 10 (n div 10) @ [digit_char (n mod 10)]"
        by (subst show_digits.simps) simp
      with 1 False show ?thesis by (auto simp: digit_char_digit number_of_append)
    qed
  qed
  from this [of 10 n] assms
  show "show_uint n \<noteq> []" "\<forall>c\<in>set (show_uint n). is_digit c" "number_of 10 (show_uint n) = n"
    by (simp_all add: show_uint_def)
qed

lemma show_uint_digit: "0 \<le> n \<Longrightarrow> c \<in> set (show_uint n) \<Longrightarrow> is_digit c"
  using show_uint_reads(2) by blast

lemma hd_show_uint: "0 \<le> n \<Longrightarrow> is_digit (hd (show_uint n))"
  using show_uint_reads [of n] by (simp add: hd_in_set)

lemma digit_not:
  assumes "is_digit c"
  shows "\<not> is_space c" "char_code c \<noteq> 45" "char_code c \<noteq> 43" "char_code c \<noteq> 0"
    "c \<noteq> CHR '',''" "c \<noteq> CHR 0x0A" "c \<noteq> CHR ''-''" "c \<noteq> CHR ''.''"
  using assms by (auto simp: is_digit_def is_space_def char_code_def)

text \<open>What \<open>%d\<close> prints, \<open>strtol\<close> reads, and it stops where the number ends.\<close>

lemma strtol_show_int:
  assumes "LONG_MIN \<le> n" "n \<le> LONG_MAX" "r = [] \<or> \<not> is_digit (hd r)"
  shows "c_strtol (show_int n @ r) = Some (n, r)"
proof -
  have take: "takeWhile is_digit (show_uint m @ r) = show_uint m" "dropWhile is_digit (show_uint m @ r) = r"
    if "0 \<le> m" for m
    using show_uint_reads [OF that] assms(3)
    by (cases r; simp add: takeWhile_append2 dropWhile_append2)+
  show ?thesis
  proof (cases "n < 0")
    case True
    then have "show_int n @ r = CHR ''-'' # show_uint (- n) @ r" by (simp add: show_int_def)
    moreover have "\<not> is_space (CHR ''-'')" "char_code (CHR ''-'') = 45" by (simp_all add: is_space_def char_code_def)
    ultimately show ?thesis
      using True show_uint_reads [of "- n"] take [of "- n"] assms(1,2) by (simp add: c_strtol_def Let_def)
  next
    case False
    then obtain c ds where c: "show_uint n = c # ds" "is_digit c"
      using show_uint_reads(1) [of n] hd_show_uint [of n] by (cases "show_uint n") auto
    then have "dropWhile is_space (show_uint n @ r) = show_uint n @ r"
      "scan_sign (show_uint n @ r) = (False, show_uint n @ r)"
      using digit_not [OF c(2)] by simp_all
    with False show ?thesis
      using show_uint_reads [of n] take [of n] assms(1,2) by (simp add: c_strtol_def show_int_def Let_def)
  qed
qed

section \<open>Comma-separated rows\<close>

fun join_commas :: "string list \<Rightarrow> string" where
  "join_commas [] = []"
| "join_commas [s] = s"
| "join_commas (s # t # ts) = s @ CHR '','' # join_commas (t # ts)"

fun split_commas :: "string \<Rightarrow> string list" where
  "split_commas [] = [[]]"
| "split_commas (c # s) =
     (if c = CHR '','' then [] # split_commas s
      else (case split_commas s of t # ts \<Rightarrow> (c # t) # ts | [] \<Rightarrow> [[c]]))"

text \<open>A field with neither a comma nor a line end.\<close>

definition csv_plain :: "string \<Rightarrow> bool" where
  "csv_plain s \<longleftrightarrow> CHR '','' \<notin> set s \<and> CHR 0x0A \<notin> set s"

lemma split_append: "csv_plain s \<Longrightarrow> split_commas (s @ CHR '','' # r) = s # split_commas r"
  by (induction s) (auto simp: csv_plain_def)

lemma split_plain: "csv_plain s \<Longrightarrow> split_commas s = [s]"
  by (induction s) (auto simp: csv_plain_def)

lemma split_join: "ss \<noteq> [] \<Longrightarrow> list_all csv_plain ss \<Longrightarrow> split_commas (join_commas ss) = ss"
  by (induction ss rule: join_commas.induct) (simp_all add: split_append split_plain)

lemma plain_uint: "0 \<le> n \<Longrightarrow> csv_plain (show_uint n)"
  using show_uint_digit digit_not(5,6) unfolding csv_plain_def by blast

lemma plain_int: "csv_plain (show_int n)"
  using plain_uint [of n] plain_uint [of "- n"] by (auto simp: show_int_def csv_plain_def)

lemma plain_append: "csv_plain (s @ t) \<longleftrightarrow> csv_plain s \<and> csv_plain t"
  by (auto simp: csv_plain_def)

lemma plain_fixed: "csv_plain (show_fixed p x)"
proof (cases x)
  case (Fin neg q)
  have "0 \<le> rne (\<bar>q\<bar> * 10 ^ p)" by (rule int_le_rne) simp
  then have "csv_plain (show_uint (rne (\<bar>q\<bar> * 10 ^ p) div 10 ^ p))"
    "csv_plain (show_uint (rne (\<bar>q\<bar> * 10 ^ p) mod 10 ^ p))"
    by (auto intro!: plain_uint simp: pos_imp_zdiv_nonneg_iff)
  then show ?thesis by (auto simp: Fin Let_def csv_plain_def pad_def)
qed (auto simp: csv_plain_def)

end
