(* ===== verification/UdpSocket.thy ===== *)
theory UdpSocket
  imports CPrelude
begin

text \<open>
  The function \<open>open_udp_socket\<close> of \<open>tools/can_proxy.c\<close> and \<open>tools/chassis_daemon.c\<close>, and the
  answers of the kernel and of \<open>inet_pton\<close> that decide what it returns.
\<close>

text \<open>
  The descriptor \<open>socket\<close> returns, the flags \<open>F_GETFL\<close> reads and the result of \<open>F_SETFL\<close> for
  the new flags, the address a text denotes, and the result of \<open>bind\<close> to an address and port.
\<close>

record udp_answers =
  ua_socket :: int
  ua_getfl :: int
  ua_setfl :: "int \<Rightarrow> int"
  ua_pton :: "string \<Rightarrow> u32 option"
  ua_bind :: "u32 \<Rightarrow> u16 \<Rightarrow> int"

definition O_NONBLOCK :: int where "O_NONBLOCK = 0x800"

text \<open>The second component tells whether the descriptor is still open when the call returns.\<close>

definition open_udp_socket :: "udp_answers \<Rightarrow> string \<Rightarrow> int \<Rightarrow> int \<times> bool" where
  "open_udp_socket w bind_ip port =
     (let fd = ua_socket w in
      if fd < 0 then (- 1, False)
      else
        let flags = ua_getfl w in
        if flags < 0 \<or> ua_setfl w (flags OR O_NONBLOCK) \<noteq> 0 then (- 1, False)
        else
          let sin_port = word_of_int port in
          (case ua_pton w bind_ip of
             None \<Rightarrow> (- 1, False)
           | Some sin_addr \<Rightarrow>
               if ua_bind w sin_addr sin_port \<noteq> 0 then (- 1, False) else (fd, True)))"

definition daemon_open_udp_socket :: "udp_answers \<Rightarrow> string \<Rightarrow> int \<Rightarrow> int \<times> bool" where
  "daemon_open_udp_socket w bind_ip port =
     (let fd = ua_socket w in
      if fd < 0 then (- 1, False)
      else
        let flags = ua_getfl w in
        if flags < 0 \<or> ua_setfl w (flags OR O_NONBLOCK) \<noteq> 0 then (- 1, False)
        else
          let sin_port = word_of_int port in
          (case ua_pton w bind_ip of
             None \<Rightarrow> (- 1, False)
           | Some sin_addr \<Rightarrow>
               if ua_bind w sin_addr sin_port \<noteq> 0 then (- 1, False) else (fd, True)))"

lemma same_open_udp_socket: "daemon_open_udp_socket = open_udp_socket"
  by (simp add: fun_eq_iff daemon_open_udp_socket_def open_udp_socket_def)

text \<open>What a call that succeeds has done, and that one that fails leaves nothing open.\<close>

lemma open_udp_socket_cases:
  obtains (failed) "open_udp_socket w ip port = (- 1, False)"
  | (bound) addr where "open_udp_socket w ip port = (ua_socket w, True)" "0 \<le> ua_socket w"
      "ua_setfl w (ua_getfl w OR O_NONBLOCK) = 0" "ua_pton w ip = Some addr"
      "ua_bind w addr (word_of_int port) = 0"
proof -
  have "open_udp_socket w ip port = (- 1, False) \<or>
      (open_udp_socket w ip port = (ua_socket w, True) \<and> 0 \<le> ua_socket w \<and>
       ua_setfl w (ua_getfl w OR O_NONBLOCK) = 0 \<and>
       (\<exists>addr. ua_pton w ip = Some addr \<and> ua_bind w addr (word_of_int port) = 0))"
    by (auto simp: open_udp_socket_def Let_def not_less split: option.split)
  then show ?thesis using failed bound by blast
qed

text \<open>A port that fits into 16 bits is bound as it is.\<close>

lemma port_whole: "0 \<le> port \<Longrightarrow> port \<le> 65535 \<Longrightarrow> uint (word_of_int port :: u16) = port"
  by (simp add: uint_word_of_int take_bit_eq_mod)

text \<open>\<open>open_udp_socket\<close> returns -1 with nothing left open, or a
  non-blocking socket bound to the address the text denotes. The port it binds is the argument
  modulo 65536, so a number out of range is bound, silently, as another port; the daemon checks
  the range before, the proxy does not.\<close>

theorem udp_socket_never_leaks:
  "case open_udp_socket w ip port of (fd, still_open) \<Rightarrow>
     (still_open = (0 \<le> fd)) \<and>
     (if still_open
      then fd = ua_socket w \<and> ua_setfl w (ua_getfl w OR O_NONBLOCK) = 0 \<and>
        (\<exists>addr. ua_pton w ip = Some addr \<and> ua_bind w addr (word_of_int (port mod 65536)) = 0)
      else fd = - 1)"
proof -
  have "(word_of_int (port mod 65536) :: u16) = word_of_int port"
    by (rule word_uint_eqI) (simp add: uint_word_of_int take_bit_eq_mod)
  then show ?thesis
    by (cases rule: open_udp_socket_cases [where w = w and ip = ip and port = port]) auto
qed

end
