(* ===== verification/ChassisDaemon.thy ===== *)
theory ChassisDaemon
  imports ControlCycle CFormat UdpSocket
begin

text \<open>
  \<open>tools/chassis_daemon.c\<close>: the long-running service around the chassis controller. Clock
  reads, received frames and datagrams are inputs; what it writes to the bus, to the terminal
  and to the CSV file are logs.
\<close>

section \<open>State\<close>

record DaemonStats =
  ds_start_ms :: u64
  ds_feedback_count :: "u64 list"
  ds_udp_command_count :: u64
  ds_invalid_command_count :: u64
  ds_online_drop_count :: u64
  ds_last_online :: int

datatype text_event = TextData string | TextError int

definition ZERO_SEND_REPEAT :: nat where "ZERO_SEND_REPEAT = 20"
definition DAEMON_PRINT_PERIOD_MS :: u64 where "DAEMON_PRINT_PERIOD_MS = 200"
definition DAEMON_UDP_BUFFER_SIZE :: nat where "DAEMON_UDP_BUFFER_SIZE = 128"
definition DEFAULT_UDP_PORT :: int where "DEFAULT_UDP_PORT = 20001"
definition DAEMON_BIND_IP :: string where "DAEMON_BIND_IP = ''127.0.0.1''"

section \<open>Arguments\<close>

definition parse_float_arg :: "string \<Rightarrow> f32 \<Rightarrow> bool \<times> f32" where
  "parse_float_arg text value =
     (case c_strtof_whole text of None \<Rightarrow> (False, value) | Some parsed \<Rightarrow> (True, parsed))"

text \<open>\<open>long\<close> has 64 bits and \<open>int\<close> 32; the cast keeps the low 32 bits.\<close>

definition parse_int_arg :: "string \<Rightarrow> int \<Rightarrow> bool \<times> int" where
  "parse_int_arg text value =
     (case c_strtol text of
        None \<Rightarrow> (False, value)
      | Some (parsed, rest) \<Rightarrow>
          if rest \<noteq> [] then (False, value) else (True, sint (word_of_int parsed :: u32)))"

text \<open>
  Lines 295 to 318 of \<open>main\<close>: \<open>argv\<close> without the program name. \<open>None\<close> is exit code 2;
  otherwise the port and the configuration.
\<close>

definition daemon_args :: "string list \<Rightarrow> (int \<times> ChassisConfig) option" where
  "daemon_args argv =
     (if length argv < 1 \<or> 6 < length argv then None
      else
        let config = chassis_default_config;
            (ok1, udp_port) = (if 3 \<le> length argv then parse_int_arg (argv ! 2) DEFAULT_UDP_PORT
                               else (True, DEFAULT_UDP_PORT));
            (ok2, t) = (if 4 \<le> length argv then parse_float_arg (argv ! 3) (max_translate_rpm config)
                        else (True, max_translate_rpm config));
            (ok3, r) = (if 5 \<le> length argv then parse_float_arg (argv ! 4) (max_rotate_rpm config)
                        else (True, max_rotate_rpm config))
        in if \<not> ok1 \<or> \<not> ok2 \<or> \<not> ok3 then None
           else if udp_port < 1 \<or> 65535 < udp_port then None
           else Some (udp_port, config\<lparr>max_translate_rpm := t, max_rotate_rpm := r\<rparr>))"

section \<open>Operations\<close>

definition daemon_send_currents :: "can_kernel \<Rightarrow> can_port \<Rightarrow> i16 list \<Rightarrow> int \<times> can_port" where
  "daemon_send_currents kern port currents =
     socketcan_send kern port MOTOR3508_CMD_ID_1_TO_4
       (motor3508_pack_current_array currents (replicate 8 0)) 8"

definition daemon_send_zero_current :: "can_kernel \<Rightarrow> can_port \<Rightarrow> can_port" where
  "daemon_send_zero_current kern port =
     ((\<lambda>port. snd (daemon_send_currents kern port (replicate 5 0))) ^^ ZERO_SEND_REPEAT) port"

text \<open>
  The body of \<open>drain_feedback\<close> for a frame and the clock read at it. (As in the proxy, the
  uninitialised local the parser fills is zeros here.)
\<close>

definition daemon_feedback_frame ::
  "rx_event \<times> u64 \<Rightarrow> ChassisController \<times> DaemonStats \<Rightarrow> ChassisController \<times> DaemonStats" where
  "daemon_feedback_frame e s =
     (let controller = fst s; stats = snd s; r = drain_receive (fst e) in
      if 8 \<le> rx_dlc r
      then (case motor3508_parse_feedback (rx_can_id r) (rx_data r) (Some fb_zero) (snd e) of
              (ret, Some feedback) \<Rightarrow>
                if ret \<noteq> 0
                then (chassis_update_feedback controller feedback,
                      stats\<lparr>ds_feedback_count := (ds_feedback_count stats)
                        [unat (fb_id feedback) := ds_feedback_count stats ! unat (fb_id feedback) + 1]\<rparr>)
                else s
            | (ret, None) \<Rightarrow> s)
      else s)"

fun daemon_drain ::
  "(rx_event \<times> u64) list \<Rightarrow> ChassisController \<times> DaemonStats \<Rightarrow>
   (ChassisController \<times> DaemonStats) \<times> (rx_event \<times> u64) list" where
  "daemon_drain [] s = (s, [])"
| "daemon_drain (e # es) s =
     (if rx_ret (drain_receive (fst e)) \<le> 0 then (s, es)
      else daemon_drain es (daemon_feedback_frame e s))"

text \<open>
  \<open>wait_for_all_feedback\<close>: \<open>start\<close> is the first clock read; each round brings the clock read of
  the loop condition, the frames of the drain and the clock read of the online check. A list
  that ends stands for a clock that has moved past the time-out.
\<close>

fun wait_for_all_feedback ::
  "u64 \<Rightarrow> int \<Rightarrow> (u64 \<times> (rx_event \<times> u64) list \<times> u64) list \<Rightarrow> ChassisController \<times> DaemonStats \<Rightarrow>
   int \<times> (ChassisController \<times> DaemonStats)" where
  "wait_for_all_feedback start timeout_ms [] s = (0, s)"
| "wait_for_all_feedback start timeout_ms ((t, es, now) # rounds) s =
     (if t - start < word_of_int timeout_ms
      then let s = fst (daemon_drain es s)
           in if chassis_feedback_all_online (fst s) now \<noteq> 0 then (1, s)
              else wait_for_all_feedback start timeout_ms rounds s
      else (0, s))"

definition take_command_text ::
  "u64 \<Rightarrow> string \<Rightarrow> ChassisController \<times> DaemonStats \<Rightarrow> ChassisController \<times> DaemonStats" where
  "take_command_text now_ms datagram s =
     (let controller = fst s; stats = snd s;
          buffer = c_string (take (DAEMON_UDP_BUFFER_SIZE - 1) datagram);
          (parsed, forward, strafe, rotation) = scan_velocity buffer
      in if parsed \<noteq> 3
         then (controller, stats\<lparr>ds_invalid_command_count := ds_invalid_command_count stats + 1\<rparr>)
         else (chassis_set_command controller forward strafe rotation now_ms,
               stats\<lparr>ds_udp_command_count := ds_udp_command_count stats + 1\<rparr>))"

fun receive_commands ::
  "text_event list \<Rightarrow> ChassisController \<times> DaemonStats \<Rightarrow> u64 \<Rightarrow>
   (ChassisController \<times> DaemonStats) \<times> text_event list" where
  "receive_commands [] s now_ms = (s, [])"
| "receive_commands (TextError e # es) s now_ms = (s, es)"
| "receive_commands (TextData d # es) s now_ms =
     receive_commands es (take_command_text now_ms d s) now_ms"

definition update_online_stats :: "DaemonStats \<Rightarrow> int \<Rightarrow> DaemonStats" where
  "update_online_stats stats online =
     (let stats = (if ds_last_online stats = 1 \<and> online = 0
                   then stats\<lparr>ds_online_drop_count := ds_online_drop_count stats + 1\<rparr> else stats)
      in stats\<lparr>ds_last_online := online\<rparr>)"

section \<open>Status line and CSV log\<close>

definition daemon_elapsed_ms :: "u64 \<Rightarrow> u64 \<Rightarrow> u64" where
  "daemon_elapsed_ms now_ms previous_ms = (if previous_ms \<le> now_ms then now_ms - previous_ms else 0)"

text \<open>The part of a status line for one motor, the same in all tools.\<close>

definition print_motor :: "f32 list \<Rightarrow> Motor3508Feedback list \<Rightarrow> i16 list \<Rightarrow> nat \<Rightarrow> string" where
  "print_motor target_rpm feedback currents i =
     ''M'' @ show_uint (int i) @
     '' tgt='' @ pad (CHR '' '') 5 (show_fixed 0 (target_rpm ! i)) @
     '' rpm='' @ pad (CHR '' '') 5 (show_int (sint (fb_speed_rpm (feedback ! i)))) @
     '' cur='' @ pad (CHR '' '') 5 (show_int (sint (currents ! i))) @ '' ''"

definition daemon_print_status ::
  "ChassisController \<Rightarrow> i16 list \<Rightarrow> int \<Rightarrow> u64 \<Rightarrow> DaemonStats \<Rightarrow> string" where
  "daemon_print_status controller currents online now_ms stats =
     ''online='' @ show_int online @
     '' age='' @ show_uint (uint (daemon_elapsed_ms now_ms (cc_last_command_ms controller))) @
     ''ms cmd=['' @ show_fixed 2 (cmd_forward (cc_command controller)) @
     '' '' @ show_fixed 2 (cmd_strafe (cc_command controller)) @
     '' '' @ show_fixed 2 (cmd_rotate (cc_command controller)) @
     ''] udp='' @ show_uint (uint (ds_udp_command_count stats)) @
     '' rx=['' @ show_uint (uint (ds_feedback_count stats ! 1)) @
     '' '' @ show_uint (uint (ds_feedback_count stats ! 2)) @
     '' '' @ show_uint (uint (ds_feedback_count stats ! 3)) @
     '' '' @ show_uint (uint (ds_feedback_count stats ! 4)) @
     ''] drops='' @ show_uint (uint (ds_online_drop_count stats)) @ '' '' @
     concat (map (print_motor (cc_target_rpm controller) (cc_feedback controller) currents) motors) @
     newline"

definition csv_header :: string where
  "csv_header =
     ''elapsed_ms,online,command_age_ms,forward,strafe,rotate,'' @
     ''m1_target_rpm,m1_rpm,m1_current,m2_target_rpm,m2_rpm,m2_current,'' @
     ''m3_target_rpm,m3_rpm,m3_current,m4_target_rpm,m4_rpm,m4_current,'' @
     ''udp_commands,invalid_commands,online_drops,m1_feedback,m2_feedback,m3_feedback,m4_feedback'' @
     newline"

text \<open>The file is \<open>None\<close> for \<open>NULL\<close>, otherwise what was written to it.\<close>

definition write_csv ::
  "string option \<Rightarrow> ChassisController \<Rightarrow> i16 list \<Rightarrow> int \<Rightarrow> u64 \<Rightarrow> DaemonStats \<Rightarrow> string option" where
  "write_csv log_file controller currents online now_ms stats =
     (case log_file of
        None \<Rightarrow> None
      | Some text \<Rightarrow> Some (text @ join_commas
          ([show_uint (uint (daemon_elapsed_ms now_ms (ds_start_ms stats))),
            show_int online,
            show_uint (uint (daemon_elapsed_ms now_ms (cc_last_command_ms controller))),
            show_fixed 4 (cmd_forward (cc_command controller)),
            show_fixed 4 (cmd_strafe (cc_command controller)),
            show_fixed 4 (cmd_rotate (cc_command controller))] @
           concat (map (\<lambda>i.
             [show_fixed 0 (cc_target_rpm controller ! i),
              show_int (sint (fb_speed_rpm (cc_feedback controller ! i))),
              show_int (sint (currents ! i))]) [1, 2, 3, 4]) @
           [show_uint (uint (ds_udp_command_count stats)),
            show_uint (uint (ds_invalid_command_count stats)),
            show_uint (uint (ds_online_drop_count stats)),
            show_uint (uint (ds_feedback_count stats ! 1)),
            show_uint (uint (ds_feedback_count stats ! 2)),
            show_uint (uint (ds_feedback_count stats ! 3)),
            show_uint (uint (ds_feedback_count stats ! 4))]) @ newline))"

section \<open>The main loop\<close>

record Daemon =
  dm_controller :: ChassisController
  dm_stats :: DaemonStats
  dm_currents :: "i16 list"
  dm_last_loop_ms :: u64
  dm_last_print_ms :: u64
  dm_can :: can_port
  dm_log_file :: "string option"
  dm_printed :: string

record DaemonInput =
  di_now :: u64
  di_udp :: "text_event list"
  di_can :: "(rx_event \<times> u64) list"

text \<open>One turn; the flag tells whether the loop goes on (no \<open>break\<close>).\<close>

definition daemon_turn ::
  "can_kernel \<Rightarrow> (f32 \<Rightarrow> int) \<Rightarrow> DaemonInput \<Rightarrow> Daemon \<Rightarrow> Daemon \<times> bool" where
  "daemon_turn kern u inp d =
     (let now = di_now inp;
          s = fst (receive_commands (di_udp inp) (dm_controller d, dm_stats d) now);
          s = fst (daemon_drain (di_can inp) s);
          dt_s = loop_dt now (dm_last_loop_ms d);
          d = d\<lparr>dm_last_loop_ms := now\<rparr>;
          (controller, online, currents) = chassis_step u (fst s) now dt_s (dm_currents d);
          stats = update_online_stats (snd s) online;
          currents = zero_if_offline online currents;
          (ret, port) = daemon_send_currents kern (dm_can d) currents;
          d = d\<lparr>dm_controller := controller, dm_stats := stats, dm_currents := currents, dm_can := port\<rparr>
      in if ret < 0 then (d, False)
         else (if DAEMON_PRINT_PERIOD_MS \<le> now - dm_last_print_ms d
               then d\<lparr>dm_printed := dm_printed d @ daemon_print_status controller currents online now stats,
                      dm_log_file := write_csv (dm_log_file d) controller currents online now stats,
                      dm_last_print_ms := now\<rparr>
               else d, True))"

text \<open>The loop, until a send fails (the flag of the result) or the signal comes (the end of the
  list).\<close>

fun daemon_loop :: "can_kernel \<Rightarrow> (f32 \<Rightarrow> int) \<Rightarrow> DaemonInput list \<Rightarrow> Daemon \<Rightarrow> Daemon \<times> bool" where
  "daemon_loop kern u [] d = (d, False)"
| "daemon_loop kern u (inp # inputs) d =
     (case daemon_turn kern u inp d of
        (d, go_on) \<Rightarrow> if go_on then daemon_loop kern u inputs d else (d, True))"

text \<open>What the world answers to the daemon from its start to its end; \<open>dw_argv\<close> is \<open>argv\<close>
  without the program name.\<close>

record DaemonWorld =
  dw_argv :: "string list"
  dw_can :: can_answers
  dw_udp :: udp_answers
  dw_log_ok :: bool
  dw_memory :: ChassisController
  dw_init_ms :: u64
  dw_start_ms :: u64
  dw_wait_ms :: u64
  dw_rounds :: "(u64 \<times> (rx_event \<times> u64) list \<times> u64) list"
  dw_loop_ms :: u64
  dw_inputs :: "DaemonInput list"
  dw_stop_ms :: u64

definition daemon_stats_zero :: "u64 \<Rightarrow> DaemonStats" where
  "daemon_stats_zero start = \<lparr>ds_start_ms = start, ds_feedback_count = replicate 5 0,
     ds_udp_command_count = 0, ds_invalid_command_count = 0, ds_online_drop_count = 0,
     ds_last_online = - 1\<rparr>"

text \<open>What a run of \<open>main\<close> leaves: the exit code, the controller at the end (\<open>None\<close> where none
  was set up), everything written to the bus, the CSV file and the status lines.\<close>

record DaemonEnd =
  de_code :: int
  de_controller :: "ChassisController option"
  de_can :: can_port
  de_log_file :: "string option"
  de_printed :: string

definition daemon_exit :: "int \<Rightarrow> can_port \<Rightarrow> DaemonEnd" where
  "daemon_exit code port = \<lparr>de_code = code, de_controller = None, de_can = port,
     de_log_file = None, de_printed = []\<rparr>"

definition daemon_main :: "can_kernel \<Rightarrow> (f32 \<Rightarrow> int) \<Rightarrow> DaemonWorld \<Rightarrow> DaemonEnd" where
  "daemon_main kern u w =
     (case daemon_args (dw_argv w) of
        None \<Rightarrow> daemon_exit 2 []
      | Some (udp_port, config) \<Rightarrow>
          let bind_ip = (if 2 \<le> length (dw_argv w) then dw_argv w ! 1 else DAEMON_BIND_IP);
              can_fd = can_answer (dw_can w) (dw_argv w ! 0);
              udp_fd = fst (daemon_open_udp_socket (dw_udp w) bind_ip udp_port)
          in if can_fd < 0 then daemon_exit 1 []
             else if udp_fd < 0 then daemon_exit 1 (daemon_send_zero_current kern [])
             else if 6 \<le> length (dw_argv w) \<and> \<not> dw_log_ok w
             then daemon_exit 1 (daemon_send_zero_current kern [])
             else
               let log_file = (if 6 \<le> length (dw_argv w) then Some csv_header else None);
                   controller = chassis_init (dw_memory w) (Some config) (dw_init_ms w);
                   (ready, s) = wait_for_all_feedback (dw_wait_ms w) 1500 (dw_rounds w)
                     (controller, daemon_stats_zero (dw_start_ms w))
               in if ready = 0
                  then \<lparr>de_code = 1, de_controller = Some (fst s),
                        de_can = daemon_send_zero_current kern [], de_log_file = log_file,
                        de_printed = []\<rparr>
                  else
                    let d = fst (daemon_loop kern u (dw_inputs w)
                          \<lparr>dm_controller = fst s, dm_stats = snd s, dm_currents = replicate 5 0,
                           dm_last_loop_ms = dw_loop_ms w, dm_last_print_ms = 0, dm_can = [],
                           dm_log_file = log_file, dm_printed = []\<rparr>);
                        controller = chassis_stop (dm_controller d) (dw_stop_ms w)
                    in \<lparr>de_code = 0, de_controller = Some controller,
                        de_can = daemon_send_zero_current kern (dm_can d),
                        de_log_file = dm_log_file d, de_printed = dm_printed d\<rparr>)"

section \<open>The drains are receive loops\<close>

interpretation daemon_can: receive_loop daemon_drain "\<lambda>e. rx_stop (fst e)" daemon_feedback_frame
  by unfold_locales (simp_all add: rx_stop_def)

definition text_stop :: "text_event \<Rightarrow> bool" where
  "text_stop ev = (case ev of TextError e \<Rightarrow> True | TextData d \<Rightarrow> False)"

definition text_body ::
  "u64 \<Rightarrow> text_event \<Rightarrow> ChassisController \<times> DaemonStats \<Rightarrow> ChassisController \<times> DaemonStats" where
  "text_body now ev s = (case ev of TextError e \<Rightarrow> s | TextData d \<Rightarrow> take_command_text now d s)"

interpretation daemon_udp: receive_loop "\<lambda>es s. receive_commands es s now" text_stop "text_body now"
  for now
proof
  show "receive_commands (ev # es) s now = (s, es)" if "text_stop ev" for ev es s
    using that by (cases ev) (simp_all add: text_stop_def)
  show "receive_commands (ev # es) s now = receive_commands es (text_body now ev s) now"
    if "\<not> text_stop ev" for ev es s
    using that by (cases ev) (simp_all add: text_stop_def text_body_def)
qed simp

interpretation daemon_turns: turn_loop "daemon_loop kern u" "daemon_turn kern u" for kern u
  by unfold_locales (simp_all add: case_prod_beta)

end
