(* ===== verification/DaemonProps.thy ===== *)
theory DaemonProps
  imports ChassisDaemon
begin

text \<open>
  The properties of the daemon: the state it keeps is sound, what it writes to the bus, and
  what it writes to the CSV file.
\<close>

section \<open>The parts of a turn\<close>

interpretation daemon_sender: current_sender "daemon_send_currents kern" kern for kern
  by unfold_locales
    (simp add: daemon_send_currents_def socketcan_send_8 [OF _ command_frame_def] len_simps motor_consts)

lemma daemon_zero_frames:
  "tried_frames (daemon_send_zero_current kern port) =
     tried_frames port @ replicate 20 (command_frame (replicate 5 0))"
  by (simp add: daemon_send_zero_current_def ZERO_SEND_REPEAT_def daemon_sender.burst_frames)

definition daemon_inputs_done :: "DaemonInput \<Rightarrow> Daemon \<Rightarrow> ChassisController \<times> DaemonStats" where
  "daemon_inputs_done inp d =
     fst (daemon_drain (di_can inp)
       (fst (receive_commands (di_udp inp) (dm_controller d, dm_stats d) (di_now inp))))"

definition daemon_step :: "(f32 \<Rightarrow> int) \<Rightarrow> DaemonInput \<Rightarrow> Daemon \<Rightarrow> ChassisController \<times> int \<times> i16 list" where
  "daemon_step u inp d = chassis_step u (fst (daemon_inputs_done inp d)) (di_now inp)
     (loop_dt (di_now inp) (dm_last_loop_ms d)) (dm_currents d)"

text \<open>What a turn sends: the currents of the step, or zeros when a motor is offline.\<close>

definition daemon_sends :: "(f32 \<Rightarrow> int) \<Rightarrow> DaemonInput \<Rightarrow> Daemon \<Rightarrow> i16 list" where
  "daemon_sends u inp d = (case daemon_step u inp d of (c, online, cur) \<Rightarrow>
     zero_if_offline online cur)"

lemma daemon_turn_parts:
  "dm_controller (fst (daemon_turn kern u inp d)) = fst (daemon_step u inp d)"
  "dm_currents (fst (daemon_turn kern u inp d)) = daemon_sends u inp d"
  "dm_last_loop_ms (fst (daemon_turn kern u inp d)) = di_now inp"
  "tried_frames (dm_can (fst (daemon_turn kern u inp d))) =
     tried_frames (dm_can d) @ [command_frame (daemon_sends u inp d)]"
  by (simp_all add: daemon_turn_def daemon_step_def daemon_sends_def daemon_inputs_done_def Let_def
      case_prod_beta daemon_sender.send_eq)

section \<open>Inputs keep the controller sound\<close>

text \<open>No command text is a NaN.\<close>

definition text_ok :: "string \<Rightarrow> bool" where
  "text_ok d \<longleftrightarrow> (case scan_velocity (c_string (take (DAEMON_UDP_BUFFER_SIZE - 1) d)) of
     (parsed, f, s, r) \<Rightarrow> parsed = 3 \<longrightarrow> f \<noteq> NaN \<and> s \<noteq> NaN \<and> r \<noteq> NaN)"

lemma text_body_ok:
  assumes "chassis_ok (fst s)" "\<And>d. ev = TextData d \<Longrightarrow> text_ok d"
  shows "chassis_ok (fst (text_body now ev s))"
proof (cases ev)
  case (TextData d)
  with assms(2) have "text_ok d" by blast
  then show ?thesis
    using assms(1) TextData
    by (auto simp: text_body_def take_command_text_def text_ok_def Let_def set_command_ok
        split: prod.splits)
qed (use assms in \<open>simp add: text_body_def\<close>)

lemma receive_commands_ok:
  assumes "chassis_ok (fst s)" "\<forall>d. TextData d \<in> set es \<longrightarrow> text_ok d"
  shows "chassis_ok (fst (fst (receive_commands es s now)))"
proof (rule daemon_udp.loop_invariant [where P = "\<lambda>s. chassis_ok (fst s)"])
  fix e and t :: "ChassisController \<times> DaemonStats"
  assume "e \<in> set es" "chassis_ok (fst t)"
  then show "chassis_ok (fst (text_body now e t))"
    using assms(2) by (intro text_body_ok) auto
qed (rule assms(1))

lemma feedback_frame_controller:
  "fst (daemon_feedback_frame e s) = fst s \<or>
     (\<exists>fb. fst (daemon_feedback_frame e s) = chassis_update_feedback (fst s) fb)"
  by (auto simp: daemon_feedback_frame_def Let_def split: option.split prod.split)

lemma daemon_drain_ok:
  "chassis_ok (fst s) \<Longrightarrow> chassis_ok (fst (fst (daemon_drain es s)))"
proof (erule daemon_can.loop_invariant [where P = "\<lambda>s. chassis_ok (fst s)"])
  show "chassis_ok (fst (daemon_feedback_frame e t))" if "chassis_ok (fst t)" for e t
    using that feedback_frame_controller [of e t] update_feedback_ok by metis
qed

lemma wait_ok:
  "chassis_ok (fst s) \<Longrightarrow> chassis_ok (fst (snd (wait_for_all_feedback start timeout rounds s)))"
  by (induction start timeout rounds s rule: wait_for_all_feedback.induct)
    (auto simp: Let_def daemon_drain_ok)

definition input_ok :: "DaemonInput \<Rightarrow> bool" where
  "input_ok inp \<longleftrightarrow> (\<forall>d. TextData d \<in> set (di_udp inp) \<longrightarrow> text_ok d)"

lemma inputs_done_ok:
  assumes "chassis_ok (dm_controller d)" "input_ok inp"
  shows "chassis_ok (fst (daemon_inputs_done inp d))"
  unfolding daemon_inputs_done_def
  by (intro daemon_drain_ok receive_commands_ok) (use assms in \<open>simp_all add: input_ok_def\<close>)

definition daemon_safe :: "Daemon \<Rightarrow> bool" where
  "daemon_safe d \<longleftrightarrow> chassis_ok (dm_controller d) \<and> length (dm_currents d) = 5 \<and>
     (\<forall>f\<in>set (tried_frames (dm_can d)). command_frame_ok 6500 f)"

lemma daemon_turn_safe:
  assumes "daemon_safe d" "input_ok inp"
  shows "daemon_safe (fst (daemon_turn kern u inp d))"
proof -
  obtain c r cur where st: "daemon_step u inp d = (c, r, cur)" by (cases "daemon_step u inp d")
  note ok = cycle_ok [OF inputs_done_ok _ st [unfolded daemon_step_def]]
  show ?thesis
    using assms ok by (auto simp: daemon_safe_def daemon_turn_parts daemon_sends_def st commands_within_def)
qed

lemma daemon_loop_safe:
  "daemon_safe d \<Longrightarrow> \<forall>i\<in>set inputs. input_ok i \<Longrightarrow> daemon_safe (fst (daemon_loop kern u inputs d))"
  by (rule daemon_turns.turns_invariant) (simp_all add: daemon_turn_safe)

text \<open>The state the loop starts in.\<close>

definition daemon_begin :: "DaemonWorld \<Rightarrow> ChassisController \<times> DaemonStats \<Rightarrow> Daemon" where
  "daemon_begin w s = \<lparr>dm_controller = fst s, dm_stats = snd s, dm_currents = replicate 5 0,
     dm_last_loop_ms = dw_loop_ms w, dm_last_print_ms = 0, dm_can = [],
     dm_log_file = (if 6 \<le> length (dw_argv w) then Some csv_header else None), dm_printed = []\<rparr>"

definition daemon_can_fd :: "DaemonWorld \<Rightarrow> int" where
  "daemon_can_fd w = can_answer (dw_can w) (dw_argv w ! 0)"

definition daemon_waited :: "DaemonWorld \<Rightarrow> ChassisConfig \<Rightarrow> int \<times> (ChassisController \<times> DaemonStats)" where
  "daemon_waited w config = wait_for_all_feedback (dw_wait_ms w) 1500 (dw_rounds w)
     (chassis_init (dw_memory w) (Some config) (dw_init_ms w), daemon_stats_zero (dw_start_ms w))"

lemma wait_flag:
  "fst (wait_for_all_feedback t0 tmo rounds s) = 0 \<or> fst (wait_for_all_feedback t0 tmo rounds s) = 1"
  by (induction t0 tmo rounds s rule: wait_for_all_feedback.induct) (simp_all add: Let_def)

text \<open>The frames of a whole run: nothing, the stopping burst, or those of the loop and the burst.\<close>

lemma daemon_main_cases:
  obtains (usage) "daemon_args (dw_argv w) = None" "daemon_main kern u w = daemon_exit 2 []"
  | (no_can) "daemon_can_fd w < 0" "daemon_main kern u w = daemon_exit 1 []"
  | (not_ready) "de_code (daemon_main kern u w) = 1"
      "de_can (daemon_main kern u w) = daemon_send_zero_current kern []"
      "de_log_file (daemon_main kern u w) \<in> {None, Some csv_header}"
  | (ran) port config s where "daemon_args (dw_argv w) = Some (port, config)" "0 \<le> daemon_can_fd w"
      "daemon_waited w config = (1, s)"
      "daemon_main kern u w = (let d = fst (daemon_loop kern u (dw_inputs w) (daemon_begin w s)) in
         \<lparr>de_code = 0, de_controller = Some (chassis_stop (dm_controller d) (dw_stop_ms w)),
          de_can = daemon_send_zero_current kern (dm_can d),
          de_log_file = dm_log_file d, de_printed = dm_printed d\<rparr>)"
proof (cases "daemon_args (dw_argv w)")
  case None
  then show ?thesis by (intro usage) (simp_all add: daemon_main_def)
next
  case (Some a)
  then obtain port config where a: "daemon_args (dw_argv w) = Some (port, config)" by (cases a) simp
  obtain ready s where wait: "daemon_waited w config = (ready, s)" by (metis surj_pair)
  let ?udp = "fst (daemon_open_udp_socket (dw_udp w)
      (if 2 \<le> length (dw_argv w) then dw_argv w ! 1 else DAEMON_BIND_IP) port)"
  let ?bad = "?udp < 0 \<or> 6 \<le> length (dw_argv w) \<and> \<not> dw_log_ok w"
  have main: "daemon_main kern u w =
      (if daemon_can_fd w < 0 then daemon_exit 1 []
       else if ?bad then daemon_exit 1 (daemon_send_zero_current kern [])
       else if ready = 0 then \<lparr>de_code = 1, de_controller = Some (fst s),
              de_can = daemon_send_zero_current kern [], de_log_file = dm_log_file (daemon_begin w s),
              de_printed = []\<rparr>
       else let d = fst (daemon_loop kern u (dw_inputs w) (daemon_begin w s)) in
         \<lparr>de_code = 0, de_controller = Some (chassis_stop (dm_controller d) (dw_stop_ms w)),
          de_can = daemon_send_zero_current kern (dm_can d),
          de_log_file = dm_log_file d, de_printed = dm_printed d\<rparr>)"
    using wait by (simp add: daemon_main_def a daemon_waited_def daemon_can_fd_def daemon_begin_def Let_def)
  have ready: "ready = 0 \<or> ready = 1"
    using wait_flag [of "dw_wait_ms w" 1500 "dw_rounds w"] wait unfolding daemon_waited_def
    by (metis fst_conv)
  consider "daemon_can_fd w < 0" | "\<not> daemon_can_fd w < 0" ?bad
    | "\<not> daemon_can_fd w < 0" "\<not> ?bad" "ready = 0" | "\<not> daemon_can_fd w < 0" "\<not> ?bad" "ready = 1"
    using ready by blast
  then show ?thesis
  proof cases
    case 1 then show ?thesis by (intro no_can) (simp_all add: main)
  next
    case 2
    then have "daemon_main kern u w = daemon_exit 1 (daemon_send_zero_current kern [])"
      unfolding main by (simp only: if_False if_True)
    then show ?thesis by (intro not_ready) (simp_all add: daemon_exit_def)
  next
    case 3 show ?thesis
      unfolding main if_not_P [OF 3(1)] if_not_P [OF 3(2)] if_P [OF 3(3)]
      by (rule not_ready) (simp_all add: main if_not_P [OF 3(1)] if_not_P [OF 3(2)] 3(3) daemon_begin_def)
  next
    case 4
    then have w1: "daemon_waited w config = (1, s)" using wait by simp
    from 4 have r: "ready \<noteq> 0" by simp
    show ?thesis
      by (rule ran [OF a _ w1]) (use 4(1) in simp,
          unfold main if_not_P [OF 4(1)] if_not_P [OF 4(2)] if_not_P [OF r], rule refl)
  qed
qed

text \<open>Values for the witnesses.\<close>

lemma scan_demo:
  "scan_velocity (c_string (take (DAEMON_UDP_BUFFER_SIZE - 1) ''nan 0 0'')) = (3, NaN, Fin False 0, Fin False 0)"
  "scan_velocity (c_string (take (DAEMON_UDP_BUFFER_SIZE - 1) ''1 0 0'')) = (3, Fin False 1, Fin False 0, Fin False 0)"
  by code_simp+

lemma demo_text_ok: "text_ok ''1 0 0''"
  by (simp only: text_ok_def scan_demo prod.case) simp

lemma daemon_args_default: "daemon_args [''can0''] = Some (20001, chassis_default_config)"
  by (simp add: daemon_args_def DEFAULT_UDP_PORT_def Let_def)

definition demo_world :: DaemonWorld where
  "demo_world = \<lparr>dw_argv = [''can0''],
     dw_can = \<lparr>ca_socket = 3, ca_ioctl = \<lambda>_. 0, ca_bind = 0\<rparr>,
     dw_udp = \<lparr>ua_socket = 4, ua_getfl = 2, ua_setfl = \<lambda>_. 0, ua_pton = \<lambda>_. Some 0x7F000001,
       ua_bind = \<lambda>_ _. 0\<rparr>, dw_log_ok = True,
     dw_memory = demo_blank, dw_init_ms = 1000, dw_start_ms = 1000, dw_wait_ms = 1000,
     dw_rounds = [(1001, map (\<lambda>k. (ReadFrame \<lparr>cf_can_id = 0x200 + k, cf_can_dlc = 8,
       cf_data = replicate 8 0\<rparr>, 1001)) [1, 2, 3, 4] @ [(PollTimeout, 1001)], 1002)],
     dw_loop_ms = 1002,
     dw_inputs = [\<lparr>di_now = 1010, di_udp = [TextData ''1 0 0'', TextError 11],
       di_can = [(PollTimeout, 1010)]\<rparr>],
     dw_stop_ms = 1020\<rparr>"

definition demo_daemon :: Daemon where
  "demo_daemon = \<lparr>dm_controller = demo_chassis, dm_stats = daemon_stats_zero 1000,
     dm_currents = replicate 5 0, dm_last_loop_ms = 990, dm_last_print_ms = 0, dm_can = [],
     dm_log_file = None, dm_printed = []\<rparr>"

section \<open>Properties\<close>

text \<open>C2. From start to exit, every frame the daemon tries to write is a
  command frame of four currents of at most 6500, as long as the configuration it was started
  with is in range and no command text is a NaN: whatever else arrives, whenever it arrives,
  and whatever the kernel answers. The time step needs no assumption.\<close>

theorem daemon_currents_bounded:
  assumes "chassis_wf (dw_memory w)"
    "\<forall>port config. daemon_args (dw_argv w) = Some (port, config) \<longrightarrow> config_ok config"
    "\<forall>i\<in>set (dw_inputs w). \<forall>d. TextData d \<in> set (di_udp i) \<longrightarrow> text_ok d"
  shows "\<forall>f\<in>set (tried_frames (de_can (daemon_main kern u w))).
    cf_can_id f = 0x200 \<and> cf_can_dlc f = 8 \<and> (\<forall>x\<in>set (frame_currents f). \<bar>sint x\<bar> \<le> 6500)"
proof -
  have zero: "command_frame_ok 6500 (command_frame (replicate 5 0))"
    by (rule command_frame_ok) (rule zero_within, simp)
  have "\<forall>f\<in>set (tried_frames (de_can (daemon_main kern u w))). command_frame_ok 6500 f"
  proof (cases rule: daemon_main_cases [where kern = kern and u = u and w = w])
    case (ran port config s)
    have "chassis_ok (chassis_init (dw_memory w) (Some config) (dw_init_ms w))"
      using assms(1,2) ran(1) by (intro chassis_init_ok) auto
    then have "chassis_ok (fst s)" using wait_ok ran(3) unfolding daemon_waited_def by (metis fst_conv snd_conv)
    then have "daemon_safe (fst (daemon_loop kern u (dw_inputs w) (daemon_begin w s)))"
      using assms(3) by (intro daemon_loop_safe) (simp_all add: daemon_safe_def input_ok_def daemon_begin_def)
    then show ?thesis using ran(4) zero by (auto simp: daemon_zero_frames daemon_safe_def Let_def)
  qed (use zero in \<open>auto simp: daemon_zero_frames daemon_exit_def\<close>)
  then show ?thesis by (simp add: command_frame_ok_def)
qed

lemma daemon_currents_bounded_witness:
  "list_all (\<lambda>f. list_all (\<lambda>x. \<bar>sint x\<bar> \<le> 6500) (frame_currents f))
     (tried_frames (de_can (daemon_main (\<lambda>_ _. 16) (\<lambda>_. 0) demo_world)))"
proof -
  have "chassis_wf (dw_memory demo_world)" by (simp add: demo_world_def demo_blank_wf)
  moreover have "\<forall>port config. daemon_args (dw_argv demo_world) = Some (port, config) \<longrightarrow> config_ok config"
    by (simp add: demo_world_def daemon_args_default default_config_ok)
  moreover have "\<forall>i\<in>set (dw_inputs demo_world). \<forall>d. TextData d \<in> set (di_udp i) \<longrightarrow> text_ok d"
    by (simp add: demo_world_def demo_text_ok)
  ultimately show ?thesis
    using daemon_currents_bounded [of demo_world "\<lambda>_ _. 16" "\<lambda>_. 0"] unfolding list_all_iff by blast
qed

text \<open>C13. Once the CAN socket is open, every way the daemon can end,
  the bind, the log file or the wait for feedback failing, a failed send or a signal, ends with
  twenty attempts to send zero currents; and before the loop it sends nothing else.\<close>

theorem daemon_always_ends_with_zero:
  assumes "daemon_args (dw_argv w) \<noteq> None" "0 \<le> can_answer (dw_can w) (dw_argv w ! 0)"
  shows "\<exists>frames. tried_frames (de_can (daemon_main kern u w)) =
      frames @ replicate 20 (command_frame (replicate 5 0)) \<and>
    (de_code (daemon_main kern u w) \<noteq> 0 \<longrightarrow> frames = [])"
  by (cases rule: daemon_main_cases [where kern = kern and u = u and w = w])
    (use assms in \<open>auto simp: daemon_zero_frames daemon_can_fd_def Let_def\<close>)

lemma daemon_always_ends_with_zero_witness:
  "last (tried_frames (de_can (daemon_main (\<lambda>_ _. - 1) (\<lambda>_. 0) demo_world))) =
     command_frame (replicate 5 0)"
proof -
  have "daemon_args (dw_argv demo_world) \<noteq> None" "0 \<le> can_answer (dw_can demo_world) (dw_argv demo_world ! 0)"
    by (simp_all add: demo_world_def daemon_args_default can_answer_def socketcan_open_def)
  from daemon_always_ends_with_zero [OF this, of "\<lambda>_ _. - 1" "\<lambda>_. 0"]
  show ?thesis by (auto simp: numeral_eq_Suc replicate_append_same [symmetric] simp del: replicate_append_same)
qed

text \<open>A turn in which, after the inputs are taken, the command is
  stale or zero or a motor is offline writes exactly one frame, and it carries four zero
  currents.\<close>

theorem daemon_turn_stops_motors:
  fixes inp d
  defines "c \<equiv> fst (daemon_inputs_done inp d)"
  assumes "chassis_wf c" "length (dm_currents d) = 5"
    "command_timeout_ms (cc_config c) < f32_of_u64 (elapsed_ms (di_now inp) (cc_last_command_ms c)) \<or>
     command_is_zero (cc_command c) \<or> chassis_feedback_all_online c (di_now inp) = 0"
  shows "map frame_currents (tried_frames (dm_can (fst (daemon_turn kern u inp d)))) =
    map frame_currents (tried_frames (dm_can d)) @ [[0, 0, 0, 0]]"
proof -
  let ?idle = "command_expired c (di_now inp) \<or> command_is_zero (cc_command c)"
  have "daemon_sends u inp d = replicate 5 0"
  proof (cases ?idle)
    case True
    then show ?thesis
      using step_idle [OF assms(2,3) True] fold_slots_set [of "[0, 0, 0, 0, 0 :: i16]" 0]
      by (simp add: daemon_sends_def zero_if_offline_def daemon_step_def c_def [symmetric] numeral_eq_Suc)
  next
    case False
    then have "chassis_feedback_all_online c (di_now inp) = 0"
      using assms(4) by (simp add: command_expired_def)
    with False show ?thesis
      using step_offline [OF assms(2,3)] fold_slots_set [of "[0, 0, 0, 0, 0 :: i16]" 0]
      by (simp add: daemon_sends_def zero_if_offline_def daemon_step_def c_def [symmetric] numeral_eq_Suc)
  qed
  then show ?thesis by (simp add: daemon_turn_parts zero_frame_currents)
qed

lemma demo_daemon_done:
  "fst (daemon_inputs_done \<lparr>di_now = 1000, di_udp = [], di_can = []\<rparr> demo_daemon) = demo_chassis"
  by (simp add: daemon_inputs_done_def demo_daemon_def)

lemma daemon_turn_stops_motors_witness:
  "map frame_currents (tried_frames (dm_can (fst (daemon_turn (\<lambda>_ _. 16) (\<lambda>_. 0)
     \<lparr>di_now = 1000, di_udp = [], di_can = []\<rparr> demo_daemon)))) = [[0, 0, 0, 0]]"
proof -
  have "command_is_zero (cc_command demo_chassis)"
    using zero_command_is_zero by (simp add: demo_chassis_def chassis_init_eq [OF demo_blank_wf])
  then show ?thesis
    using daemon_turn_stops_motors [of "\<lparr>di_now = 1000, di_udp = [], di_can = []\<rparr>" demo_daemon "\<lambda>_ _. 16" "\<lambda>_. 0"]
      chassis_wfI [OF demo_chassis_ok]
    unfolding demo_daemon_done by (simp add: demo_daemon_def)
qed

text \<open>C28. The text \<open>nan 0 0\<close> is three numbers to \<open>sscanf\<close> and passes every
  check after it: with all motors online, the very turn that receives it sends each motor the
  low 16 bits of whatever \<open>lrintf\<close> makes of a NaN, and counts a valid command.\<close>

theorem nan_text_reaches_the_bus:
  assumes "chassis_wf (dm_controller d)" "length (dm_currents d) = 5"
    "\<not> command_timeout_ms (cc_config (dm_controller d)) < 0"
    "chassis_feedback_all_online (dm_controller d) now = 1"
  defines "inp \<equiv> \<lparr>di_now = now, di_udp = [TextData ''nan 0 0'', TextError 11], di_can = []\<rparr>"
  shows "map frame_currents (tried_frames (dm_can (fst (daemon_turn kern u inp d)))) =
      map frame_currents (tried_frames (dm_can d)) @ [replicate 4 (to_i16 (u NaN))] \<and>
    ds_udp_command_count (snd (daemon_inputs_done inp d)) = ds_udp_command_count (dm_stats d) + 1"
proof -
  let ?c = "chassis_set_command (dm_controller d) NaN (Fin False 0) (Fin False 0) now"
  have done_eq: "daemon_inputs_done inp d =
      (?c, (dm_stats d)\<lparr>ds_udp_command_count := ds_udp_command_count (dm_stats d) + 1\<rparr>)"
    by (simp only: inp_def daemon_inputs_done_def DaemonInput.simps receive_commands.simps
        take_command_text_def scan_demo prod.case Let_def fst_conv snd_conv daemon_drain.simps) simp
  have "snd (daemon_step u inp d) = (1, [0, to_i16 (u NaN), to_i16 (u NaN), to_i16 (u NaN), to_i16 (u NaN)])"
    unfolding daemon_step_def done_eq fst_conv using nan_step [OF assms(1-4)] by (simp add: inp_def)
  then have "daemon_sends u inp d = [0, to_i16 (u NaN), to_i16 (u NaN), to_i16 (u NaN), to_i16 (u NaN)]"
    by (simp add: daemon_sends_def zero_if_offline_def case_prod_beta)
  then show ?thesis
    by (simp add: daemon_turn_parts frame_currents_command done_eq) (simp add: numeral_eq_Suc)
qed

lemma nan_text_reaches_the_bus_witness:
  "map frame_currents (tried_frames (dm_can (fst (daemon_turn (\<lambda>_ _. 16) (\<lambda>_. 12345)
     \<lparr>di_now = 1000, di_udp = [TextData ''nan 0 0'', TextError 11], di_can = []\<rparr> demo_daemon)))) =
   [[12345, 12345, 12345, 12345]]"
  using nan_text_reaches_the_bus [of demo_daemon 1000 "\<lambda>_ _. 16" "\<lambda>_. 12345"]
    chassis_wfI [OF demo_chassis_ok] default_timeouts_nonneg demo_chassis_online
  by (simp add: demo_daemon_def demo_chassis_fields to_i16_def numeral_eq_Suc)

end
