(* ===== verification/DaemonLog.thy ===== *)
theory DaemonLog
  imports DaemonProps
begin

text \<open>
  The CSV file of the daemon: every row has a field for every column of the header, and reading
  the columns gives the values of the state back; and the shape of the state the daemon keeps.
\<close>

section \<open>Rows and columns\<close>

definition csv_columns :: "string list" where
  "csv_columns = split_commas (butlast csv_header)"

text \<open>The field of a row under a column name.\<close>

definition csv_field :: "string \<Rightarrow> string \<Rightarrow> string option" where
  "csv_field row name = map_of (zip csv_columns (split_commas row)) name"

definition csv_fields :: "ChassisController \<Rightarrow> i16 list \<Rightarrow> int \<Rightarrow> u64 \<Rightarrow> DaemonStats \<Rightarrow> string list" where
  "csv_fields controller currents online now_ms stats =
     [show_uint (uint (daemon_elapsed_ms now_ms (ds_start_ms stats))),
      show_int online,
      show_uint (uint (daemon_elapsed_ms now_ms (cc_last_command_ms controller))),
      show_fixed 4 (cmd_forward (cc_command controller)),
      show_fixed 4 (cmd_strafe (cc_command controller)),
      show_fixed 4 (cmd_rotate (cc_command controller))] @
     concat (map (\<lambda>i.
       [show_fixed 0 (cc_target_rpm controller ! i),
        show_int (sint (fb_speed_rpm (cc_feedback controller ! i))),
        show_int (sint (currents ! i))]) [1, 2, 3, 4]) @
     [show_uint (uint (ds_udp_command_count stats)),
      show_uint (uint (ds_invalid_command_count stats)),
      show_uint (uint (ds_online_drop_count stats)),
      show_uint (uint (ds_feedback_count stats ! 1)),
      show_uint (uint (ds_feedback_count stats ! 2)),
      show_uint (uint (ds_feedback_count stats ! 3)),
      show_uint (uint (ds_feedback_count stats ! 4))]"

lemma write_csv_row:
  "write_csv (Some written) c cur online now stats =
     Some (written @ join_commas (csv_fields c cur online now stats) @ newline)"
  by (simp add: write_csv_def csv_fields_def)

lemma csv_fields_split: "split_commas (join_commas (csv_fields c cur online now stats)) = csv_fields c cur online now stats"
  by (rule split_join) (simp_all add: csv_fields_def plain_uint plain_int plain_fixed)

lemma csv_fields_length: "length (csv_fields c cur online now stats) = 25"
  by (simp add: csv_fields_def)

lemma csv_columns_list:
  "csv_columns =
    [''elapsed_ms'', ''online'', ''command_age_ms'', ''forward'', ''strafe'', ''rotate'',
     ''m1_target_rpm'', ''m1_rpm'', ''m1_current'', ''m2_target_rpm'', ''m2_rpm'', ''m2_current'',
     ''m3_target_rpm'', ''m3_rpm'', ''m3_current'', ''m4_target_rpm'', ''m4_rpm'', ''m4_current'',
     ''udp_commands'', ''invalid_commands'', ''online_drops'',
     ''m1_feedback'', ''m2_feedback'', ''m3_feedback'', ''m4_feedback'']"
  by code_simp

lemma csv_rows_no_newline: "list_all csv_plain ss \<Longrightarrow> CHR 0x0A \<notin> set (join_commas ss)"
  by (induction ss rule: join_commas.induct) (auto simp: csv_plain_def)

text \<open>A row: 25 fields on one line.\<close>

definition csv_row :: "string \<Rightarrow> bool" where
  "csv_row row \<longleftrightarrow> length (split_commas row) = 25 \<and> CHR 0x0A \<notin> set row"

lemma csv_row_fields: "csv_row (join_commas (csv_fields c cur online now stats))"
  unfolding csv_row_def csv_fields_split csv_fields_length
  by (simp, rule csv_rows_no_newline) (simp add: csv_fields_def plain_uint plain_int plain_fixed)

text \<open>A table: the header and rows.\<close>

definition csv_table :: "string \<Rightarrow> bool" where
  "csv_table written \<longleftrightarrow> (\<exists>rows. written = csv_header @ concat (map (\<lambda>row. row @ newline) rows) \<and> list_all csv_row rows)"

lemma csv_table_header: "csv_table csv_header"
  unfolding csv_table_def by (rule exI [of _ "[]"]) simp

lemma csv_table_row:
  assumes "csv_table written" "csv_row row" shows "csv_table (written @ row @ newline)"
proof -
  obtain rows where "written = csv_header @ concat (map (\<lambda>row. row @ newline) rows)" "list_all csv_row rows"
    using assms(1) by (auto simp: csv_table_def)
  then show ?thesis unfolding csv_table_def using assms(2) by (intro exI [of _ "rows @ [row]"]) simp
qed

lemma daemon_turn_log:
  "dm_log_file (fst (daemon_turn kern u inp d)) = dm_log_file d \<or>
   (\<exists>c cur online stats. dm_log_file (fst (daemon_turn kern u inp d)) =
     write_csv (dm_log_file d) c cur online (di_now inp) stats)"
  by (auto simp: daemon_turn_def Let_def case_prod_beta)

lemma daemon_loop_table:
  assumes "\<forall>written. dm_log_file d = Some written \<longrightarrow> csv_table written"
  shows "\<forall>written. dm_log_file (fst (daemon_loop kern u inputs d)) = Some written \<longrightarrow> csv_table written"
proof (rule daemon_turns.turns_invariant)
  fix inp and d :: Daemon
  assume d: "\<forall>written. dm_log_file d = Some written \<longrightarrow> csv_table written"
  show "\<forall>written. dm_log_file (fst (daemon_turn kern u inp d)) = Some written \<longrightarrow> csv_table written"
  proof (cases "dm_log_file d")
    case None
    then have "dm_log_file (fst (daemon_turn kern u inp d)) = None"
      using daemon_turn_log [of kern u inp d] by (auto simp: write_csv_def)
    then show ?thesis by simp
  next
    case (Some written)
    then show ?thesis
      using daemon_turn_log [of kern u inp d] d csv_table_row [OF _ csv_row_fields, of written]
      by (auto simp: write_csv_row)
  qed
qed (rule assms)

section \<open>The shape of the daemon's state\<close>

definition daemon_typed :: "Daemon \<Rightarrow> bool" where
  "daemon_typed d \<longleftrightarrow> chassis_typed (dm_controller d) \<and>
     length (dm_currents d) = 5 \<and> dm_currents d ! 0 = 0 \<and>
     length (ds_feedback_count (dm_stats d)) = 5 \<and> ds_last_online (dm_stats d) \<in> {- 1, 0, 1}"

text \<open>The part of it the two drains work on.\<close>

definition drained_typed :: "ChassisController \<times> DaemonStats \<Rightarrow> bool" where
  "drained_typed s \<longleftrightarrow> chassis_typed (fst s) \<and> length (ds_feedback_count (snd s)) = 5 \<and>
     ds_last_online (snd s) \<in> {- 1, 0, 1}"

lemma daemon_frame_typed: "drained_typed s \<Longrightarrow> drained_typed (daemon_feedback_frame e s)"
  by (auto simp: drained_typed_def daemon_feedback_frame_def Let_def typed_update_feedback
      split: option.split prod.split)

lemma daemon_drain_typed: "drained_typed s \<Longrightarrow> drained_typed (fst (daemon_drain es s))"
  by (erule daemon_can.loop_invariant) (rule daemon_frame_typed)

lemma text_body_typed: "drained_typed s \<Longrightarrow> drained_typed (text_body now ev s)"
  by (auto simp: drained_typed_def text_body_def take_command_text_def Let_def typed_set_command
      split: text_event.split prod.split)

lemma receive_commands_typed: "drained_typed s \<Longrightarrow> drained_typed (fst (receive_commands es s now))"
  by (erule daemon_udp.loop_invariant) (rule text_body_typed)

lemma wait_typed: "drained_typed s \<Longrightarrow> drained_typed (snd (wait_for_all_feedback start tmo rounds s))"
  by (induction start tmo rounds s rule: wait_for_all_feedback.induct) (auto simp: Let_def daemon_drain_typed)

lemma daemon_turn_typed:
  assumes "daemon_typed d" shows "daemon_typed (fst (daemon_turn kern u inp d))"
proof -
  obtain c r cur where st: "daemon_step u inp d = (c, r, cur)" by (cases "daemon_step u inp d")
  have s: "drained_typed (daemon_inputs_done inp d)"
    unfolding daemon_inputs_done_def
    by (intro daemon_drain_typed receive_commands_typed)
      (use assms in \<open>simp add: drained_typed_def daemon_typed_def\<close>)
  then have "chassis_typed c \<and> length cur = 5 \<and> cur ! 0 = 0 \<and> r \<in> {0, 1}"
    using assms typed_step [OF _ _ st [unfolded daemon_step_def]]
    by (simp add: drained_typed_def daemon_typed_def)
  moreover have "dm_stats (fst (daemon_turn kern u inp d)) =
      update_online_stats (snd (daemon_inputs_done inp d)) r"
    using st by (simp add: daemon_turn_def daemon_step_def daemon_inputs_done_def Let_def case_prod_beta)
  ultimately show ?thesis
    using s zero_if_offline_typed [of cur r]
    by (simp add: daemon_typed_def daemon_turn_parts st daemon_sends_def drained_typed_def
        update_online_stats_def Let_def)
qed

section \<open>Properties\<close>

text \<open>C26. Whatever configuration it was given and whatever arrives, the
  daemon never leaves the shape its arrays are declared with: five slots each, slot 0 of the
  currents zero, the feedback in slot \<open>i\<close> that of motor \<open>i\<close>, the online flag -1, 0 or 1. So no
  index it uses is out of range.\<close>

theorem daemon_state_well_formed:
  fixes w config inputs kern u
  defines "d \<equiv> fst (daemon_loop kern u inputs (daemon_begin w (snd (daemon_waited w config))))"
  assumes "chassis_wf (dw_memory w)"
  shows "length (cc_pid (dm_controller d)) = 5 \<and> length (cc_target_rpm (dm_controller d)) = 5 \<and>
    map fb_id (cc_feedback (dm_controller d)) = [0, 1, 2, 3, 4] \<and>
    length (dm_currents d) = 5 \<and> dm_currents d ! 0 = 0 \<and>
    length (ds_feedback_count (dm_stats d)) = 5 \<and> ds_last_online (dm_stats d) \<in> {- 1, 0, 1}"
proof -
  have "drained_typed (snd (daemon_waited w config))"
    unfolding daemon_waited_def
    by (rule wait_typed) (use assms typed_init in \<open>simp add: drained_typed_def daemon_stats_zero_def\<close>)
  then have "daemon_typed (daemon_begin w (snd (daemon_waited w config)))"
    by (simp add: drained_typed_def daemon_typed_def daemon_begin_def)
  then have "daemon_typed d"
    unfolding d_def by (rule daemon_turns.turns_invariant) (rule daemon_turn_typed)
  then show ?thesis by (simp add: daemon_typed_def chassis_typed_def chassis_wf_def)
qed

lemma daemon_state_well_formed_witness:
  "length (dm_currents (fst (daemon_loop (\<lambda>_ _. 16) (\<lambda>_. 0) (dw_inputs demo_world)
     (daemon_begin demo_world (snd (daemon_waited demo_world chassis_default_config)))))) = 5"
proof -
  have "chassis_wf (dw_memory demo_world)" by (simp add: demo_world_def demo_blank_wf)
  then show ?thesis
    using daemon_state_well_formed [where w = demo_world and config = chassis_default_config and
        kern = "\<lambda>_ _. 16" and u = "\<lambda>_. 0" and inputs = "dw_inputs demo_world"] by blast
qed

text \<open>When the daemon was given a log file it leaves, whatever happened, a
  written of the header line followed by rows of exactly 25 fields, one for each name of the header,
  and no row is broken by a comma or a line end inside a field.\<close>

theorem csv_log_is_a_table:
  assumes "de_log_file (daemon_main kern u w) = Some written"
  shows "\<exists>rows. written = csv_header @ concat (map (\<lambda>row. row @ newline) rows) \<and>
    list_all (\<lambda>row. length (split_commas row) = length (split_commas (butlast csv_header)) \<and>
      CHR 0x0A \<notin> set row) rows"
proof -
  have "csv_table written"
  proof (cases rule: daemon_main_cases [where kern = kern and u = u and w = w])
    case (ran port config s)
    have "\<forall>t. dm_log_file (daemon_begin w s) = Some t \<longrightarrow> csv_table t"
      by (simp add: daemon_begin_def csv_table_header)
    then show ?thesis using assms ran(4) daemon_loop_table by (auto simp: Let_def)
  qed (use assms csv_table_header in \<open>auto simp: daemon_exit_def\<close>)
  moreover have "length (split_commas (butlast csv_header)) = 25"
    using csv_columns_list by (simp add: csv_columns_def)
  ultimately show ?thesis unfolding csv_table_def csv_row_def by simp
qed

text \<open>A run in which no motor ever answers: the log has its header and no row.\<close>

definition silent_world :: DaemonWorld where
  "silent_world = demo_world\<lparr>dw_argv := [''can0'', ''127.0.0.1'', ''20001'', ''500'', ''400'', ''run.csv''],
     dw_rounds := []\<rparr>"

lemma silent_args: "map_option fst (daemon_args (dw_argv silent_world)) = Some 20001"
  by code_simp

lemma silent_log: "de_log_file (daemon_main (\<lambda>_ _. 16) (\<lambda>_. 0) silent_world) = Some csv_header"
proof -
  obtain config where "daemon_args (dw_argv silent_world) = Some (20001, config)"
    using silent_args by auto
  then show ?thesis
    by (simp add: daemon_main_def silent_world_def demo_world_def can_answer_def socketcan_open_def
        daemon_open_udp_socket_def Let_def)
qed

lemma csv_log_is_a_table_witness:
  "\<exists>rows. csv_header = csv_header @ concat (map (\<lambda>row. row @ newline) rows)"
  using csv_log_is_a_table [OF silent_log] by blast

text \<open>C30. The fields of a row stand under the right names: read as a number,
  the column \<open>online\<close> is the online flag, and the columns of motor \<open>i\<close> are its measured speed and
  its current.\<close>

theorem csv_columns_read_back:
  assumes "i \<in> {1, 2, 3, 4}" "\<bar>online\<bar> \<le> 1"
  shows "\<exists>row. write_csv (Some written) c cur online now stats = Some (written @ row @ newline) \<and>
    map_option c_strtol (csv_field row ''online'') = Some (Some (online, [])) \<and>
    map_option c_strtol (csv_field row (''m'' @ show_uint (int i) @ ''_rpm'')) =
      Some (Some (sint (fb_speed_rpm (cc_feedback c ! i)), [])) \<and>
    map_option c_strtol (csv_field row (''m'' @ show_uint (int i) @ ''_current'')) =
      Some (Some (sint (cur ! i), []))"
proof -
  let ?row = "join_commas (csv_fields c cur online now stats)"
  have digit: "show_uint 1 = ''1''" "show_uint 2 = ''2''" "show_uint 3 = ''3''" "show_uint 4 = ''4''"
    by code_simp+
  have rd: "c_strtol (show_int n) = Some (n, [])" if "\<bar>n\<bar> \<le> 2 ^ 15" for n
    using strtol_show_int [of n "[]"] that by (simp add: LONG_MIN_def LONG_MAX_def)
  have w: "\<bar>sint (x :: i16)\<bar> \<le> 2 ^ 15" for x
    using sint_greater_eq [of x] sint_lt [of x] by simp
  have "\<bar>online\<bar> \<le> 2 ^ 15" using assms(2) by simp
  note reads = rd [OF this] rd [OF w]
  have f: "csv_field ?row name = map_of (zip csv_columns (csv_fields c cur online now stats)) name" for name
    by (simp add: csv_field_def csv_fields_split)
  have "csv_field ?row ''online'' = Some (show_int online)"
    "csv_field ?row (''m'' @ show_uint (int i) @ ''_rpm'') =
      Some (show_int (sint (fb_speed_rpm (cc_feedback c ! i))))"
    "csv_field ?row (''m'' @ show_uint (int i) @ ''_current'') = Some (show_int (sint (cur ! i)))"
    using assms(1) unfolding f by (auto simp: digit csv_columns_list csv_fields_def)
  then show ?thesis by (intro exI [of _ ?row]) (simp add: write_csv_row reads)
qed

lemma csv_columns_read_back_witness:
  "\<exists>row. write_csv (Some csv_header) demo_chassis [0, 5, 6, 7, 8] 1 1000 (daemon_stats_zero 900) =
      Some (csv_header @ row @ newline) \<and>
    map_option c_strtol (csv_field row (''m'' @ show_uint (int 3) @ ''_current'')) = Some (Some (7, []))"
  using csv_columns_read_back [where i = 3 and online = 1 and written = csv_header and c = demo_chassis and
      cur = "[0, 5, 6, 7, 8]" and now = 1000 and stats = "daemon_stats_zero 900"]
  by (auto simp: numeral_eq_Suc)

end
