(* ===== verification/ChassisVelocity.thy ===== *)
theory ChassisVelocity
  imports ControlCycle CFormat ChassisDaemon
begin

text \<open>
  \<open>tools/chassis_velocity.c\<close>: one velocity command for a given time, then stop. The file has its
  own copies of the helpers of the daemon; here they carry the prefix \<open>vt_\<close>.
\<close>

section \<open>Arguments\<close>

definition vt_clamp_float :: "f32 \<Rightarrow> f32 \<Rightarrow> f32 \<Rightarrow> f32" where
  "vt_clamp_float value min_value max_value =
     (if max_value < value then max_value else if value < min_value then min_value else value)"

definition vt_parse_float_arg :: "string \<Rightarrow> f32 \<Rightarrow> bool \<times> f32" where
  "vt_parse_float_arg text value =
     (case c_strtof_whole text of None \<Rightarrow> (False, value) | Some parsed \<Rightarrow> (True, parsed))"

definition vt_parse_int_arg :: "string \<Rightarrow> int \<Rightarrow> bool \<times> int" where
  "vt_parse_int_arg text value =
     (case c_strtol text of
        None \<Rightarrow> (False, value)
      | Some (parsed, rest) \<Rightarrow>
          if rest \<noteq> [] then (False, value) else (True, sint (word_of_int parsed :: u32)))"

text \<open>
  Lines 164 to 201 of \<open>main\<close>; \<open>argv\<close> is without the program name. \<open>None\<close> is exit code 2. The
  variable \<open>command\<close> is uninitialised in the code and is written before it is read; it starts
  as the zero command here.
\<close>

definition velocity_args :: "string list \<Rightarrow> (ChassisCommand \<times> int \<times> ChassisConfig) option" where
  "velocity_args argv =
     (if length argv \<noteq> 5 \<and> length argv \<noteq> 7 then None
      else
        let (ok1, forward) = vt_parse_float_arg (argv ! 1) 0;
            (ok2, strafe) = vt_parse_float_arg (argv ! 2) 0;
            (ok3, rotation) = vt_parse_float_arg (argv ! 3) 0;
            (ok4, duration_ms) = vt_parse_int_arg (argv ! 4) 0
        in if \<not> ok1 \<or> \<not> ok2 \<or> \<not> ok3 \<or> \<not> ok4 then None
           else if duration_ms \<le> 0 then None
           else
             let command = \<lparr>cmd_forward = vt_clamp_float forward (- f32_lit 1) (f32_lit 1),
                   cmd_strafe = vt_clamp_float strafe (- f32_lit 1) (f32_lit 1),
                   cmd_rotate = vt_clamp_float rotation (- f32_lit 1) (f32_lit 1)\<rparr>;
                 config = chassis_default_config
             in if length argv = 7
                then
                  let (ok5, t) = vt_parse_float_arg (argv ! 5) (max_translate_rpm config);
                      (ok6, r) = vt_parse_float_arg (argv ! 6) (max_rotate_rpm config)
                  in if \<not> ok5 \<or> \<not> ok6 then None
                     else Some (command, duration_ms, config\<lparr>max_translate_rpm := t, max_rotate_rpm := r\<rparr>)
                else Some (command, duration_ms, config))"

section \<open>Sending and receiving\<close>

definition VT_ZERO_SEND_REPEAT :: nat where "VT_ZERO_SEND_REPEAT = 20"
definition VT_PRINT_PERIOD_MS :: u64 where "VT_PRINT_PERIOD_MS = 100"

definition vt_send_currents :: "can_kernel \<Rightarrow> can_port \<Rightarrow> i16 list \<Rightarrow> int \<times> can_port" where
  "vt_send_currents kern port currents =
     socketcan_send kern port MOTOR3508_CMD_ID_1_TO_4
       (motor3508_pack_current_array currents (replicate 8 0)) 8"

definition vt_send_zero_current :: "can_kernel \<Rightarrow> can_port \<Rightarrow> can_port" where
  "vt_send_zero_current kern port =
     ((\<lambda>port. snd (vt_send_currents kern port (replicate 5 0))) ^^ VT_ZERO_SEND_REPEAT) port"

definition vt_feedback_frame :: "rx_event \<times> u64 \<Rightarrow> ChassisController \<Rightarrow> ChassisController" where
  "vt_feedback_frame e controller =
     (let r = drain_receive (fst e) in
      if 8 \<le> rx_dlc r
      then (case motor3508_parse_feedback (rx_can_id r) (rx_data r) (Some fb_zero) (snd e) of
              (ret, Some feedback) \<Rightarrow>
                if ret \<noteq> 0 then chassis_update_feedback controller feedback else controller
            | (ret, None) \<Rightarrow> controller)
      else controller)"

fun vt_drain_feedback ::
  "(rx_event \<times> u64) list \<Rightarrow> ChassisController \<Rightarrow> ChassisController \<times> (rx_event \<times> u64) list" where
  "vt_drain_feedback [] controller = (controller, [])"
| "vt_drain_feedback (e # es) controller =
     (if rx_ret (drain_receive (fst e)) \<le> 0 then (controller, es)
      else vt_drain_feedback es (vt_feedback_frame e controller))"

text \<open>The clock reads and frames of the rounds are inputs, as for the daemon.\<close>

fun vt_wait_for_all_feedback ::
  "u64 \<Rightarrow> int \<Rightarrow> (u64 \<times> (rx_event \<times> u64) list \<times> u64) list \<Rightarrow> ChassisController \<Rightarrow> int \<times> ChassisController" where
  "vt_wait_for_all_feedback start timeout_ms [] controller = (0, controller)"
| "vt_wait_for_all_feedback start timeout_ms ((t, es, now) # rounds) controller =
     (if t - start < word_of_int timeout_ms
      then let controller = fst (vt_drain_feedback es controller)
           in if chassis_feedback_all_online controller now \<noteq> 0 then (1, controller)
              else vt_wait_for_all_feedback start timeout_ms rounds controller
      else (0, controller))"

definition vt_print_status :: "ChassisController \<Rightarrow> i16 list \<Rightarrow> int \<Rightarrow> int \<Rightarrow> string" where
  "vt_print_status controller currents online remaining_ms =
     ''remain='' @ show_int remaining_ms @ ''ms online='' @ show_int online @
     '' cmd=['' @ show_fixed 2 (cmd_forward (cc_command controller)) @
     '' '' @ show_fixed 2 (cmd_strafe (cc_command controller)) @
     '' '' @ show_fixed 2 (cmd_rotate (cc_command controller)) @ ''] '' @
     concat (map (print_motor (cc_target_rpm controller) (cc_feedback controller) currents) motors) @
     newline"

section \<open>The main loop\<close>

record Velocity =
  vl_controller :: ChassisController
  vl_currents :: "i16 list"
  vl_last_loop_ms :: u64
  vl_last_print_ms :: u64
  vl_can :: can_port
  vl_printed :: string

record VelocityInput =
  vi_now :: u64
  vi_can :: "(rx_event \<times> u64) list"

text \<open>\<open>(int)(now - start_ms)\<close> keeps the low 32 bits.\<close>

definition vt_elapsed_ms :: "u64 \<Rightarrow> u64 \<Rightarrow> int" where
  "vt_elapsed_ms now start_ms = sint (ucast (now - start_ms) :: u32)"

definition velocity_turn ::
  "can_kernel \<Rightarrow> (f32 \<Rightarrow> int) \<Rightarrow> ChassisCommand \<Rightarrow> int \<Rightarrow> u64 \<Rightarrow> VelocityInput \<Rightarrow> Velocity \<Rightarrow> Velocity \<times> bool" where
  "velocity_turn kern u command duration_ms start_ms inp v =
     (let now = vi_now inp;
          elapsed = vt_elapsed_ms now start_ms
      in if duration_ms \<le> elapsed then (v, False)
         else
           let controller = chassis_set_command (vl_controller v)
                 (cmd_forward command) (cmd_strafe command) (cmd_rotate command) now;
               controller = fst (vt_drain_feedback (vi_can inp) controller);
               dt_s = loop_dt now (vl_last_loop_ms v);
               v = v\<lparr>vl_last_loop_ms := now\<rparr>;
               (controller, online, currents) = chassis_step u controller now dt_s (vl_currents v);
               currents = zero_if_offline online currents;
               (ret, port) = vt_send_currents kern (vl_can v) currents;
               v = v\<lparr>vl_controller := controller, vl_currents := currents, vl_can := port\<rparr>
           in if ret < 0 then (v, False)
              else (if VT_PRINT_PERIOD_MS \<le> now - vl_last_print_ms v
                    then v\<lparr>vl_printed := vl_printed v @
                             vt_print_status controller currents online (duration_ms - elapsed),
                           vl_last_print_ms := now\<rparr>
                    else v, True))"

fun velocity_loop ::
  "can_kernel \<Rightarrow> (f32 \<Rightarrow> int) \<Rightarrow> ChassisCommand \<Rightarrow> int \<Rightarrow> u64 \<Rightarrow> VelocityInput list \<Rightarrow> Velocity \<Rightarrow> Velocity \<times> bool" where
  "velocity_loop kern u command duration_ms start_ms [] v = (v, False)"
| "velocity_loop kern u command duration_ms start_ms (inp # inputs) v =
     (case velocity_turn kern u command duration_ms start_ms inp v of
        (v, go_on) \<Rightarrow>
          if go_on then velocity_loop kern u command duration_ms start_ms inputs v else (v, True))"

record VelocityWorld =
  vw_argv :: "string list"
  vw_can :: can_answers
  vw_memory :: ChassisController
  vw_init_ms :: u64
  vw_wait_ms :: u64
  vw_rounds :: "(u64 \<times> (rx_event \<times> u64) list \<times> u64) list"
  vw_start_ms :: u64
  vw_inputs :: "VelocityInput list"
  vw_stop_ms :: u64

definition velocity_begin :: "u64 \<Rightarrow> ChassisController \<Rightarrow> Velocity" where
  "velocity_begin start_ms controller = \<lparr>vl_controller = controller, vl_currents = replicate 5 0,
     vl_last_loop_ms = start_ms, vl_last_print_ms = 0, vl_can = [], vl_printed = []\<rparr>"

text \<open>\<open>main\<close> once the arguments are read: the exit code, the controller at the end (\<open>None\<close> where
  none was set up), everything written to the bus, and the status lines.\<close>

definition velocity_program ::
  "can_kernel \<Rightarrow> (f32 \<Rightarrow> int) \<Rightarrow> (ChassisCommand \<times> int \<times> ChassisConfig) option \<Rightarrow> VelocityWorld \<Rightarrow>
   int \<times> ChassisController option \<times> can_port \<times> string" where
  "velocity_program kern u args w =
     (case args of
        None \<Rightarrow> (2, None, [], [])
      | Some (command, duration_ms, config) \<Rightarrow>
          let can_fd = can_answer (vw_can w) (vw_argv w ! 0)
          in if can_fd < 0 then (1, None, [], [])
             else
               let controller = chassis_init (vw_memory w) (Some config) (vw_init_ms w);
                   (ready, controller) =
                     vt_wait_for_all_feedback (vw_wait_ms w) 1500 (vw_rounds w) controller
               in if ready = 0 then (1, Some controller, vt_send_zero_current kern [], [])
                  else
                    let v = fst (velocity_loop kern u command duration_ms (vw_start_ms w) (vw_inputs w)
                          (velocity_begin (vw_start_ms w) controller));
                        controller = chassis_stop (vl_controller v) (vw_stop_ms w)
                    in (0, Some controller, vt_send_zero_current kern (vl_can v), vl_printed v))"

definition velocity_main ::
  "can_kernel \<Rightarrow> (f32 \<Rightarrow> int) \<Rightarrow> VelocityWorld \<Rightarrow> int \<times> ChassisController option \<times> can_port \<times> string" where
  "velocity_main kern u w = velocity_program kern u (velocity_args (vw_argv w)) w"

section \<open>The interfaces\<close>

lemma velocity_copies:
  "vt_clamp_float = clamp_float" "vt_parse_float_arg = parse_float_arg" "vt_parse_int_arg = parse_int_arg"
  by (simp_all add: fun_eq_iff vt_clamp_float_def clamp_float_def vt_parse_float_arg_def
      parse_float_arg_def vt_parse_int_arg_def parse_int_arg_def)

interpretation velocity_can: receive_loop vt_drain_feedback "\<lambda>e. rx_stop (fst e)" vt_feedback_frame
  by unfold_locales (simp_all add: rx_stop_def)

interpretation velocity_sender: current_sender "vt_send_currents kern" kern for kern
  by unfold_locales
    (simp add: vt_send_currents_def socketcan_send_8 [OF _ command_frame_def] len_simps motor_consts)

interpretation velocity_turns: turn_loop
  "velocity_loop kern u command duration_ms start_ms" "velocity_turn kern u command duration_ms start_ms"
  for kern u command duration_ms start_ms
  by unfold_locales (simp_all add: case_prod_beta)

lemma velocity_zero_frames:
  "tried_frames (vt_send_zero_current kern port) =
     tried_frames port @ replicate 20 (command_frame (replicate 5 0))"
  by (simp add: vt_send_zero_current_def VT_ZERO_SEND_REPEAT_def velocity_sender.burst_frames)

section \<open>The parts of a turn\<close>

definition velocity_ready :: "ChassisCommand \<Rightarrow> VelocityInput \<Rightarrow> Velocity \<Rightarrow> ChassisController" where
  "velocity_ready command inp v = fst (vt_drain_feedback (vi_can inp)
     (chassis_set_command (vl_controller v) (cmd_forward command) (cmd_strafe command)
        (cmd_rotate command) (vi_now inp)))"

definition velocity_step ::
  "(f32 \<Rightarrow> int) \<Rightarrow> ChassisCommand \<Rightarrow> VelocityInput \<Rightarrow> Velocity \<Rightarrow> ChassisController \<times> int \<times> i16 list" where
  "velocity_step u command inp v = chassis_step u (velocity_ready command inp v) (vi_now inp)
     (loop_dt (vi_now inp) (vl_last_loop_ms v)) (vl_currents v)"

definition velocity_sends :: "(f32 \<Rightarrow> int) \<Rightarrow> ChassisCommand \<Rightarrow> VelocityInput \<Rightarrow> Velocity \<Rightarrow> i16 list" where
  "velocity_sends u command inp v = (case velocity_step u command inp v of (c, online, cur) \<Rightarrow>
     zero_if_offline online cur)"

text \<open>A turn after the time is up changes nothing; any other sends one frame.\<close>

lemma velocity_turn_up:
  "duration_ms \<le> vt_elapsed_ms (vi_now inp) start_ms \<Longrightarrow>
     velocity_turn kern u command duration_ms start_ms inp v = (v, False)"
  by (simp add: velocity_turn_def Let_def)

lemma velocity_turn_parts:
  fixes kern u command inp v
  assumes "\<not> duration_ms \<le> vt_elapsed_ms (vi_now inp) start_ms"
  defines "t \<equiv> velocity_turn kern u command duration_ms start_ms inp v"
  shows "vl_controller (fst t) = fst (velocity_step u command inp v)"
    "vl_currents (fst t) = velocity_sends u command inp v"
    "tried_frames (vl_can (fst t)) = tried_frames (vl_can v) @ [command_frame (velocity_sends u command inp v)]"
  using assms
  by (simp_all add: velocity_turn_def velocity_step_def velocity_sends_def velocity_ready_def Let_def
      case_prod_beta velocity_sender.send_eq)

lemma vt_frame_controller:
  "vt_feedback_frame e c = c \<or> (\<exists>fb. vt_feedback_frame e c = chassis_update_feedback c fb)"
  by (auto simp: vt_feedback_frame_def Let_def split: option.split prod.split)

lemma vt_drain_ok: "chassis_ok c \<Longrightarrow> chassis_ok (fst (vt_drain_feedback es c))"
proof (erule velocity_can.loop_invariant [where P = chassis_ok])
  show "chassis_ok (vt_feedback_frame e t)" if "chassis_ok t" for e t
    using that vt_frame_controller [of e t] update_feedback_ok by metis
qed

lemma vt_wait_ok: "chassis_ok c \<Longrightarrow> chassis_ok (snd (vt_wait_for_all_feedback start tmo rounds c))"
  by (induction start tmo rounds c rule: vt_wait_for_all_feedback.induct) (auto simp: Let_def vt_drain_ok)

definition command_numbers :: "ChassisCommand \<Rightarrow> bool" where
  "command_numbers c \<longleftrightarrow> cmd_forward c \<noteq> NaN \<and> cmd_strafe c \<noteq> NaN \<and> cmd_rotate c \<noteq> NaN"

definition velocity_safe :: "Velocity \<Rightarrow> bool" where
  "velocity_safe v \<longleftrightarrow> chassis_ok (vl_controller v) \<and> length (vl_currents v) = 5 \<and>
     (\<forall>f\<in>set (tried_frames (vl_can v)). command_frame_ok 6500 f)"

lemma velocity_turn_safe:
  assumes "velocity_safe v" "command_numbers command"
  shows "velocity_safe (fst (velocity_turn kern u command duration_ms start_ms inp v))"
proof (cases "duration_ms \<le> vt_elapsed_ms (vi_now inp) start_ms")
  case True
  then show ?thesis using assms by (simp add: velocity_turn_up)
next
  case False
  obtain c r cur where st: "velocity_step u command inp v = (c, r, cur)" by (cases "velocity_step u command inp v")
  have "chassis_ok (velocity_ready command inp v)"
    unfolding velocity_ready_def
    by (intro vt_drain_ok set_command_ok) (use assms in \<open>simp_all add: velocity_safe_def command_numbers_def\<close>)
  note ok = cycle_ok [OF this _ st [unfolded velocity_step_def]]
  show ?thesis
    using assms ok
    by (auto simp: velocity_safe_def velocity_turn_parts [OF False] velocity_sends_def st commands_within_def)
qed

text \<open>The frames of a whole run.\<close>

lemma velocity_program_cases:
  obtains (usage) "args = None" "velocity_program kern u args w = (2, None, [], [])"
  | (no_can) "can_answer (vw_can w) (vw_argv w ! 0) < 0" "velocity_program kern u args w = (1, None, [], [])"
  | (not_ready) c where "velocity_program kern u args w = (1, c, vt_send_zero_current kern [], [])"
  | (ran) command duration_ms config c where "args = Some (command, duration_ms, config)"
      "vt_wait_for_all_feedback (vw_wait_ms w) 1500 (vw_rounds w)
         (chassis_init (vw_memory w) (Some config) (vw_init_ms w)) = (1, c)"
      "velocity_program kern u args w =
         (let v = fst (velocity_loop kern u command duration_ms (vw_start_ms w) (vw_inputs w)
                (velocity_begin (vw_start_ms w) c))
          in (0, Some (chassis_stop (vl_controller v) (vw_stop_ms w)), vt_send_zero_current kern (vl_can v),
              vl_printed v))"
proof (cases args)
  case None
  then show ?thesis by (intro usage) (simp_all add: velocity_program_def)
next
  case (Some a)
  then obtain command duration_ms config where
    a: "args = Some (command, duration_ms, config)" by (cases a) simp
  obtain ready c where wait: "vt_wait_for_all_feedback (vw_wait_ms w) 1500 (vw_rounds w)
      (chassis_init (vw_memory w) (Some config) (vw_init_ms w)) = (ready, c)" by (metis surj_pair)
  have "fst (vt_wait_for_all_feedback t0 tmo rounds c0) \<in> {0, 1}" for t0 tmo rounds c0
    by (induction t0 tmo rounds c0 rule: vt_wait_for_all_feedback.induct) (simp_all add: Let_def)
  then have "ready = 0 \<or> ready = 1" using wait by (metis fst_conv insertE singletonD)
  then consider "can_answer (vw_can w) (vw_argv w ! 0) < 0" | "\<not> can_answer (vw_can w) (vw_argv w ! 0) < 0" "ready = 0"
    | "\<not> can_answer (vw_can w) (vw_argv w ! 0) < 0" "ready = 1" by blast
  then show ?thesis
  proof cases
    case 1 then show ?thesis by (intro no_can) (simp_all add: velocity_program_def a)
  next
    case 2 then show ?thesis by (intro not_ready [of "Some c"]) (simp add: velocity_program_def a wait)
  next
    case 3 then show ?thesis
      by (intro ran [OF a, of c]) (simp_all add: velocity_program_def a wait Let_def)
  qed
qed

end
