(* ===== verification/VelocityProps.thy ===== *)
theory VelocityProps
  imports ChassisVelocity DaemonProps
begin

text \<open>The properties of the velocity tool: it keeps the currents bounded, ends in time, and stops
  the motors however it ends.\<close>

section \<open>Elapsed time\<close>

lemma vt_elapsed_small:
  assumes "uint (now - start) < 2 ^ 31" shows "vt_elapsed_ms now start = uint (now - start)"
proof -
  have "uint (ucast (now - start) :: u32) = uint (now - start)"
    using assms by (simp add: unsigned_ucast_eq take_bit_int_eq_self)
  moreover have "signed_take_bit 31 (uint (now - start)) = uint (now - start)"
    by (rule signed_take_bit_int_eq_self) (use assms uint_ge_0 [of "now - start"] in linarith)+
  ultimately show ?thesis by (simp add: vt_elapsed_ms_def sint_uint)
qed

lemma velocity_turn_count:
  "length (tried_frames (vl_can (fst (velocity_turn kern u command duration_ms start_ms inp v)))) \<le>
     length (tried_frames (vl_can v)) + (if vt_elapsed_ms (vi_now inp) start_ms < duration_ms then 1 else 0)"
  by (cases "duration_ms \<le> vt_elapsed_ms (vi_now inp) start_ms")
    (simp_all add: velocity_turn_up velocity_turn_parts)

text \<open>Turns at least 10 ms apart: few of them fall into a given time.\<close>

lemma filter_count:
  assumes "\<And>k. k < length xs \<Longrightarrow> P (xs ! k) \<Longrightarrow> k < n" shows "length (filter P xs) \<le> n"
proof -
  have "length (filter P xs) = card {k. k < length xs \<and> P (xs ! k)}" by (rule length_filter_conv_card)
  also have "\<dots> \<le> card {..<n}" by (rule card_mono) (use assms in auto)
  finally show ?thesis by simp
qed

text \<open>Values for the witnesses: half speed forward for 3 ms, four motors at rest, and a clock that
  ends the run in its second turn.\<close>

definition demo_velocity_world :: VelocityWorld where
  "demo_velocity_world = \<lparr>vw_argv = [''can0'', ''0.5'', ''0'', ''0'', ''3''],
     vw_can = \<lparr>ca_socket = 3, ca_ioctl = \<lambda>_. 0, ca_bind = 0\<rparr>, vw_memory = demo_blank,
     vw_init_ms = 1000, vw_wait_ms = 1000,
     vw_rounds = [(1001, map (\<lambda>k. (ReadFrame \<lparr>cf_can_id = 0x200 + k, cf_can_dlc = 8,
       cf_data = replicate 8 0\<rparr>, 1001)) [1, 2, 3, 4] @ [(PollTimeout, 1001)], 1002)],
     vw_start_ms = 1002,
     vw_inputs = [\<lparr>vi_now = 1002, vi_can = [(PollTimeout, 1002)]\<rparr>,
       \<lparr>vi_now = 1012, vi_can = [(PollTimeout, 1012)]\<rparr>],
     vw_stop_ms = 1020\<rparr>"

lemma demo_velocity_args:
  "velocity_args (vw_argv demo_velocity_world) =
     Some (\<lparr>cmd_forward = Fin False (1 / 2), cmd_strafe = Fin False 0, cmd_rotate = Fin False 0\<rparr>, 3,
       chassis_default_config)"
proof -
  have "map_option (\<lambda>(command, d, config). (cmd_forward command, cmd_strafe command, cmd_rotate command, d))
      (velocity_args (vw_argv demo_velocity_world)) = Some (Fin False (1 / 2), Fin False 0, Fin False 0, 3)"
    by code_simp
  moreover have "snd (snd a) = chassis_default_config" if "velocity_args (vw_argv demo_velocity_world) = Some a" for a
    using that by (auto simp: velocity_args_def demo_velocity_world_def Let_def split: prod.splits if_splits)
  ultimately show ?thesis by (auto split: prod.splits)
qed

section \<open>What the program sends\<close>

text \<open>For any command, however it was read from the arguments.\<close>

lemma velocity_program_bounded:
  assumes "chassis_wf (vw_memory w)"
    "\<And>command duration_ms config. args = Some (command, duration_ms, config) \<Longrightarrow>
       config_ok config \<and> command_numbers command"
  shows "\<forall>f\<in>set (tried_frames (fst (snd (snd (velocity_program kern u args w))))). command_frame_ok 6500 f"
proof -
  have zero: "command_frame_ok 6500 (command_frame (replicate 5 0))"
    by (rule command_frame_ok) (rule zero_within, simp)
  show ?thesis
  proof (cases rule: velocity_program_cases [where kern = kern and u = u and w = w and args = args])
    case (ran command duration_ms config c)
    have "chassis_ok (chassis_init (vw_memory w) (Some config) (vw_init_ms w))"
      using assms(1) assms(2) [OF ran(1)] by (intro chassis_init_ok) simp_all
    then have "chassis_ok c" using vt_wait_ok ran(2) by (metis snd_conv)
    then have "velocity_safe (velocity_begin (vw_start_ms w) c)"
      by (simp add: velocity_safe_def velocity_begin_def)
    then have "velocity_safe (fst (velocity_loop kern u command duration_ms (vw_start_ms w) (vw_inputs w)
        (velocity_begin (vw_start_ms w) c)))"
      by (rule velocity_turns.turns_invariant) (use assms(2) [OF ran(1)] velocity_turn_safe in blast)
    then show ?thesis using ran(3) zero by (auto simp: velocity_zero_frames velocity_safe_def Let_def)
  qed (use zero in \<open>auto simp: velocity_zero_frames\<close>)
qed

lemma velocity_program_ends:
  assumes "args \<noteq> None" "0 \<le> can_answer (vw_can w) (vw_argv w ! 0)"
  shows "\<exists>frames. tried_frames (fst (snd (snd (velocity_program kern u args w)))) =
      frames @ replicate 20 (command_frame (replicate 5 0)) \<and>
    (fst (velocity_program kern u args w) \<noteq> 0 \<longrightarrow> frames = [])"
  by (cases rule: velocity_program_cases [where kern = kern and u = u and w = w and args = args])
    (use assms in \<open>auto simp: velocity_zero_frames Let_def\<close>)

section \<open>Properties\<close>

text \<open>C4. From start to exit, every frame the velocity tool tries to write
  is a command frame of four currents of at most 6500, given an in-range configuration and
  arguments that are no NaN, whatever the motors report and the kernel answers.\<close>

theorem velocity_currents_bounded:
  assumes "chassis_wf (vw_memory w)"
    "\<And>command duration_ms config. velocity_args (vw_argv w) = Some (command, duration_ms, config) \<Longrightarrow>
       config_ok config \<and> command_numbers command"
  shows "\<forall>f\<in>set (tried_frames (fst (snd (snd (velocity_main kern u w))))).
    cf_can_id f = 0x200 \<and> cf_can_dlc f = 8 \<and> (\<forall>x\<in>set (frame_currents f). \<bar>sint x\<bar> \<le> 6500)"
  using velocity_program_bounded [OF assms] by (simp add: velocity_main_def command_frame_ok_def)

lemma velocity_currents_bounded_witness:
  "list_all (\<lambda>f. list_all (\<lambda>x. \<bar>sint x\<bar> \<le> 6500) (frame_currents f))
     (tried_frames (fst (snd (snd (velocity_main (\<lambda>_ _. 16) (\<lambda>_. 0) demo_velocity_world)))))"
proof -
  have "chassis_wf (vw_memory demo_velocity_world)" by (simp add: demo_velocity_world_def demo_blank_wf)
  moreover have "config_ok config \<and> command_numbers command"
    if "velocity_args (vw_argv demo_velocity_world) = Some (command, d, config)" for command d config
    using that unfolding demo_velocity_args by (auto simp: default_config_ok command_numbers_def)
  ultimately show ?thesis
    using velocity_currents_bounded [where w = demo_velocity_world and kern = "\<lambda>_ _. 16" and u = "\<lambda>_. 0"]
    unfolding list_all_iff by blast
qed

text \<open>C14. The run is over when its time is up. A turn that reads the clock between
  the duration and 2^31 ms (24 days) after the start leaves the loop, whatever the turns before
  it read and did, and no later input is looked at. The upper bound is needed: beyond it the
  cast of the elapsed time to \<open>int\<close> is negative and the turn goes on. If, in addition, every
  turn of the run is within 2^31 ms and turn \<open>k\<close> comes at least \<open>10 * k\<close> ms after the start, as the
  sleep makes it, at most one frame is sent for each started 10 ms of the duration.\<close>

theorem velocity_loop_ends:
  assumes "inputs = before @ inp # later" "duration_ms \<le> uint (vi_now inp - start_ms)"
    "uint (vi_now inp - start_ms) < 2 ^ 31"
  shows "snd (velocity_loop kern u command duration_ms start_ms inputs v) \<and>
    velocity_loop kern u command duration_ms start_ms inputs v =
      velocity_loop kern u command duration_ms start_ms (before @ [inp]) v \<and>
    (0 < duration_ms \<longrightarrow>
     (\<forall>k<length inputs. 10 * int k \<le> uint (vi_now (inputs ! k) - start_ms) \<and>
        uint (vi_now (inputs ! k) - start_ms) < 2 ^ 31) \<longrightarrow>
     int (length (tried_frames (vl_can (fst (velocity_loop kern u command duration_ms start_ms inputs v))))) \<le>
      int (length (tried_frames (vl_can v))) + (duration_ms + 9) div 10)"
proof (intro conjI impI)
  have "duration_ms \<le> vt_elapsed_ms (vi_now inp) start_ms"
    using vt_elapsed_small [OF assms(3)] assms(2) by simp
  then have stop: "\<not> snd (velocity_turn kern u command duration_ms start_ms inp v)" for v
    by (simp add: velocity_turn_up)
  show "snd (velocity_loop kern u command duration_ms start_ms inputs v)"
    by (rule velocity_turns.turns_end [where i = inp]) (use assms(1) stop in simp_all)
  show "velocity_loop kern u command duration_ms start_ms inputs v =
      velocity_loop kern u command duration_ms start_ms (before @ [inp]) v"
    unfolding assms(1) by (rule velocity_turns.turns_cut) (rule stop)
  assume pos: "0 < duration_ms" and apart: "\<forall>k<length inputs. 10 * int k \<le> uint (vi_now (inputs ! k) - start_ms) \<and>
        uint (vi_now (inputs ! k) - start_ms) < 2 ^ 31"
  let ?k = "\<lambda>i. vt_elapsed_ms (vi_now i) start_ms < duration_ms"
  have "length (filter ?k inputs) \<le> nat ((duration_ms + 9) div 10)"
  proof (rule filter_count)
    fix k assume k: "k < length inputs" "?k (inputs ! k)"
    then have "10 * int k < duration_ms" using apart [rule_format, OF k(1)] by (simp add: vt_elapsed_small)
    then show "k < nat ((duration_ms + 9) div 10)" by linarith
  qed
  moreover have "length (tried_frames (vl_can (fst (velocity_loop kern u command duration_ms start_ms inputs v)))) \<le>
      length (tried_frames (vl_can v)) + length (filter ?k inputs)"
    by (rule velocity_turns.turns_count) (rule velocity_turn_count)
  ultimately show "int (length (tried_frames (vl_can (fst (velocity_loop kern u command duration_ms start_ms inputs v))))) \<le>
      int (length (tried_frames (vl_can v))) + (duration_ms + 9) div 10"
    using pos by linarith
qed

lemma velocity_loop_ends_witness:
  "snd (velocity_loop (\<lambda>_ _. 16) (\<lambda>_. 0) zero_command 3 1002 (vw_inputs demo_velocity_world)
     (velocity_begin 1002 demo_chassis)) \<and>
   length (tried_frames (vl_can (fst (velocity_loop (\<lambda>_ _. 16) (\<lambda>_. 0) zero_command 3 1002
     (vw_inputs demo_velocity_world) (velocity_begin 1002 demo_chassis))))) \<le> 1"
proof -
  let ?before = "[\<lparr>vi_now = 1002, vi_can = [(PollTimeout, 1002)]\<rparr>]"
  let ?inp = "\<lparr>vi_now = 1012, vi_can = [(PollTimeout, 1012)]\<rparr>"
  have inputs: "vw_inputs demo_velocity_world = ?before @ ?inp # []" by (simp add: demo_velocity_world_def)
  have "\<forall>k<length (vw_inputs demo_velocity_world).
      10 * int k \<le> uint (vi_now (vw_inputs demo_velocity_world ! k) - 1002) \<and>
      uint (vi_now (vw_inputs demo_velocity_world ! k) - 1002) < 2 ^ 31"
    by (auto simp: demo_velocity_world_def less_Suc_eq)
  moreover have "vl_can (velocity_begin 1002 demo_chassis) = []" by (simp add: velocity_begin_def)
  moreover have "(3::int) \<le> uint (vi_now ?inp - 1002)" "uint (vi_now ?inp - 1002) < 2 ^ 31" by simp_all
  note ends = velocity_loop_ends [OF inputs this, of "\<lambda>_ _. 16" "\<lambda>_. 0" zero_command "velocity_begin 1002 demo_chassis"]
  ultimately show ?thesis using conjunct2 [OF conjunct2 [OF ends]] by (intro conjI conjunct1 [OF ends]) simp
qed

text \<open>Once the CAN socket is open and the arguments are right, every way
  the tool can end, the time being up, a signal, a failed send or motors that do not answer,
  ends with twenty attempts to send zero currents; if the motors do not answer nothing else is
  sent.\<close>

theorem velocity_ends_with_zero:
  assumes "velocity_args (vw_argv w) \<noteq> None" "0 \<le> can_answer (vw_can w) (vw_argv w ! 0)"
  shows "\<exists>frames. tried_frames (fst (snd (snd (velocity_main kern u w)))) =
      frames @ replicate 20 (command_frame (replicate 5 0)) \<and>
    (fst (velocity_main kern u w) \<noteq> 0 \<longrightarrow> frames = [])"
  unfolding velocity_main_def by (rule velocity_program_ends [OF assms])

lemma velocity_ends_with_zero_witness:
  "last (tried_frames (fst (snd (snd (velocity_main (\<lambda>_ _. - 1) (\<lambda>_. 0) demo_velocity_world))))) =
     command_frame (replicate 5 0)"
proof -
  have "velocity_args (vw_argv demo_velocity_world) \<noteq> None"
    "0 \<le> can_answer (vw_can demo_velocity_world) (vw_argv demo_velocity_world ! 0)"
    using demo_velocity_args by (simp_all add: demo_velocity_world_def can_answer_def socketcan_open_def)
  from velocity_ends_with_zero [OF this, of "\<lambda>_ _. - 1" "\<lambda>_. 0"]
  show ?thesis by (auto simp: numeral_eq_Suc replicate_append_same [symmetric] simp del: replicate_append_same)
qed

end
