(* ===== verification/Monitor3508.thy ===== *)
theory Monitor3508
  imports SocketCan CFormat
begin

text \<open>
  \<open>tools/monitor_3508.c\<close>: prints every feedback frame. It sends nothing. An input of a turn is
  what \<open>socketcan_receive\<close> meets and the clock read after it.
\<close>

section \<open>The loop\<close>

text \<open>
  \<open>mn_feedbacks\<close> is the memory from \<open>&feedbacks[0]\<close> on, in units of a feedback record: the five of
  the array and whatever lies behind it, so that a write past the end of the array would show.
\<close>

record Monitor =
  mn_feedbacks :: "Motor3508Feedback list"
  mn_printed :: string

definition monitor_line :: "u32 \<Rightarrow> Motor3508Feedback \<Rightarrow> u64 \<Rightarrow> string" where
  "monitor_line can_id fb now =
     motor3508_feedback_name (fb_id fb) @
     '' id=0x'' @ pad (CHR ''0'') 3 (show_hex (uint can_id)) @
     '' angle='' @ pad (CHR '' '') 5 (show_int (sint (fb_angle fb))) @
     '' rpm='' @ pad (CHR '' '') 6 (show_int (sint (fb_speed_rpm fb))) @
     '' current='' @ pad (CHR '' '') 6 (show_int (sint (fb_current fb))) @
     '' temp='' @ pad (CHR '' '') 3 (show_int (sint (fb_temperature fb))) @
     ''C age='' @ show_uint (uint (now - fb_last_update_ms fb)) @ ''ms'' @ newline"

definition monitor_turn :: "rx_event \<times> u64 \<Rightarrow> Monitor \<Rightarrow> Monitor \<times> bool" where
  "monitor_turn e m =
     (let r = drain_receive (fst e) in
      if rx_ret r < 0 then (m, False)
      else if rx_ret r = 0
      then (m\<lparr>mn_printed := mn_printed m @ ''No CAN frame in the last 1000 ms.'' @ newline\<rparr>, True)
      else if rx_dlc r < 8 then (m, True)
      else
        let now = snd e;
            (ret, feedbacks) = motor3508_update_feedback (rx_can_id r) (rx_data r) fb_zero (mn_feedbacks m) now;
            m = m\<lparr>mn_feedbacks := feedbacks\<rparr>
        in if ret \<noteq> 0
           then (m\<lparr>mn_printed := mn_printed m @ monitor_line (rx_can_id r)
                    (mn_feedbacks m ! unat (rx_can_id r - MOTOR3508_FEEDBACK_ID_BASE)) now\<rparr>, True)
           else (m, True))"

fun monitor_loop :: "(rx_event \<times> u64) list \<Rightarrow> Monitor \<Rightarrow> Monitor \<times> bool" where
  "monitor_loop [] m = (m, False)"
| "monitor_loop (e # es) m =
     (case monitor_turn e m of (m, go_on) \<Rightarrow> if go_on then monitor_loop es m else (m, True))"

text \<open>\<open>main\<close>: the exit code, and the memory and output after the loop; \<open>argv\<close> is without the program
  name, \<open>beyond\<close> is what lies behind the array.\<close>

definition monitor_main ::
  "Motor3508Feedback list \<Rightarrow> string list \<Rightarrow> can_answers \<Rightarrow> (rx_event \<times> u64) list \<Rightarrow> int \<times> Monitor option" where
  "monitor_main beyond argv w es =
     (if length argv \<noteq> 1 then (2, None)
      else if can_answer w (argv ! 0) < 0 then (1, None)
      else (0, Some (fst (monitor_loop es
        \<lparr>mn_feedbacks = replicate 5 fb_zero @ beyond, mn_printed = []\<rparr>))))"

interpretation monitor_turns: turn_loop monitor_loop monitor_turn
  by unfold_locales (simp_all add: case_prod_beta)

section \<open>What a turn does\<close>

lemma monitor_turn_feedback:
  assumes "frame_feedback ev now = Some fb"
  shows "monitor_turn (ev, now) m =
    (m\<lparr>mn_feedbacks := (mn_feedbacks m)[unat (fb_id fb) := fb],
       mn_printed := mn_printed m @ monitor_line (rx_can_id (drain_receive ev))
         ((mn_feedbacks m)[unat (fb_id fb) := fb] ! unat (fb_id fb)) now\<rparr>, True)"
proof -
  let ?r = "drain_receive ev"
  have r: "0 < rx_ret ?r" "\<not> rx_dlc ?r < 8" "is_feedback_id (rx_can_id ?r)"
    "fb = feedback_of (rx_can_id ?r) (rx_data ?r) now"
    using assms by (auto simp: frame_feedback_def Let_def split: if_splits)
  from r(3) obtain k where k: "k \<in> {1, 2, 3, 4}" "rx_can_id ?r = of_nat (0x200 + k)" "unat (fb_id fb) = k"
    unfolding r(4) using feedback_id_motor by blast
  then have "unat (rx_can_id ?r - MOTOR3508_FEEDBACK_ID_BASE) = k" by (auto simp: motor_consts)
  then show ?thesis
    using r k by (simp add: monitor_turn_def update_feedback_eq Let_def)
qed

lemma monitor_turn_other:
  assumes "frame_feedback ev now = None" "\<not> rx_ret (drain_receive ev) < 0"
  shows "monitor_turn (ev, now) m =
    (if rx_ret (drain_receive ev) = 0
     then m\<lparr>mn_printed := mn_printed m @ ''No CAN frame in the last 1000 ms.'' @ newline\<rparr> else m, True)"
  using assms by (auto simp: monitor_turn_def frame_feedback_def update_feedback_eq Let_def not_less split: if_splits)

lemma frame_feedback_ret:
  assumes "frame_feedback ev now = Some fb"
  shows "0 < rx_ret (drain_receive ev)" "unat (fb_id fb) \<in> {1, 2, 3, 4}"
  using assms feedback_of_id [of "rx_can_id (drain_receive ev)" "rx_data (drain_receive ev)" now]
  by (auto simp: frame_feedback_def Let_def split: if_splits)

text \<open>The lines a run prints, one for each turn that prints, and the feedback it receives.\<close>

fun monitor_lines :: "(rx_event \<times> u64) list \<Rightarrow> string list" where
  "monitor_lines [] = []"
| "monitor_lines (e # es) =
     (if rx_ret (drain_receive (fst e)) < 0 then []
      else if rx_ret (drain_receive (fst e)) = 0
      then (''No CAN frame in the last 1000 ms.'' @ newline) # monitor_lines es
      else (case frame_feedback (fst e) (snd e) of
              None \<Rightarrow> monitor_lines es
            | Some fb \<Rightarrow> monitor_line (rx_can_id (drain_receive (fst e))) fb (snd e) # monitor_lines es))"

fun monitor_received :: "(rx_event \<times> u64) list \<Rightarrow> Motor3508Feedback list" where
  "monitor_received [] = []"
| "monitor_received (e # es) =
     (if rx_ret (drain_receive (fst e)) < 0 then []
      else (case frame_feedback (fst e) (snd e) of
              None \<Rightarrow> monitor_received es
            | Some fb \<Rightarrow> fb # monitor_received es))"

text \<open>The memory after feedback arrived: every record in the slot of its motor, nothing else changed.\<close>

definition stored :: "Motor3508Feedback list \<Rightarrow> Motor3508Feedback list \<Rightarrow> Motor3508Feedback list" where
  "stored mem fbs = fold (\<lambda>fb mem. mem[unat (fb_id fb) := fb]) fbs mem"

lemma monitor_loop_effect:
  "5 \<le> length (mn_feedbacks m) \<Longrightarrow>
     mn_printed (fst (monitor_loop es m)) = mn_printed m @ concat (monitor_lines es) \<and>
     mn_feedbacks (fst (monitor_loop es m)) = stored (mn_feedbacks m) (monitor_received es)"
proof (induction es arbitrary: m)
  case (Cons e es)
  obtain ev now where e: "e = (ev, now)" by (cases e)
  show ?case
  proof (cases "frame_feedback ev now")
    case (Some fb)
    note fb = frame_feedback_ret [OF Some]
    then have "unat (fb_id fb) < length (mn_feedbacks m)" using Cons.prems by auto
    then show ?thesis
      using Cons fb(1) by (simp add: e Some monitor_turn_feedback stored_def)
  next
    case None
    show ?thesis
    proof (cases "rx_ret (drain_receive ev) < 0")
      case True
      then show ?thesis by (simp add: e monitor_turn_def stored_def)
    next
      case False
      then show ?thesis using Cons by (simp add: e monitor_turn_other [OF None] None)
    qed
  qed
qed (simp add: stored_def)

text \<open>Where the records end up: slot \<open>i\<close> has the last one of motor \<open>i\<close>, other memory is as before.\<close>

lemma stored_snoc: "stored mem (fbs @ [fb]) = (stored mem fbs)[unat (fb_id fb) := fb]"
  by (simp add: stored_def)

lemma stored_slots:
  assumes "5 \<le> length mem" "\<forall>fb\<in>set fbs. unat (fb_id fb) \<in> {1, 2, 3, 4}"
  shows "length (stored mem fbs) = length mem"
    "stored mem fbs ! i = last (mem ! i # filter (\<lambda>fb. unat (fb_id fb) = i) fbs)"
  using assms(2)
proof (induction fbs rule: rev_induct)
  case (snoc fb fbs)
  case 1
  show ?case using snoc(1) 1 by (simp add: stored_snoc)
  case 2
  then have "unat (fb_id fb) < length (stored mem fbs)" using snoc(1) assms(1) by auto
  then show ?case using snoc(2) 2 by (auto simp: stored_snoc nth_list_update)
qed (simp_all add: stored_def)

lemma monitor_received_motors: "fb \<in> set (monitor_received es) \<Longrightarrow> unat (fb_id fb) \<in> {1, 2, 3, 4}"
proof (induction es)
  case (Cons e es)
  then show ?case
    using frame_feedback_ret(2) [of "fst e" "snd e"]
    by (cases "frame_feedback (fst e) (snd e)") (auto split: if_splits)
qed simp

section \<open>Properties\<close>

text \<open>C35. The monitor prints one line for each feedback frame, with the
  values of that very frame, and one for each second without a frame, in order, until the
  receive fails. It writes to memory only inside its array of five: slot 0 and everything behind
  the array are as before, and slot \<open>i\<close> has the last feedback of motor \<open>i\<close>. The age it prints is
  always 0 ms: the time stamp it subtracts is the one it has just stored.\<close>

theorem monitor_prints_what_arrives:
  assumes "length argv = 1" "0 \<le> can_answer w (argv ! 0)"
  shows "\<exists>m. monitor_main beyond argv w es = (0, Some m) \<and>
    mn_printed m = concat (monitor_lines es) \<and>
    mn_feedbacks m = fb_zero # map (\<lambda>i. last (fb_zero # filter (\<lambda>fb. unat (fb_id fb) = i) (monitor_received es)))
      [1, 2, 3, 4] @ beyond \<and>
    (\<forall>ev now fb. frame_feedback ev now = Some fb \<longrightarrow>
       (\<exists>line. monitor_line (rx_can_id (drain_receive ev)) fb now = line @ ''C age=0ms'' @ newline))"
proof -
  let ?mem = "replicate 5 fb_zero @ beyond" and ?fbs = "monitor_received es"
  let ?m = "\<lparr>mn_feedbacks = ?mem, mn_printed = []\<rparr>"
  have eff: "mn_printed (fst (monitor_loop es ?m)) = concat (monitor_lines es)"
    "mn_feedbacks (fst (monitor_loop es ?m)) = stored ?mem ?fbs"
    using monitor_loop_effect [of ?m es] by simp_all
  have motors: "\<forall>fb\<in>set ?fbs. unat (fb_id fb) \<in> {1, 2, 3, 4}" using monitor_received_motors by blast
  have slots: "length (stored ?mem ?fbs) = length ?mem"
    "\<And>i. stored ?mem ?fbs ! i = last (?mem ! i # filter (\<lambda>fb. unat (fb_id fb) = i) ?fbs)"
    using stored_slots [OF _ motors, of ?mem] by simp_all
  have other: "filter (\<lambda>fb. unat (fb_id fb) = i) ?fbs = []" if "i \<notin> {1, 2, 3, 4}" for i
    using that motors by (auto simp: filter_empty_conv)
  have "stored ?mem ?fbs = fb_zero # map (\<lambda>i. last (fb_zero # filter (\<lambda>fb. unat (fb_id fb) = i) ?fbs)) [1, 2, 3, 4] @ beyond"
  proof (rule nth_equalityI)
    fix i assume "i < length (stored ?mem ?fbs)"
    consider "i = 0" | "i = 1" | "i = 2" | "i = 3" | "i = 4" | "5 \<le> i" by linarith
    then show "stored ?mem ?fbs ! i =
        (fb_zero # map (\<lambda>i. last (fb_zero # filter (\<lambda>fb. unat (fb_id fb) = i) ?fbs)) [1, 2, 3, 4] @ beyond) ! i"
    proof cases
      case 6
      then obtain k where "i = 5 + k" using le_Suc_ex by blast
      then show ?thesis using slots(2) [of i] other [of i] by (simp add: nth_append)
    qed (use slots(2) [of i] other [of i] in \<open>simp_all add: nth_append\<close>)
  qed (simp add: slots(1))
  moreover have "\<exists>line. monitor_line (rx_can_id (drain_receive ev)) fb now = line @ ''C age=0ms'' @ newline"
    if "frame_feedback ev now = Some fb" for ev now fb
  proof -
    have "fb_last_update_ms fb = now"
      using that by (auto simp: frame_feedback_def feedback_of_def Let_def split: if_splits)
    moreover have "show_uint 0 = ''0''" by code_simp
    ultimately show ?thesis by (simp add: monitor_line_def)
  qed
  ultimately show ?thesis using assms eff by (simp add: monitor_main_def)
qed

text \<open>A frame of motor 3 at 258 rpm, a second of silence, a second frame at 259 rpm, an error.\<close>

definition demo_monitor_events :: "(rx_event \<times> u64) list" where
  "demo_monitor_events =
     [(ReadFrame \<lparr>cf_can_id = 0x203, cf_can_dlc = 8, cf_data = [0, 0, 1, 2, 0, 0, 0, 0]\<rparr>, 5), (PollTimeout, 1005),
      (ReadFrame \<lparr>cf_can_id = 0x203, cf_can_dlc = 8, cf_data = [0, 0, 1, 3, 0, 0, 0, 0]\<rparr>, 1010), (PollError, 1011)]"

lemma demo_monitor_received:
  "map (\<lambda>fb. (fb_id fb, fb_speed_rpm fb, fb_last_update_ms fb)) (monitor_received demo_monitor_events) =
     [(3, 258, 5), (3, 259, 1010)] \<and>
   length (monitor_lines demo_monitor_events) = 3"
  by code_simp

lemma monitor_prints_what_arrives_witness:
  "\<exists>m. monitor_main [fb_zero] [''can0''] \<lparr>ca_socket = 3, ca_ioctl = \<lambda>_. 0, ca_bind = 0\<rparr> demo_monitor_events =
      (0, Some m) \<and> fb_speed_rpm (mn_feedbacks m ! 3) = 259 \<and> length (mn_feedbacks m) = 6 \<and>
    mn_printed m = concat (monitor_lines demo_monitor_events)"
proof -
  obtain a b where fbs: "monitor_received demo_monitor_events = [a, b]" "unat (fb_id a) = 3" "unat (fb_id b) = 3"
    "fb_speed_rpm b = 259"
    using demo_monitor_received by auto
  show ?thesis
    using monitor_prints_what_arrives [where argv = "[''can0'']" and
        w = "\<lparr>ca_socket = 3, ca_ioctl = \<lambda>_. 0, ca_bind = 0\<rparr>" and es = demo_monitor_events and beyond = "[fb_zero]"]
    by (auto simp: can_answer_def socketcan_open_def fbs)
qed

end
