(* ===== verification/BridgeWire.thy ===== *)
theory BridgeWire
  imports Motor3508
begin

text \<open>
  The wire format of the bridge: \<open>include/rtt_bridge_protocol.h\<close> and the byte codec of
  \<open>tools/can_proxy.c\<close>. A buffer is the list of its bytes.
\<close>

section \<open>Fields in a buffer, as an interface\<close>

text \<open>
  A field of \<open>width\<close> bytes: \<open>enc\<close> is what stands on the wire, \<open>wr\<close> and \<open>rd\<close> write and read
  it at an offset. The laws say that both work relative to the offset and agree on the bytes;
  everything a packet needs follows from them.
\<close>

locale byte_field =
  fixes enc :: "'v \<Rightarrow> u8 list"
    and rd :: "u8 list \<Rightarrow> nat \<Rightarrow> 'v"
    and wr :: "u8 list \<Rightarrow> nat \<Rightarrow> 'v \<Rightarrow> u8 list"
    and width :: nat
  assumes length_enc: "length (enc v) = width"
    and rd_shift: "length p \<le> k \<Longrightarrow> rd (p @ b) k = rd b (k - length p)"
    and rd_head: "rd (enc v @ b) 0 = v"
    and wr_shift: "length p \<le> k \<Longrightarrow> wr (p @ b) k v = p @ wr b (k - length p) v"
    and wr_head: "width \<le> length b \<Longrightarrow> wr b 0 v = enc v @ drop width b"
begin

lemma wr_at:
  assumes "length p = k" "width \<le> length g" shows "wr (p @ g) k v = p @ enc v @ drop width g"
  using wr_shift [of p k g v] wr_head [OF assms(2)] assms(1) by simp

lemma wr_split: "k + width \<le> length b \<Longrightarrow> wr b k v = take k b @ enc v @ drop (k + width) b"
  using wr_at [of "take k b" k "drop k b" v] by (simp add: add.commute)

lemma length_wr: "k + width \<le> length b \<Longrightarrow> length (wr b k v) = length b"
  by (simp add: wr_split length_enc)

lemma rd_at: "length p = k \<Longrightarrow> rd (p @ enc v @ s) k = v"
  using rd_shift [of p k "enc v @ s"] rd_head [of v s] by simp

lemma rd_only: "rd (enc v) 0 = v"
  using rd_head [of v "[]"] by simp

lemma rd_wr: "k + width \<le> length b \<Longrightarrow> rd (wr b k v) k = v"
  by (simp add: wr_split rd_at)

text \<open>Reads do not see what follows the field, and a field can be skipped.\<close>

lemma rd_skip: "width \<le> k \<Longrightarrow> rd (enc w @ b) k = rd b (k - width)"
  using rd_shift [of "enc w" k b] by (simp add: length_enc)

lemma rd_take: "rd (take k b @ enc v @ s) (length (take k b)) = v"
  by (rule rd_at) simp

text \<open>A loop \<open>for (...; offset += width)\<close> that writes or reads consecutive fields.\<close>

lemma fold_wr:
  assumes "width * length vs \<le> length g"
  shows "fold (\<lambda>v s. (wr (fst s) (snd s) v, snd s + width)) vs (p @ g, length p) =
    (p @ concat (map enc vs) @ drop (width * length vs) g, length p + width * length vs)"
  using assms
proof (induction vs arbitrary: p g)
  case (Cons v vs)
  have w: "width \<le> length g" "width * length vs \<le> length (drop width g)" using Cons.prems by auto
  show ?case
    using Cons.IH [OF w(2), of "p @ enc v"] wr_at [OF refl w(1), of p v]
    by (simp add: length_enc add.commute add.left_commute)
qed simp

lemma rd_concat:
  "i < length vs \<Longrightarrow> length p = k \<Longrightarrow> rd (p @ concat (map enc vs) @ s) (k + width * i) = vs ! i"
proof (induction vs arbitrary: p k i)
  case (Cons v vs)
  show ?case
  proof (cases i)
    case 0
    then show ?thesis using Cons.prems rd_at [of p k v] by simp
  next
    case (Suc j)
    then show ?thesis
      using Cons.IH [of j "p @ enc v" "k + width"] Cons.prems
      by (simp add: length_enc add.assoc)
  qed
qed simp

end

section \<open>The codec of the proxy\<close>

definition read_u16 :: "u8 list \<Rightarrow> nat \<Rightarrow> u16" where
  "read_u16 buffer offset = push_bit 8 (ucast (buffer ! offset)) OR ucast (buffer ! (offset + 1))"

definition read_u32 :: "u8 list \<Rightarrow> nat \<Rightarrow> u32" where
  "read_u32 buffer offset =
     push_bit 24 (ucast (buffer ! offset)) OR
     push_bit 16 (ucast (buffer ! (offset + 1))) OR
     push_bit 8 (ucast (buffer ! (offset + 2))) OR
     ucast (buffer ! (offset + 3))"

text \<open>\<open>int16_t\<close> and \<open>uint16_t\<close> are both 16-bit words; the cast between them is the identity.\<close>

definition read_i16 :: "u8 list \<Rightarrow> nat \<Rightarrow> i16" where
  "read_i16 buffer offset = read_u16 buffer offset"

definition write_u16 :: "u8 list \<Rightarrow> nat \<Rightarrow> u16 \<Rightarrow> u8 list" where
  "write_u16 buffer offset value = buffer
     [offset := ucast (drop_bit 8 value),
      offset + 1 := ucast (value AND 0xFF)]"

definition write_i16 :: "u8 list \<Rightarrow> nat \<Rightarrow> i16 \<Rightarrow> u8 list" where
  "write_i16 buffer offset value = write_u16 buffer offset value"

definition write_u32 :: "u8 list \<Rightarrow> nat \<Rightarrow> u32 \<Rightarrow> u8 list" where
  "write_u32 buffer offset value = buffer
     [offset := ucast (drop_bit 24 value),
      offset + 1 := ucast (drop_bit 16 value AND 0xFF),
      offset + 2 := ucast (drop_bit 8 value AND 0xFF),
      offset + 3 := ucast (value AND 0xFF)]"

text \<open>The big-endian bytes the codec is specified by.\<close>

definition be16 :: "u16 \<Rightarrow> u8 list" where
  "be16 v = [word_of_int (uint v div 256), word_of_int (uint v)]"

definition be32 :: "u32 \<Rightarrow> u8 list" where
  "be32 v = [word_of_int (uint v div 2 ^ 24), word_of_int (uint v div 2 ^ 16),
     word_of_int (uint v div 2 ^ 8), word_of_int (uint v)]"

lemma byte_of_int: "(word_of_int (uint (v :: 'a::len word) div 2 ^ k) :: u8) = ucast (drop_bit k v)"
  by (rule bit_word_eqI) (simp add: bit_simps flip: drop_bit_eq_div)

lemma be16_bytes: "be16 v = [ucast (drop_bit 8 v), ucast v]"
  using byte_of_int [of v 8] byte_of_int [of v 0] by (simp add: be16_def)

lemma be32_bytes:
  "be32 v = [ucast (drop_bit 24 v), ucast (drop_bit 16 v), ucast (drop_bit 8 v), ucast v]"
  using byte_of_int [of v 24] byte_of_int [of v 16] byte_of_int [of v 8] byte_of_int [of v 0]
  by (simp add: be32_def)

lemma join16: "push_bit 8 (ucast (ucast (drop_bit 8 v) :: u8)) OR ucast (ucast v :: u8) = (v :: u16)"
  by (rule bit_word_eqI) (auto simp: bit_simps)

lemma join32:
  "push_bit 24 (ucast (ucast (drop_bit 24 v) :: u8)) OR push_bit 16 (ucast (ucast (drop_bit 16 v) :: u8)) OR
   push_bit 8 (ucast (ucast (drop_bit 8 v) :: u8)) OR ucast (ucast v :: u8) = (v :: u32)"
proof (rule bit_word_eqI)
  fix n assume "n < LENGTH(32)"
  then consider "n < 8" | "8 \<le> n" "n < 16" | "16 \<le> n" "n < 24" | "24 \<le> n" "n < 32" by force
  then show "bit (push_bit 24 (ucast (ucast (drop_bit 24 v) :: u8)) OR
     push_bit 16 (ucast (ucast (drop_bit 16 v) :: u8)) OR
     push_bit 8 (ucast (ucast (drop_bit 8 v) :: u8)) OR ucast (ucast v :: u8) :: u32) n = bit v n"
    by cases (auto simp: bit_simps)
qed

lemma list2: "2 \<le> length b \<Longrightarrow> b = b ! 0 # b ! 1 # drop 2 b"
  by (cases b; cases "tl b") auto

lemma list4: "4 \<le> length b \<Longrightarrow> b = b ! 0 # b ! 1 # b ! 2 # b ! 3 # drop 4 b"
  by (auto simp: numeral_eq_Suc Suc_le_length_iff)

interpretation u16: byte_field be16 read_u16 write_u16 2
proof
  show "write_u16 b 0 v = be16 v @ drop 2 b" if "2 \<le> length b" for b v
    by (subst list2 [OF that]) (simp add: write_u16_def be16_bytes ucast_and_FF)
qed (simp_all add: be16_bytes read_u16_def write_u16_def nth_append list_update_append join16 Suc_diff_le)

interpretation i16: byte_field be16 read_i16 write_i16 2
  unfolding read_i16_def write_i16_def by unfold_locales

interpretation u32: byte_field be32 read_u32 write_u32 4
proof
  show "write_u32 b 0 v = be32 v @ drop 4 b" if "4 \<le> length b" for b v
    by (subst list4 [OF that]) (simp add: write_u32_def be32_bytes ucast_and_FF)
qed (simp_all add: be32_bytes read_u32_def write_u32_def nth_append list_update_append join32 Suc_diff_le)

section \<open>Protocol constants\<close>

definition RTT_BRIDGE_MAGIC :: u32 where "RTT_BRIDGE_MAGIC = 0x524B4348"
definition RTT_BRIDGE_VERSION :: u16 where "RTT_BRIDGE_VERSION = 1"
definition RTT_BRIDGE_MSG_VELOCITY_COMMAND :: u16 where "RTT_BRIDGE_MSG_VELOCITY_COMMAND = 1"
definition RTT_BRIDGE_MSG_CHASSIS_STATE :: u16 where "RTT_BRIDGE_MSG_CHASSIS_STATE = 2"
definition RTT_BRIDGE_MSG_HEARTBEAT :: u16 where "RTT_BRIDGE_MSG_HEARTBEAT = 3"
definition RTT_BRIDGE_MSG_ESTOP :: u16 where "RTT_BRIDGE_MSG_ESTOP = 4"
definition RTT_BRIDGE_MSG_CURRENT_COMMAND :: u16 where "RTT_BRIDGE_MSG_CURRENT_COMMAND = 5"
definition HEADER_SIZE :: nat where "HEADER_SIZE = 20"
definition STATE_PAYLOAD_SIZE :: u16 where "STATE_PAYLOAD_SIZE = 28"
definition CURRENT_PAYLOAD_SIZE :: u16 where "CURRENT_PAYLOAD_SIZE = 10"

lemmas bridge_consts =
  RTT_BRIDGE_MAGIC_def RTT_BRIDGE_VERSION_def RTT_BRIDGE_MSG_VELOCITY_COMMAND_def
  RTT_BRIDGE_MSG_CHASSIS_STATE_def RTT_BRIDGE_MSG_HEARTBEAT_def RTT_BRIDGE_MSG_ESTOP_def
  RTT_BRIDGE_MSG_CURRENT_COMMAND_def HEADER_SIZE_def STATE_PAYLOAD_SIZE_def CURRENT_PAYLOAD_SIZE_def

section \<open>The packet header\<close>

record BridgeHeaderDecoded =
  hd_magic :: u32
  hd_version :: u16
  hd_type :: u16
  hd_sequence :: u32
  hd_monotonic_ms :: u32
  hd_payload_length :: u16
  hd_flags :: u16

text \<open>\<open>clock\<close> is what \<open>monotonic_ms()\<close> returns; its low 32 bits are sent.\<close>

definition write_header :: "u64 \<Rightarrow> u8 list \<Rightarrow> u16 \<Rightarrow> u32 \<Rightarrow> u16 \<Rightarrow> u16 \<Rightarrow> u8 list" where
  "write_header clock buffer type sequence payload_length flags =
     (let buffer = write_u32 buffer 0 RTT_BRIDGE_MAGIC;
          buffer = write_u16 buffer 4 RTT_BRIDGE_VERSION;
          buffer = write_u16 buffer 6 type;
          buffer = write_u32 buffer 8 sequence;
          buffer = write_u32 buffer 12 (ucast (clock AND 0xFFFFFFFF));
          buffer = write_u16 buffer 16 payload_length
      in write_u16 buffer 18 flags)"

text \<open>
  \<open>buffer\<close> holds the received bytes, \<open>len\<close> the length \<open>recvfrom\<close> returned, and \<open>header\<close> what
  the caller's local held before; the result is the return value and the local afterwards.
\<close>

definition parse_header :: "u8 list \<Rightarrow> nat \<Rightarrow> BridgeHeaderDecoded \<Rightarrow> bool \<times> BridgeHeaderDecoded" where
  "parse_header buffer len header =
     (if len < HEADER_SIZE then (False, header)
      else
        let header = header\<lparr>hd_magic := read_u32 buffer 0\<rparr>;
            header = header\<lparr>hd_version := read_u16 buffer 4\<rparr>;
            header = header\<lparr>hd_type := read_u16 buffer 6\<rparr>;
            header = header\<lparr>hd_sequence := read_u32 buffer 8\<rparr>;
            header = header\<lparr>hd_monotonic_ms := read_u32 buffer 12\<rparr>;
            header = header\<lparr>hd_payload_length := read_u16 buffer 16\<rparr>;
            header = header\<lparr>hd_flags := read_u16 buffer 18\<rparr>
        in if hd_magic header \<noteq> RTT_BRIDGE_MAGIC \<or> hd_version header \<noteq> RTT_BRIDGE_VERSION
           then (False, header)
           else (len = HEADER_SIZE + unat (hd_payload_length header), header))"

text \<open>The twenty header bytes as a value.\<close>

definition header_bytes :: "u32 \<Rightarrow> u16 \<Rightarrow> u32 \<Rightarrow> u16 \<Rightarrow> u16 \<Rightarrow> u8 list" where
  "header_bytes clock type sequence payload_length flags =
     be32 RTT_BRIDGE_MAGIC @ be16 RTT_BRIDGE_VERSION @ be16 type @ be32 sequence @ be32 clock @
     be16 payload_length @ be16 flags"

lemmas field_lengths [len_simps] = u16.length_enc u32.length_enc

lemma length_header_bytes [len_simps]: "length (header_bytes clock type sequence len flags) = 20"
  by (simp add: header_bytes_def len_simps)

text \<open>Skipping a 16-bit field when a 32-bit one follows, and the other way round.\<close>

lemmas field_reads [byte_simps] =
  u16.rd_head u32.rd_head i16.rd_head u16.rd_only u32.rd_only i16.rd_only u16.rd_skip u32.rd_skip i16.rd_skip

lemma mixed_reads [byte_simps]:
  "4 \<le> k \<Longrightarrow> read_u16 (be32 w @ b) k = read_u16 b (k - 4)"
  "2 \<le> k \<Longrightarrow> read_u32 (be16 v @ b) k = read_u32 b (k - 2)"
  "4 \<le> k \<Longrightarrow> read_i16 (be32 w @ b) k = read_i16 b (k - 4)"
  using u16.rd_shift [of "be32 w" k b] u32.rd_shift [of "be16 v" k b] i16.rd_shift [of "be32 w" k b]
  by (simp_all add: len_simps)

lemma low_clock: "(ucast (clock AND 0xFFFFFFFF :: u64) :: u32) = ucast clock"
proof -
  have m: "(0xFFFFFFFF :: u64) = mask 32" by (simp add: mask_eq_exp_minus_1)
  show ?thesis unfolding m by (rule bit_word_eqI) (simp add: bit_simps)
qed

lemma write_header_bytes:
  assumes "20 \<le> length g"
  shows "write_header clock g type sequence len flags =
    header_bytes (ucast clock) type sequence len flags @ drop 20 g"
proof -
  have "write_u32 g 0 RTT_BRIDGE_MAGIC = be32 RTT_BRIDGE_MAGIC @ drop 4 g"
    using assms by (intro u32.wr_head) simp
  then show ?thesis
    using assms
    by (simp add: write_header_def header_bytes_def Let_def low_clock u32.wr_head u16.wr_shift
        u32.wr_shift u16.wr_head len_simps)
qed

lemma header_reads:
  "read_u32 (header_bytes clock type sequence len flags @ b) 0 = RTT_BRIDGE_MAGIC"
  "read_u16 (header_bytes clock type sequence len flags @ b) 4 = RTT_BRIDGE_VERSION"
  "read_u16 (header_bytes clock type sequence len flags @ b) 6 = type"
  "read_u32 (header_bytes clock type sequence len flags @ b) 8 = sequence"
  "read_u32 (header_bytes clock type sequence len flags @ b) 12 = clock"
  "read_u16 (header_bytes clock type sequence len flags @ b) 16 = len"
  "read_u16 (header_bytes clock type sequence len flags @ b) 18 = flags"
  by (simp_all add: header_bytes_def byte_simps)

lemma parse_header_ok:
  "parse_header buffer n h = (True, h') \<Longrightarrow>
     20 \<le> n \<and> read_u32 buffer 0 = RTT_BRIDGE_MAGIC \<and> read_u16 buffer 4 = RTT_BRIDGE_VERSION \<and>
     n = 20 + unat (read_u16 buffer 16) \<and> hd_type h' = read_u16 buffer 6 \<and>
     hd_payload_length h' = read_u16 buffer 16"
  by (auto simp: parse_header_def HEADER_SIZE_def Let_def split: if_splits)

section \<open>Properties\<close>

text \<open>C29. The header written into any buffer of at least 20 bytes occupies
  exactly the first 20 and is what the parser returns, whatever the buffers held before; the
  parser accepts it exactly when the datagram's length is the one the header announces.\<close>

theorem header_roundtrip:
  assumes "20 \<le> length g"
  shows "write_header clock g type sequence payload flags =
      take 20 (write_header clock g type sequence payload flags) @ drop 20 g \<and>
    (20 \<le> n \<longrightarrow> parse_header (write_header clock g type sequence payload flags) n h =
      (n = 20 + unat payload,
       \<lparr>hd_magic = 0x524B4348, hd_version = 1, hd_type = type, hd_sequence = sequence,
        hd_monotonic_ms = ucast clock, hd_payload_length = payload, hd_flags = flags\<rparr>))"
  by (simp add: write_header_bytes [OF assms] parse_header_def header_reads HEADER_SIZE_def len_simps
      Let_def) (simp add: bridge_consts)

lemma header_roundtrip_witness:
  "fst (parse_header (write_header 5 (replicate 30 0xEE) 5 9 10 0) 30
     \<lparr>hd_magic = 0, hd_version = 0, hd_type = 0, hd_sequence = 0, hd_monotonic_ms = 0,
      hd_payload_length = 0, hd_flags = 0\<rparr>)"
  using header_roundtrip [of "replicate 30 0xEE" 5 5 9 10 0 30] by simp

end
