(* ===== verification/CanProxy.thy ===== *)
theory CanProxy
  imports BridgeWire CommandFrames CFormat
begin

text \<open>
  \<open>tools/can_proxy.c\<close>: the Linux process between the RT-Thread controller (UDP) and the
  motors (CAN). Clock reads, received frames and datagrams are the inputs of a turn of its loop;
  what it wrote to the two sockets is part of its state.
\<close>

section \<open>State\<close>

record sockaddr_in =
  sin_addr :: u32
  sin_port :: u16

record ProxyState =
  px_feedback :: "Motor3508Feedback list"
  px_current_command :: "i16 list"
  px_target_rpm :: "i16 list"
  px_last_feedback_ms :: "u64 list"
  px_last_rt_ms :: u64
  px_last_current_command_ms :: u64
  px_rx_heartbeat :: u64
  px_rx_current_command :: u64
  px_invalid_packets :: u64
  px_tx_sequence :: u32
  px_current_timeout_ms :: u16
  px_peer_known :: int
  px_peer :: sockaddr_in

text \<open>
  The UDP socket: the log of the \<open>sendto\<close> calls with their results; the result itself is the
  parameter \<open>ukern\<close>. A received datagram or the error that ends a drain is a \<open>udp_event\<close>.
\<close>

type_synonym udp_port = "(sockaddr_in \<times> u8 list \<times> int) list"
type_synonym udp_kernel = "udp_port \<Rightarrow> sockaddr_in \<Rightarrow> u8 list \<Rightarrow> int"

datatype udp_event = UdpData "u8 list" sockaddr_in | UdpError int

definition UDP_BUFFER_SIZE :: nat where "UDP_BUFFER_SIZE = 128"
definition DEFAULT_COMMAND_TIMEOUT_MS :: u16 where "DEFAULT_COMMAND_TIMEOUT_MS = 100"
definition STATE_PERIOD_MS :: u64 where "STATE_PERIOD_MS = 20"
definition PRINT_PERIOD_MS :: u64 where "PRINT_PERIOD_MS = 500"
definition ZERO_REPEAT :: nat where "ZERO_REPEAT = 20"
definition DEFAULT_MAX_CURRENT :: int where "DEFAULT_MAX_CURRENT = 2000"

section \<open>Currents\<close>

text \<open>\<open>max_abs_current\<close> is a C \<open>int\<close> other than \<open>INT_MIN\<close>, whose negation is undefined.\<close>

definition clamp_current :: "int \<Rightarrow> int \<Rightarrow> i16" where
  "clamp_current value max_abs_current =
     (if max_abs_current < value then word_of_int max_abs_current
      else if value < - max_abs_current then word_of_int (- max_abs_current)
      else word_of_int value)"

definition send_currents :: "can_kernel \<Rightarrow> can_port \<Rightarrow> i16 list \<Rightarrow> int \<times> can_port" where
  "send_currents kern port currents =
     socketcan_send kern port MOTOR3508_CMD_ID_1_TO_4
       (motor3508_pack_current_array currents (replicate 8 0)) 8"

definition send_zero_current :: "can_kernel \<Rightarrow> can_port \<Rightarrow> can_port" where
  "send_zero_current kern port =
     ((\<lambda>port. snd (send_currents kern port (replicate 5 0))) ^^ ZERO_REPEAT) port"

section \<open>Feedback from the bus\<close>

text \<open>
  The loop body, given a frame and the time \<open>monotonic_ms()\<close> returns for it. The local
  \<open>feedback\<close> is uninitialised in the source; \<open>motor3508_parse_feedback\<close> writes all of it
  before it is read, so its initial content, zeros here, does not matter.
\<close>

definition feedback_frame :: "rx_event \<times> u64 \<Rightarrow> ProxyState \<Rightarrow> ProxyState" where
  "feedback_frame e state =
     (let r = drain_receive (fst e) in
      if 8 \<le> rx_dlc r
      then (case motor3508_parse_feedback (rx_can_id r) (rx_data r) (Some fb_zero) (snd e) of
              (ret, Some feedback) \<Rightarrow>
                if ret \<noteq> 0
                then state
                  \<lparr>px_feedback := (px_feedback state)[unat (fb_id feedback) := feedback],
                   px_last_feedback_ms :=
                     (px_last_feedback_ms state)[unat (fb_id feedback) := fb_last_update_ms feedback]\<rparr>
                else state
            | (ret, None) \<Rightarrow> state)
      else state)"

fun drain_feedback ::
  "(rx_event \<times> u64) list \<Rightarrow> ProxyState \<Rightarrow> ProxyState \<times> (rx_event \<times> u64) list" where
  "drain_feedback [] state = (state, [])"
| "drain_feedback (e # es) state =
     (if rx_ret (drain_receive (fst e)) \<le> 0 then (state, es)
      else drain_feedback es (feedback_frame e state))"

definition online_mask :: "ProxyState \<Rightarrow> u64 \<Rightarrow> u16" where
  "online_mask state now_ms =
     fold (\<lambda>i mask.
         if px_last_feedback_ms state ! i \<noteq> 0 \<and> now_ms - px_last_feedback_ms state ! i \<le> 200
         then mask OR push_bit (i - 1) 1 else mask)
       motors 0"

section \<open>State packets\<close>

text \<open>A run of \<open>write_i16\<close> over the motors, the offset moving by two.\<close>

definition write_motors :: "(nat \<Rightarrow> i16) \<Rightarrow> u8 list \<times> nat \<Rightarrow> u8 list \<times> nat" where
  "write_motors v s =
     fold (\<lambda>i s. (write_i16 (fst s) (snd s) (v i), snd s + 2)) motors s"

text \<open>
  \<open>stack\<close> is what the uninitialised \<open>packet\<close> array holds, \<open>clock\<close> what \<open>monotonic_ms()\<close>
  returns inside \<open>write_header\<close>.
\<close>

definition send_chassis_state ::
  "udp_kernel \<Rightarrow> u64 \<Rightarrow> u8 list \<Rightarrow> udp_port \<Rightarrow> ProxyState \<Rightarrow> u64 \<Rightarrow> int \<times> ProxyState \<times> udp_port" where
  "send_chassis_state ukern clock stack port state now_ms =
     (if px_peer_known state = 0 then (0, state, port)
      else
        let state = state\<lparr>px_tx_sequence := px_tx_sequence state + 1\<rparr>;
            packet = write_header clock stack RTT_BRIDGE_MSG_CHASSIS_STATE (px_tx_sequence state)
              STATE_PAYLOAD_SIZE 0;
            s = write_motors (\<lambda>i. px_target_rpm state ! i) (packet, HEADER_SIZE);
            s = write_motors (\<lambda>i. fb_speed_rpm (px_feedback state ! i)) s;
            s = write_motors (\<lambda>i. px_current_command state ! i) s;
            packet = write_u16 (fst s) (snd s) (online_mask state now_ms);
            packet = write_u16 packet (snd s + 2) 0;
            sent = ukern port (px_peer state) packet
        in (if sent = int (HEADER_SIZE + unat STATE_PAYLOAD_SIZE) then 0 else - 1, state,
            port @ [(px_peer state, packet, sent)]))"

section \<open>Datagrams\<close>

definition remember_peer :: "ProxyState \<Rightarrow> sockaddr_in \<Rightarrow> u64 \<Rightarrow> ProxyState" where
  "remember_peer state peer now_ms =
     state\<lparr>px_peer := peer, px_peer_known := 1, px_last_rt_ms := now_ms\<rparr>"

definition header_local :: BridgeHeaderDecoded where
  "header_local = \<lparr>hd_magic = 0, hd_version = 0, hd_type = 0, hd_sequence = 0, hd_monotonic_ms = 0,
     hd_payload_length = 0, hd_flags = 0\<rparr>"

definition take_current_command ::
  "int \<Rightarrow> int \<Rightarrow> u64 \<Rightarrow> u8 list \<Rightarrow> BridgeHeaderDecoded \<Rightarrow> ProxyState \<Rightarrow> ProxyState" where
  "take_current_command allow_current max_current now_ms packet header state =
     (if hd_payload_length header \<noteq> CURRENT_PAYLOAD_SIZE
      then state\<lparr>px_invalid_packets := px_invalid_packets state + 1\<rparr>
      else
        let state = state\<lparr>px_rx_current_command := px_rx_current_command state + 1\<rparr>
        in if allow_current = 0 then state\<lparr>px_current_command := replicate 5 0\<rparr>
           else
             let (state, offset) =
                   fold (\<lambda>i (state, offset).
                       (state\<lparr>px_current_command := (px_current_command state)
                           [i := clamp_current (sint (read_i16 packet offset)) max_current]\<rparr>,
                        offset + 2))
                     motors (state, HEADER_SIZE);
                 state = state\<lparr>px_current_timeout_ms := read_u16 packet offset\<rparr>;
                 state = (if px_current_timeout_ms state = 0
                    then state\<lparr>px_current_timeout_ms := DEFAULT_COMMAND_TIMEOUT_MS\<rparr> else state)
             in state\<lparr>px_last_current_command_ms := now_ms\<rparr>)"

text \<open>The body of the receive loop for one datagram, cut to the buffer as \<open>recvfrom\<close> does.\<close>

definition take_datagram ::
  "int \<Rightarrow> int \<Rightarrow> u64 \<Rightarrow> u8 list \<Rightarrow> sockaddr_in \<Rightarrow> ProxyState \<Rightarrow> ProxyState" where
  "take_datagram allow_current max_current now_ms datagram peer state =
     (let packet = take UDP_BUFFER_SIZE datagram;
          (ok, header) = parse_header packet (length packet) header_local
      in if \<not> ok then state\<lparr>px_invalid_packets := px_invalid_packets state + 1\<rparr>
         else
           let state = remember_peer state peer now_ms
           in if hd_type header = RTT_BRIDGE_MSG_HEARTBEAT
              then state\<lparr>px_rx_heartbeat := px_rx_heartbeat state + 1\<rparr>
              else if hd_type header = RTT_BRIDGE_MSG_ESTOP
              then state\<lparr>px_current_command := replicate 5 0\<rparr>
              else if hd_type header = RTT_BRIDGE_MSG_CURRENT_COMMAND
              then take_current_command allow_current max_current now_ms packet header state
              else state)"

fun receive_udp ::
  "udp_event list \<Rightarrow> ProxyState \<Rightarrow> int \<Rightarrow> int \<Rightarrow> u64 \<Rightarrow> ProxyState \<times> udp_event list" where
  "receive_udp [] state allow_current max_current now_ms = (state, [])"
| "receive_udp (UdpError e # es) state allow_current max_current now_ms = (state, es)"
| "receive_udp (UdpData d peer # es) state allow_current max_current now_ms =
     receive_udp es (take_datagram allow_current max_current now_ms d peer state)
       allow_current max_current now_ms"

section \<open>Status line\<close>

text \<open>\<open>inet_ntop\<close> for an IPv4 address: four decimal numbers.\<close>

definition inet_ntop4 :: "u32 \<Rightarrow> string" where
  "inet_ntop4 a = show_uint (uint (drop_bit 24 a AND 0xFF)) @ CHR ''.'' #
     show_uint (uint (drop_bit 16 a AND 0xFF)) @ CHR ''.'' #
     show_uint (uint (drop_bit 8 a AND 0xFF)) @ CHR ''.'' # show_uint (uint (a AND 0xFF))"

definition print_status :: "ProxyState \<Rightarrow> u64 \<Rightarrow> int \<Rightarrow> string" where
  "print_status state now_ms allow_current =
     (let peer_ip = (if px_peer_known state \<noteq> 0 then inet_ntop4 (sin_addr (px_peer state)) else ''-'')
      in ''rt='' @ peer_ip @
         '' age='' @ show_uint (uint (if px_last_rt_ms state = 0 then 0 else now_ms - px_last_rt_ms state)) @
         ''ms hb='' @ show_uint (uint (px_rx_heartbeat state)) @
         '' cmd='' @ show_uint (uint (px_rx_current_command state)) @
         '' invalid='' @ show_uint (uint (px_invalid_packets state)) @
         '' online=0x'' @ show_hex (uint (online_mask state now_ms)) @
         '' allow_current='' @ show_int allow_current @ '' '' @
         concat (map (\<lambda>i.
           ''M'' @ show_uint (int i) @
           '' rpm='' @ pad (CHR '' '') 5 (show_int (sint (fb_speed_rpm (px_feedback state ! i)))) @
           '' cur='' @ pad (CHR '' '') 5 (show_int (sint (px_current_command state ! i))) @ '' '') motors) @
         newline)"

section \<open>The main loop\<close>

text \<open>The variables of \<open>main\<close>, the two sockets and the status lines.\<close>

record ProxyMain =
  pm_state :: ProxyState
  pm_last_state_ms :: u64
  pm_last_print_ms :: u64
  pm_last_current_ms :: u64
  pm_can :: can_port
  pm_udp :: udp_port
  pm_printed :: string

text \<open>What the outside world gives one turn of the loop.\<close>

record ProxyInput =
  in_now :: u64
  in_can :: "(rx_event \<times> u64) list"
  in_udp :: "udp_event list"
  in_clock :: u64
  in_stack :: "u8 list"

record ProxyArgs =
  pa_allow_current :: int
  pa_max_current :: int

definition proxy_state_zero :: ProxyState where
  "proxy_state_zero =
     \<lparr>px_feedback = replicate 5 fb_zero, px_current_command = replicate 5 0,
      px_target_rpm = replicate 5 0, px_last_feedback_ms = replicate 5 0, px_last_rt_ms = 0,
      px_last_current_command_ms = 0, px_rx_heartbeat = 0, px_rx_current_command = 0,
      px_invalid_packets = 0, px_tx_sequence = 0, px_current_timeout_ms = 0, px_peer_known = 0,
      px_peer = \<lparr>sin_addr = 0, sin_port = 0\<rparr>\<rparr>"

definition proxy_start :: ProxyMain where
  "proxy_start =
     \<lparr>pm_state = proxy_state_zero\<lparr>px_current_timeout_ms := DEFAULT_COMMAND_TIMEOUT_MS\<rparr>,
      pm_last_state_ms = 0, pm_last_print_ms = 0, pm_last_current_ms = 0, pm_can = [], pm_udp = [],
      pm_printed = []\<rparr>"

text \<open>Lines 495 to 508: send the currents, or drop them when the command is too old.\<close>

definition apply_currents :: "can_kernel \<Rightarrow> ProxyArgs \<Rightarrow> u64 \<Rightarrow> ProxyMain \<Rightarrow> ProxyMain" where
  "apply_currents kern args now m =
     (let state = pm_state m in
      if pa_allow_current args \<noteq> 0 \<and> px_last_current_command_ms state \<noteq> 0 \<and>
         now - px_last_current_command_ms state \<le> ucast (px_current_timeout_ms state)
      then (if 10 \<le> now - pm_last_current_ms m
            then m\<lparr>pm_can := snd (send_currents kern (pm_can m) (px_current_command state)),
                   pm_last_current_ms := now\<rparr>
            else m)
      else m\<lparr>pm_state := state\<lparr>px_current_command := replicate 5 0\<rparr>\<rparr>)"

definition proxy_turn ::
  "can_kernel \<Rightarrow> udp_kernel \<Rightarrow> ProxyArgs \<Rightarrow> ProxyInput \<Rightarrow> ProxyMain \<Rightarrow> ProxyMain" where
  "proxy_turn kern ukern args inp m =
     (let now = in_now inp;
          m = m\<lparr>pm_state := fst (drain_feedback (in_can inp) (pm_state m))\<rparr>;
          m = m\<lparr>pm_state := fst (receive_udp (in_udp inp) (pm_state m)
                 (pa_allow_current args) (pa_max_current args) now)\<rparr>;
          m = apply_currents kern args now m;
          m = (if STATE_PERIOD_MS \<le> now - pm_last_state_ms m
               then case send_chassis_state ukern (in_clock inp) (in_stack inp) (pm_udp m)
                           (pm_state m) now of
                      (ret, state, port) \<Rightarrow>
                        m\<lparr>pm_state := state, pm_udp := port, pm_last_state_ms := now\<rparr>
               else m)
      in if PRINT_PERIOD_MS \<le> now - pm_last_print_ms m
         then m\<lparr>pm_printed := pm_printed m @ print_status (pm_state m) now (pa_allow_current args),
                pm_last_print_ms := now\<rparr>
         else m)"

text \<open>The loop runs until a signal arrives, here after the given turns, and then stops the motors.\<close>

definition proxy_run ::
  "can_kernel \<Rightarrow> udp_kernel \<Rightarrow> ProxyArgs \<Rightarrow> ProxyInput list \<Rightarrow> ProxyMain" where
  "proxy_run kern ukern args inputs = fold (proxy_turn kern ukern args) inputs proxy_start"

definition proxy_main ::
  "can_kernel \<Rightarrow> udp_kernel \<Rightarrow> ProxyArgs \<Rightarrow> ProxyInput list \<Rightarrow> ProxyMain" where
  "proxy_main kern ukern args inputs =
     (let m = proxy_run kern ukern args inputs
      in m\<lparr>pm_can := send_zero_current kern (pm_can m)\<rparr>)"

section \<open>The two drains are receive loops\<close>

interpretation can_drain: receive_loop drain_feedback "\<lambda>e. rx_stop (fst e)" feedback_frame
  by unfold_locales (simp_all add: rx_stop_def)

definition udp_stop :: "udp_event \<Rightarrow> bool" where
  "udp_stop ev = (case ev of UdpError e \<Rightarrow> True | UdpData d peer \<Rightarrow> False)"

definition udp_body :: "int \<Rightarrow> int \<Rightarrow> u64 \<Rightarrow> udp_event \<Rightarrow> ProxyState \<Rightarrow> ProxyState" where
  "udp_body allow maxc now ev state =
     (case ev of UdpError e \<Rightarrow> state | UdpData d peer \<Rightarrow> take_datagram allow maxc now d peer state)"

interpretation udp_drain: receive_loop
  "\<lambda>es state. receive_udp es state allow maxc now" udp_stop "udp_body allow maxc now"
  for allow maxc now
proof
  show "receive_udp (ev # es) s allow maxc now = (s, es)" if "udp_stop ev" for ev es s
    using that by (cases ev) (simp_all add: udp_stop_def)
  show "receive_udp (ev # es) s allow maxc now = receive_udp es (udp_body allow maxc now ev s) allow maxc now"
    if "\<not> udp_stop ev" for ev es s
    using that by (cases ev) (simp_all add: udp_stop_def udp_body_def)
qed simp

section \<open>What a turn does to the parts of the state\<close>

definition px_wf :: "ProxyState \<Rightarrow> bool" where
  "px_wf state \<longleftrightarrow> length (px_feedback state) = 5 \<and> length (px_current_command state) = 5 \<and>
     length (px_target_rpm state) = 5 \<and> length (px_last_feedback_ms state) = 5"

lemma feedback_frame_eq:
  assumes "\<not> rx_stop (fst e)"
  shows "feedback_frame e state = (case frame_feedback (fst e) (snd e) of
     None \<Rightarrow> state
   | Some fb \<Rightarrow> state\<lparr>px_feedback := (px_feedback state)[unat (fb_id fb) := fb],
       px_last_feedback_ms := (px_last_feedback_ms state)[unat (fb_id fb) := snd e]\<rparr>)"
  using assms
  by (auto simp: feedback_frame_def frame_feedback_def parse_feedback_eq rx_stop_def Let_def)
    (simp add: feedback_of_def)

lemma feedback_frame_frame [frame_simps]:
  "px_current_command (feedback_frame e state) = px_current_command state"
  "px_last_current_command_ms (feedback_frame e state) = px_last_current_command_ms state"
  "px_current_timeout_ms (feedback_frame e state) = px_current_timeout_ms state"
  "px_wf (feedback_frame e state) = px_wf state"
  by (auto simp: feedback_frame_def px_wf_def Let_def split: option.split prod.split)

lemma drain_feedback_frame [frame_simps]:
  "px_current_command (fst (drain_feedback es state)) = px_current_command state"
  "px_last_current_command_ms (fst (drain_feedback es state)) = px_last_current_command_ms state"
  "px_current_timeout_ms (fst (drain_feedback es state)) = px_current_timeout_ms state"
  "px_wf (fst (drain_feedback es state)) = px_wf state"
  by (rule can_drain.loop_frame; simp add: frame_simps)+

text \<open>The loop over the four currents of a command.\<close>

lemma take_currents_fold:
  assumes "length (px_current_command state) = 5"
  shows "fold (\<lambda>i (state, offset).
       (state\<lparr>px_current_command := (px_current_command state)
           [i := clamp_current (sint (read_i16 packet offset)) maxc]\<rparr>, offset + 2))
     motors (state, k) =
    (state\<lparr>px_current_command := [px_current_command state ! 0,
        clamp_current (sint (read_i16 packet k)) maxc,
        clamp_current (sint (read_i16 packet (k + 2))) maxc,
        clamp_current (sint (read_i16 packet (k + 4))) maxc,
        clamp_current (sint (read_i16 packet (k + 6))) maxc]\<rparr>, k + 8)"
proof -
  obtain a b c d e where "px_current_command state = [a, b, c, d, e]" using len5 [OF assms] by blast
  then show ?thesis by (simp add: motors_list numeral_eq_Suc add.assoc)
qed

lemma take_current_command_eq:
  assumes "length (px_current_command state) = 5" "allow \<noteq> 0" "hd_payload_length header = 10"
  shows "take_current_command allow maxc now packet header state = state
    \<lparr>px_rx_current_command := px_rx_current_command state + 1,
     px_current_command := [px_current_command state ! 0,
        clamp_current (sint (read_i16 packet 20)) maxc, clamp_current (sint (read_i16 packet 22)) maxc,
        clamp_current (sint (read_i16 packet 24)) maxc, clamp_current (sint (read_i16 packet 26)) maxc],
     px_current_timeout_ms := (if read_u16 packet 28 = 0 then 100 else read_u16 packet 28),
     px_last_current_command_ms := now\<rparr>"
  using take_currents_fold [of "state\<lparr>px_rx_current_command := px_rx_current_command state + 1\<rparr>" packet maxc 20]
    assms
  by (simp add: take_current_command_def CURRENT_PAYLOAD_SIZE_def HEADER_SIZE_def Let_def
      DEFAULT_COMMAND_TIMEOUT_MS_def)

lemma take_current_command_cases:
  assumes "length (px_current_command state) = 5"
  obtains (bad) "hd_payload_length header \<noteq> 10"
      "take_current_command allow maxc now packet header state =
        state\<lparr>px_invalid_packets := px_invalid_packets state + 1\<rparr>"
  | (refused) "hd_payload_length header = 10" "allow = 0"
      "take_current_command allow maxc now packet header state = state
        \<lparr>px_rx_current_command := px_rx_current_command state + 1, px_current_command := replicate 5 0\<rparr>"
  | (taken) "hd_payload_length header = 10" "allow \<noteq> 0"
  by (cases "hd_payload_length header = 10"; cases "allow = 0")
    (simp_all add: take_current_command_def CURRENT_PAYLOAD_SIZE_def Let_def)

lemma sint_small: "\<bar>k\<bar> \<le> 32767 \<Longrightarrow> sint (word_of_int k :: i16) = k"
  by (simp add: sint_sbintrunc' signed_take_bit_int_eq_self)

lemma clamp_current_spec:
  assumes "0 \<le> m" "m \<le> 32767" "- 32768 \<le> v" "v \<le> 32767"
  shows "sint (clamp_current v m) = max (- m) (min m v)"
  using assms sint_small [of m] sint_small [of "- m"] sint_small [of v]
  by (simp add: clamp_current_def max_def min_def)

lemma clamp_current_abs: "0 \<le> m \<Longrightarrow> m \<le> 32767 \<Longrightarrow> \<bar>sint (clamp_current (sint (w :: i16)) m)\<bar> \<le> m"
  using clamp_current_spec [of m "sint w"] sint_greater_eq [of w] sint_lt [of w] by simp

lemma take_current_within:
  assumes "0 \<le> m" "m \<le> 32767" "commands_within m (px_current_command state)"
  shows "commands_within m (px_current_command (take_current_command allow m now packet header state))"
proof -
  have len: "length (px_current_command state) = 5" using assms(3) by (simp add: commands_within_def)
  then show ?thesis
  proof (cases rule: take_current_command_cases [where header = header and allow = allow and
        maxc = m and now = now and packet = packet])
    case bad then show ?thesis using assms(3) by simp
  next
    case refused then show ?thesis using assms(1) by (simp add: zero_within)
  next
    case taken
    have "px_current_command state ! 0 \<in> set (px_current_command state)" using len by simp
    then show ?thesis
      using assms(3) clamp_current_abs [OF assms(1,2)] take_current_command_eq [OF len taken(2,1)]
      by (simp add: commands_within_def)
  qed
qed

lemma take_datagram_within:
  assumes "0 \<le> m" "m \<le> 32767" "commands_within m (px_current_command state)"
  shows "commands_within m (px_current_command (take_datagram allow m now d peer state))"
proof -
  have "commands_within m (px_current_command (remember_peer state peer now))"
    using assms(3) by (simp add: remember_peer_def)
  from take_current_within [OF assms(1,2) this, of allow now]
  show ?thesis
    using assms by (simp add: take_datagram_def Let_def case_prod_beta zero_within remember_peer_def)
qed

lemma receive_udp_within:
  assumes "0 \<le> m" "m \<le> 32767" "commands_within m (px_current_command state)"
  shows "commands_within m (px_current_command (fst (receive_udp es state allow m now)))"
  by (rule udp_drain.loop_invariant [where P = "\<lambda>s. commands_within m (px_current_command s)"])
    (use assms take_datagram_within in \<open>auto simp: udp_body_def split: udp_event.split\<close>)

section \<open>Command frames\<close>

interpretation proxy_sender: current_sender "send_currents kern" kern for kern
  by unfold_locales
    (simp add: send_currents_def socketcan_send_8 [OF _ command_frame_def] len_simps motor_consts)

lemmas send_currents_eq = proxy_sender.send_eq

lemma send_zero_current_frames:
  "tried_frames (send_zero_current kern port) =
     tried_frames port @ replicate ZERO_REPEAT (command_frame (replicate 5 0))"
  by (simp add: send_zero_current_def proxy_sender.burst_frames)

section \<open>A turn, step by step\<close>

definition after_drains :: "ProxyArgs \<Rightarrow> ProxyInput \<Rightarrow> ProxyMain \<Rightarrow> ProxyState" where
  "after_drains args inp m =
     fst (receive_udp (in_udp inp) (fst (drain_feedback (in_can inp) (pm_state m)))
       (pa_allow_current args) (pa_max_current args) (in_now inp))"

text \<open>The last command is allowed and recent enough to be sent.\<close>

definition command_live :: "ProxyArgs \<Rightarrow> u64 \<Rightarrow> ProxyState \<Rightarrow> bool" where
  "command_live args now state \<longleftrightarrow>
     pa_allow_current args \<noteq> 0 \<and> px_last_current_command_ms state \<noteq> 0 \<and>
     now - px_last_current_command_ms state \<le> ucast (px_current_timeout_ms state)"

lemma send_chassis_state_frame [frame_simps]:
  "px_current_command (fst (snd (send_chassis_state ukern clock stack port state now))) =
     px_current_command state"
  "px_last_current_command_ms (fst (snd (send_chassis_state ukern clock stack port state now))) =
     px_last_current_command_ms state"
  "px_wf (fst (snd (send_chassis_state ukern clock stack port state now))) = px_wf state"
  by (simp_all add: send_chassis_state_def px_wf_def Let_def)

lemma apply_currents_eq:
  "apply_currents kern args now m =
     (if command_live args now (pm_state m)
      then if 10 \<le> now - pm_last_current_ms m
           then m\<lparr>pm_can := pm_can m @ [(command_frame (px_current_command (pm_state m)),
                    kern (pm_can m) (command_frame (px_current_command (pm_state m))))],
                  pm_last_current_ms := now\<rparr>
           else m
      else m\<lparr>pm_state := (pm_state m)\<lparr>px_current_command := replicate 5 0\<rparr>\<rparr>)"
  by (simp add: apply_currents_def command_live_def send_currents_eq Let_def)

text \<open>The parts of a turn that concern the motors.\<close>

lemma turn_motor_parts:
  fixes m inp args
  defines "s \<equiv> after_drains args inp m" and "now \<equiv> in_now inp"
  shows "pm_can (proxy_turn kern ukern args inp m) =
      (if command_live args now s \<and> 10 \<le> now - pm_last_current_ms m
       then pm_can m @ [(command_frame (px_current_command s),
              kern (pm_can m) (command_frame (px_current_command s)))]
       else pm_can m)"
    "pm_last_current_ms (proxy_turn kern ukern args inp m) =
      (if command_live args now s \<and> 10 \<le> now - pm_last_current_ms m then now
       else pm_last_current_ms m)"
    "px_current_command (pm_state (proxy_turn kern ukern args inp m)) =
      (if command_live args now s then px_current_command s else replicate 5 0)"
    "px_last_current_command_ms (pm_state (proxy_turn kern ukern args inp m)) =
      px_last_current_command_ms s"
  by (simp_all add: proxy_turn_def apply_currents_eq s_def now_def after_drains_def Let_def
      case_prod_beta frame_simps)

lemma after_drains_within:
  assumes "0 \<le> pa_max_current args" "pa_max_current args \<le> 32767"
    "commands_within (pa_max_current args) (px_current_command (pm_state m))"
  shows "commands_within (pa_max_current args) (px_current_command (after_drains args inp m))"
  unfolding after_drains_def
  by (rule receive_udp_within) (use assms in \<open>simp_all add: frame_simps\<close>)

text \<open>The safety invariant of the loop and its preservation.\<close>

definition proxy_safe :: "int \<Rightarrow> ProxyMain \<Rightarrow> bool" where
  "proxy_safe b m \<longleftrightarrow> commands_within b (px_current_command (pm_state m)) \<and>
     (\<forall>f\<in>set (tried_frames (pm_can m)). command_frame_ok b f)"

lemma proxy_turn_safe:
  assumes "0 \<le> pa_max_current args" "pa_max_current args \<le> 32767" "proxy_safe (pa_max_current args) m"
  shows "proxy_safe (pa_max_current args) (proxy_turn kern ukern args inp m)"
  using after_drains_within [OF assms(1,2), of m inp] assms command_frame_ok
  by (auto simp: proxy_safe_def turn_motor_parts zero_within)

lemma fold_invariant:
  assumes "P s" "\<And>x s. x \<in> set xs \<Longrightarrow> P s \<Longrightarrow> P (f x s)" shows "P (fold f xs s)"
  using assms by (induction xs arbitrary: s) auto

lemma proxy_run_safe:
  assumes "0 \<le> pa_max_current args" "pa_max_current args \<le> 32767"
  shows "proxy_safe (pa_max_current args) (proxy_run kern ukern args inputs)"
  unfolding proxy_run_def
proof (rule fold_invariant)
  show "proxy_safe (pa_max_current args) proxy_start"
    using assms by (simp add: proxy_safe_def proxy_start_def proxy_state_zero_def commands_within_def)
qed (rule proxy_turn_safe [OF assms])

end
