(* ===== verification/CanProxyProps.thy ===== *)
theory CanProxyProps
  imports CanProxy
begin

text \<open>
  The properties of the proxy: what reaches the motors, when, and what the datagrams and the
  feedback do to its state.
\<close>

section \<open>Helpers\<close>

lemma run_snoc: "proxy_run kern ukern args (xs @ [x]) = proxy_turn kern ukern args x (proxy_run kern ukern args xs)"
  by (simp add: proxy_run_def)

lemma main_frames:
  "tried_frames (pm_can (proxy_main kern ukern args inputs)) =
     tried_frames (pm_can (proxy_run kern ukern args inputs)) @
     replicate ZERO_REPEAT (command_frame (replicate 5 0))"
  by (simp add: proxy_main_def send_zero_current_frames Let_def)

lemma zero_frame_ok: "0 \<le> b \<Longrightarrow> command_frame_ok b (command_frame (replicate 5 0))"
  by (rule command_frame_ok) (rule zero_within)

lemma read_take:
  "k + 4 \<le> n \<Longrightarrow> k + 4 \<le> length d \<Longrightarrow> read_u32 (take n d) k = read_u32 d k"
  "k + 2 \<le> n \<Longrightarrow> k + 2 \<le> length d \<Longrightarrow> read_u16 (take n d) k = read_u16 d k"
  by (simp_all add: read_u32_def read_u16_def)

text \<open>A datagram the proxy accepts: 20 header bytes with the right magic number and version, and
  as long, after the cut to 128 bytes, as the header says.\<close>

definition well_formed :: "u8 list \<Rightarrow> bool" where
  "well_formed d \<longleftrightarrow> 20 \<le> length d \<and> read_u32 d 0 = 0x524B4348 \<and> read_u16 d 4 = 1 \<and>
     min (length d) 128 = 20 + unat (read_u16 d 16)"

lemma parse_datagram:
  "fst (parse_header (take UDP_BUFFER_SIZE d) (length (take UDP_BUFFER_SIZE d)) header_local) = well_formed d"
  "well_formed d \<Longrightarrow>
     hd_type (snd (parse_header (take UDP_BUFFER_SIZE d) (length (take UDP_BUFFER_SIZE d)) header_local)) =
       read_u16 d 6 \<and>
     hd_payload_length (snd (parse_header (take UDP_BUFFER_SIZE d) (length (take UDP_BUFFER_SIZE d))
       header_local)) = read_u16 d 16"
  by (auto simp: parse_header_def well_formed_def UDP_BUFFER_SIZE_def HEADER_SIZE_def Let_def
      read_take RTT_BRIDGE_MAGIC_def RTT_BRIDGE_VERSION_def min_def)

lemma take_datagram_wf:
  assumes "well_formed d"
  shows "take_datagram allow maxc now d peer state =
    (let state = remember_peer state peer now in
     if read_u16 d 6 = 3 then state\<lparr>px_rx_heartbeat := px_rx_heartbeat state + 1\<rparr>
     else if read_u16 d 6 = 4 then state\<lparr>px_current_command := replicate 5 0\<rparr>
     else if read_u16 d 6 = 5
     then take_current_command allow maxc now (take UDP_BUFFER_SIZE d)
            (snd (parse_header (take UDP_BUFFER_SIZE d) (length (take UDP_BUFFER_SIZE d)) header_local)) state
     else state)"
  using parse_datagram(1) [of d] parse_datagram(2) [OF assms] assms
  by (simp add: take_datagram_def Let_def case_prod_beta bridge_consts)

lemma take_datagram_malformed:
  "\<not> well_formed d \<Longrightarrow> take_datagram allow maxc now d peer state =
     state\<lparr>px_invalid_packets := px_invalid_packets state + 1\<rparr>"
  using parse_datagram(1) [of d] by (simp add: take_datagram_def Let_def case_prod_beta)

text \<open>An accepted current command, read from the datagram.\<close>

lemma take_datagram_command:
  assumes "well_formed d" "read_u16 d 6 = 5" "read_u16 d 16 = 10"
    "length (px_current_command state) = 5" "allow \<noteq> 0"
  shows "take_datagram allow maxc now d peer state = (remember_peer state peer now)
    \<lparr>px_rx_current_command := px_rx_current_command state + 1,
     px_current_command := [px_current_command state ! 0,
        clamp_current (sint (read_i16 d 20)) maxc, clamp_current (sint (read_i16 d 22)) maxc,
        clamp_current (sint (read_i16 d 24)) maxc, clamp_current (sint (read_i16 d 26)) maxc],
     px_current_timeout_ms := (if read_u16 d 28 = 0 then 100 else read_u16 d 28),
     px_last_current_command_ms := now\<rparr>"
proof -
  have len: "30 \<le> length d" using assms(1,3) by (auto simp: well_formed_def min_def split: if_splits)
  have r: "read_i16 (take UDP_BUFFER_SIZE d) k = read_i16 d k"
    "read_u16 (take UDP_BUFFER_SIZE d) k = read_u16 d k" if "k \<le> 28" for k
    using len that by (simp_all add: read_i16_def read_take UDP_BUFFER_SIZE_def)
  have "length (px_current_command (remember_peer state peer now)) = 5"
    using assms(4) by (simp add: remember_peer_def)
  from take_current_command_eq [OF this assms(5)] show ?thesis
    using parse_datagram(2) [OF assms(1)] assms(2,3) r
    by (simp add: take_datagram_wf [OF assms(1)]) (simp add: remember_peer_def Let_def)
qed

text \<open>A datagram for the witnesses: a current command of 300, -300, 5000 and 0 for 50 ms, and
  an emergency stop.\<close>

definition demo_command :: "u8 list" where
  "demo_command = header_bytes 0 5 1 10 0 @
     be16 300 @ be16 (- 300) @ be16 5000 @ be16 0 @ be16 50"

definition demo_estop :: "u8 list" where
  "demo_estop = header_bytes 0 4 2 0 0"

lemma demo_command_reads:
  "well_formed demo_command" "read_u16 demo_command 6 = 5" "read_u16 demo_command 16 = 10"
  "read_i16 demo_command 20 = 300" "read_i16 demo_command 22 = - 300"
  "read_i16 demo_command 24 = 5000" "read_i16 demo_command 26 = 0" "read_u16 demo_command 28 = 50"
  by (simp_all add: demo_command_def well_formed_def header_bytes_def byte_simps len_simps bridge_consts)

lemma demo_estop_reads:
  "well_formed demo_estop" "read_u16 demo_estop 6 = 4" "\<not> well_formed []"
  "\<not> well_formed (replicate 40 0xFF)"
  by (simp_all add: demo_estop_def well_formed_def header_bytes_def byte_simps len_simps bridge_consts,
    simp add: read_u16_def numeral_eq_Suc)

lemma bit_mask_loop:
  "k < 16 \<Longrightarrow> bit (fold (\<lambda>i mask. if P i then mask OR push_bit (i - 1) 1 else mask) is (m :: u16)) k \<longleftrightarrow>
     bit m k \<or> (\<exists>i\<in>set is. P i \<and> i - 1 = k)"
  by (induction "is" arbitrary: m) (auto simp: bit_simps)

lemma wrap_diff:
  assumes "now < (t :: u64)" shows "uint (now - t) = 2 ^ 64 - (uint t - uint now)"
proof -
  have u: "uint now < uint t" "uint t < 2 ^ 64" "0 \<le> uint now"
    using assms uint_lt2p [of t] by (simp_all add: word_less_def)
  have "uint (now - t) = (uint now - uint t) mod 2 ^ 64" by (simp add: uint_word_ariths)
  also have "\<dots> = (uint now - uint t + 2 ^ 64) mod 2 ^ 64" by simp
  also have "\<dots> = uint now - uint t + 2 ^ 64" using u by (intro mod_pos_pos_trivial) linarith+
  finally show ?thesis by simp
qed

lemma diff_le: "t \<le> (now :: u64) \<Longrightarrow> uint (now - t) = uint now - uint t"
  by (simp add: uint_sub_if' word_le_def)

section \<open>Properties\<close>

text \<open>C3. With a current limit between 0 and 32767, every frame the proxy
  ever writes to the bus, the stopping burst included, is a command frame whose four currents
  are within the limit, whatever arrives on the two sockets and however the writes end.\<close>

theorem proxy_currents_bounded:
  assumes "0 \<le> pa_max_current args" "pa_max_current args \<le> 32767"
  shows "\<forall>f\<in>set (tried_frames (pm_can (proxy_main kern ukern args inputs))).
    cf_can_id f = 0x200 \<and> cf_can_dlc f = 8 \<and>
    (\<forall>x\<in>set (frame_currents f). \<bar>sint x\<bar> \<le> pa_max_current args)"
proof -
  have "command_frame_ok (pa_max_current args) f"
    if "f \<in> set (tried_frames (pm_can (proxy_main kern ukern args inputs)))" for f
    using that proxy_run_safe [OF assms, of kern ukern inputs] zero_frame_ok [OF assms(1)]
    by (auto simp: main_frames proxy_safe_def ZERO_REPEAT_def)
  then show ?thesis by (simp add: command_frame_ok_def)
qed

definition demo_turn_input :: "u64 \<Rightarrow> u8 list \<Rightarrow> ProxyInput" where
  "demo_turn_input now d = \<lparr>in_now = now, in_can = [(PollTimeout, now)],
     in_udp = [UdpData d \<lparr>sin_addr = 1, sin_port = 2\<rparr>, UdpError 11], in_clock = now,
     in_stack = replicate 48 0xCC\<rparr>"

lemma proxy_currents_bounded_witness:
  "list_all (\<lambda>f. list_all (\<lambda>x. \<bar>sint x\<bar> \<le> 2000) (frame_currents f))
     (tried_frames (pm_can (proxy_main (\<lambda>_ _. 16) (\<lambda>_ _ _. 48)
      \<lparr>pa_allow_current = 1, pa_max_current = 2000\<rparr> [demo_turn_input 1000 demo_command])))"
  using proxy_currents_bounded [where args = "\<lparr>pa_allow_current = 1, pa_max_current = 2000\<rparr>"]
  by (simp add: list_all_iff)

text \<open>C19. Started without \<open>--allow-current\<close>, the proxy writes nothing to
  the bus while it runs, whatever it is told over UDP, and exactly twenty zero frames when it
  stops.\<close>

theorem proxy_needs_permission:
  assumes "pa_allow_current args = 0"
  shows "pm_can (proxy_run kern ukern args inputs) = [] \<and>
    map frame_currents (tried_frames (pm_can (proxy_main kern ukern args inputs))) =
      replicate 20 [0, 0, 0, 0]"
proof -
  have "pm_can (proxy_run kern ukern args inputs) = []"
    unfolding proxy_run_def
    by (rule fold_invariant)
      (simp_all add: proxy_start_def turn_motor_parts command_live_def assms)
  then show ?thesis by (simp add: main_frames ZERO_REPEAT_def zero_frame_currents)
qed

lemma proxy_needs_permission_witness:
  "pm_can (proxy_run (\<lambda>_ _. 16) (\<lambda>_ _ _. 48) \<lparr>pa_allow_current = 0, pa_max_current = 2000\<rparr>
     [demo_turn_input 1000 demo_command]) = []"
  using proxy_needs_permission [where args = "\<lparr>pa_allow_current = 0, pa_max_current = 2000\<rparr>"] by simp

text \<open>C21. A turn in which the last current command is older than its own
  timeout, or there never was one, forgets the currents and writes nothing to the bus: the
  motors are not told to stop, they keep the last current they were sent. The document
  \<open>docs/rtt_bridge_protocol.md\<close> promises a zero current here.\<close>

theorem stale_command_is_dropped:
  assumes "px_last_current_command_ms (after_drains args inp m) = 0 \<or>
    ucast (px_current_timeout_ms (after_drains args inp m)) <
      in_now inp - px_last_current_command_ms (after_drains args inp m)"
  shows "pm_can (proxy_turn kern ukern args inp m) = pm_can m \<and>
    px_current_command (pm_state (proxy_turn kern ukern args inp m)) = replicate 5 0"
proof -
  have "\<not> command_live args (in_now inp) (after_drains args inp m)"
    using assms by (auto simp: command_live_def)
  then show ?thesis by (simp add: turn_motor_parts)
qed

lemma stale_command_is_dropped_witness:
  "pm_can (proxy_turn (\<lambda>_ _. 16) (\<lambda>_ _ _. 48) \<lparr>pa_allow_current = 1, pa_max_current = 2000\<rparr>
     (demo_turn_input 1000 []) proxy_start) = []"
proof -
  let ?a = "\<lparr>pa_allow_current = 1, pa_max_current = 2000\<rparr>"
  have "px_last_current_command_ms (after_drains ?a (demo_turn_input 1000 []) proxy_start) = 0"
    by (simp add: after_drains_def demo_turn_input_def take_datagram_malformed demo_estop_reads
        drain_receive_def proxy_start_def proxy_state_zero_def)
  then show ?thesis
    using stale_command_is_dropped [of ?a "demo_turn_input 1000 []" proxy_start]
    by (simp add: proxy_start_def)
qed

text \<open>C20. A turn under a live command writes exactly one frame, the four
  currents of the state, unless less than 10 ms passed since the last one; then it writes none
  and keeps the currents for a later turn.\<close>

theorem live_command_is_sent:
  assumes "pa_allow_current args \<noteq> 0" "px_last_current_command_ms (after_drains args inp m) \<noteq> 0"
    "in_now inp - px_last_current_command_ms (after_drains args inp m) \<le>
       ucast (px_current_timeout_ms (after_drains args inp m))"
  shows "map frame_currents (tried_frames (pm_can (proxy_turn kern ukern args inp m))) =
      map frame_currents (tried_frames (pm_can m)) @
      (if 10 \<le> in_now inp - pm_last_current_ms m
       then [map (\<lambda>i. px_current_command (after_drains args inp m) ! i) motors] else []) \<and>
    px_current_command (pm_state (proxy_turn kern ukern args inp m)) =
      px_current_command (after_drains args inp m)"
proof -
  have "command_live args (in_now inp) (after_drains args inp m)"
    using assms by (simp add: command_live_def)
  then show ?thesis by (simp add: turn_motor_parts frame_currents_command motors_list)
qed

lemma demo_after_drains:
  "after_drains \<lparr>pa_allow_current = 1, pa_max_current = 2000\<rparr> (demo_turn_input 1000 demo_command) proxy_start =
     (remember_peer (pm_state proxy_start) \<lparr>sin_addr = 1, sin_port = 2\<rparr> 1000)
       \<lparr>px_rx_current_command := 1, px_current_command := [0, 300, - 300, 2000, 0],
        px_current_timeout_ms := 50, px_last_current_command_ms := 1000\<rparr>"
proof -
  have len: "length (px_current_command (pm_state proxy_start)) = 5"
    by (simp add: proxy_start_def proxy_state_zero_def)
  have "px_current_command (pm_state proxy_start) ! 0 = 0" "px_rx_current_command (pm_state proxy_start) = 0"
    by (simp_all add: proxy_start_def proxy_state_zero_def)
  then show ?thesis
    using take_datagram_command [OF demo_command_reads(1-3) len, of 1 2000 1000 "\<lparr>sin_addr = 1, sin_port = 2\<rparr>"]
    by (simp add: after_drains_def demo_turn_input_def drain_receive_def demo_command_reads
        clamp_current_def)
qed

lemma live_command_is_sent_witness:
  "map frame_currents (tried_frames (pm_can (proxy_turn (\<lambda>_ _. 16) (\<lambda>_ _ _. 48)
     \<lparr>pa_allow_current = 1, pa_max_current = 2000\<rparr> (demo_turn_input 1000 demo_command) proxy_start))) =
   [[300, - 300, 2000, 0]]"
  using live_command_is_sent [where args = "\<lparr>pa_allow_current = 1, pa_max_current = 2000\<rparr>" and
      inp = "demo_turn_input 1000 demo_command" and m = proxy_start and kern = "\<lambda>_ _. 16"]
  unfolding demo_after_drains
  by (simp add: demo_turn_input_def motors_list) (simp add: proxy_start_def)

text \<open>Turn \<open>i\<close> of a run writes a command frame.\<close>

definition turn_writes :: "can_kernel \<Rightarrow> udp_kernel \<Rightarrow> ProxyArgs \<Rightarrow> ProxyInput list \<Rightarrow> nat \<Rightarrow> bool" where
  "turn_writes kern ukern args inputs i \<longleftrightarrow> i < length inputs \<and>
     pm_can (proxy_run kern ukern args (take (Suc i) inputs)) \<noteq> pm_can (proxy_run kern ukern args (take i inputs))"

lemma turn_writes_snoc:
  "turn_writes kern ukern args (xs @ [x]) i \<longleftrightarrow>
     (if i = length xs
      then command_live args (in_now x) (after_drains args x (proxy_run kern ukern args xs)) \<and>
        10 \<le> in_now x - pm_last_current_ms (proxy_run kern ukern args xs)
      else turn_writes kern ukern args xs i)"
  by (auto simp: turn_writes_def run_snoc turn_motor_parts less_Suc_eq)

text \<open>The time stamp of the last frame is at least that of every turn that wrote one.\<close>

lemma last_current_latest:
  assumes "sorted (map (\<lambda>i. uint (in_now i)) inputs)"
  shows "(\<forall>i. turn_writes kern ukern args inputs i \<longrightarrow>
      uint (in_now (inputs ! i)) \<le> uint (pm_last_current_ms (proxy_run kern ukern args inputs))) \<and>
    (\<forall>b\<ge>0. (\<forall>i\<in>set inputs. uint (in_now i) \<le> b) \<longrightarrow>
      uint (pm_last_current_ms (proxy_run kern ukern args inputs)) \<le> b)"
  using assms
proof (induction inputs rule: rev_induct)
  case Nil
  show ?case by (simp add: turn_writes_def proxy_run_def proxy_start_def)
next
  case (snoc x xs)
  let ?l = "pm_last_current_ms (proxy_run kern ukern args xs)"
  have IH: "\<And>i. turn_writes kern ukern args xs i \<Longrightarrow> uint (in_now (xs ! i)) \<le> uint ?l"
    "\<And>b. 0 \<le> b \<Longrightarrow> \<forall>i\<in>set xs. uint (in_now i) \<le> b \<Longrightarrow> uint ?l \<le> b"
    using snoc by (auto simp: sorted_append)
  have "uint ?l \<le> uint (in_now x)" using snoc.prems by (intro IH(2)) (simp_all add: sorted_append)
  moreover have "i < length xs" if "turn_writes kern ukern args xs i" for i
    using that by (simp add: turn_writes_def)
  ultimately show ?case
    using IH by (auto simp: turn_writes_snoc run_snoc turn_motor_parts nth_append split: if_splits
        dest: order_trans)
qed

text \<open>C22. As long as the clock does not go back, any two command frames of the loop
  are at least 10 ms apart, by the clock each turn reads at its start: if turn \<open>i\<close> and a later
  turn \<open>j\<close> both write a frame, at least 10 ms passed between them. And no turn writes more than
  one. So there are no bursts, however late the turns are.\<close>

theorem proxy_rate_limited:
  assumes "sorted (map (\<lambda>i. uint (in_now i)) inputs)" "i < j" "j < length inputs"
    "pm_can (proxy_run kern ukern args (take (Suc i) inputs)) \<noteq> pm_can (proxy_run kern ukern args (take i inputs))"
    "pm_can (proxy_run kern ukern args (take (Suc j) inputs)) \<noteq> pm_can (proxy_run kern ukern args (take j inputs))"
  shows "uint (in_now (inputs ! i)) + 10 \<le> uint (in_now (inputs ! j)) \<and>
    length (pm_can (proxy_run kern ukern args (take (Suc j) inputs))) =
      Suc (length (pm_can (proxy_run kern ukern args (take j inputs))))"
proof -
  let ?xs = "take j inputs" and ?now = "in_now (inputs ! j)"
  let ?l = "pm_last_current_ms (proxy_run kern ukern args ?xs)"
  have snoc: "take (Suc j) inputs = ?xs @ [inputs ! j]" using assms(3) by (simp add: take_Suc_conv_app_nth)
  have writes: "command_live args ?now (after_drains args (inputs ! j) (proxy_run kern ukern args ?xs)) \<and>
      10 \<le> ?now - ?l"
    using assms(5) unfolding snoc run_snoc turn_motor_parts by (auto split: if_splits)
  have "sorted (map (\<lambda>i. uint (in_now i)) ?xs)" using assms(1) by (simp add: take_map [symmetric] sorted_wrt_take)
  note latest = last_current_latest [OF this, of kern ukern args]
  have "turn_writes kern ukern args ?xs i"
    using assms(2-4) by (simp add: turn_writes_def min_def)
  then have "uint (in_now (?xs ! i)) \<le> uint ?l" using latest by blast
  then have early: "uint (in_now (inputs ! i)) \<le> uint ?l" using assms(2) by simp
  have "uint (in_now x) \<le> uint ?now" if "x \<in> set ?xs" for x
  proof -
    from that obtain k where "k < length ?xs" "?xs ! k = x" unfolding in_set_conv_nth by blast
    then have "k < j" "x = inputs ! k" by simp_all
    then show ?thesis using sorted_nth_mono [OF assms(1), of k j] assms(3) by simp
  qed
  then have "uint ?l \<le> uint ?now" using latest by simp
  then have "uint (?now - ?l) = uint ?now - uint ?l" by (intro diff_le) (simp add: word_le_def)
  moreover have "10 \<le> uint (?now - ?l)" using writes by (simp add: word_le_def)
  ultimately show ?thesis using early writes by (simp add: snoc run_snoc turn_motor_parts)
qed

text \<open>A command is sent at once, not again 5 ms later, and again 10 ms later.\<close>

definition demo_rate_inputs :: "ProxyInput list" where
  "demo_rate_inputs = [demo_turn_input 1000 demo_command, demo_turn_input 1005 [], demo_turn_input 1010 []]"

lemma demo_rate_frames:
  "map (\<lambda>n. length (pm_can (proxy_run (\<lambda>_ _. 16) (\<lambda>_ _ _. 48) \<lparr>pa_allow_current = 1, pa_max_current = 2000\<rparr>
     (take n demo_rate_inputs)))) [0, 1, 2, 3] = [0, 1, 1, 2]"
  by code_simp

lemma proxy_rate_limited_witness:
  "uint (in_now (demo_rate_inputs ! 0)) + 10 \<le> uint (in_now (demo_rate_inputs ! 2)) \<and>
   length (pm_can (proxy_run (\<lambda>_ _. 16) (\<lambda>_ _ _. 48) \<lparr>pa_allow_current = 1, pa_max_current = 2000\<rparr>
     (take 3 demo_rate_inputs))) = 2"
proof -
  let ?can = "\<lambda>n. pm_can (proxy_run (\<lambda>_ _. 16) (\<lambda>_ _ _. 48) \<lparr>pa_allow_current = 1, pa_max_current = 2000\<rparr>
     (take n demo_rate_inputs))"
  have n: "length (?can 0) = 0" "length (?can (Suc 0)) = 1" "length (?can 2) = 1" "length (?can (Suc 2)) = 2"
    using demo_rate_frames by (simp_all add: numeral_3_eq_3 numeral_2_eq_2)
  then have "?can (Suc 0) \<noteq> ?can 0" "?can (Suc 2) \<noteq> ?can 2" by force+
  moreover have "sorted (map (\<lambda>i. uint (in_now i)) demo_rate_inputs)" "2 < length demo_rate_inputs"
    by (simp_all add: demo_rate_inputs_def demo_turn_input_def)
  ultimately show ?thesis
    using proxy_rate_limited [of demo_rate_inputs 0 2] n(3) by simp
qed

text \<open>C23. An emergency stop packet zeroes the currents of the state, but it
  leaves no trace of itself: the age and timeout of the last command stay as they were, and a
  current command behind it in the same queue puts its own (clamped) currents in place. The
  document \<open>docs/rtt_bridge_protocol.md\<close> says emergency stop always overrides motion.\<close>

theorem estop_is_not_latched:
  assumes "px_wf state" "allow \<noteq> 0" "well_formed estop" "read_u16 estop 6 = 4"
    "well_formed d" "read_u16 d 6 = 5" "read_u16 d 16 = 10"
  shows "px_current_command (fst (receive_udp [UdpData estop p] state allow maxc now)) = replicate 5 0 \<and>
    px_last_current_command_ms (fst (receive_udp [UdpData estop p] state allow maxc now)) =
      px_last_current_command_ms state \<and>
    px_current_command (fst (receive_udp [UdpData estop p, UdpData d q] state allow maxc now)) =
      0 # map (\<lambda>k. clamp_current (sint (read_i16 d k)) maxc) [20, 22, 24, 26] \<and>
    px_last_current_command_ms (fst (receive_udp [UdpData estop p, UdpData d q] state allow maxc now)) = now"
proof -
  define e where "e = take_datagram allow maxc now estop p state"
  have e: "px_current_command e = replicate 5 0"
    "px_last_current_command_ms e = px_last_current_command_ms state"
    using take_datagram_wf [OF assms(3)] assms(4)
    by (simp_all add: e_def Let_def remember_peer_def)
  then have len: "length (px_current_command e) = 5" "px_current_command e ! 0 = 0" by simp_all
  show ?thesis
    using take_datagram_command [OF assms(5-7) len(1) assms(2), of maxc now q] e len(2)
    by (simp add: e_def)
qed

lemma estop_is_not_latched_witness:
  "px_current_command (fst (receive_udp [UdpData demo_estop \<lparr>sin_addr = 1, sin_port = 2\<rparr>,
     UdpData demo_command \<lparr>sin_addr = 1, sin_port = 2\<rparr>] proxy_state_zero 1 2000 77)) =
   [0, 300, - 300, 2000, 0]"
proof -
  have "px_wf proxy_state_zero" by (simp add: px_wf_def proxy_state_zero_def)
  from estop_is_not_latched [OF this one_neq_zero demo_estop_reads(1,2) demo_command_reads(1-3),
      of "\<lparr>sin_addr = 1, sin_port = 2\<rparr>" 2000 77 "\<lparr>sin_addr = 1, sin_port = 2\<rparr>"]
  show ?thesis by (simp add: demo_command_reads clamp_current_def)
qed

text \<open>C24. Datagrams that are too short, carry another magic
  number or version, or are not as long as their header says change nothing but the counter of
  invalid packets: no command, no timestamp, and the peer is not adopted.\<close>

theorem malformed_datagrams_only_counted:
  assumes "\<forall>d\<in>set ds. length d < 20 \<or> read_u32 d 0 \<noteq> 0x524B4348 \<or> read_u16 d 4 \<noteq> 1 \<or>
    min (length d) 128 \<noteq> 20 + unat (read_u16 d 16)"
  shows "fst (receive_udp (map (\<lambda>d. UdpData d p) ds) state allow maxc now) =
    state\<lparr>px_invalid_packets := px_invalid_packets state + of_nat (length ds)\<rparr>"
  using assms
proof (induction ds arbitrary: state)
  case (Cons d ds)
  have "\<not> well_formed d" using Cons.prems by (auto simp: well_formed_def)
  then show ?case
    using Cons.IH [of "state\<lparr>px_invalid_packets := px_invalid_packets state + 1\<rparr>"] Cons.prems
    by (simp add: take_datagram_malformed add.assoc)
qed simp

lemma malformed_datagrams_only_counted_witness:
  "px_invalid_packets (fst (receive_udp
     (map (\<lambda>d. UdpData d \<lparr>sin_addr = 1, sin_port = 2\<rparr>) [[], [1, 2, 3], demo_estop @ [0]])
     proxy_state_zero 1 2000 5)) = 3"
proof -
  have "min (length (demo_estop @ [0])) 128 \<noteq> 20 + unat (read_u16 (demo_estop @ [0]) 16)"
    by (simp add: demo_estop_def header_reads len_simps)
  then show ?thesis
    using malformed_datagrams_only_counted [of "[[], [1, 2, 3], demo_estop @ [0]]"
        "\<lparr>sin_addr = 1, sin_port = 2\<rparr>" proxy_state_zero 1 2000 5]
    by (simp add: proxy_state_zero_def)
qed

text \<open>Bit \<open>k\<close> of the mask tells whether motor \<open>k + 1\<close> was heard from within
  200 ms of \<open>now\<close>, counted modulo \<open>2 ^ 64\<close>, and the bits above the four motors are zero.\<close>

theorem online_mask_spec:
  "bit (online_mask state now) k \<longleftrightarrow>
     k < 4 \<and> px_last_feedback_ms state ! (k + 1) \<noteq> 0 \<and> now - px_last_feedback_ms state ! (k + 1) \<le> 200"
proof (cases "k < 16")
  case True
  have "bit (online_mask state now) k \<longleftrightarrow>
      (\<exists>i\<in>{1, 2, 3, 4}. (px_last_feedback_ms state ! i \<noteq> 0 \<and> now - px_last_feedback_ms state ! i \<le> 200) \<and>
         i - 1 = k)"
    unfolding online_mask_def bit_mask_loop [OF True] motors_list(1) by simp
  then show ?thesis by (auto simp: numeral_eq_Suc less_Suc_eq)
qed (use bit_imp_le_length [of "online_mask state now" k] in auto)

text \<open>C27. The turn reads the clock before it drains the bus, and the
  drain stamps each frame with a later reading. A motor heard from a millisecond after the turn
  began is thereby stored as just heard from and, in the state packet of the same turn, reported
  offline: the age wraps around to almost \<open>2 ^ 64\<close>.\<close>

theorem fresh_feedback_reported_offline:
  assumes "px_wf state" "cf_can_dlc f = 8" "k \<in> {1, 2, 3, 4}" "cf_can_id f = of_nat (0x200 + k)"
    "now < t" "uint t - uint now \<le> 1000"
  shows "let s = fst (drain_feedback [(ReadFrame f, t), (PollTimeout, t)] state) in
    fb_last_update_ms (px_feedback s ! k) = t \<and> px_last_feedback_ms s ! k = t \<and>
    \<not> bit (online_mask s now) (k - 1)"
proof -
  have mask11: "cf_can_id f AND CAN_SFF_MASK = of_nat (0x200 + k)"
    using assms(3,4) by (auto simp: CAN_SFF_MASK_def)
  have idk: "is_feedback_id (of_nat (0x200 + k))"
    using assms(3) by (auto simp: is_feedback_id_def)
  then have fb: "frame_feedback (ReadFrame f) t =
      Some (feedback_of (of_nat (0x200 + k)) (rx_data (drain_receive (ReadFrame f))) t)"
    using assms(2) mask11 by (simp add: frame_feedback_def Let_def) (simp add: drain_receive_def)
  have n: "unat (fb_id (feedback_of (of_nat (0x200 + k)) d t)) = k" for d
    using assms(3) by (auto simp: feedback_of_def motor_consts)
  define s where "s = fst (drain_feedback [(ReadFrame f, t), (PollTimeout, t)] state)"
  have len: "k < length (px_feedback state)" "k < length (px_last_feedback_ms state)"
    using assms(1,3) by (auto simp: px_wf_def)
  have "rx_ret (drain_receive PollTimeout) = 0" "rx_ret (drain_receive (ReadFrame f)) = 1"
    by (simp_all add: drain_receive_def)
  then have s: "s = feedback_frame (ReadFrame f, t) state" by (simp add: s_def)
  have last: "px_last_feedback_ms s ! k = t" and fbk: "fb_last_update_ms (px_feedback s ! k) = t"
    using len n fb unfolding s by (simp_all add: feedback_frame_eq) (simp add: feedback_of_def)
  have "\<not> now - t \<le> 200"
    using wrap_diff [OF assms(5)] assms(6) by (simp add: word_le_def)
  moreover have "k - 1 + 1 = k" using assms(3) by auto
  ultimately have "\<not> bit (online_mask s now) (k - 1)"
    using last unfolding online_mask_spec by simp
  with last fbk show ?thesis by (simp add: s_def Let_def)
qed

lemma fresh_feedback_reported_offline_witness:
  "\<not> bit (online_mask (fst (drain_feedback
     [(ReadFrame \<lparr>cf_can_id = 0x202, cf_can_dlc = 8, cf_data = replicate 8 0\<rparr>, 1001),
      (PollTimeout, 1001)] proxy_state_zero)) 1000) 1"
  using fresh_feedback_reported_offline [where k = 2 and now = 1000 and t = 1001 and
      state = proxy_state_zero and f = "\<lparr>cf_can_id = 0x202, cf_can_dlc = 8, cf_data = replicate 8 0\<rparr>"]
  by (simp add: Let_def px_wf_def proxy_state_zero_def)

end
