(* ===== verification/ProxyProgram.thy ===== *)
theory ProxyProgram
  imports CanProxyProps UdpSocket
begin

text \<open>
  \<open>tools/can_proxy.c\<close> as a whole: its arguments, the opening of its two sockets, and the run; and
  the shape of the state it keeps.
\<close>

section \<open>Arguments\<close>

definition DEFAULT_BIND_IP :: string where "DEFAULT_BIND_IP = ''10.10.10.31''"
definition DEFAULT_PORT :: int where "DEFAULT_PORT = 21001"

text \<open>\<open>atoi\<close> is \<open>(int)strtol(text, NULL, 10)\<close>; a text that is no number gives 0.\<close>

definition c_atoi :: "string \<Rightarrow> int" where
  "c_atoi text =
     (case c_strtol text of None \<Rightarrow> 0 | Some (v, rest) \<Rightarrow> sint (word_of_int v :: u32))"

text \<open>The loop over \<open>argv[4]\<close> and what follows; \<open>None\<close> is the usage message and exit code 2.\<close>

fun proxy_options :: "string list \<Rightarrow> ProxyArgs \<Rightarrow> ProxyArgs option" where
  "proxy_options [] args = Some args"
| "proxy_options (s # rest) args =
     (if s = ''--allow-current'' then proxy_options rest (args\<lparr>pa_allow_current := 1\<rparr>)
      else if s = ''--max-current''
      then (case rest of
              [] \<Rightarrow> None
            | n # rest' \<Rightarrow> proxy_options rest' (args\<lparr>pa_max_current := c_atoi n\<rparr>))
      else None)"

record ProxyOptions =
  po_ifname :: string
  po_bind_ip :: string
  po_port :: int
  po_args :: ProxyArgs

text \<open>\<open>argv\<close> is without the program name.\<close>

definition proxy_args :: "string list \<Rightarrow> ProxyOptions option" where
  "proxy_args argv =
     (let ifname = (if 1 \<le> length argv then argv ! 0 else ''can0'');
          bind_ip = (if 2 \<le> length argv then argv ! 1 else DEFAULT_BIND_IP);
          port = (if 3 \<le> length argv then c_atoi (argv ! 2) else DEFAULT_PORT)
      in case proxy_options (drop 3 argv) \<lparr>pa_allow_current = 0, pa_max_current = DEFAULT_MAX_CURRENT\<rparr> of
           None \<Rightarrow> None
         | Some args \<Rightarrow> Some \<lparr>po_ifname = ifname, po_bind_ip = bind_ip, po_port = port, po_args = args\<rparr>)"

section \<open>The program\<close>

record ProxyWorld =
  qw_argv :: "string list"
  qw_can :: can_answers
  qw_udp :: udp_answers
  qw_inputs :: "ProxyInput list"

text \<open>The exit code, and the state at the end where the loop was reached.\<close>

definition proxy_program :: "can_kernel \<Rightarrow> udp_kernel \<Rightarrow> ProxyWorld \<Rightarrow> int \<times> ProxyMain option" where
  "proxy_program kern ukern w =
     (case proxy_args (qw_argv w) of
        None \<Rightarrow> (2, None)
      | Some opts \<Rightarrow>
          if can_answer (qw_can w) (po_ifname opts) < 0 then (1, None)
          else if fst (open_udp_socket (qw_udp w) (po_bind_ip opts) (po_port opts)) < 0 then (1, None)
          else (0, Some (proxy_main kern ukern (po_args opts) (qw_inputs w))))"

lemma atoi_show: "\<bar>n\<bar> < 2 ^ 31 \<Longrightarrow> c_atoi (show_int n) = n"
  using strtol_show_int [of n "[]"]
  by (simp add: c_atoi_def LONG_MIN_def LONG_MAX_def sint_sbintrunc' signed_take_bit_int_eq_self)

text \<open>The numbers a program prints are options it reads.\<close>

lemma proxy_args_max:
  assumes "\<bar>m\<bar> < 2 ^ 31" "\<bar>port\<bar> < 2 ^ 31"
  shows "proxy_args [ifname, ip, show_int port, ''--allow-current'', ''--max-current'', show_int m] =
    Some \<lparr>po_ifname = ifname, po_bind_ip = ip, po_port = port,
      po_args = \<lparr>pa_allow_current = 1, pa_max_current = m\<rparr>\<rparr>"
  using assms by (simp add: proxy_args_def atoi_show Let_def)

section \<open>The shape of the state\<close>

text \<open>
  The arrays have five slots and slot 0 of the currents is never used; the feedback in slot \<open>i\<close>
  is that of motor \<open>i\<close> or of none yet, and the copy of its time stamp agrees with it.
\<close>

definition px_typed :: "ProxyState \<Rightarrow> bool" where
  "px_typed s \<longleftrightarrow> px_wf s \<and> px_current_command s ! 0 = 0 \<and> px_target_rpm s = replicate 5 0 \<and>
     px_last_feedback_ms s = map fb_last_update_ms (px_feedback s) \<and>
     (\<forall>i<5. fb_id (px_feedback s ! i) \<in> {0, of_nat i}) \<and>
     px_current_timeout_ms s \<noteq> 0 \<and> px_peer_known s \<in> {0, 1}"

lemma px_typed_start: "px_typed (pm_state proxy_start)"
  by (simp add: px_typed_def px_wf_def proxy_start_def proxy_state_zero_def fb_zero_def
      DEFAULT_COMMAND_TIMEOUT_MS_def)

lemma px_typed_store:
  assumes "px_typed s" "fb_id fb = of_nat k" "fb_last_update_ms fb = t"
  shows "px_typed (s\<lparr>px_feedback := (px_feedback s)[k := fb],
    px_last_feedback_ms := (px_last_feedback_ms s)[k := t]\<rparr>)"
proof -
  have ids: "\<forall>i<5. fb_id (px_feedback s ! i) \<in> {0, of_nat i}" "length (px_feedback s) = 5"
    using assms(1) unfolding px_typed_def px_wf_def by blast+
  have "fb_id ((px_feedback s)[k := fb] ! i) \<in> {0, of_nat i}" if "i < 5" for i
    using ids(1) [rule_format, OF that] ids(2) that assms(2) by (cases "i = k") (simp_all only: nth_list_update nth_list_update_neq, simp_all)
  then show ?thesis using assms(1,3) by (simp add: px_typed_def px_wf_def map_update)
qed

lemma feedback_frame_typed:
  assumes "px_typed s" shows "px_typed (feedback_frame e s)"
proof (cases "rx_stop (fst e)")
  case True
  then have "feedback_frame e s = s"
    by (cases "fst e") (simp_all add: feedback_frame_def drain_receive_def)
  with assms show ?thesis by simp
next
  case False
  show ?thesis
  proof (cases "frame_feedback (fst e) (snd e)")
    case None
    with assms False show ?thesis by (simp add: feedback_frame_eq)
  next
    case (Some fb)
    let ?r = "drain_receive (fst e)"
    from Some have fb: "fb = feedback_of (rx_can_id ?r) (rx_data ?r) (snd e)" "is_feedback_id (rx_can_id ?r)"
      by (simp_all add: frame_feedback_def Let_def split: if_splits)
    obtain k where k: "unat (fb_id fb) = k" "fb_id fb = of_nat k"
      using feedback_id_motor [OF fb(2), of "rx_data ?r" "snd e"] unfolding fb(1) by blast
    have t: "fb_last_update_ms fb = snd e" by (simp add: fb(1) feedback_of_def)
    have eq: "feedback_frame e s = s\<lparr>px_feedback := (px_feedback s)[k := fb],
        px_last_feedback_ms := (px_last_feedback_ms s)[k := snd e]\<rparr>"
      using Some k(1) by (simp add: feedback_frame_eq [OF False])
    show ?thesis unfolding eq by (rule px_typed_store) (use assms k t in simp_all)
  qed
qed

lemma drain_typed: "px_typed s \<Longrightarrow> px_typed (fst (drain_feedback es s))"
  by (erule can_drain.loop_invariant) (rule feedback_frame_typed)

lemma take_datagram_typed:
  assumes "px_typed s" shows "px_typed (take_datagram allow maxc now d peer s)"
proof (cases "well_formed d")
  case False
  with assms show ?thesis by (simp add: take_datagram_malformed) (simp add: px_typed_def px_wf_def)
next
  case True
  let ?s = "remember_peer s peer now"
  have r: "px_typed ?s" using assms by (simp add: px_typed_def px_wf_def remember_peer_def)
  have len: "length (px_current_command ?s) = 5" using r by (simp add: px_typed_def px_wf_def)
  have "px_typed (take_current_command allow maxc now packet header ?s)" for packet header
    using len
  proof (cases rule: take_current_command_cases [where header = header and allow = allow and
        maxc = maxc and now = now and packet = packet])
    case taken
    with r show ?thesis
      by (simp add: take_current_command_eq [OF len taken(2,1)]) (simp add: px_typed_def px_wf_def)
  qed (use r in \<open>simp_all add: px_typed_def px_wf_def\<close>)
  with r show ?thesis
    by (simp add: take_datagram_wf [OF True] Let_def) (simp add: px_typed_def px_wf_def)
qed

lemma receive_udp_typed: "px_typed s \<Longrightarrow> px_typed (fst (receive_udp es s allow maxc now))"
  by (erule udp_drain.loop_invariant) (auto simp: udp_body_def take_datagram_typed split: udp_event.split)

lemma turn_typed:
  assumes "px_typed (pm_state m)" shows "px_typed (pm_state (proxy_turn kern ukern args inp m))"
proof -
  have s: "px_typed (after_drains args inp m)"
    unfolding after_drains_def by (intro receive_udp_typed drain_typed assms)
  have z: "px_typed t \<Longrightarrow> px_typed (t\<lparr>px_current_command := replicate 5 0\<rparr>)" for t
    by (simp add: px_typed_def px_wf_def)
  have q: "px_typed t \<Longrightarrow> px_typed (fst (snd (send_chassis_state ukern clock stack port t now)))"
    for clock stack port t now
    by (auto simp: send_chassis_state_def Let_def px_typed_def px_wf_def)
  let ?n = "(m\<lparr>pm_state := after_drains args inp m\<rparr>)"
  have a: "px_typed (pm_state (apply_currents kern args (in_now inp) ?n))"
    using s z [OF s] by (simp add: apply_currents_eq)
  show ?thesis
    using a q [OF a] by (simp add: proxy_turn_def after_drains_def Let_def case_prod_beta)
qed

section \<open>Properties\<close>

text \<open>C25. In every state the proxy can reach, whatever arrives on its
  sockets, the arrays keep their five slots, slot 0 of the currents stays zero, each feedback
  record stands in the slot of its own motor with the same time stamp in both arrays, and the
  time-out is never 0, so no command is dropped for a missing one. No one ever writes the
  target speeds: the state packets report zeros.\<close>

theorem proxy_state_well_formed:
  fixes kern ukern args inputs
  defines "s \<equiv> pm_state (proxy_run kern ukern args inputs)"
  shows "length (px_feedback s) = 5 \<and> length (px_current_command s) = 5 \<and>
    px_current_command s ! 0 = 0 \<and> px_target_rpm s = replicate 5 0 \<and>
    px_last_feedback_ms s = map fb_last_update_ms (px_feedback s) \<and>
    list_all (\<lambda>i. fb_id (px_feedback s ! i) \<in> {0, of_nat i}) [0, 1, 2, 3, 4] \<and>
    px_current_timeout_ms s \<noteq> 0 \<and> px_peer_known s \<in> {0, 1}"
proof -
  have "px_typed s"
    unfolding s_def proxy_run_def
    by (rule fold_invariant [where P = "\<lambda>m. px_typed (pm_state m)"]) (simp_all add: px_typed_start turn_typed)
  moreover have "list_all (\<lambda>i. fb_id (px_feedback s ! i) \<in> {0, of_nat i}) [0, 1, 2, 3, 4]"
    unfolding list_all_iff
  proof (rule ballI)
    fix i assume "i \<in> set [0, 1, 2, 3, 4 :: nat]"
    then have "i < 5" by auto
    with calculation show "fb_id (px_feedback s ! i) \<in> {0, of_nat i}" by (simp add: px_typed_def)
  qed
  ultimately show ?thesis unfolding px_typed_def px_wf_def by blast
qed

text \<open>C5. The argument of \<open>--max-current\<close> is not checked. Under a
  negative limit \<open>-m\<close> the clamp turns every command, a zero command included, into a current of
  exactly \<open>m\<close> one way or the other: the zero command the shipped RT-Thread thread sends 100 times
  a second then drives all four motors.\<close>

theorem unchecked_limit_drives_motors:
  assumes "0 < m" "m \<le> 32767" "length (px_current_command state) = 5"
    "well_formed d" "read_u16 d 6 = 5" "read_u16 d 16 = 10" "i \<in> {1, 2, 3, 4}"
  shows "\<exists>opts. proxy_args [''can0'', ''10.10.10.31'', ''21001'', ''--allow-current'', ''--max-current'', show_int (- m)] =
      Some opts \<and>
    \<bar>sint (px_current_command (take_datagram (pa_allow_current (po_args opts)) (pa_max_current (po_args opts))
       now d peer state) ! i)\<bar> = m"
proof -
  have port: "show_int 21001 = ''21001''" by code_simp
  have clamp: "\<bar>sint (clamp_current v (- m))\<bar> = m" for v
    using assms(1,2) sint_small [of m] sint_small [of "- m"] by (simp add: clamp_current_def)
  have args: "proxy_args [''can0'', ''10.10.10.31'', ''21001'', ''--allow-current'', ''--max-current'', show_int (- m)] =
      Some \<lparr>po_ifname = ''can0'', po_bind_ip = ''10.10.10.31'', po_port = 21001,
        po_args = \<lparr>pa_allow_current = 1, pa_max_current = - m\<rparr>\<rparr>"
    using proxy_args_max [of "- m" 21001 "''can0''" "''10.10.10.31''"] assms(1,2) unfolding port by simp
  have "\<bar>sint (px_current_command (take_datagram 1 (- m) now d peer state) ! i)\<bar> = m"
    using assms(7)
    by (auto simp: take_datagram_command [OF assms(4-6,3)] clamp numeral_eq_Suc)
  then show ?thesis unfolding args by (intro exI conjI) (rule refl, simp)
qed

lemma unchecked_limit_drives_motors_witness:
  "\<exists>opts. proxy_args [''can0'', ''10.10.10.31'', ''21001'', ''--allow-current'', ''--max-current'', show_int (- 500)] =
      Some opts \<and>
    \<bar>sint (px_current_command (take_datagram (pa_allow_current (po_args opts)) (pa_max_current (po_args opts))
       1000 demo_command \<lparr>sin_addr = 1, sin_port = 2\<rparr> proxy_state_zero) ! 4)\<bar> = 500"
  by (rule unchecked_limit_drives_motors) (simp_all add: demo_command_reads proxy_state_zero_def)

end
