(* ===== verification/RttBridge.thy ===== *)
theory RttBridge
  imports CanProxyProps
begin

text \<open>
  \<open>rtthread_port/rtt_chassis_bridge.c\<close>: the RT-Thread side of the bridge, with its own copy of
  the codec, and what it and the proxy do to each other.
\<close>

section \<open>The codec of the bridge\<close>

definition rt_read_u16 :: "u8 list \<Rightarrow> nat \<Rightarrow> u16" where
  "rt_read_u16 buffer offset = push_bit 8 (ucast (buffer ! offset)) OR ucast (buffer ! (offset + 1))"

definition rt_read_u32 :: "u8 list \<Rightarrow> nat \<Rightarrow> u32" where
  "rt_read_u32 buffer offset =
     push_bit 24 (ucast (buffer ! offset)) OR
     push_bit 16 (ucast (buffer ! (offset + 1))) OR
     push_bit 8 (ucast (buffer ! (offset + 2))) OR
     ucast (buffer ! (offset + 3))"

definition rt_read_i16 :: "u8 list \<Rightarrow> nat \<Rightarrow> i16" where
  "rt_read_i16 buffer offset = rt_read_u16 buffer offset"

definition rt_write_u16 :: "u8 list \<Rightarrow> nat \<Rightarrow> u16 \<Rightarrow> u8 list" where
  "rt_write_u16 buffer offset value = buffer
     [offset := ucast (drop_bit 8 value),
      offset + 1 := ucast (value AND 0xFF)]"

definition rt_write_i16 :: "u8 list \<Rightarrow> nat \<Rightarrow> i16 \<Rightarrow> u8 list" where
  "rt_write_i16 buffer offset value = rt_write_u16 buffer offset value"

definition rt_write_u32 :: "u8 list \<Rightarrow> nat \<Rightarrow> u32 \<Rightarrow> u8 list" where
  "rt_write_u32 buffer offset value = buffer
     [offset := ucast (drop_bit 24 value),
      offset + 1 := ucast (drop_bit 16 value AND 0xFF),
      offset + 2 := ucast (drop_bit 8 value AND 0xFF),
      offset + 3 := ucast (value AND 0xFF)]"

text \<open>Both sides speak the same format: each function of the one is the function of the other.\<close>

lemma rt_codec:
  "rt_read_u16 = read_u16" "rt_read_u32 = read_u32" "rt_read_i16 = read_i16"
  "rt_write_u16 = write_u16" "rt_write_u32 = write_u32" "rt_write_i16 = write_i16"
  by (simp_all add: fun_eq_iff rt_read_u16_def rt_read_u32_def rt_read_i16_def rt_write_u16_def
      rt_write_u32_def rt_write_i16_def read_u16_def read_u32_def read_i16_def write_u16_def
      write_u32_def write_i16_def)

interpretation rt16: byte_field be16 rt_read_u16 rt_write_u16 2
  unfolding rt_codec by unfold_locales

interpretation rt_i16: byte_field be16 rt_read_i16 rt_write_i16 2
  unfolding rt_codec by unfold_locales

interpretation rt32: byte_field be32 rt_read_u32 rt_write_u32 4
  unfolding rt_codec by unfold_locales

section \<open>Packets\<close>

record RttChassisState =
  rs_target_rpm :: "i16 list"
  rs_feedback_rpm :: "i16 list"
  rs_current_command :: "i16 list"
  rs_online_mask :: u16
  rs_fault_mask :: u16

definition RTT_BRIDGE_HEADER_SIZE :: nat where "RTT_BRIDGE_HEADER_SIZE = 20"
definition RTT_BRIDGE_STATE_PAYLOAD_SIZE :: nat where "RTT_BRIDGE_STATE_PAYLOAD_SIZE = 28"
definition RTT_BRIDGE_CURRENT_PAYLOAD_SIZE :: nat where "RTT_BRIDGE_CURRENT_PAYLOAD_SIZE = 10"
definition RTT_BRIDGE_LINUX_PORT :: u16 where "RTT_BRIDGE_LINUX_PORT = 21001"
definition RTT_BRIDGE_PRINT_PERIOD_MS :: u32 where "RTT_BRIDGE_PRINT_PERIOD_MS = 1000"

text \<open>\<open>monotonic_ms32\<close>: the low 32 bits of the tick counter in milliseconds.\<close>

definition monotonic_ms32 :: "u64 \<Rightarrow> u32" where
  "monotonic_ms32 tick = ucast (tick AND 0xFFFFFFFF)"

definition rt_write_header :: "u64 \<Rightarrow> u8 list \<Rightarrow> u16 \<Rightarrow> u32 \<Rightarrow> u16 \<Rightarrow> u16 \<Rightarrow> u8 list" where
  "rt_write_header tick buffer type sequence payload_length flags =
     (let buffer = rt_write_u32 buffer 0 RTT_BRIDGE_MAGIC;
          buffer = rt_write_u16 buffer 4 RTT_BRIDGE_VERSION;
          buffer = rt_write_u16 buffer 6 type;
          buffer = rt_write_u32 buffer 8 sequence;
          buffer = rt_write_u32 buffer 12 (monotonic_ms32 tick);
          buffer = rt_write_u16 buffer 16 payload_length
      in rt_write_u16 buffer 18 flags)"

text \<open>\<open>for (i = 0; i < 4; ++i, offset += 2) dest[i] = read_i16(packet, offset)\<close>.\<close>

definition rt_read_four :: "u8 list \<Rightarrow> nat \<Rightarrow> i16 list \<Rightarrow> i16 list \<times> nat" where
  "rt_read_four packet offset dest =
     fold (\<lambda>i (dest, offset). (dest[i := rt_read_i16 packet offset], offset + 2)) [0..<4] (dest, offset)"

definition parse_chassis_state ::
  "u8 list \<Rightarrow> nat \<Rightarrow> RttChassisState \<Rightarrow> int \<times> RttChassisState" where
  "parse_chassis_state packet len state =
     (if len \<noteq> RTT_BRIDGE_HEADER_SIZE + RTT_BRIDGE_STATE_PAYLOAD_SIZE then (0, state)
      else if rt_read_u32 packet 0 \<noteq> RTT_BRIDGE_MAGIC \<or>
              rt_read_u16 packet 4 \<noteq> RTT_BRIDGE_VERSION \<or>
              rt_read_u16 packet 6 \<noteq> RTT_BRIDGE_MSG_CHASSIS_STATE \<or>
              rt_read_u16 packet 16 \<noteq> of_nat RTT_BRIDGE_STATE_PAYLOAD_SIZE
      then (0, state)
      else
        let (target, offset) = rt_read_four packet RTT_BRIDGE_HEADER_SIZE (rs_target_rpm state);
            state = state\<lparr>rs_target_rpm := target\<rparr>;
            (feedback, offset) = rt_read_four packet offset (rs_feedback_rpm state);
            state = state\<lparr>rs_feedback_rpm := feedback\<rparr>;
            (command, offset) = rt_read_four packet offset (rs_current_command state);
            state = state\<lparr>rs_current_command := command\<rparr>;
            state = state\<lparr>rs_online_mask := rt_read_u16 packet offset\<rparr>;
            offset = offset + 2;
            state = state\<lparr>rs_fault_mask := rt_read_u16 packet offset\<rparr>
        in (1, state))"

section \<open>Sending\<close>

text \<open>
  The static \<open>tx_sequence\<close>, the socket and the locals of the thread. The peer of every
  datagram is the fixed address of the Linux side, \<open>10.10.10.31:21001\<close>.
\<close>

record BridgeThread =
  bt_tx_sequence :: u32
  bt_udp :: udp_port
  bt_last_state :: RttChassisState
  bt_last_print_ms :: u32
  bt_rx_state_count :: u32

definition linux_address :: sockaddr_in where
  "linux_address = \<lparr>sin_addr = 0x0A0A0A1F, sin_port = RTT_BRIDGE_LINUX_PORT\<rparr>"

definition send_packet :: "udp_kernel \<Rightarrow> u8 list \<Rightarrow> BridgeThread \<Rightarrow> int \<times> BridgeThread" where
  "send_packet ukern packet b =
     (let sent = ukern (bt_udp b) linux_address packet
      in (sent, b\<lparr>bt_udp := bt_udp b @ [(linux_address, packet, sent)]\<rparr>))"

text \<open>\<open>stack\<close> is what the uninitialised \<open>packet\<close> array holds.\<close>

definition send_heartbeat :: "udp_kernel \<Rightarrow> u64 \<Rightarrow> u8 list \<Rightarrow> BridgeThread \<Rightarrow> int \<times> BridgeThread" where
  "send_heartbeat ukern tick stack b =
     (let b = b\<lparr>bt_tx_sequence := bt_tx_sequence b + 1\<rparr>;
          packet = rt_write_header tick stack RTT_BRIDGE_MSG_HEARTBEAT (bt_tx_sequence b) 0 0
      in send_packet ukern packet b)"

definition send_zero_current_command ::
  "udp_kernel \<Rightarrow> u64 \<Rightarrow> u8 list \<Rightarrow> BridgeThread \<Rightarrow> int \<times> BridgeThread" where
  "send_zero_current_command ukern tick stack b =
     (let b = b\<lparr>bt_tx_sequence := bt_tx_sequence b + 1\<rparr>;
          packet = rt_write_header tick stack RTT_BRIDGE_MSG_CURRENT_COMMAND (bt_tx_sequence b)
            (of_nat RTT_BRIDGE_CURRENT_PAYLOAD_SIZE) 0;
          (packet, offset) =
            fold (\<lambda>i (packet, offset). (rt_write_i16 packet offset 0, offset + 2))
              [0..<4 :: nat] (packet, RTT_BRIDGE_HEADER_SIZE);
          packet = rt_write_u16 packet offset 100
      in send_packet ukern packet b)"

section \<open>The thread\<close>

text \<open>
  Opening the socket: each attempt is what \<open>socket\<close> and \<open>bind\<close> return. The result is the
  bound socket, \<open>None\<close> while the thread still retries, and the sockets it closed on the way.
\<close>

fun open_bridge_socket :: "(int \<times> int) list \<Rightarrow> int option \<times> int list" where
  "open_bridge_socket [] = (None, [])"
| "open_bridge_socket ((sock, bind_ret) # attempts) =
     (if sock < 0 then open_bridge_socket attempts
      else if bind_ret = 0 then (Some sock, [])
      else let (r, closed) = open_bridge_socket attempts in (r, sock # closed))"

text \<open>The loop \<open>do ... while (received > 0)\<close>: an empty datagram ends it as an error does.\<close>

definition bridge_body :: "udp_event \<Rightarrow> BridgeThread \<Rightarrow> BridgeThread" where
  "bridge_body ev b =
     (case ev of
        UdpError e \<Rightarrow> b
      | UdpData d peer \<Rightarrow>
          let packet = take UDP_BUFFER_SIZE d;
              r = parse_chassis_state packet (length packet) (bt_last_state b);
              b = b\<lparr>bt_last_state := snd r\<rparr>
          in if fst r \<noteq> 0 then b\<lparr>bt_rx_state_count := bt_rx_state_count b + 1\<rparr> else b)"

definition bridge_stop :: "udp_event \<Rightarrow> bool" where
  "bridge_stop ev \<longleftrightarrow> (case ev of UdpError e \<Rightarrow> True | UdpData d peer \<Rightarrow> d = [])"

fun bridge_drain :: "udp_event list \<Rightarrow> BridgeThread \<Rightarrow> BridgeThread \<times> udp_event list" where
  "bridge_drain [] b = (b, [])"
| "bridge_drain (ev # es) b =
     (if bridge_stop ev then (b, es) else bridge_drain es (bridge_body ev b))"

record BridgeInput =
  bi_tick_heartbeat :: u64
  bi_tick_command :: u64
  bi_tick_print :: u64
  bi_tick_printed :: u64
  bi_stack_heartbeat :: "u8 list"
  bi_stack_command :: "u8 list"
  bi_udp :: "udp_event list"

definition bridge_turn :: "udp_kernel \<Rightarrow> BridgeInput \<Rightarrow> BridgeThread \<Rightarrow> BridgeThread" where
  "bridge_turn ukern inp b =
     (let b = snd (send_heartbeat ukern (bi_tick_heartbeat inp) (bi_stack_heartbeat inp) b);
          b = snd (send_zero_current_command ukern (bi_tick_command inp) (bi_stack_command inp) b);
          b = fst (bridge_drain (bi_udp inp) b)
      in if RTT_BRIDGE_PRINT_PERIOD_MS \<le> monotonic_ms32 (bi_tick_print inp) - bt_last_print_ms b
         then b\<lparr>bt_last_print_ms := monotonic_ms32 (bi_tick_printed inp)\<rparr> else b)"

definition bridge_start :: BridgeThread where
  "bridge_start = \<lparr>bt_tx_sequence = 0, bt_udp = [],
     bt_last_state = \<lparr>rs_target_rpm = replicate 4 0, rs_feedback_rpm = replicate 4 0,
       rs_current_command = replicate 4 0, rs_online_mask = 0, rs_fault_mask = 0\<rparr>,
     bt_last_print_ms = 0, bt_rx_state_count = 0\<rparr>"

definition bridge_run :: "udp_kernel \<Rightarrow> BridgeInput list \<Rightarrow> BridgeThread" where
  "bridge_run ukern inputs = fold (bridge_turn ukern) inputs bridge_start"

text \<open>
  \<open>rtt_chassis_bridge_start\<close>: \<open>bridge_thread\<close> is the static handle, 0 for \<open>RT_NULL\<close>;
  \<open>created\<close> is what \<open>rt_thread_create\<close> would return and \<open>rt_error\<close> the value of \<open>RT_ERROR\<close>.
  The result is the return value, the handle and the threads started.
\<close>

definition rtt_chassis_bridge_start :: "int \<Rightarrow> nat \<Rightarrow> nat \<Rightarrow> int \<times> nat \<times> nat list" where
  "rtt_chassis_bridge_start rt_error bridge_thread created =
     (if bridge_thread \<noteq> 0 then (0, bridge_thread, [])
      else let bridge_thread = created
           in if bridge_thread = 0 then (- rt_error, bridge_thread, [])
              else (0, bridge_thread, [bridge_thread]))"

interpretation bridge_loop: receive_loop bridge_drain bridge_stop bridge_body
  by unfold_locales simp_all

section \<open>The packets as bytes\<close>

lemma monotonic_ms32_ucast: "monotonic_ms32 tick = ucast tick"
  by (simp add: monotonic_ms32_def low_clock)

lemma rt_header: "rt_write_header = write_header"
  by (simp add: fun_eq_iff rt_write_header_def write_header_def rt_codec monotonic_ms32_def)

lemma send_heartbeat_packet:
  assumes "length stack = 20"
  shows "send_heartbeat ukern tick stack b =
    send_packet ukern (header_bytes (ucast tick) 3 (bt_tx_sequence b + 1) 0 0)
      (b\<lparr>bt_tx_sequence := bt_tx_sequence b + 1\<rparr>)"
  using assms
  by (simp add: send_heartbeat_def rt_header write_header_bytes RTT_BRIDGE_MSG_HEARTBEAT_def Let_def)

text \<open>Fields written behind a prefix of known length.\<close>

lemma write_behind:
  "length p = k \<Longrightarrow> 2 \<le> length g \<Longrightarrow> write_i16 (p @ g) k v = (p @ be16 v) @ drop 2 g"
  "length p = k \<Longrightarrow> 2 \<le> length g \<Longrightarrow> write_u16 (p @ g) k v = (p @ be16 v) @ drop 2 g"
  using i16.wr_at [of p k g v] u16.wr_at [of p k g v] by simp_all

definition zero_command_bytes :: "u64 \<Rightarrow> u32 \<Rightarrow> u8 list" where
  "zero_command_bytes tick sequence = header_bytes (ucast tick) 5 sequence 10 0 @
     be16 0 @ be16 0 @ be16 0 @ be16 0 @ be16 100"

lemma send_zero_packet:
  assumes "length stack = 30"
  shows "send_zero_current_command ukern tick stack b =
    send_packet ukern (zero_command_bytes tick (bt_tx_sequence b + 1))
      (b\<lparr>bt_tx_sequence := bt_tx_sequence b + 1\<rparr>)"
proof -
  let ?h = "header_bytes (ucast tick) 5 (bt_tx_sequence b + 1) 10 0"
  have "write_header tick stack 5 (bt_tx_sequence b + 1) 10 0 = ?h @ drop 20 stack"
    using assms by (intro write_header_bytes) simp
  then show ?thesis
    using assms write_behind(1) [of ?h 20 "drop 20 stack" 0]
      write_behind(1) [of "?h @ be16 0" 22 "drop 22 stack" 0]
      write_behind(1) [of "?h @ be16 0 @ be16 0" 24 "drop 24 stack" 0]
      write_behind(1) [of "?h @ be16 0 @ be16 0 @ be16 0" 26 "drop 26 stack" 0]
      write_behind(2) [of "?h @ be16 0 @ be16 0 @ be16 0 @ be16 0" 28 "drop 28 stack" 100]
    by (simp add: send_zero_current_command_def rt_header rt_codec zero_command_bytes_def upt4
        RTT_BRIDGE_MSG_CURRENT_COMMAND_def RTT_BRIDGE_CURRENT_PAYLOAD_SIZE_def
        RTT_BRIDGE_HEADER_SIZE_def len_simps Let_def)
qed

end
