(* ===== verification/BridgeProps.thy ===== *)
theory BridgeProps
  imports RttBridge
begin

text \<open>
  The proxy and the RT-Thread bridge together: what each says is what the other understands,
  and what the bridge can make the motors do.
\<close>

section \<open>The state packet\<close>

text \<open>Four 16-bit values, one for each motor.\<close>

definition motor_bytes :: "(nat \<Rightarrow> i16) \<Rightarrow> u8 list" where
  "motor_bytes v = concat (map be16 (map v motors))"

lemma length_motor_bytes [len_simps]: "length (motor_bytes v) = 8"
  by (simp add: motor_bytes_def motors_list len_simps)

lemma write_motors_at:
  assumes "length p = k" "8 \<le> length g"
  shows "write_motors v (p @ g, k) = (p @ motor_bytes v @ drop 8 g, k + 8)"
proof -
  have "fold (\<lambda>i s. (write_i16 (fst s) (snd s) (v i), snd s + 2)) motors (p @ g, length p) =
      fold (\<lambda>x s. (write_i16 (fst s) (snd s) x, snd s + 2)) (map v motors) (p @ g, length p)"
    by (simp add: fold_map comp_def)
  also have "\<dots> = (p @ concat (map be16 (map v motors)) @ drop (2 * length (map v motors)) g,
      length p + 2 * length (map v motors))"
    by (rule i16.fold_wr) (use assms in \<open>simp add: motors_list\<close>)
  finally show ?thesis using assms(1) by (simp add: write_motors_def motor_bytes_def motors_list)
qed

text \<open>The 48 bytes of a state packet, as a value.\<close>

definition state_bytes :: "u64 \<Rightarrow> ProxyState \<Rightarrow> u64 \<Rightarrow> u8 list" where
  "state_bytes clock state now =
     header_bytes (ucast clock) 2 (px_tx_sequence state) 28 0 @
     motor_bytes (\<lambda>i. px_target_rpm state ! i) @
     motor_bytes (\<lambda>i. fb_speed_rpm (px_feedback state ! i)) @
     motor_bytes (\<lambda>i. px_current_command state ! i) @
     be16 (online_mask state now) @ be16 0"

lemma online_mask_seq [simp]: "online_mask (state\<lparr>px_tx_sequence := n\<rparr>) now = online_mask state now"
  by (simp add: online_mask_def)

lemma send_chassis_state_bytes:
  assumes "px_peer_known state \<noteq> 0" "length stack = 48"
  defines "s \<equiv> state\<lparr>px_tx_sequence := px_tx_sequence state + 1\<rparr>"
  shows "send_chassis_state ukern clock stack port state now =
    (if ukern port (px_peer state) (state_bytes clock s now) = 48 then 0 else - 1, s,
     port @ [(px_peer state, state_bytes clock s now, ukern port (px_peer state) (state_bytes clock s now))])"
proof -
  let ?h = "header_bytes (ucast clock) 2 (px_tx_sequence s) 28 0"
  let ?t = "motor_bytes (\<lambda>i. px_target_rpm s ! i)"
  let ?f = "motor_bytes (\<lambda>i. fb_speed_rpm (px_feedback s ! i))"
  let ?c = "motor_bytes (\<lambda>i. px_current_command s ! i)"
  let ?m = "be16 (online_mask s now)"
  have "write_header clock stack 2 (px_tx_sequence s) 28 0 = ?h @ drop 20 stack"
    using assms(2) by (intro write_header_bytes) simp
  moreover have "write_motors (\<lambda>i. px_target_rpm s ! i) (?h @ drop 20 stack, 20) =
      ((?h @ ?t) @ drop 28 stack, 28)"
    using write_motors_at [of ?h 20 "drop 20 stack"] assms(2) by (simp add: len_simps)
  moreover have "write_motors (\<lambda>i. fb_speed_rpm (px_feedback s ! i)) ((?h @ ?t) @ drop 28 stack, 28) =
      ((?h @ ?t @ ?f) @ drop 36 stack, 36)"
    by (subst write_motors_at) (use assms(2) in \<open>simp_all add: len_simps\<close>)
  moreover have "write_motors (\<lambda>i. px_current_command s ! i) ((?h @ ?t @ ?f) @ drop 36 stack, 36) =
      ((?h @ ?t @ ?f @ ?c) @ drop 44 stack, 44)"
    by (subst write_motors_at) (use assms(2) in \<open>simp_all add: len_simps\<close>)
  moreover have "write_u16 ((?h @ ?t @ ?f @ ?c) @ drop 44 stack) 44 (online_mask s now) =
      (?h @ ?t @ ?f @ ?c @ ?m) @ drop 46 stack"
    by (subst write_behind(2)) (use assms(2) in \<open>simp_all add: len_simps\<close>)
  moreover have "write_u16 ((?h @ ?t @ ?f @ ?c @ ?m) @ drop 46 stack) 46 0 = state_bytes clock s now"
    by (subst write_behind(2)) (use assms(2) in \<open>simp_all add: len_simps state_bytes_def\<close>)
  ultimately show ?thesis
    using assms(1) unfolding s_def
    by (simp add: send_chassis_state_def Let_def RTT_BRIDGE_MSG_CHASSIS_STATE_def HEADER_SIZE_def
        STATE_PAYLOAD_SIZE_def)
qed

lemma read_four:
  assumes "length dest = 4" "length p = k"
  shows "rt_read_four (p @ motor_bytes v @ s) k dest = (map v motors, k + 8)"
proof -
  obtain a b c d where dest: "dest = [a, b, c, d]"
    using assms(1) by (auto simp: numeral_eq_Suc length_Suc_conv)
  have r: "read_i16 (p @ motor_bytes v @ s) (k + 2 * i) = map v motors ! i" if "i < 4" for i
    unfolding motor_bytes_def using that by (intro i16.rd_concat assms(2)) (simp add: motors_list)
  from r [of 0] r [of 1] r [of 2] r [of 3] show ?thesis
    by (simp add: rt_read_four_def dest upt4 rt_codec motors_list add.assoc
        del: add_2_eq_Suc add_2_eq_Suc')
qed

text \<open>The parser of the bridge on the bytes of the proxy.\<close>

lemma parse_state_bytes:
  assumes "length (rs_target_rpm rs) = 4" "length (rs_feedback_rpm rs) = 4"
    "length (rs_current_command rs) = 4"
  shows "parse_chassis_state (state_bytes clock st now) 48 rs =
    (1, \<lparr>rs_target_rpm = map (\<lambda>i. px_target_rpm st ! i) motors,
         rs_feedback_rpm = map (\<lambda>i. fb_speed_rpm (px_feedback st ! i)) motors,
         rs_current_command = map (\<lambda>i. px_current_command st ! i) motors,
         rs_online_mask = online_mask st now, rs_fault_mask = 0\<rparr>)"
proof -
  let ?h = "header_bytes (ucast clock) 2 (px_tx_sequence st) 28 0"
  let ?t = "motor_bytes (\<lambda>i. px_target_rpm st ! i)"
  let ?f = "motor_bytes (\<lambda>i. fb_speed_rpm (px_feedback st ! i))"
  let ?c = "motor_bytes (\<lambda>i. px_current_command st ! i)"
  let ?m = "be16 (online_mask st now)"
  let ?p = "?h @ ?t @ ?f @ ?c @ ?m @ be16 0"
  have "rt_read_four ?p 20 (rs_target_rpm rs) = (map (\<lambda>i. px_target_rpm st ! i) motors, 28)"
    by (subst read_four [OF assms(1)]) (simp_all add: len_simps)
  moreover have "rt_read_four ?p 28 (rs_feedback_rpm rs) =
      (map (\<lambda>i. fb_speed_rpm (px_feedback st ! i)) motors, 36)"
    using read_four [OF assms(2), of "?h @ ?t" 28] by (simp add: len_simps)
  moreover have "rt_read_four ?p 36 (rs_current_command rs) =
      (map (\<lambda>i. px_current_command st ! i) motors, 44)"
    using read_four [OF assms(3), of "?h @ ?t @ ?f" 36] by (simp add: len_simps)
  moreover have "read_u16 ?p 44 = online_mask st now" "read_u16 ?p 46 = 0"
    using u16.rd_at [of "?h @ ?t @ ?f @ ?c" 44] u16.rd_at [of "?h @ ?t @ ?f @ ?c @ ?m" 46 0 "[]"]
    by (simp_all add: len_simps)
  ultimately show ?thesis
    by (simp add: parse_chassis_state_def state_bytes_def rt_codec header_reads bridge_consts
        RTT_BRIDGE_HEADER_SIZE_def RTT_BRIDGE_STATE_PAYLOAD_SIZE_def Let_def)
qed

lemma length_state_bytes [len_simps]: "length (state_bytes clock st now) = 48"
  by (simp add: state_bytes_def len_simps)

section \<open>What the bridge says\<close>

definition bridge_stacks :: "BridgeInput \<Rightarrow> bool" where
  "bridge_stacks inp \<longleftrightarrow> length (bi_stack_heartbeat inp) = 20 \<and> length (bi_stack_command inp) = 30"

lemma bridge_drain_frame [frame_simps]:
  "bt_udp (fst (bridge_drain es b)) = bt_udp b"
  "bt_tx_sequence (fst (bridge_drain es b)) = bt_tx_sequence b"
  by (rule bridge_loop.loop_frame; simp add: bridge_body_def Let_def split: udp_event.split)+

definition bridge_packets :: "BridgeThread \<Rightarrow> u8 list list" where
  "bridge_packets b = map (\<lambda>(peer, packet, sent). packet) (bt_udp b)"

lemma bridge_turn_packets:
  assumes "bridge_stacks inp"
  shows "bridge_packets (bridge_turn ukern inp b) = bridge_packets b @
      [header_bytes (ucast (bi_tick_heartbeat inp)) 3 (bt_tx_sequence b + 1) 0 0,
       zero_command_bytes (bi_tick_command inp) (bt_tx_sequence b + 2)]"
    "bt_tx_sequence (bridge_turn ukern inp b) = bt_tx_sequence b + 2"
proof -
  have "length (bi_stack_heartbeat inp) = 20" "length (bi_stack_command inp) = 30"
    using assms by (simp_all add: bridge_stacks_def)
  then show "bridge_packets (bridge_turn ukern inp b) = bridge_packets b @
      [header_bytes (ucast (bi_tick_heartbeat inp)) 3 (bt_tx_sequence b + 1) 0 0,
       zero_command_bytes (bi_tick_command inp) (bt_tx_sequence b + 2)]"
    "bt_tx_sequence (bridge_turn ukern inp b) = bt_tx_sequence b + 2"
    by (simp_all add: bridge_turn_def send_heartbeat_packet send_zero_packet send_packet_def
        frame_simps bridge_packets_def Let_def add.commute [of 2])
qed

lemma bridge_run_snoc: "bridge_run ukern (xs @ [x]) = bridge_turn ukern x (bridge_run ukern xs)"
  by (simp add: bridge_run_def)

definition is_bridge_packet :: "u8 list \<Rightarrow> bool" where
  "is_bridge_packet d \<longleftrightarrow> (\<exists>tick seq. d = header_bytes (ucast (tick :: u64)) 3 seq 0 0) \<or>
     (\<exists>tick seq. d = zero_command_bytes tick seq)"

lemma bridge_run_packets:
  "\<forall>i\<in>set inputs. bridge_stacks i \<Longrightarrow> \<forall>d\<in>set (bridge_packets (bridge_run ukern inputs)). is_bridge_packet d"
proof (induction inputs rule: rev_induct)
  case Nil
  show ?case by (simp add: bridge_run_def bridge_start_def bridge_packets_def)
next
  case (snoc x xs)
  then show ?case
    by (auto simp: bridge_run_snoc bridge_turn_packets is_bridge_packet_def)
qed

lemma heartbeat_reads:
  "well_formed (header_bytes clock 3 seq 0 0)" "read_u16 (header_bytes clock 3 seq 0 0) 6 = 3"
  using header_reads [of clock 3 seq 0 0 "[]"]
  by (simp_all add: well_formed_def len_simps) (simp_all add: bridge_consts)

lemma zero_command_reads:
  "well_formed (zero_command_bytes tick seq)" "read_u16 (zero_command_bytes tick seq) 6 = 5"
  "read_u16 (zero_command_bytes tick seq) 16 = 10" "read_u16 (zero_command_bytes tick seq) 28 = 100"
  "k \<in> {20, 22, 24, 26} \<Longrightarrow> read_i16 (zero_command_bytes tick seq) k = 0"
  by (auto simp: zero_command_bytes_def well_formed_def header_bytes_def byte_simps len_simps bridge_consts)

lemma clamp_zero: "0 \<le> m \<Longrightarrow> clamp_current 0 m = 0"
  by (simp add: clamp_current_def)

lemma bridge_packet_keeps_zero:
  assumes "is_bridge_packet d" "0 \<le> maxc" "px_current_command state = replicate 5 0"
  shows "px_current_command (take_datagram allow maxc now d peer state) = replicate 5 0"
proof -
  have len: "length (px_current_command state) = 5" using assms(3) by simp
  from assms(1) consider clock seq where "d = header_bytes clock 3 seq 0 0"
    | tick seq where "d = zero_command_bytes tick seq"
    by (auto simp: is_bridge_packet_def)
  then show ?thesis
  proof cases
    case 1
    then show ?thesis
      using assms(3) by (simp add: take_datagram_wf heartbeat_reads remember_peer_def Let_def)
  next
    case (2 tick seq)
    show ?thesis
    proof (cases "allow = 0")
      case True
      then show ?thesis
        using assms(3) 2 by (simp add: take_datagram_wf zero_command_reads Let_def
            take_current_command_def remember_peer_def)
    next
      case False
      from take_datagram_command [OF zero_command_reads(1-3) len this]
      show ?thesis
        using assms(2,3) 2 by (simp add: zero_command_reads clamp_zero) (simp add: numeral_eq_Suc)
    qed
  qed
qed

lemma receive_udp_keeps_zero:
  assumes "\<forall>d p. UdpData d p \<in> set es \<longrightarrow> is_bridge_packet d" "0 \<le> maxc"
    "px_current_command state = replicate 5 0"
  shows "px_current_command (fst (receive_udp es state allow maxc now)) = replicate 5 0"
  by (rule udp_drain.loop_invariant [where P = "\<lambda>s. px_current_command s = replicate 5 0"])
    (use assms bridge_packet_keeps_zero in \<open>auto simp: udp_body_def split: udp_event.split\<close>)

section \<open>Properties\<close>

text \<open>C10. The state packet of the proxy, whatever its uninitialised
  buffer held, is 48 bytes that the parser of the bridge accepts and reads back as the targets,
  the measured speeds and the current commands of motors 1 to 4, the online mask and a zero
  fault mask; the proxy numbers it with the next sequence number.\<close>

theorem bridge_reads_proxy_state:
  assumes "px_peer_known state \<noteq> 0" "length stack = 48"
    "length (rs_target_rpm rs) = 4" "length (rs_feedback_rpm rs) = 4" "length (rs_current_command rs) = 4"
  shows "\<exists>packet sent.
    snd (snd (send_chassis_state ukern clock stack port state now)) = port @ [(px_peer state, packet, sent)] \<and>
    length packet = 48 \<and> read_u32 packet 8 = px_tx_sequence state + 1 \<and>
    parse_chassis_state packet (length packet) rs =
      (1, \<lparr>rs_target_rpm = map (\<lambda>i. px_target_rpm state ! i) [1, 2, 3, 4],
           rs_feedback_rpm = map (\<lambda>i. fb_speed_rpm (px_feedback state ! i)) [1, 2, 3, 4],
           rs_current_command = map (\<lambda>i. px_current_command state ! i) [1, 2, 3, 4],
           rs_online_mask = online_mask state now, rs_fault_mask = 0\<rparr>)"
proof -
  let ?s = "state\<lparr>px_tx_sequence := px_tx_sequence state + 1\<rparr>"
  have "read_u32 (state_bytes clock ?s now) 8 = px_tx_sequence state + 1"
    by (simp add: state_bytes_def header_reads)
  then show ?thesis
    using send_chassis_state_bytes [OF assms(1,2), of ukern clock port now]
      parse_state_bytes [OF assms(3-5), of clock ?s now]
    by (simp add: len_simps motors_list)
qed

definition demo_seen :: ProxyState where
  "demo_seen = proxy_state_zero\<lparr>px_peer_known := 1,
     px_feedback := (replicate 5 fb_zero)[1 := fb_zero\<lparr>fb_speed_rpm := 7\<rparr>]\<rparr>"

lemma bridge_reads_proxy_state_witness:
  "\<exists>packet sent. snd (snd (send_chassis_state (\<lambda>_ _ _. 48) 0 (replicate 48 0xCC) [] demo_seen 1000)) =
       [(px_peer demo_seen, packet, sent)] \<and>
     rs_feedback_rpm (snd (parse_chassis_state packet 48 (bt_last_state bridge_start))) = [7, 0, 0, 0]"
proof -
  have "px_peer_known demo_seen \<noteq> 0" "map (\<lambda>i. fb_speed_rpm (px_feedback demo_seen ! i)) [1, 2, 3, 4] = [7, 0, 0, 0]"
    by (simp_all add: demo_seen_def fb_zero_def)
  moreover have "length (rs_target_rpm (bt_last_state bridge_start)) = 4"
    "length (rs_feedback_rpm (bt_last_state bridge_start)) = 4"
    "length (rs_current_command (bt_last_state bridge_start)) = 4" by (simp_all add: bridge_start_def)
  ultimately show ?thesis
    using bridge_reads_proxy_state [of demo_seen "replicate 48 0xCC" "bt_last_state bridge_start"
        "\<lambda>_ _ _. 48" 0 "[]" 1000]
    by (metis RttChassisState.select_convs(2) append_Nil length_replicate snd_conv)
qed

text \<open>C12. As shipped, the RT-Thread thread cannot move the robot: when
  every datagram the proxy receives is one the thread sent, in any order and with any losses
  and repetitions, each frame on the bus carries four zero currents, even with currents allowed.
  The proxy must have been started with a current limit that is not negative, as the default is:
  under a negative one its clamp turns the zeros into currents (\<open>unchecked_limit_drives_motors\<close>).\<close>

theorem bridge_commands_only_zero:
  assumes "\<forall>i\<in>set binputs. length (bi_stack_heartbeat i) = 20 \<and> length (bi_stack_command i) = 30"
    "\<forall>inp\<in>set inputs. \<forall>d p. UdpData d p \<in> set (in_udp inp) \<longrightarrow>
       d \<in> set (bridge_packets (bridge_run bkern binputs))"
    "0 \<le> pa_max_current args"
  shows "\<forall>f\<in>set (tried_frames (pm_can (proxy_run kern ukern args inputs))).
    frame_currents f = [0, 0, 0, 0]"
proof -
  have pk: "is_bridge_packet d" if "inp \<in> set inputs" "UdpData d p \<in> set (in_udp inp)" for inp d p
    using that assms(2) bridge_run_packets [of binputs bkern] assms(1)
    by (auto simp: bridge_stacks_def)
  have "px_current_command (pm_state (proxy_run kern ukern args inputs)) = replicate 5 0 \<and>
      (\<forall>f\<in>set (tried_frames (pm_can (proxy_run kern ukern args inputs))). f = command_frame (replicate 5 0))"
    unfolding proxy_run_def
  proof (rule fold_invariant)
    show "px_current_command (pm_state proxy_start) = replicate 5 0 \<and>
        (\<forall>f\<in>set (tried_frames (pm_can proxy_start)). f = command_frame (replicate 5 0))"
      by (simp add: proxy_start_def proxy_state_zero_def)
  next
    fix inp and m :: ProxyMain
    assume "inp \<in> set inputs" and m: "px_current_command (pm_state m) = replicate 5 0 \<and>
        (\<forall>f\<in>set (tried_frames (pm_can m)). f = command_frame (replicate 5 0))"
    then have "px_current_command (after_drains args inp m) = replicate 5 0"
      unfolding after_drains_def
      by (intro receive_udp_keeps_zero) (use assms(3) pk in \<open>auto simp: frame_simps\<close>)
    with m show "px_current_command (pm_state (proxy_turn kern ukern args inp m)) = replicate 5 0 \<and>
        (\<forall>f\<in>set (tried_frames (pm_can (proxy_turn kern ukern args inp m))). f = command_frame (replicate 5 0))"
      by (simp add: turn_motor_parts)
  qed
  then show ?thesis by (auto simp: frame_currents_command)
qed

definition demo_bridge_input :: BridgeInput where
  "demo_bridge_input = \<lparr>bi_tick_heartbeat = 5000, bi_tick_command = 5000, bi_tick_print = 5001,
     bi_tick_printed = 5002, bi_stack_heartbeat = replicate 20 0xAA,
     bi_stack_command = replicate 30 0xAA, bi_udp = [UdpError 11]\<rparr>"

lemma bridge_commands_only_zero_witness:
  "list_all (\<lambda>f. frame_currents f = [0, 0, 0, 0])
     (tried_frames (pm_can (proxy_run (\<lambda>_ _. 16) (\<lambda>_ _ _. 48)
      \<lparr>pa_allow_current = 1, pa_max_current = 2000\<rparr>
      [demo_turn_input 1000 (bridge_packets (bridge_run (\<lambda>_ _ _. 30) [demo_bridge_input]) ! 1)])))"
proof -
  have st: "bridge_stacks demo_bridge_input"
    by (simp add: bridge_stacks_def demo_bridge_input_def)
  have "1 < length (bridge_packets (bridge_run (\<lambda>_ _ _. 30) [demo_bridge_input]))"
    by (simp add: bridge_run_def bridge_turn_packets [OF st] del: One_nat_def)
  then have "\<forall>d p. UdpData d p \<in> set (in_udp (demo_turn_input 1000
      (bridge_packets (bridge_run (\<lambda>_ _ _. 30) [demo_bridge_input]) ! 1))) \<longrightarrow>
      d \<in> set (bridge_packets (bridge_run (\<lambda>_ _ _. 30) [demo_bridge_input]))"
    by (simp add: demo_turn_input_def)
  then show ?thesis
    using st bridge_commands_only_zero [where args = "\<lparr>pa_allow_current = 1, pa_max_current = 2000\<rparr>" and
        binputs = "[demo_bridge_input]" and bkern = "\<lambda>_ _ _. 30" and
        inputs = "[demo_turn_input 1000 (bridge_packets (bridge_run (\<lambda>_ _ _. 30) [demo_bridge_input]) ! 1)]"]
    by (simp add: bridge_stacks_def list_all_iff)
qed

text \<open>The thread sends a heartbeat and a current command each turn
  and numbers the datagrams 1, 2, 3 and so on without a gap (modulo \<open>2 ^ 32\<close>), heartbeats at
  the odd and commands at the even numbers; each is a datagram the proxy accepts.\<close>

theorem bridge_sequence_numbers:
  assumes "\<forall>i\<in>set binputs. length (bi_stack_heartbeat i) = 20 \<and> length (bi_stack_command i) = 30"
    "k < length (bridge_packets (bridge_run ukern binputs))"
  shows "length (bridge_packets (bridge_run ukern binputs)) = 2 * length binputs \<and>
    well_formed (bridge_packets (bridge_run ukern binputs) ! k) \<and>
    read_u32 (bridge_packets (bridge_run ukern binputs) ! k) 8 = of_nat (k + 1) \<and>
    read_u16 (bridge_packets (bridge_run ukern binputs) ! k) 6 =
      (if even k then RTT_BRIDGE_MSG_HEARTBEAT else RTT_BRIDGE_MSG_CURRENT_COMMAND)"
proof -
  let ?p = "\<lambda>xs. bridge_packets (bridge_run ukern xs)"
  let ?good = "\<lambda>k d. well_formed d \<and> read_u32 d 8 = of_nat (k + 1) \<and>
    read_u16 d 6 = (if even k then RTT_BRIDGE_MSG_HEARTBEAT else RTT_BRIDGE_MSG_CURRENT_COMMAND)"
  have "length (?p binputs) = 2 * length binputs \<and>
      bt_tx_sequence (bridge_run ukern binputs) = of_nat (2 * length binputs) \<and>
      (\<forall>k<length (?p binputs). ?good k (?p binputs ! k))"
    using assms(1)
  proof (induction binputs rule: rev_induct)
    case Nil
    show ?case by (simp add: bridge_run_def bridge_start_def bridge_packets_def)
  next
    case (snoc x xs)
    let ?n = "2 * length xs"
    let ?h = "header_bytes (ucast (bi_tick_heartbeat x)) 3 (of_nat ?n + 1) 0 0"
    let ?c = "zero_command_bytes (bi_tick_command x) (of_nat ?n + 2)"
    have IH: "length (?p xs) = ?n" "bt_tx_sequence (bridge_run ukern xs) = of_nat ?n"
      "\<forall>k<?n. ?good k (?p xs ! k)" using snoc by auto
    have st: "bridge_stacks x" using snoc.prems by (simp add: bridge_stacks_def)
    have app: "?p (xs @ [x]) = ?p xs @ [?h, ?c]"
      "bt_tx_sequence (bridge_run ukern (xs @ [x])) = of_nat (2 * length (xs @ [x]))"
      using IH(2) by (simp_all add: bridge_run_snoc bridge_turn_packets [OF st])
    have h: "?good ?n ?h"
      using header_reads [of "ucast (bi_tick_heartbeat x)" 3 "of_nat ?n + 1" 0 0 "[]"]
      by (simp add: heartbeat_reads RTT_BRIDGE_MSG_HEARTBEAT_def add.commute)
    have c: "?good (?n + 1) ?c"
      using zero_command_reads(1,2) [of "bi_tick_command x" "of_nat ?n + 2"]
      by (simp add: RTT_BRIDGE_MSG_CURRENT_COMMAND_def)
        (simp add: zero_command_bytes_def header_reads)
    have "?good k (?p (xs @ [x]) ! k)" if "k < ?n + 2" for k
    proof -
      have "k < ?n \<or> k = ?n \<or> k = ?n + 1" using that by linarith
      then consider "k < ?n" | "k = ?n" | "k = ?n + 1" by blast
      then show ?thesis
        by cases (use IH(1,3) h c in \<open>simp_all add: app(1) nth_append\<close>)
    qed
    then show ?case using app IH(1) by simp
  qed
  then show ?thesis using assms(2) by blast
qed

lemma bridge_sequence_numbers_witness:
  "read_u32 (bridge_packets (bridge_run (\<lambda>_ _ _. 30) [demo_bridge_input, demo_bridge_input]) ! 3) 8 = 4"
proof -
  have st: "bridge_stacks demo_bridge_input"
    by (simp add: bridge_stacks_def demo_bridge_input_def)
  have "3 < length (bridge_packets (bridge_run (\<lambda>_ _ _. 30) [demo_bridge_input, demo_bridge_input]))"
    by (simp add: bridge_run_def bridge_turn_packets [OF st])
  then show ?thesis
    using st bridge_sequence_numbers [where k = 3 and ukern = "\<lambda>_ _ _. 30" and
        binputs = "[demo_bridge_input, demo_bridge_input]"]
    by (simp add: bridge_stacks_def)
qed

end
