(* ===== verification/BridgeMessages.thy ===== *)
theory BridgeMessages
  imports BridgeProps
begin

text \<open>
  \<open>include/rtt_bridge_protocol.h\<close>: the messages of the protocol as the header file declares
  them, their bytes on the wire (network byte order, field by field), and the abstract proxy:
  what \<open>can_proxy\<close> does with messages, apart from how they are encoded.
\<close>

section \<open>Messages\<close>

definition RTT_BRIDGE_DEFAULT_PORT :: u16 where "RTT_BRIDGE_DEFAULT_PORT = 21001"
definition RTT_BRIDGE_FLAG_ESTOP :: u16 where "RTT_BRIDGE_FLAG_ESTOP = 1"

record RttBridgeVelocityCommand =
  rv_forward_permille :: i16
  rv_strafe_permille :: i16
  rv_rotate_permille :: i16
  rv_timeout_ms :: u16

record RttBridgeChassisState =
  rb_target_rpm :: "i16 list"
  rb_feedback_rpm :: "i16 list"
  rb_current_command :: "i16 list"
  rb_online_mask :: u16
  rb_fault_mask :: u16

record RttBridgeCurrentCommand =
  rc_current_command :: "i16 list"
  rc_timeout_ms :: u16

datatype BridgeMessage =
  MsgVelocity RttBridgeVelocityCommand
| MsgState RttBridgeChassisState
| MsgHeartbeat
| MsgEstop
| MsgCurrent RttBridgeCurrentCommand

text \<open>The arrays of the structures have four elements.\<close>

fun message_ok :: "BridgeMessage \<Rightarrow> bool" where
  "message_ok (MsgState s) \<longleftrightarrow> length (rb_target_rpm s) = 4 \<and> length (rb_feedback_rpm s) = 4 \<and>
     length (rb_current_command s) = 4"
| "message_ok (MsgCurrent c) \<longleftrightarrow> length (rc_current_command c) = 4"
| "message_ok _ \<longleftrightarrow> True"

fun message_type :: "BridgeMessage \<Rightarrow> u16" where
  "message_type (MsgVelocity v) = RTT_BRIDGE_MSG_VELOCITY_COMMAND"
| "message_type (MsgState s) = RTT_BRIDGE_MSG_CHASSIS_STATE"
| "message_type MsgHeartbeat = RTT_BRIDGE_MSG_HEARTBEAT"
| "message_type MsgEstop = RTT_BRIDGE_MSG_ESTOP"
| "message_type (MsgCurrent c) = RTT_BRIDGE_MSG_CURRENT_COMMAND"

fun message_payload :: "BridgeMessage \<Rightarrow> u8 list" where
  "message_payload (MsgVelocity v) =
     be16 (rv_forward_permille v) @ be16 (rv_strafe_permille v) @ be16 (rv_rotate_permille v) @
     be16 (rv_timeout_ms v)"
| "message_payload (MsgState s) =
     concat (map be16 (rb_target_rpm s)) @ concat (map be16 (rb_feedback_rpm s)) @
     concat (map be16 (rb_current_command s)) @ be16 (rb_online_mask s) @ be16 (rb_fault_mask s)"
| "message_payload MsgHeartbeat = []"
| "message_payload MsgEstop = []"
| "message_payload (MsgCurrent c) = concat (map be16 (rc_current_command c)) @ be16 (rc_timeout_ms c)"

definition encode_message :: "u32 \<Rightarrow> u32 \<Rightarrow> u16 \<Rightarrow> BridgeMessage \<Rightarrow> u8 list" where
  "encode_message clock sequence flags m =
     header_bytes clock (message_type m) sequence (of_nat (length (message_payload m))) flags @
     message_payload m"

lemma length_be16s: "length (concat (map be16 vs)) = 2 * length vs"
  by (induction vs) (simp_all add: len_simps)

lemma payload_length: "message_ok m \<Longrightarrow> length (message_payload m) \<in> {0, 8, 10, 28}"
  by (cases m) (simp_all add: length_be16s len_simps)

lemma encode_reads:
  assumes "message_ok m"
  shows "well_formed (encode_message clock sequence flags m)"
    "read_u16 (encode_message clock sequence flags m) 6 = message_type m"
    "read_u16 (encode_message clock sequence flags m) 16 = of_nat (length (message_payload m))"
proof -
  let ?n = "length (message_payload m)"
  show t: "read_u16 (encode_message clock sequence flags m) 6 = message_type m"
    "read_u16 (encode_message clock sequence flags m) 16 = of_nat ?n"
    by (simp_all add: encode_message_def header_reads)
  have n: "?n \<in> {0, 8, 10, 28}" using assms by (rule payload_length)
  then have "unat (of_nat ?n :: u16) = ?n" by auto
  then show "well_formed (encode_message clock sequence flags m)"
    using n t(2)
    by (auto simp: well_formed_def encode_message_def header_reads bridge_consts len_simps)
qed

section \<open>The abstract proxy\<close>

text \<open>What counts of the proxy's state towards RT-Thread: numbers instead of words, motors 1 to 4.\<close>

record ProxyView =
  pv_currents :: "int list"
  pv_timeout :: int
  pv_command_ms :: u64
  pv_heartbeats :: u64
  pv_commands :: u64
  pv_invalid :: u64
  pv_peer :: "sockaddr_in option"
  pv_last_rt :: u64

definition proxy_view :: "ProxyState \<Rightarrow> ProxyView" where
  "proxy_view s =
     \<lparr>pv_currents = map (\<lambda>i. sint (px_current_command s ! i)) motors,
      pv_timeout = uint (px_current_timeout_ms s), pv_command_ms = px_last_current_command_ms s,
      pv_heartbeats = px_rx_heartbeat s, pv_commands = px_rx_current_command s,
      pv_invalid = px_invalid_packets s,
      pv_peer = (if px_peer_known s = 0 then None else Some (px_peer s)), pv_last_rt = px_last_rt_ms s\<rparr>"

text \<open>What the proxy promises to do with a message; the flags have no say in it.\<close>

definition handle_message ::
  "bool \<Rightarrow> int \<Rightarrow> u64 \<Rightarrow> sockaddr_in \<Rightarrow> BridgeMessage \<Rightarrow> ProxyView \<Rightarrow> ProxyView" where
  "handle_message allowed limit now peer m v =
     (let v = v\<lparr>pv_peer := Some peer, pv_last_rt := now\<rparr>
      in case m of
           MsgHeartbeat \<Rightarrow> v\<lparr>pv_heartbeats := pv_heartbeats v + 1\<rparr>
         | MsgEstop \<Rightarrow> v\<lparr>pv_currents := [0, 0, 0, 0]\<rparr>
         | MsgCurrent c \<Rightarrow>
             if allowed
             then v\<lparr>pv_commands := pv_commands v + 1,
                    pv_currents := map (\<lambda>x. max (- limit) (min limit (sint x))) (rc_current_command c),
                    pv_timeout := (if rc_timeout_ms c = 0 then 100 else uint (rc_timeout_ms c)),
                    pv_command_ms := now\<rparr>
             else v\<lparr>pv_commands := pv_commands v + 1, pv_currents := [0, 0, 0, 0]\<rparr>
         | _ \<Rightarrow> v)"

lemma four_currents:
  assumes "length vs = 4" obtains a b c d where "vs = [a, b, c, d]"
  using assms by (auto simp: numeral_eq_Suc length_Suc_conv)

lemma current_reads:
  fixes clock sequence flags
  assumes "rc_current_command c = [v1, v2, v3, v4]"
  defines "d \<equiv> encode_message clock sequence flags (MsgCurrent c)"
  shows "read_i16 d 20 = v1" "read_i16 d 22 = v2" "read_i16 d 24 = v3" "read_i16 d 26 = v4"
    "read_u16 d 28 = rc_timeout_ms c"
  using assms(1) unfolding d_def encode_message_def header_bytes_def by (simp_all add: byte_simps)

lemma take_message:
  assumes "message_ok m" "0 \<le> limit" "limit \<le> 32767" "length (px_current_command s) = 5"
  shows "proxy_view (take_datagram (if allowed then 1 else 0) limit now
      (encode_message clock sequence flags m) peer s) =
    handle_message allowed limit now peer m (proxy_view s)"
proof (cases m)
  case (MsgCurrent c)
  obtain v1 v2 v3 v4 where v: "rc_current_command c = [v1, v2, v3, v4]"
    by (rule four_currents [of "rc_current_command c"]) (use assms(1) MsgCurrent in simp)
  have pay: "length (message_payload m) = 10" by (simp add: MsgCurrent v len_simps)
  note r = encode_reads [OF assms(1), of clock sequence flags]
  have t: "read_u16 (encode_message clock sequence flags m) 6 = 5"
    using r(2) by (simp add: MsgCurrent RTT_BRIDGE_MSG_CURRENT_COMMAND_def)
  have n: "read_u16 (encode_message clock sequence flags m) 16 = 10"
    using r(3) pay by simp
  show ?thesis
  proof (cases allowed)
    case True
    have "sint (clamp_current (sint (v :: i16)) limit) = max (- limit) (min limit (sint v))" for v
      using clamp_current_spec [OF assms(2,3), of "sint v"] sint_greater_eq [of v] sint_lt [of v] by simp
    then show ?thesis
      using take_datagram_command [OF r(1) t n assms(4), of 1] True
      by (simp add: handle_message_def MsgCurrent v proxy_view_def motors_list Let_def
          current_reads [OF v] remember_peer_def)
  next
    case False
    have "hd_payload_length (snd (parse_header (take UDP_BUFFER_SIZE (encode_message clock sequence flags m))
        (length (take UDP_BUFFER_SIZE (encode_message clock sequence flags m))) header_local)) = CURRENT_PAYLOAD_SIZE"
      using parse_datagram(2) [OF r(1)] n by (simp add: CURRENT_PAYLOAD_SIZE_def)
    then show ?thesis
      using False take_datagram_wf [OF r(1), of 0 limit now peer s] t
      by (simp add: handle_message_def MsgCurrent proxy_view_def motors_list Let_def
          remember_peer_def take_current_command_def)
  qed
qed (use take_datagram_wf [OF encode_reads(1) [OF assms(1)]] encode_reads(2) [OF assms(1)] in
    \<open>simp_all add: handle_message_def proxy_view_def remember_peer_def motors_list bridge_consts Let_def\<close>)

lemma take_message_length:
  assumes "length (px_current_command s) = 5"
  shows "length (px_current_command (take_datagram allow maxc now d peer s)) = 5"
proof (cases "well_formed d")
  case True
  have len: "length (px_current_command (remember_peer s peer now)) = 5" using assms by (simp add: remember_peer_def)
  have "length (px_current_command (take_current_command allow maxc now p h (remember_peer s peer now))) = 5" for p h
    using len
    by (cases rule: take_current_command_cases [where header = h and allow = allow and maxc = maxc and
          now = now and packet = p]) (use len in \<open>simp_all add: take_current_command_eq [OF len]\<close>)
  then show ?thesis using assms by (simp add: take_datagram_wf [OF True] Let_def remember_peer_def)
qed (use assms in \<open>simp add: take_datagram_malformed\<close>)

section \<open>Properties\<close>

text \<open>C11. The receive loop of the proxy, with its byte offsets, length
  checks and word-sized counters, implements the abstract message handler: a queue of encoded
  messages, from any peers and with any sequence numbers, leaves the state in which the handler
  leaves its view, currents cut to the limit included. The flags of the header, the
  \<open>RTT_BRIDGE_FLAG_ESTOP\<close> of the protocol file among them, are never looked at.\<close>

theorem proxy_implements_protocol:
  assumes "0 \<le> limit" "limit \<le> 32767" "length (px_current_command s) = 5"
    "list_all (\<lambda>(clock, sequence, flags, m, peer). message_ok m) queue"
  shows "proxy_view (fst (receive_udp
      (map (\<lambda>(clock, sequence, flags, m, peer). UdpData (encode_message clock sequence flags m) peer) queue)
      s (if allowed then 1 else 0) limit now)) =
    fold (\<lambda>(clock, sequence, flags, m, peer). handle_message allowed limit now peer m) queue (proxy_view s)"
  using assms(3,4)
proof (induction queue arbitrary: s)
  case (Cons q queue)
  obtain clock sequence flags m peer where q: "q = (clock, sequence, flags, m, peer)" by (cases q)
  then have ok: "message_ok m" using Cons.prems by simp
  let ?s = "take_datagram (if allowed then 1 else 0) limit now (encode_message clock sequence flags m) peer s"
  have "length (px_current_command ?s) = 5" by (rule take_message_length [OF Cons.prems(1)])
  from Cons.IH [OF this] Cons.prems(2) take_message [OF ok assms(1,2) Cons.prems(1)] show ?case
    by (simp add: q)
qed simp

lemma proxy_implements_protocol_witness:
  "pv_currents (proxy_view (fst (receive_udp
     (map (\<lambda>(clock, sequence, flags, m, peer). UdpData (encode_message clock sequence flags m) peer)
       [(0, 1, RTT_BRIDGE_FLAG_ESTOP, MsgCurrent \<lparr>rc_current_command = [300, - 300, 5000, 0], rc_timeout_ms = 50\<rparr>,
         \<lparr>sin_addr = 1, sin_port = 2\<rparr>)])
     proxy_state_zero 1 2000 1000))) = [300, - 300, 2000, 0]"
  using proxy_implements_protocol [where allowed = True and limit = 2000 and now = 1000 and s = proxy_state_zero and
      queue = "[(0, 1, RTT_BRIDGE_FLAG_ESTOP, MsgCurrent \<lparr>rc_current_command = [300, - 300, 5000, 0],
        rc_timeout_ms = 50\<rparr>, \<lparr>sin_addr = 1, sin_port = 2\<rparr>)]"]
  by (simp add: handle_message_def proxy_state_zero_def)

end
