(* ===== verification/RttUdpEcho.thy ===== *)
theory RttUdpEcho
  imports RttBridge
begin

text \<open>
  \<open>rtthread_port/rtt_udp_echo.c\<close> and \<open>rtthread_port/main_with_chassis_bridge.c\<close>: the link test
  on the RT-Thread side (an echo thread, a beacon thread, and the thread that starts both
  after power-up) and the entry point that starts the bridge.

  The functions are modelled one by one, each as if nothing else ran. What can happen when
  two of them run at once is the step relation \<open>echo_step\<close>: its steps are the single reads and
  writes of the static \<open>echo_thread\<close>.
\<close>

section \<open>The echo thread\<close>

definition RTT_UDP_ECHO_BUFFER_SIZE :: nat where "RTT_UDP_ECHO_BUFFER_SIZE = 256"
definition RTT_UDP_BEACON_PORT :: u16 where "RTT_UDP_BEACON_PORT = 21002"

text \<open>The two static handles; 0 is \<open>RT_NULL\<close>.\<close>

record EchoStatics =
  echo_thread :: nat
  beacon_thread :: nat

text \<open>
  The loop of the thread. The socket blocks: a list of events that runs out leaves the thread
  waiting in \<open>recvfrom\<close> (the flag is \<open>False\<close>); otherwise it has left the loop.
\<close>

fun echo_loop :: "udp_kernel \<Rightarrow> udp_event list \<Rightarrow> udp_port \<Rightarrow> bool \<times> udp_port" where
  "echo_loop ukern [] port = (False, port)"
| "echo_loop ukern (UdpError e # es) port = (True, port)"
| "echo_loop ukern (UdpData d peer # es) port =
     (let buffer = take RTT_UDP_ECHO_BUFFER_SIZE d;
          received = int (length buffer);
          sent = ukern port peer buffer;
          port = port @ [(peer, buffer, sent)]
      in if sent \<noteq> received then (True, port) else echo_loop ukern es port)"

text \<open>
  The whole entry: \<open>sock\<close> and \<open>bind_ret\<close> are what \<open>socket\<close> and \<open>bind\<close> return. The result is
  whether the thread has returned, the statics, the sockets it closed and what it sent.
\<close>

definition rtt_udp_echo_entry ::
  "udp_kernel \<Rightarrow> int \<Rightarrow> int \<Rightarrow> udp_event list \<Rightarrow> EchoStatics \<Rightarrow> bool \<times> EchoStatics \<times> int list \<times> udp_port" where
  "rtt_udp_echo_entry ukern sock bind_ret es st =
     (if sock < 0 then (True, st\<lparr>echo_thread := 0\<rparr>, [], [])
      else if bind_ret < 0 then (True, st\<lparr>echo_thread := 0\<rparr>, [sock], [])
      else (case echo_loop ukern es [] of
              (left, port) \<Rightarrow>
                if left then (True, st\<lparr>echo_thread := 0\<rparr>, [sock], port) else (False, st, [], port)))"

text \<open>
  \<open>created\<close> is what \<open>rt_thread_create\<close> answers and \<open>rt_error\<close> the value of \<open>RT_ERROR\<close>. The
  result is the return value, the statics and the threads started.
\<close>

definition rtt_udp_echo_start :: "int \<Rightarrow> nat \<Rightarrow> EchoStatics \<Rightarrow> int \<times> EchoStatics \<times> nat list" where
  "rtt_udp_echo_start rt_error created st =
     (if echo_thread st \<noteq> 0 then (0, st, [])
      else let st = st\<lparr>echo_thread := created\<rparr>
           in if echo_thread st = 0 then (- rt_error, st, []) else (0, st, [echo_thread st]))"

section \<open>The beacon\<close>

definition beacon_message :: "u8 list" where
  "beacon_message = map of_char ''rtt_udp_echo_beacon''"

definition beacon_address :: sockaddr_in where
  "beacon_address = \<lparr>sin_addr = 0x0A0A0A1F, sin_port = RTT_UDP_BEACON_PORT\<rparr>"

text \<open>One round of the loop: the datagrams sent so far and the sockets that are open.\<close>

definition beacon_round :: "udp_kernel \<Rightarrow> int \<Rightarrow> udp_port \<times> int list \<Rightarrow> udp_port \<times> int list" where
  "beacon_round ukern sock s =
     (case s of (port, opened) \<Rightarrow>
        if sock < 0 then (port, opened)
        else
          let opened = sock # opened;
              sent = ukern port beacon_address beacon_message;
              port = port @ [(beacon_address, beacon_message, sent)]
          in (port, remove1 sock opened))"

definition rtt_udp_beacon_entry :: "udp_kernel \<Rightarrow> int list \<Rightarrow> udp_port \<times> int list" where
  "rtt_udp_beacon_entry ukern socks = fold (beacon_round ukern) socks ([], [])"

definition rtt_udp_beacon_start :: "int \<Rightarrow> nat \<Rightarrow> EchoStatics \<Rightarrow> int \<times> EchoStatics \<times> nat list" where
  "rtt_udp_beacon_start rt_error created st =
     (if beacon_thread st \<noteq> 0 then (0, st, [])
      else let st = st\<lparr>beacon_thread := created\<rparr>
           in if beacon_thread st = 0 then (- rt_error, st, []) else (0, st, [beacon_thread st]))"

section \<open>Starting after power-up\<close>

text \<open>
  The loop \<open>while (echo_thread == RT_NULL)\<close>: each round has the answer to \<open>rt_thread_create\<close> and
  whether the echo thread gave up (and cleared its handle) during the delay. A list that runs
  out is the moment of observation: the flag tells whether the loop has ended by then.
\<close>

fun autostart_loop :: "int \<Rightarrow> (nat \<times> bool) list \<Rightarrow> EchoStatics \<Rightarrow> bool \<times> EchoStatics \<times> nat list" where
  "autostart_loop rt_error [] st = (echo_thread st \<noteq> 0, st, [])"
| "autostart_loop rt_error ((created, gave_up) # rounds) st =
     (if echo_thread st \<noteq> 0 then (True, st, [])
      else
        let (ret, st, started) = rtt_udp_echo_start rt_error created st;
            st = (if gave_up then st\<lparr>echo_thread := 0\<rparr> else st);
            (done, st, others) = autostart_loop rt_error rounds st
        in (done, st, started @ others))"

definition rtt_udp_echo_autostart_entry ::
  "int \<Rightarrow> nat \<Rightarrow> (nat \<times> bool) list \<Rightarrow> EchoStatics \<Rightarrow> bool \<times> EchoStatics \<times> nat list" where
  "rtt_udp_echo_autostart_entry rt_error beacon rounds st =
     (let (ret, st, started) = rtt_udp_beacon_start rt_error beacon st;
          (done, st, others) = autostart_loop rt_error rounds st
      in (done, st, started @ others))"

definition rtt_udp_echo_autostart :: "int \<Rightarrow> nat \<Rightarrow> int \<times> nat list" where
  "rtt_udp_echo_autostart rt_error created =
     (let thread = created in if thread = 0 then (- rt_error, []) else (0, [thread]))"

text \<open>\<open>main\<close> of the RT-Thread image: the return value of the start is not looked at.\<close>

definition rtthread_main :: "int \<Rightarrow> nat \<Rightarrow> nat \<Rightarrow> int \<times> nat \<times> nat list" where
  "rtthread_main rt_error bridge_thread created =
     (let (ret, bridge_thread, started) = rtt_chassis_bridge_start rt_error bridge_thread created
      in (0, bridge_thread, started))"

text \<open>
  The board support package is not in the repository: its functions are parameters that act on
  a state of their own. \<open>chassis_car_app\<close> is the shell command that sets the board up.
\<close>

record 'b board =
  systemInit :: "'b \<Rightarrow> 'b"
  rk_soft_encoder_init :: "'b \<Rightarrow> 'b"
  chassis_pwm_init :: "'b \<Rightarrow> 'b"
  encoder_init :: "'b \<Rightarrow> 'b"
  set_chassis_target :: "int \<Rightarrow> int \<Rightarrow> int \<Rightarrow> 'b \<Rightarrow> 'b"

definition chassis_car_app :: "'b board \<Rightarrow> 'b \<Rightarrow> 'b" where
  "chassis_car_app bsp b =
     (let b = systemInit bsp b;
          b = rk_soft_encoder_init bsp b;
          b = chassis_pwm_init bsp b;
          b = encoder_init bsp b
      in set_chassis_target bsp 0 0 0 b)"

text \<open>However the board starts, its target is zero after the command, when that is what setting a
  target does.\<close>

lemma chassis_car_app_target:
  assumes "\<And>x y z b. target_of (set_chassis_target bsp x y z b) = (x, y, z)"
  shows "target_of (chassis_car_app bsp b) = (0, 0, 0)"
  by (simp add: chassis_car_app_def Let_def assms)

section \<open>Interleavings\<close>

text \<open>
  A caller of \<open>rtt_udp_echo_start\<close> (the shell, the autostart thread) is before the test of
  \<open>echo_thread\<close>, before the creation, before the assignment of what \<open>rt_thread_create\<close> returned (0
  is \<open>RT_NULL\<close>), before the second test, or before the start-up call.

  An echo thread is followed from the assignment of its handle to the write of \<open>RT_NULL\<close> on its
  way out: it is created, started, serving the port, or leaving (its socket, if any, is closed).
  What is created and not yet assigned is in the state of its caller; a thread that has written
  \<open>RT_NULL\<close> is in \<open>es_ending\<close> until it has returned, and its handle is not given out again before.
\<close>

datatype start_pc = AtCheck | AtCreate | AtAssign nat | AtTest | AtStartup
datatype echo_pc = NoThread | Created | Started | Serving | Leaving

record EchoSystem =
  es_handle :: nat
  es_start :: "nat \<Rightarrow> start_pc"
  es_thread :: "nat \<Rightarrow> echo_pc"
  es_ending :: "nat set"
  es_fault :: bool

definition echo_system_start :: EchoSystem where
  "echo_system_start = \<lparr>es_handle = 0, es_start = \<lambda>k. AtCheck, es_thread = \<lambda>h. NoThread,
     es_ending = {}, es_fault = False\<rparr>"

definition handle_free :: "EchoSystem \<Rightarrow> nat \<Rightarrow> bool" where
  "handle_free s h \<longleftrightarrow> h \<noteq> 0 \<and> es_thread s h = NoThread \<and> h \<notin> es_ending s \<and> (\<forall>k. es_start s k \<noteq> AtAssign h)"

text \<open>\<open>echo_thread = ...\<close> of the caller \<open>k\<close>.\<close>

definition assign_thread :: "nat \<Rightarrow> nat \<Rightarrow> EchoSystem \<Rightarrow> EchoSystem" where
  "assign_thread k h s = s\<lparr>es_handle := h,
     es_thread := (if h = 0 then es_thread s else (es_thread s)(h := Created)),
     es_start := (es_start s)(k := AtTest)\<rparr>"

text \<open>
  \<open>rt_thread_startup(echo_thread)\<close> reads the static again. RT-Thread asks for a thread that was
  created and not yet started; with anything else (\<open>RT_NULL\<close>, a running thread) the model only
  notes the fault and says nothing of what follows.
\<close>

definition startup_thread :: "nat \<Rightarrow> EchoSystem \<Rightarrow> EchoSystem" where
  "startup_thread k s =
     (if es_thread s (es_handle s) = Created
      then s\<lparr>es_thread := (es_thread s)(es_handle s := Started), es_start := (es_start s)(k := AtCheck)\<rparr>
      else s\<lparr>es_fault := True\<rparr>)"

text \<open>
  The steps, named after what happens: those of the caller \<open>k\<close>, then those of the thread \<open>h\<close>. A
  caller that finds the handle set returns at once, which changes nothing and is no step. With
  \<open>serial\<close>, a call begins only when no other is in progress: what the code relies on. A port is
  bound by one socket at a time; \<open>BindFails\<close> is \<open>socket\<close> or \<open>bind\<close> failing, for whatever reason.
\<close>

datatype echo_act =
  Check nat | Create nat nat | CreateFails nat | Assign nat | Test nat | Startup nat
  | Bind nat | BindFails nat | Leave nat | Clear nat | End nat

inductive echo_step :: "bool \<Rightarrow> EchoSystem \<Rightarrow> echo_act \<Rightarrow> EchoSystem \<Rightarrow> bool" for serial where
  check: "es_start s k = AtCheck \<Longrightarrow> es_handle s = 0 \<Longrightarrow> (serial \<Longrightarrow> es_start s = (\<lambda>j. AtCheck)) \<Longrightarrow>
    echo_step serial s (Check k) (s\<lparr>es_start := (es_start s)(k := AtCreate)\<rparr>)"
| create: "es_start s k = AtCreate \<Longrightarrow> handle_free s h \<Longrightarrow>
    echo_step serial s (Create k h) (s\<lparr>es_start := (es_start s)(k := AtAssign h)\<rparr>)"
| create_fails: "es_start s k = AtCreate \<Longrightarrow>
    echo_step serial s (CreateFails k) (s\<lparr>es_start := (es_start s)(k := AtAssign 0)\<rparr>)"
| assign: "es_start s k = AtAssign h \<Longrightarrow> echo_step serial s (Assign k) (assign_thread k h s)"
| test: "es_start s k = AtTest \<Longrightarrow>
    echo_step serial s (Test k) (s\<lparr>es_start := (es_start s)
      (k := if es_handle s = 0 then AtCheck else AtStartup)\<rparr>)"
| startup: "es_start s k = AtStartup \<Longrightarrow> echo_step serial s (Startup k) (startup_thread k s)"
| bind: "es_thread s h = Started \<Longrightarrow> (\<And>g. es_thread s g \<noteq> Serving) \<Longrightarrow>
    echo_step serial s (Bind h) (s\<lparr>es_thread := (es_thread s)(h := Serving)\<rparr>)"
| bind_fails: "es_thread s h = Started \<Longrightarrow>
    echo_step serial s (BindFails h) (s\<lparr>es_thread := (es_thread s)(h := Leaving)\<rparr>)"
| leave: "es_thread s h = Serving \<Longrightarrow>
    echo_step serial s (Leave h) (s\<lparr>es_thread := (es_thread s)(h := Leaving)\<rparr>)"
| clear: "es_thread s h = Leaving \<Longrightarrow>
    echo_step serial s (Clear h) (s\<lparr>es_handle := 0, es_thread := (es_thread s)(h := NoThread),
      es_ending := insert h (es_ending s)\<rparr>)"
| ends: "h \<in> es_ending s \<Longrightarrow> echo_step serial s (End h) (s\<lparr>es_ending := es_ending s - {h}\<rparr>)"

inductive_cases bind_stepE: "echo_step serial s (Bind h) t"

text \<open>A run with its steps; after a fault there are none.\<close>

inductive echo_run :: "bool \<Rightarrow> echo_act list \<Rightarrow> EchoSystem \<Rightarrow> bool" for serial where
  run_start: "echo_run serial [] echo_system_start"
| run_step: "echo_run serial acts s \<Longrightarrow> \<not> es_fault s \<Longrightarrow> echo_step serial s a t \<Longrightarrow> echo_run serial (acts @ [a]) t"

definition echo_reach :: "bool \<Rightarrow> EchoSystem \<Rightarrow> bool" where
  "echo_reach serial s \<longleftrightarrow> (\<exists>acts. echo_run serial acts s)"

lemma run_snoc_to:
  "echo_run serial acts s \<Longrightarrow> echo_step serial s a t' \<Longrightarrow> \<not> es_fault s \<Longrightarrow> t' = t \<Longrightarrow> acts' = acts @ [a] \<Longrightarrow>
   echo_run serial acts' t"
  using run_step by blast

text \<open>The invariant of serial calls: the handle names the one thread there is.\<close>

definition echo_inv :: "EchoSystem \<Rightarrow> bool" where
  "echo_inv s \<longleftrightarrow>
     (\<forall>h. es_thread s h \<noteq> NoThread \<longrightarrow> h = es_handle s) \<and> es_thread s 0 = NoThread \<and>
     (es_handle s \<noteq> 0 \<longrightarrow> es_thread s (es_handle s) \<noteq> NoThread) \<and>
     (\<forall>j k. es_start s j \<noteq> AtCheck \<longrightarrow> es_start s k \<noteq> AtCheck \<longrightarrow> j = k) \<and>
     (\<forall>k h. es_start s k = AtCreate \<or> es_start s k = AtAssign h \<longrightarrow> es_handle s = 0) \<and>
     (\<forall>k. es_start s k = AtTest \<longrightarrow> es_handle s \<noteq> 0 \<longrightarrow> es_thread s (es_handle s) = Created) \<and>
     (\<forall>k. es_start s k = AtStartup \<longrightarrow> es_thread s (es_handle s) = Created) \<and> \<not> es_fault s"

lemma echo_inv_start: "echo_inv echo_system_start"
  by (simp add: echo_inv_def echo_system_start_def)

lemma echo_invI [intro?]:
  assumes "\<And>h. es_thread s h \<noteq> NoThread \<Longrightarrow> h = es_handle s" "es_thread s 0 = NoThread"
    "es_handle s \<noteq> 0 \<Longrightarrow> es_thread s (es_handle s) \<noteq> NoThread"
    "\<And>j k. es_start s j \<noteq> AtCheck \<Longrightarrow> es_start s k \<noteq> AtCheck \<Longrightarrow> j = k"
    "\<And>k h. es_start s k = AtCreate \<or> es_start s k = AtAssign h \<Longrightarrow> es_handle s = 0"
    "\<And>k. es_start s k = AtTest \<Longrightarrow> es_handle s \<noteq> 0 \<Longrightarrow> es_thread s (es_handle s) = Created"
    "\<And>k. es_start s k = AtStartup \<Longrightarrow> es_thread s (es_handle s) = Created" "\<not> es_fault s"
  shows "echo_inv s"
  using assms unfolding echo_inv_def by blast

lemma echo_invD:
  assumes "echo_inv s"
  shows "es_thread s h \<noteq> NoThread \<Longrightarrow> h = es_handle s" "es_thread s 0 = NoThread"
    "es_handle s \<noteq> 0 \<Longrightarrow> es_thread s (es_handle s) \<noteq> NoThread"
    "es_start s j \<noteq> AtCheck \<Longrightarrow> es_start s k \<noteq> AtCheck \<Longrightarrow> j = k"
    "es_start s k = AtCreate \<or> es_start s k = AtAssign h \<Longrightarrow> es_handle s = 0"
    "es_start s k = AtTest \<Longrightarrow> es_handle s \<noteq> 0 \<Longrightarrow> es_thread s (es_handle s) = Created"
    "es_start s k = AtStartup \<Longrightarrow> es_thread s (es_handle s) = Created" "\<not> es_fault s"
  using assms unfolding echo_inv_def by blast+

text \<open>While a thread runs, nobody is inside \<open>rtt_udp_echo_start\<close>.\<close>

lemma echo_inv_running:
  assumes "echo_inv s" "es_thread s h \<notin> {NoThread, Created}"
  shows "h = es_handle s" "h \<noteq> 0" "es_start s k = AtCheck"
proof -
  note I = echo_invD [OF assms(1)]
  show h: "h = es_handle s" "h \<noteq> 0" using assms(2) I(1,2) by fastforce+
  then show "es_start s k = AtCheck"
    using assms(2) I(5) [of k] I(6,7) [of k] by (cases "es_start s k") auto
qed

lemma echo_inv_others: "echo_inv s \<Longrightarrow> g \<noteq> es_handle s \<Longrightarrow> es_thread s g = NoThread"
  using echo_invD(1) by blast

text \<open>With no handle there is no thread; with one caller inside, the others are outside.\<close>

lemma echo_inv_no_thread: "echo_inv s \<Longrightarrow> es_handle s = 0 \<Longrightarrow> es_thread s g = NoThread"
  using echo_inv_others echo_invD(2) by metis

lemma echo_inv_one_caller: "echo_inv s \<Longrightarrow> es_start s k \<noteq> AtCheck \<Longrightarrow> j \<noteq> k \<Longrightarrow> es_start s j = AtCheck"
  using echo_invD(4) by blast

lemma echo_inv_moves:
  assumes "echo_inv s" "es_thread s h \<notin> {NoThread, Created}" "v \<noteq> NoThread"
  shows "echo_inv (s\<lparr>es_thread := (es_thread s)(h := v)\<rparr>)"
proof -
  note r = echo_inv_running [OF assms(1,2)] echo_inv_others [OF assms(1)] echo_invD(2,8) [OF assms(1)]
  show ?thesis using r assms(3) by (intro echo_invI) (auto split: if_splits)
qed

lemma echo_inv_clears:
  assumes "echo_inv s" "es_thread s h \<notin> {NoThread, Created}"
  shows "echo_inv (s\<lparr>es_handle := 0, es_thread := (es_thread s)(h := NoThread), es_ending := E\<rparr>)"
proof -
  note r = echo_inv_running [OF assms] echo_inv_others [OF assms(1)] echo_invD(2,8) [OF assms(1)]
  show ?thesis using r by (intro echo_invI) (auto split: if_splits)
qed

text \<open>The invariant when \<open>k\<close> is the only caller inside.\<close>

lemma echo_inv_oneI:
  assumes "\<And>j. j \<noteq> k \<Longrightarrow> es_start s j = AtCheck" "\<And>h. h \<noteq> es_handle s \<Longrightarrow> es_thread s h = NoThread"
    "es_handle s = 0 \<longleftrightarrow> es_thread s (es_handle s) = NoThread" "\<not> es_fault s"
    "case es_start s k of AtCheck \<Rightarrow> True | AtCreate \<Rightarrow> es_handle s = 0 | AtAssign h \<Rightarrow> es_handle s = 0
      | AtTest \<Rightarrow> es_handle s \<noteq> 0 \<longrightarrow> es_thread s (es_handle s) = Created
      | AtStartup \<Rightarrow> es_thread s (es_handle s) = Created"
  shows "echo_inv s"
proof -
  have one: "j = k" if "es_start s j \<noteq> AtCheck" for j using assms(1) that by blast
  have threads: "es_thread s 0 = NoThread" using assms(2,3) by (cases "es_handle s = 0") auto
  show ?thesis
  proof (rule echo_invI)
    fix j h assume "es_start s j = AtCreate \<or> es_start s j = AtAssign h"
    then show "es_handle s = 0" using one [of j] assms(5) by auto
  next
    fix j assume "es_start s j = AtTest" "es_handle s \<noteq> 0"
    then show "es_thread s (es_handle s) = Created" using one [of j] assms(5) by simp
  next
    fix j assume "es_start s j = AtStartup"
    then show "es_thread s (es_handle s) = Created" using one [of j] assms(5) by simp
  next
    fix i j assume "es_start s i \<noteq> AtCheck" "es_start s j \<noteq> AtCheck"
    then show "i = j" using one by metis
  qed (use assms(2-4) threads in auto)
qed

text \<open>The steps of the one caller inside, each from what the invariant says at its place.\<close>

lemma echo_inv_caller:
  assumes "echo_inv s" "es_start s k \<noteq> AtCheck" "\<And>g. v = AtCreate \<or> v = AtAssign g \<Longrightarrow> es_handle s = 0"
    "v = AtTest \<Longrightarrow> es_handle s \<noteq> 0 \<Longrightarrow> es_thread s (es_handle s) = Created"
    "v = AtStartup \<Longrightarrow> es_thread s (es_handle s) = Created"
  shows "echo_inv (s\<lparr>es_start := (es_start s)(k := v)\<rparr>)"
proof (rule echo_inv_oneI [where k = k])
  fix j assume "j \<noteq> k"
  then show "es_start (s\<lparr>es_start := (es_start s)(k := v)\<rparr>) j = AtCheck"
    using echo_inv_one_caller [OF assms(1,2)] by simp
qed (use echo_inv_others [OF assms(1)] echo_invD(2,3,8) [OF assms(1)] assms(3-5) in
  \<open>auto split: start_pc.split\<close>)

lemma echo_inv_assign:
  assumes "echo_inv s" "es_start s k = AtAssign h"
  shows "echo_inv (assign_thread k h s)"
proof -
  have "es_handle s = 0" using echo_invD(5) [OF assms(1)] assms(2) by blast
  note none = echo_inv_no_thread [OF assms(1) this] echo_inv_one_caller [OF assms(1), of k]
  show ?thesis
    by (rule echo_inv_oneI [where k = k])
      (use none assms(2) echo_invD(8) [OF assms(1)] in \<open>auto simp: assign_thread_def\<close>)
qed

lemma echo_inv_startup:
  assumes "echo_inv s" "es_start s k = AtStartup"
  shows "echo_inv (startup_thread k s)"
proof -
  have c: "es_thread s (es_handle s) = Created" using echo_invD(7) [OF assms] .
  then have "es_handle s \<noteq> 0" using echo_invD(2) [OF assms(1)] by (metis echo_pc.distinct(1))
  then show ?thesis
    by (intro echo_inv_oneI [where k = k])
      (use c assms(2) echo_inv_one_caller [OF assms(1), of k] echo_inv_others [OF assms(1)] echo_invD(8) [OF assms(1)]
        in \<open>simp_all add: startup_thread_def\<close>)
qed

lemma echo_inv_step:
  assumes "echo_step True s a t" "echo_inv s" shows "echo_inv t"
  using assms(1)
proof (cases rule: echo_step.cases)
  case (check k)
  show ?thesis unfolding check
    by (rule echo_inv_oneI [where k = k])
      (use check echo_inv_no_thread [OF assms(2)] echo_invD(8) [OF assms(2)] in simp_all)
next
  case (create k h)
  then show ?thesis using echo_invD(5) [OF assms(2), of k] by (auto intro!: echo_inv_caller assms(2))
next
  case (create_fails k)
  then show ?thesis using echo_invD(5) [OF assms(2), of k] by (auto intro!: echo_inv_caller assms(2))
next
  case (test k)
  then show ?thesis using echo_invD(6) [OF assms(2), of k] by (auto intro!: echo_inv_caller assms(2))
next
  case (ends h)
  then show ?thesis using assms(2) by (simp add: echo_inv_def)
qed (use assms(2) in \<open>simp_all add: echo_inv_assign echo_inv_startup echo_inv_moves echo_inv_clears\<close>)

lemma echo_reach_inv: "echo_reach True s \<Longrightarrow> echo_inv s"
proof -
  have "echo_run True acts s \<Longrightarrow> echo_inv s" for acts s
    by (induction rule: echo_run.induct) (blast intro: echo_inv_start echo_inv_step)+
  then show "echo_reach True s \<Longrightarrow> echo_inv s" unfolding echo_reach_def by blast
qed

section \<open>Properties\<close>

text \<open>The answer to a datagram: what fits the buffer, back to its sender.\<close>

definition echo_reply :: "u8 list \<times> sockaddr_in \<Rightarrow> sockaddr_in \<times> u8 list" where
  "echo_reply dp = (snd dp, take 256 (fst dp))"

text \<open>The datagrams received before \<open>recvfrom\<close> fails, if it does.\<close>

fun echo_received :: "udp_event list \<Rightarrow> (u8 list \<times> sockaddr_in) list" where
  "echo_received [] = []"
| "echo_received (UdpError e # es) = []"
| "echo_received (UdpData d peer # es) = (d, peer) # echo_received es"

definition recv_failed :: "udp_event list \<Rightarrow> bool" where
  "recv_failed es \<longleftrightarrow> list_ex (\<lambda>ev. case ev of UdpError e \<Rightarrow> True | UdpData d peer \<Rightarrow> False) es"

text \<open>A send the kernel did not take whole.\<close>

definition short_send :: "sockaddr_in \<times> u8 list \<times> int \<Rightarrow> bool" where
  "short_send s \<longleftrightarrow> (case s of (peer, bytes, sent) \<Rightarrow> sent \<noteq> int (length bytes))"

text \<open>Replies in order, none after a short send, and all of them if there was none; the loop is left
  after a short send or a failed \<open>recvfrom\<close>, and only then.\<close>

definition answered :: "udp_event list \<Rightarrow> udp_port \<Rightarrow> bool \<Rightarrow> bool" where
  "answered es sends left \<longleftrightarrow>
     map (\<lambda>(peer, bytes, sent). (peer, bytes)) sends = take (length sends) (map echo_reply (echo_received es)) \<and>
     \<not> list_ex short_send (butlast sends) \<and>
     (\<not> list_ex short_send sends \<longrightarrow> length sends = length (echo_received es)) \<and>
     (left \<longleftrightarrow> list_ex short_send sends \<or> recv_failed es)"

lemma answered_whole:
  assumes "answered es sends left" "\<not> short_send (peer, bytes, sent)" "echo_reply (d, p) = (peer, bytes)"
  shows "answered (UdpData d p # es) ((peer, bytes, sent) # sends) left"
  using assms by (simp add: answered_def recv_failed_def)

lemma answered_short:
  "short_send (peer, bytes, sent) \<Longrightarrow> echo_reply (d, p) = (peer, bytes) \<Longrightarrow>
   answered (UdpData d p # es) [(peer, bytes, sent)] True"
  by (simp add: answered_def)

lemma echo_loop_answers:
  "\<exists>sends. snd (echo_loop ukern es port) = port @ sends \<and> answered es sends (fst (echo_loop ukern es port))"
proof (induction ukern es port rule: echo_loop.induct)
  case (3 ukern d peer es port)
  let ?b = "take 256 d"
  let ?e = "(peer, ?b, ukern port peer ?b)"
  have reply: "echo_reply (d, peer) = (peer, ?b)" by (simp add: echo_reply_def)
  have step: "echo_loop ukern (UdpData d peer # es) port =
      (if short_send ?e then (True, port @ [?e]) else echo_loop ukern es (port @ [?e]))"
    by (simp add: RTT_UDP_ECHO_BUFFER_SIZE_def Let_def short_send_def)
  show ?case
  proof (cases "short_send ?e")
    case True
    with answered_short [OF True reply] show ?thesis unfolding step by simp
  next
    case False
    then have "ukern port peer ?b = int (length ?b)" by (simp add: short_send_def)
    then obtain sends where "snd (echo_loop ukern es (port @ [?e])) = port @ ?e # sends"
      "answered es sends (fst (echo_loop ukern es (port @ [?e])))"
      using 3 [OF refl refl refl refl] by (auto simp: RTT_UDP_ECHO_BUFFER_SIZE_def)
    with answered_whole [OF _ False reply] False show ?thesis
      unfolding step by (intro exI [of _ "?e # sends"]) simp
  qed
qed (simp_all add: answered_def recv_failed_def)

text \<open>C37. Once its socket is bound the echo thread answers the datagrams it
  receives in their order, each to its sender and with its own first 256 bytes; a longer one
  comes back cut, although \<open>rtthread_port/README.md\<close> says each is echoed without modifying it. It
  stops after the first send the kernel did not take whole or the first failed \<open>recvfrom\<close>, and
  only then; nothing is sent after a short send, and without one every datagram received is
  answered. When it stops it closes its socket and clears its handle.\<close>

theorem echo_answers_in_order:
  assumes "0 \<le> sock" "0 \<le> bind_ret" "rtt_udp_echo_entry ukern sock bind_ret es st = (left, st', shut, sends)"
  shows "map (\<lambda>(peer, bytes, sent). (peer, bytes)) sends =
      take (length sends) (map (\<lambda>(d, peer). (peer, take 256 d)) (echo_received es)) \<and>
    \<not> list_ex short_send (butlast sends) \<and>
    (\<not> list_ex short_send sends \<longrightarrow> length sends = length (echo_received es)) \<and>
    left = (list_ex short_send sends \<or> recv_failed es) \<and>
    (if left then shut = [sock] \<and> st' = st\<lparr>echo_thread := 0\<rparr> else shut = [] \<and> st' = st)"
proof -
  obtain l port where r: "echo_loop ukern es [] = (l, port)" by (metis surj_pair)
  have eqs: "left = l" "sends = port" "shut = (if l then [sock] else [])"
    "st' = (if l then st\<lparr>echo_thread := 0\<rparr> else st)"
    using assms r by (auto simp: rtt_udp_echo_entry_def split: if_splits)
  have reply: "(\<lambda>(d, peer). (peer, take 256 d)) = echo_reply" by (auto simp: echo_reply_def fun_eq_iff)
  have "answered es port l"
    using echo_loop_answers [where ukern = ukern and es = es and port = "[]"] unfolding r by simp
  then show ?thesis unfolding eqs answered_def reply by (intro conjI) simp_all
qed

text \<open>Two datagrams, the second too long, then an error.\<close>

lemma echo_answers_in_order_witness:
  "case rtt_udp_echo_entry (\<lambda>_ _ b. int (length b)) 3 0
     [UdpData [1, 2] beacon_address, UdpData (replicate 300 7) beacon_address, UdpError 5]
     \<lparr>echo_thread = 7, beacon_thread = 0\<rparr> of
   (left, st', shut, sends) \<Rightarrow> left \<and> shut = [3] \<and> echo_thread st' = 0 \<and>
     (\<not> list_ex short_send sends \<longrightarrow>
      map (\<lambda>(peer, bytes, sent). bytes) sends = [[1, 2], replicate 256 7])"
proof -
  let ?es = "[UdpData [1, 2] beacon_address, UdpData (replicate 300 7) beacon_address, UdpError 5]"
  let ?st = "\<lparr>echo_thread = 7, beacon_thread = 0\<rparr>"
  obtain left st' shut sends where
    e: "rtt_udp_echo_entry (\<lambda>_ _ b. int (length b)) 3 0 ?es ?st = (left, st', shut, sends)"
    by (metis surj_pair)
  note a = echo_answers_in_order [OF _ _ e, simplified]
  have bytes: "map (\<lambda>(peer, bytes, sent). bytes) sends = map snd (map (\<lambda>(peer, bytes, sent). (peer, bytes)) sends)"
    by (simp add: case_prod_beta)
  show ?thesis
    using a unfolding e bytes by (auto simp: recv_failed_def)
qed

text \<open>C38. As long as calls of \<open>rtt_udp_echo_start\<close> do not overlap, the
  static handle tells the truth whatever the threads do in between: it is \<open>RT_NULL\<close> exactly
  when there is no echo thread (counted from the assignment of its handle to the moment it gives
  the handle back), and there is never others than one. A thread is created only while there is
  none, and \<open>rt_thread_startup\<close> is never called on anything but a thread just created.\<close>

theorem echo_handle_names_the_thread:
  assumes "echo_reach True s"
  shows "(es_handle s = 0 \<longleftrightarrow> (\<forall>h. es_thread s h = NoThread)) \<and>
    (\<forall>h g. es_thread s h \<noteq> NoThread \<longrightarrow> es_thread s g \<noteq> NoThread \<longrightarrow> h = g) \<and>
    (\<forall>k h g. es_start s k = AtAssign h \<longrightarrow> es_thread s g = NoThread) \<and> \<not> es_fault s"
proof -
  have inv: "echo_inv s" by (rule echo_reach_inv [OF assms])
  note I = echo_invD [OF inv]
  have "es_thread s g = NoThread" if "es_start s k = AtAssign h" for k h g
    using I(5) that echo_inv_no_thread [OF inv] by blast
  moreover have "es_handle s = 0 \<longleftrightarrow> (\<forall>h. es_thread s h = NoThread)"
    using I(3) echo_inv_no_thread [OF inv] by blast
  moreover have "h = g" if "es_thread s h \<noteq> NoThread" "es_thread s g \<noteq> NoThread" for h g
    using I(1) [OF that(1)] I(1) [OF that(2)] by simp
  ultimately show ?thesis using I(8) by blast
qed

text \<open>States with two callers and two threads.\<close>

definition echo_state :: "nat \<Rightarrow> start_pc \<times> start_pc \<Rightarrow> echo_pc \<times> echo_pc \<Rightarrow> nat set \<Rightarrow> EchoSystem" where
  "echo_state h p t e = \<lparr>es_handle = h, es_start = (\<lambda>k. AtCheck)(0 := fst p, 1 := snd p),
     es_thread = (\<lambda>h. NoThread)(1 := fst t, 2 := snd t), es_ending = e, es_fault = False\<rparr>"

lemma echo_state_start: "echo_run serial [] (echo_state 0 (AtCheck, AtCheck) (NoThread, NoThread) {})"
  using run_start [of serial] by (simp add: echo_system_start_def echo_state_def fun_upd_idem)

lemmas echo_state_simps = echo_state_def handle_free_def assign_thread_def startup_thread_def fun_eq_iff

text \<open>The shell starts the thread, and it serves the port.\<close>

lemma serial_start:
  "echo_run True [Check 0, Create 0 1, Assign 0, Test 0, Startup 0, Bind 1]
     (echo_state 1 (AtCheck, AtCheck) (Serving, NoThread) {})"
proof -
  let ?run = "\<lambda>acts h p t. echo_run True acts (echo_state h p (t, NoThread) {})"
  note R = run_snoc_to [of True]
  have "?run [Check 0] 0 (AtCreate, AtCheck) NoThread"
    by (rule R [OF echo_state_start check [of _ 0]]) (simp_all add: echo_state_simps)
  then have "?run [Check 0, Create 0 1] 0 (AtAssign 1, AtCheck) NoThread"
    by (rule R [OF _ create [of _ 0 1]]) (simp_all add: echo_state_simps)
  then have "?run [Check 0, Create 0 1, Assign 0] 1 (AtTest, AtCheck) Created"
    by (rule R [OF _ assign [of _ 0 1]]) (simp_all add: echo_state_simps)
  then have "?run [Check 0, Create 0 1, Assign 0, Test 0] 1 (AtStartup, AtCheck) Created"
    by (rule R [OF _ test [of _ 0]]) (simp_all add: echo_state_simps)
  then have "?run [Check 0, Create 0 1, Assign 0, Test 0, Startup 0] 1 (AtCheck, AtCheck) Started"
    by (rule R [OF _ startup [of _ 0]]) (simp_all add: echo_state_simps)
  then show ?thesis
    by (rule R [OF _ bind [of _ 1]]) (simp_all add: echo_state_simps)
qed

lemma echo_handle_names_the_thread_witness:
  "es_handle (echo_state 1 (AtCheck, AtCheck) (Serving, NoThread) {}) \<noteq> 0 \<and>
   \<not> es_fault (echo_state 1 (AtCheck, AtCheck) (Serving, NoThread) {})"
proof -
  let ?s = "echo_state 1 (AtCheck, AtCheck) (Serving, NoThread) {}"
  have "echo_reach True ?s" unfolding echo_reach_def using serial_start by blast
  moreover have "es_thread ?s 1 \<noteq> NoThread" by (simp add: echo_state_def)
  ultimately show ?thesis using echo_handle_names_the_thread [of ?s] by blast
qed

text \<open>Two callers (the shell and the autostart thread) pass the test before either creates its
  thread; the first thread is bound to the port before the second is created.\<close>

definition overlap_starts :: "echo_act list" where
  "overlap_starts = [Check 0, Check 1, Create 0 1, Assign 0, Test 0, Startup 0, Bind 1,
     Create 1 2, Assign 1, Test 1, Startup 1]"

lemma overlap_run:
  "echo_run False overlap_starts (echo_state 2 (AtCheck, AtCheck) (Serving, Started) {})"
proof -
  let ?run = "\<lambda>n h p t. echo_run False (take n overlap_starts) (echo_state h p t {})"
  note R = run_snoc_to [of False] and D = overlap_starts_def echo_state_simps
  have "?run 1 0 (AtCreate, AtCheck) (NoThread, NoThread)"
    by (rule R [OF echo_state_start check [of _ 0]]) (simp_all add: D)
  then have "?run 2 0 (AtCreate, AtCreate) (NoThread, NoThread)"
    by (rule R [OF _ check [of _ 1]]) (simp_all add: D)
  then have "?run 3 0 (AtAssign 1, AtCreate) (NoThread, NoThread)"
    by (rule R [OF _ create [of _ 0 1]]) (auto simp: D)
  then have "?run 4 1 (AtTest, AtCreate) (Created, NoThread)"
    by (rule R [OF _ assign [of _ 0 1]]) (simp_all add: D)
  then have "?run 5 1 (AtStartup, AtCreate) (Created, NoThread)"
    by (rule R [OF _ test [of _ 0]]) (simp_all add: D)
  then have "?run 6 1 (AtCheck, AtCreate) (Started, NoThread)"
    by (rule R [OF _ startup [of _ 0]]) (simp_all add: D)
  then have "?run 7 1 (AtCheck, AtCreate) (Serving, NoThread)"
    by (rule R [OF _ bind [of _ 1]]) (simp_all add: D)
  then have "?run 8 1 (AtCheck, AtAssign 2) (Serving, NoThread)"
    by (rule R [OF _ create [of _ 1 2]]) (auto simp: D)
  then have "?run 9 2 (AtCheck, AtTest) (Serving, Created)"
    by (rule R [OF _ assign [of _ 1 2]]) (simp_all add: D)
  then have "?run 10 2 (AtCheck, AtStartup) (Serving, Created)"
    by (rule R [OF _ test [of _ 1]]) (simp_all add: D)
  then show ?thesis
    by (rule R [OF _ startup [of _ 1]]) (simp_all add: D)
qed

text \<open>C39. When two calls of \<open>rtt_udp_echo_start\<close> overlap (both find no
  thread before either creates one), both create a thread and start it. The first serves the
  port, so the second cannot be bound. On its way out it clears the handle, which until then named
  the second thread: now it is \<open>RT_NULL\<close> although the first thread still serves the port. The
  guard "already running" no longer holds anyone back: a further call goes on to create another
  thread.\<close>

theorem overlapping_starts_lose_the_thread:
  "\<exists>s t u.
     echo_run False [Check 0, Check 1, Create 0 1, Assign 0, Test 0, Startup 0, Bind 1,
       Create 1 2, Assign 1, Test 1, Startup 1] s \<and>
     es_thread s 1 = Serving \<and> es_thread s 2 = Started \<and> es_handle s = 2 \<and>
     (\<forall>x. \<not> echo_step False s (Bind 2) x) \<and>
     echo_step False s (BindFails 2) t \<and> es_handle t = 2 \<and>
     echo_step False t (Clear 2) u \<and> es_handle u = 0 \<and> es_thread u 1 = Serving \<and>
     (\<exists>x. echo_step False u (Check 0) x)"
proof (intro exI conjI)
  let ?s = "echo_state 2 (AtCheck, AtCheck) (Serving, Started) {}"
  let ?t = "?s\<lparr>es_thread := (es_thread ?s)(2 := Leaving)\<rparr>"
  let ?u = "?t\<lparr>es_handle := 0, es_thread := (es_thread ?t)(2 := NoThread), es_ending := insert 2 (es_ending ?t)\<rparr>"
  show "echo_run False [Check 0, Check 1, Create 0 1, Assign 0, Test 0, Startup 0, Bind 1,
      Create 1 2, Assign 1, Test 1, Startup 1] ?s"
    using overlap_run by (simp add: overlap_starts_def)
  show "es_thread ?s 1 = Serving" "es_thread ?s 2 = Started" "es_handle ?s = 2" by (simp_all add: echo_state_def)
  then show "\<forall>x. \<not> echo_step False ?s (Bind 2) x" by (blast elim: bind_stepE)
  show "echo_step False ?s (BindFails 2) ?t" by (rule bind_fails) (simp add: echo_state_def)
  show "echo_step False ?t (Clear 2) ?u" by (rule clear) simp
  show "es_handle ?t = 2" "es_handle ?u = 0" "es_thread ?u 1 = Serving" by (simp_all add: echo_state_def)
  show "echo_step False ?u (Check 0) (?u\<lparr>es_start := (es_start ?u)(0 := AtCreate)\<rparr>)"
    by (rule check) (simp_all add: echo_state_def)
qed

text \<open>C40. The autostart loop has ended exactly when in some round the
  creation of the echo thread succeeded and the thread was still there after the delay; the
  handle then names it. Until then every round tries again: it never gives up.\<close>

theorem autostart_ends_with_a_thread:
  assumes "echo_thread st = 0"
  shows "case autostart_loop rt_error rounds st of (done, st', started) \<Rightarrow>
    done = list_ex (\<lambda>(created, gave_up). created \<noteq> 0 \<and> \<not> gave_up) rounds \<and>
    (if done then Some (echo_thread st') =
        map_option fst (find (\<lambda>(created, gave_up). created \<noteq> 0 \<and> \<not> gave_up) rounds)
     else echo_thread st' = 0 \<and> started = filter (\<lambda>c. c \<noteq> 0) (map fst rounds))"
  using assms
proof (induction rounds arbitrary: st)
  case (Cons r rounds)
  obtain c g where r: "r = (c, g)" by (cases r)
  show ?case
  proof (cases "c \<noteq> 0 \<and> \<not> g")
    case True
    with Cons.prems show ?thesis
      by (cases rounds) (auto simp: r rtt_udp_echo_start_def Let_def split: prod.split)
  next
    case False
    then have n: "autostart_loop rt_error (r # rounds) st =
        (case autostart_loop rt_error rounds (st\<lparr>echo_thread := 0\<rparr>) of
           (done, st', others) \<Rightarrow> (done, st', filter (\<lambda>c. c \<noteq> 0) [c] @ others))"
      using Cons.prems by (auto simp: r rtt_udp_echo_start_def Let_def)
    show ?thesis
      unfolding n using Cons.IH [of "st\<lparr>echo_thread := 0\<rparr>"] False by (auto simp: r split: prod.splits)
  qed
qed simp

lemma autostart_ends_with_a_thread_witness:
  "fst (autostart_loop 1 [(0, False), (5, True), (6, False)] \<lparr>echo_thread = 0, beacon_thread = 0\<rparr>)"
  using autostart_ends_with_a_thread [where rt_error = 1 and rounds = "[(0, False), (5, True), (6, False)]" and
      st = "\<lparr>echo_thread = 0, beacon_thread = 0\<rparr>"] by (simp add: case_prod_beta)

text \<open>Whatever sockets the rounds of the beacon get and whatever the kernel
  makes of the sends, no socket stays open, and every datagram is the 19-byte message to the
  Linux side, one for each round that got a socket.\<close>

theorem beacon_never_leaks:
  "snd (rtt_udp_beacon_entry ukern socks) = []"
  "map (\<lambda>(peer, bytes, sent). (peer, bytes)) (fst (rtt_udp_beacon_entry ukern socks)) =
     replicate (length (filter (\<lambda>sock. 0 \<le> sock) socks)) (beacon_address, beacon_message)"
  "length beacon_message = 19"
proof -
  have "snd (fold (beacon_round ukern) socks (port, [])) = [] \<and>
    map (\<lambda>(peer, bytes, sent). (peer, bytes)) (fst (fold (beacon_round ukern) socks (port, []))) =
      map (\<lambda>(peer, bytes, sent). (peer, bytes)) port @
      replicate (length (filter (\<lambda>sock. 0 \<le> sock) socks)) (beacon_address, beacon_message)" for port
    by (induction socks arbitrary: port) (auto simp: beacon_round_def Let_def)
  from this [of "[]"] show "snd (rtt_udp_beacon_entry ukern socks) = []"
    "map (\<lambda>(peer, bytes, sent). (peer, bytes)) (fst (rtt_udp_beacon_entry ukern socks)) =
       replicate (length (filter (\<lambda>sock. 0 \<le> sock) socks)) (beacon_address, beacon_message)"
    by (simp_all add: rtt_udp_beacon_entry_def)
  show "length beacon_message = 19" by (simp add: beacon_message_def)
qed

end
