(* ===== verification/CommandTool.thy ===== *)
theory CommandTool
  imports VelocityProps
begin

text \<open>
  \<open>tools/test_chassis_command.c\<close>: a direction and a scale for a given time. Its helpers
  (\<open>clamp_float\<close>, \<open>parse_float_arg\<close>, \<open>parse_int_arg\<close>, \<open>send_currents\<close>, \<open>send_zero_current\<close>,
  \<open>drain_feedback\<close>, \<open>wait_for_all_feedback\<close>, \<open>print_status\<close>) and its \<open>main\<close> after the arguments
  are, word for word, those of \<open>chassis_velocity.c\<close>; the definitions of \<open>ChassisVelocity\<close> stand
  for both. Only the arguments differ.
\<close>

section \<open>Arguments\<close>

text \<open>The result is the return value and \<open>*command\<close>.\<close>

definition command_from_direction :: "string \<Rightarrow> f32 \<Rightarrow> int \<times> ChassisCommand" where
  "command_from_direction direction scale =
     (let command = \<lparr>cmd_forward = 0, cmd_strafe = 0, cmd_rotate = 0\<rparr>
      in if direction = ''forward'' \<or> direction = ''fwd'' then (1, command\<lparr>cmd_forward := scale\<rparr>)
         else if direction = ''back'' \<or> direction = ''backward'' then (1, command\<lparr>cmd_forward := - scale\<rparr>)
         else if direction = ''left'' then (1, command\<lparr>cmd_strafe := - scale\<rparr>)
         else if direction = ''right'' then (1, command\<lparr>cmd_strafe := scale\<rparr>)
         else if direction = ''rotate-left'' \<or> direction = ''ccw'' then (1, command\<lparr>cmd_rotate := scale\<rparr>)
         else if direction = ''rotate-right'' \<or> direction = ''cw'' then (1, command\<lparr>cmd_rotate := - scale\<rparr>)
         else if direction \<noteq> ''stop'' then (0, command)
         else (1, command))"

text \<open>\<open>argv\<close> is without the program name; \<open>None\<close> is exit code 2.\<close>

definition command_args :: "string list \<Rightarrow> (ChassisCommand \<times> int \<times> ChassisConfig) option" where
  "command_args argv =
     (if length argv \<noteq> 4 \<and> length argv \<noteq> 6 then None
      else
        let (ok1, scale) = vt_parse_float_arg (argv ! 2) 0;
            (ok2, duration_ms) = vt_parse_int_arg (argv ! 3) 0
        in if \<not> ok1 \<or> \<not> ok2 then None
           else if duration_ms \<le> 0 then None
           else
             let scale = vt_clamp_float scale 0 (f32_lit 1);
                 (known, command) = command_from_direction (argv ! 1) scale;
                 config = chassis_default_config
             in if known = 0 then None
                else if length argv = 6
                then
                  let (ok3, t) = vt_parse_float_arg (argv ! 4) (max_translate_rpm config);
                      (ok4, r) = vt_parse_float_arg (argv ! 5) (max_rotate_rpm config)
                  in if \<not> ok3 \<or> \<not> ok4 then None
                     else Some (command, duration_ms, config\<lparr>max_translate_rpm := t, max_rotate_rpm := r\<rparr>)
                else Some (command, duration_ms, config))"

definition command_main ::
  "can_kernel \<Rightarrow> (f32 \<Rightarrow> int) \<Rightarrow> VelocityWorld \<Rightarrow> int \<times> ChassisController option \<times> can_port \<times> string" where
  "command_main kern u w = velocity_program kern u (command_args (vw_argv w)) w"

section \<open>What it does\<close>

lemma scale_between: "x \<noteq> NaN \<Longrightarrow> fbnd 1 (vt_clamp_float x 0 (f32_lit 1))"
  using f32_lit_int [of 1] by (cases x) (auto simp: vt_clamp_float_def zero_f32_def)

text \<open>A command moves along one axis, one way or the other, or not at all.\<close>

definition along_one_axis :: "f32 \<Rightarrow> ChassisCommand \<Rightarrow> bool" where
  "along_one_axis x command \<longleftrightarrow> (\<exists>y\<in>{x, - x, 0}.
     command \<in> {\<lparr>cmd_forward = y, cmd_strafe = 0, cmd_rotate = 0\<rparr>,
       \<lparr>cmd_forward = 0, cmd_strafe = y, cmd_rotate = 0\<rparr>,
       \<lparr>cmd_forward = 0, cmd_strafe = 0, cmd_rotate = y\<rparr>})"

lemma if_pred: "P a \<Longrightarrow> P b \<Longrightarrow> P (if q then a else b)"
  by simp

lemma direction_along_axis: "along_one_axis x (snd (command_from_direction d x))"
  unfolding command_from_direction_def Let_def
  by (intro if_pred [where P = "\<lambda>r. along_one_axis x (snd r)"]) (simp_all add: along_one_axis_def)

lemma direction_bounded:
  assumes "x \<noteq> NaN"
  shows "command_numbers (snd (command_from_direction d (vt_clamp_float x 0 (f32_lit 1))))"
proof -
  let ?s = "vt_clamp_float x 0 (f32_lit 1)"
  have "?s \<noteq> NaN" "- ?s \<noteq> NaN"
    using scale_between [OF assms] fbnd_not_NaN [of 1 ?s] fbnd_not_NaN [of 1 "- ?s"] by simp_all
  then show ?thesis
    using direction_along_axis [of ?s d] by (auto simp: along_one_axis_def command_numbers_def)
qed

text \<open>With a scale that is a number every current is bounded, as for the velocity tool.\<close>

theorem command_currents_bounded:
  assumes "chassis_wf (vw_memory w)"
    "\<And>command duration_ms config. command_args (vw_argv w) = Some (command, duration_ms, config) \<Longrightarrow>
       config_ok config \<and> command_numbers command"
  shows "\<forall>f\<in>set (tried_frames (fst (snd (snd (command_main kern u w))))). command_frame_ok 6500 f"
  unfolding command_main_def by (rule velocity_program_bounded [OF assms])

text \<open>A turn under a zero command sends four zeros.\<close>

lemma zero_command_turn:
  fixes kern u
  assumes "chassis_wf (vl_controller v)" "length (vl_currents v) = 5"
    "\<not> duration_ms \<le> vt_elapsed_ms (vi_now inp) start_ms"
  defines "t \<equiv> fst (velocity_turn kern u zero_command duration_ms start_ms inp v)"
  shows "chassis_wf (vl_controller t) \<and> length (vl_currents t) = 5 \<and>
    tried_frames (vl_can t) = tried_frames (vl_can v) @ [command_frame (replicate 5 0)]"
proof -
  define c where "c = velocity_ready zero_command inp v"
  have "chassis_wf c \<and> cc_command c = zero_command"
    unfolding c_def velocity_ready_def
  proof (rule velocity_can.loop_invariant)
    let ?P = "\<lambda>c. chassis_wf c \<and> cc_command c = zero_command"
    show "?P (chassis_set_command (vl_controller v) (cmd_forward zero_command) (cmd_strafe zero_command)
        (cmd_rotate zero_command) (vi_now inp))"
      using assms(1) f32_lit_int [of 1]
      by (simp add: chassis_wf_def chassis_set_command_def zero_command_def clamp_float_def zero_f32_def)
    show "?P (vt_feedback_frame e s)" if "?P s" for e s
      using that vt_frame_controller [of e s] by (auto simp: chassis_update_feedback_def chassis_wf_def)
  qed
  then have wf: "chassis_wf c" and z: "command_is_zero (cc_command c)" by (simp_all add: zero_command_is_zero)
  note st = step_idle [OF wf assms(2) disjI2 [OF z], of u "vi_now inp" "loop_dt (vi_now inp) (vl_last_loop_ms v)"]
  show ?thesis
    unfolding t_def velocity_turn_parts [OF assms(3)] velocity_sends_def velocity_step_def c_def [symmetric] st
    using reset_wf [OF wf] by (simp add: zero_if_offline_def fold_slots_set numeral_eq_Suc)
qed

lemma zero_command_loop:
  assumes "chassis_wf (vl_controller v)" "length (vl_currents v) = 5"
    "\<forall>f\<in>set (tried_frames (vl_can v)). f = command_frame (replicate 5 0)"
  shows "\<forall>f\<in>set (tried_frames (vl_can (fst (velocity_loop kern u zero_command duration_ms start_ms inputs v)))).
    f = command_frame (replicate 5 0)"
proof -
  let ?P = "\<lambda>v :: Velocity. chassis_wf (vl_controller v) \<and> length (vl_currents v) = 5 \<and>
    (\<forall>f\<in>set (tried_frames (vl_can v)). f = command_frame (replicate 5 0))"
  have "?P (fst (velocity_loop kern u zero_command duration_ms start_ms inputs v))"
  proof (rule velocity_turns.turns_invariant)
    fix inp s assume "?P s"
    then show "?P (fst (velocity_turn kern u zero_command duration_ms start_ms inp s))"
      using zero_command_turn [of s duration_ms inp start_ms kern u] velocity_turn_up [of duration_ms inp start_ms]
      by (cases "duration_ms \<le> vt_elapsed_ms (vi_now inp) start_ms") auto
  qed (use assms in simp)
  then show ?thesis by blast
qed

lemma vt_wait_wf:
  assumes "chassis_wf c" shows "chassis_wf (snd (vt_wait_for_all_feedback start tmo rounds c))"
proof -
  have "chassis_wf (fst (vt_drain_feedback es c))" if "chassis_wf c" for es c
    using that
  proof (rule velocity_can.loop_invariant)
    show "chassis_wf (vt_feedback_frame e t)" if "chassis_wf t" for e t
      using that vt_frame_controller [of e t] by (auto simp: chassis_update_feedback_def chassis_wf_def)
  qed
  then show ?thesis
    using assms by (induction start tmo rounds c rule: vt_wait_for_all_feedback.induct) (auto simp: Let_def)
qed

text \<open>\<open>stop\<close> is what it says: whatever the scale and the limits on the command line, what the
  motors report and how the run ends, every frame on the bus carries four zero currents.\<close>

theorem stop_direction_only_zero:
  assumes "chassis_wf (vw_memory w)" "vw_argv w ! 1 = ''stop''"
  shows "\<forall>f\<in>set (tried_frames (fst (snd (snd (command_main kern u w))))). frame_currents f = [0, 0, 0, 0]"
proof -
  have zero: "command = zero_command" if "command_args (vw_argv w) = Some (command, d, config)" for command d config
    using that assms(2)
    by (auto simp: command_args_def command_from_direction_def zero_command_def Let_def split: prod.splits if_splits)
  have "\<forall>f\<in>set (tried_frames (fst (snd (snd (velocity_program kern u (command_args (vw_argv w)) w))))).
      f = command_frame (replicate 5 0)"
  proof (cases rule: velocity_program_cases [where kern = kern and u = u and w = w and args = "command_args (vw_argv w)"])
    case (ran command duration_ms config c)
    have "chassis_wf (snd (vt_wait_for_all_feedback (vw_wait_ms w) 1500 (vw_rounds w)
        (chassis_init (vw_memory w) (Some config) (vw_init_ms w))))"
      using assms(1) by (intro vt_wait_wf) (simp add: chassis_init_eq chassis_wf_def)
    then have "chassis_wf c" using ran(2) by simp
    then show ?thesis
      using ran(3) zero [OF ran(1)] zero_command_loop [of "velocity_begin (vw_start_ms w) c"]
      by (auto simp: velocity_begin_def velocity_zero_frames Let_def)
  qed (auto simp: velocity_zero_frames)
  then show ?thesis by (auto simp: command_main_def zero_frame_currents)
qed

lemma stop_direction_only_zero_witness:
  "list_all (\<lambda>f. frame_currents f = [0, 0, 0, 0]) (tried_frames (fst (snd (snd (command_main (\<lambda>_ _. 16) (\<lambda>_. 0)
     (demo_velocity_world\<lparr>vw_argv := [''can0'', ''stop'', ''nan'', ''3'']\<rparr>))))))"
  using stop_direction_only_zero [of "demo_velocity_world\<lparr>vw_argv := [''can0'', ''stop'', ''nan'', ''3'']\<rparr>"]
  by (simp add: demo_velocity_world_def demo_blank_wf list_all_iff)

end
