(* ===== verification/KeyboardTool.thy ===== *)
theory KeyboardTool
  imports VelocityProps
begin

unbundle bit_operations_syntax

text \<open>
  \<open>tools/test_chassis_keyboard.c\<close>: drives the chassis from the keyboard. Its \<open>send_currents\<close>,
  \<open>send_zero_current\<close>, \<open>drain_feedback\<close>, \<open>wait_for_all_feedback\<close> and \<open>parse_float_arg\<close> are, word
  for word, those of \<open>chassis_velocity.c\<close>; the definitions of \<open>ChassisVelocity\<close> stand for both.
  The terminal is part of the state: what the tool does to it outlives the process.
\<close>

section \<open>The terminal\<close>

record termios =
  c_iflag :: u32
  c_oflag :: u32
  c_cflag :: u32
  c_lflag :: u32
  c_cc :: "u8 list"

text \<open>The constants of Linux.\<close>

definition ICANON :: u32 where "ICANON = 2"
definition ECHO :: u32 where "ECHO = 8"
definition VTIME :: nat where "VTIME = 5"
definition VMIN :: nat where "VMIN = 6"
definition O_NONBLOCK :: u32 where "O_NONBLOCK = 2048"

text \<open>The terminal behind descriptor 0: its attributes and the status flags of the open file,
  which every process that shares it sees.\<close>

record Terminal =
  tm_termios :: termios
  tm_flags :: u32

record TerminalStatics =
  g_original_termios :: termios
  g_terminal_configured :: int

text \<open>What the calls answer; \<open>tcsetattr\<close> takes effect when it returns 0.\<close>

record terminal_answers =
  ta_tcgetattr :: int
  ta_tcsetattr :: int
  ta_getfl :: int
  ta_setfl :: int
  ta_restore :: int

definition tcsetattr :: "int \<Rightarrow> termios \<Rightarrow> Terminal \<Rightarrow> Terminal" where
  "tcsetattr ret attrs term = (if ret = 0 then term\<lparr>tm_termios := attrs\<rparr> else term)"

definition restore_terminal ::
  "terminal_answers \<Rightarrow> Terminal \<times> TerminalStatics \<Rightarrow> Terminal \<times> TerminalStatics" where
  "restore_terminal ans s =
     (case s of (term, g) \<Rightarrow>
        if g_terminal_configured g \<noteq> 0
        then (tcsetattr (ta_restore ans) (g_original_termios g) term, g\<lparr>g_terminal_configured := 0\<rparr>)
        else (term, g))"

text \<open>The answer of \<open>F_GETFL\<close> is the flags, or negative.\<close>

definition setup_terminal ::
  "terminal_answers \<Rightarrow> Terminal \<times> TerminalStatics \<Rightarrow> int \<times> Terminal \<times> TerminalStatics" where
  "setup_terminal ans s =
     (case s of (term, g) \<Rightarrow>
        if ta_tcgetattr ans \<noteq> 0 then (- 1, term, g)
        else
          let g = g\<lparr>g_original_termios := tm_termios term\<rparr>;
              raw = g_original_termios g;
              raw = raw\<lparr>c_lflag := c_lflag raw AND NOT (ICANON OR ECHO)\<rparr>;
              raw = raw\<lparr>c_cc := (c_cc raw)[VMIN := 0]\<rparr>;
              raw = raw\<lparr>c_cc := (c_cc raw)[VTIME := 0]\<rparr>
          in if ta_tcsetattr ans \<noteq> 0 then (- 1, tcsetattr (ta_tcsetattr ans) raw term, g)
             else
               let term = tcsetattr (ta_tcsetattr ans) raw term;
                   flags = ta_getfl ans
               in if flags < 0 then (- 1, restore_terminal ans (term, g))
                  else if ta_setfl ans \<noteq> 0 then (- 1, restore_terminal ans (term, g))
                  else (0, term\<lparr>tm_flags := word_of_int flags OR O_NONBLOCK\<rparr>, g\<lparr>g_terminal_configured := 1\<rparr>))"

section \<open>Keys\<close>

definition C_EOF :: int where "C_EOF = - 1"

text \<open>What \<open>read\<close> returned, and the byte it stored.\<close>

definition read_key :: "int \<times> u8 \<Rightarrow> int" where
  "read_key r = (case r of (ret, key) \<Rightarrow> if ret = 1 then uint key else C_EOF)"

definition key_in :: "int \<Rightarrow> string \<Rightarrow> bool" where
  "key_in key cs \<longleftrightarrow> key \<in> set (map of_char cs)"

text \<open>The controller, the scale and what is printed; the result is 0 when the tool is to end.\<close>

definition handle_key ::
  "int \<Rightarrow> ChassisController \<Rightarrow> f32 \<Rightarrow> u64 \<Rightarrow> int \<times> ChassisController \<times> f32 \<times> string" where
  "handle_key key controller scale now_ms =
     (let value = scale
      in if key_in key ''wW'' then (1, chassis_set_command controller value 0 0 now_ms, scale, [])
         else if key_in key ''sS'' then (1, chassis_set_command controller (- value) 0 0 now_ms, scale, [])
         else if key_in key ''aA'' then (1, chassis_set_command controller 0 (- value) 0 now_ms, scale, [])
         else if key_in key ''dD'' then (1, chassis_set_command controller 0 value 0 now_ms, scale, [])
         else if key_in key ''qQ'' then (1, chassis_set_command controller 0 0 value now_ms, scale, [])
         else if key_in key ''eE'' then (1, chassis_set_command controller 0 0 (- value) now_ms, scale, [])
         else if key_in key ''+=''
         then let scale = scale + f32_lit (1 / 10);
                  scale = (if f32_lit 1 < scale then f32_lit 1 else scale)
              in (1, controller, scale, ''scale='' @ show_fixed 2 scale @ newline)
         else if key_in key ''-_''
         then let scale = scale - f32_lit (1 / 10);
                  scale = (if scale < f32_lit (1 / 10) then f32_lit (1 / 10) else scale)
              in (1, controller, scale, ''scale='' @ show_fixed 2 scale @ newline)
         else if key_in key '' '' then (1, chassis_stop controller now_ms, scale, [])
         else if key_in key ''xX'' then (0, controller, scale, [])
         else (1, controller, scale, []))"

text \<open>
  The loop over the keys of a turn. The reads are what \<open>read\<close> answers, in order; a list that runs
  out stands for no more input. The flag is what \<open>g_running\<close> is set to.
\<close>

fun handle_keys ::
  "(int \<times> u8) list \<Rightarrow> u64 \<Rightarrow> ChassisController \<times> f32 \<times> string \<Rightarrow> (ChassisController \<times> f32 \<times> string) \<times> bool" where
  "handle_keys [] now s = (s, True)"
| "handle_keys (r # rs) now (controller, scale, printed) =
     (if read_key r = C_EOF then ((controller, scale, printed), True)
      else (case handle_key (read_key r) controller scale now of
              (ret, controller, scale, out) \<Rightarrow>
                if ret = 0 then ((controller, scale, printed @ out), False)
                else handle_keys rs now (controller, scale, printed @ out)))"

section \<open>The main loop\<close>

definition kb_print_status :: "ChassisController \<Rightarrow> i16 list \<Rightarrow> f32 \<Rightarrow> int \<Rightarrow> string" where
  "kb_print_status controller currents scale online =
     ''scale='' @ show_fixed 2 scale @ '' online='' @ show_int online @
     '' cmd=['' @ show_fixed 2 (cmd_forward (cc_command controller)) @
     '' '' @ show_fixed 2 (cmd_strafe (cc_command controller)) @
     '' '' @ show_fixed 2 (cmd_rotate (cc_command controller)) @ ''] '' @
     concat (map (print_motor (cc_target_rpm controller) (cc_feedback controller) currents) motors) @
     newline"

definition KB_PRINT_PERIOD_MS :: u64 where "KB_PRINT_PERIOD_MS = 100"

record Keyboard =
  kb_controller :: ChassisController
  kb_currents :: "i16 list"
  kb_scale :: f32
  kb_last_loop_ms :: u64
  kb_last_print_ms :: u64
  kb_can :: can_port
  kb_printed :: string

record KeyboardInput =
  ki_now :: u64
  ki_reads :: "(int \<times> u8) list"
  ki_can :: "(rx_event \<times> u64) list"

text \<open>After \<open>x\<close> the turn goes on to its end; only then the loop sees \<open>g_running\<close>.\<close>

definition keyboard_turn ::
  "can_kernel \<Rightarrow> (f32 \<Rightarrow> int) \<Rightarrow> KeyboardInput \<Rightarrow> Keyboard \<Rightarrow> Keyboard \<times> bool" where
  "keyboard_turn kern u inp k =
     (let now = ki_now inp;
          ((controller, scale, printed), running) =
            handle_keys (ki_reads inp) now (kb_controller k, kb_scale k, kb_printed k);
          controller = fst (vt_drain_feedback (ki_can inp) controller);
          dt_s = loop_dt now (kb_last_loop_ms k);
          k = k\<lparr>kb_last_loop_ms := now\<rparr>;
          (controller, online, currents) = chassis_step u controller now dt_s (kb_currents k);
          currents = zero_if_offline online currents;
          (ret, port) = vt_send_currents kern (kb_can k) currents;
          k = k\<lparr>kb_controller := controller, kb_scale := scale, kb_printed := printed,
                kb_currents := currents, kb_can := port\<rparr>
      in if ret < 0 then (k, False)
         else (if KB_PRINT_PERIOD_MS \<le> now - kb_last_print_ms k
               then k\<lparr>kb_printed := kb_printed k @ kb_print_status controller currents scale online,
                      kb_last_print_ms := now\<rparr>
               else k, running))"

fun keyboard_loop :: "can_kernel \<Rightarrow> (f32 \<Rightarrow> int) \<Rightarrow> KeyboardInput list \<Rightarrow> Keyboard \<Rightarrow> Keyboard \<times> bool" where
  "keyboard_loop kern u [] k = (k, False)"
| "keyboard_loop kern u (inp # inputs) k =
     (case keyboard_turn kern u inp k of
        (k, go_on) \<Rightarrow> if go_on then keyboard_loop kern u inputs k else (k, True))"

text \<open>\<open>argv\<close> is without the program name; \<open>None\<close> is exit code 2.\<close>

definition keyboard_args :: "string list \<Rightarrow> ChassisConfig option" where
  "keyboard_args argv =
     (if length argv \<noteq> 1 \<and> length argv \<noteq> 3 then None
      else
        let config = chassis_default_config
        in if length argv = 3
           then
             let (ok1, t) = vt_parse_float_arg (argv ! 1) (max_translate_rpm config);
                 (ok2, r) = vt_parse_float_arg (argv ! 2) (max_rotate_rpm config)
             in if \<not> ok1 \<or> \<not> ok2 then None
                else Some (config\<lparr>max_translate_rpm := t, max_rotate_rpm := r\<rparr>)
           else Some config)"

record KeyboardWorld =
  kw_argv :: "string list"
  kw_can :: can_answers
  kw_memory :: ChassisController
  kw_init_ms :: u64
  kw_wait_ms :: u64
  kw_rounds :: "(u64 \<times> (rx_event \<times> u64) list \<times> u64) list"
  kw_terminal :: terminal_answers
  kw_start_ms :: u64
  kw_inputs :: "KeyboardInput list"

definition keyboard_begin :: "u64 \<Rightarrow> ChassisController \<Rightarrow> Keyboard" where
  "keyboard_begin start_ms controller = \<lparr>kb_controller = controller, kb_currents = replicate 5 0,
     kb_scale = f32_lit (4 / 10), kb_last_loop_ms = start_ms, kb_last_print_ms = 0, kb_can = [],
     kb_printed = []\<rparr>"

text \<open>\<open>main\<close>: the exit code, everything written to the bus, what was printed, and the terminal
  and the statics at the end. The \<open>atexit\<close> call is a second \<open>restore_terminal\<close>.\<close>

definition keyboard_main ::
  "can_kernel \<Rightarrow> (f32 \<Rightarrow> int) \<Rightarrow> KeyboardWorld \<Rightarrow> Terminal \<times> TerminalStatics \<Rightarrow>
   int \<times> can_port \<times> string \<times> Terminal \<times> TerminalStatics" where
  "keyboard_main kern u w tty =
     (case keyboard_args (kw_argv w) of
        None \<Rightarrow> (2, [], [], tty)
      | Some config \<Rightarrow>
          let can_fd = can_answer (kw_can w) (kw_argv w ! 0)
          in if can_fd < 0 then (1, [], [], tty)
             else
               let controller = chassis_init (kw_memory w) (Some config) (kw_init_ms w);
                   (ready, controller) =
                     vt_wait_for_all_feedback (kw_wait_ms w) 1500 (kw_rounds w) controller
               in if ready = 0 then (1, vt_send_zero_current kern [], [], tty)
                  else
                    let (ret, tty) = setup_terminal (kw_terminal w) tty
                    in if ret \<noteq> 0 then (1, vt_send_zero_current kern [], [], tty)
                       else
                         let k = fst (keyboard_loop kern u (kw_inputs w) (keyboard_begin (kw_start_ms w) controller));
                             tty = restore_terminal (kw_terminal w) tty;
                             port = vt_send_zero_current kern (kb_can k)
                         in (0, port, kb_printed k, restore_terminal (kw_terminal w) tty))"

interpretation keyboard_turns: turn_loop "keyboard_loop kern u" "keyboard_turn kern u" for kern u
  by unfold_locales (simp_all add: case_prod_beta)

section \<open>The scale\<close>

text \<open>The scale is between 0.1 and 1, as floats.\<close>

definition scale_ok :: "f32 \<Rightarrow> bool" where
  "scale_ok s \<longleftrightarrow> f32_lit (1 / 10) \<le> s \<and> s \<le> f32_lit 1"

lemma scale_lits:
  "f32_lit (1 / 10) = Fin False (13421773 / 134217728)" "f32_lit 1 = Fin False 1"
  "f32_lit (4 / 10) = Fin False (13421773 / 33554432)"
  by code_simp+

lemma scale_begin: "scale_ok (f32_lit (4 / 10))"
  unfolding scale_ok_def scale_lits by simp

lemma scale_fbnd: "scale_ok s \<Longrightarrow> fbnd 1 s"
  by (cases s) (auto simp: scale_ok_def scale_lits)

text \<open>A step up or down stays a number of at most 2.\<close>

lemma scale_moves:
  assumes "scale_ok s" shows "fbnd 2 (s + f32_lit (1 / 10))" "fbnd 2 (s - f32_lit (1 / 10))"
    "f32_lit (1 / 10) \<le> s + f32_lit (1 / 10)" "s - f32_lit (1 / 10) \<le> f32_lit 1"
proof -
  let ?l = "f32_lit (1 / 10)"
  note s = scale_fbnd [OF assms]
  have l: "fbnd 1 ?l" by (simp add: scale_lits)
  have cap: "f32_cap 2" using f32_cap_int [of 2] by simp
  note up = fbnd_add [OF s l _ cap] and down = fbnd_sub [OF s l _ cap]
  show "fbnd 2 (s + ?l)" "fbnd 2 (s - ?l)" using up(1) down(1) by simp_all
  have v: "fval ?l \<le> fval s" "fval s \<le> 1" "fval ?l = 13421773 / 134217728"
    using assms s by (auto simp: scale_ok_def scale_lits fbnd_iff)
  have r: "representable (fval ?l)"
    using representable_round32 [of "1 / 10"] by (simp add: f32_lit_def fbnd_round(2) [OF _ cap])
  have "fval ?l \<le> round32 (fval s + fval ?l)" by (rule round32_ge [OF _ r]) (use v in linarith)
  then have "fval ?l \<le> fval (s + ?l)" using up(2) by simp
  then show "?l \<le> s + ?l" using fbnd_le [OF l up(1)] by simp
  have "round32 (fval s - fval ?l) \<le> 1"
    by (rule round32_le) (use v representable_pow2 [of 0] in simp_all)
  then have "fval (s - ?l) \<le> 1" using down(2) by simp
  then show "s - ?l \<le> f32_lit 1" using fbnd_le [OF down(1), of 1 "f32_lit 1"] by (simp add: scale_lits)
qed

text \<open>The two clamped moves keep the range.\<close>

lemma scale_up: "scale_ok s \<Longrightarrow> scale_ok (if f32_lit 1 < s + f32_lit (1 / 10) then f32_lit 1 else s + f32_lit (1 / 10))"
  using scale_moves(1,3) [of s] f32_not_less [of "f32_lit 1" "s + f32_lit (1 / 10)"]
  by (auto simp: scale_ok_def scale_lits fbnd_not_NaN split: if_splits)

lemma scale_down:
  "scale_ok s \<Longrightarrow> scale_ok (if s - f32_lit (1 / 10) < f32_lit (1 / 10) then f32_lit (1 / 10) else s - f32_lit (1 / 10))"
  using scale_moves(2,4) [of s] f32_not_less [of "s - f32_lit (1 / 10)" "f32_lit (1 / 10)"]
  by (auto simp: scale_ok_def scale_lits fbnd_not_NaN split: if_splits)

section \<open>Keys keep the state sound\<close>

definition keys_ok :: "ChassisController \<times> f32 \<times> string \<Rightarrow> bool" where
  "keys_ok s \<longleftrightarrow> chassis_ok (fst s) \<and> scale_ok (fst (snd s))"

lemma if_holds: "P a \<Longrightarrow> P b \<Longrightarrow> P (if q then a else b)"
  by simp

lemma handle_key_ok:
  assumes "chassis_ok c" "scale_ok s" shows "keys_ok (snd (handle_key key c s now))"
proof -
  have s: "s \<noteq> NaN" "- s \<noteq> NaN"
    using scale_fbnd [OF assms(2)] fbnd_not_NaN [of 1 s] fbnd_not_NaN [of 1 "- s"] by simp_all
  note cmd = set_command_ok [OF assms(1)]
  show ?thesis
    unfolding handle_key_def Let_def
    by (intro if_holds [where P = "\<lambda>r. keys_ok (snd r)"])
      (use assms s in \<open>simp_all add: keys_ok_def cmd stop_ok scale_up scale_down del: if_split_asm split del: if_split\<close>)
qed

lemma handle_keys_ok: "keys_ok s \<Longrightarrow> keys_ok (fst (handle_keys rs now s))"
proof (induction rs arbitrary: s)
  case (Cons r rs)
  obtain c sc out where s: "s = (c, sc, out)" by (cases s)
  obtain ret c' sc' out' where h: "handle_key (read_key r) c sc now = (ret, c', sc', out')"
    by (cases "handle_key (read_key r) c sc now")
  have "keys_ok (c', sc', out @ out')"
    using handle_key_ok [of c sc "read_key r" now] Cons.prems unfolding s h by (simp add: keys_ok_def)
  then show ?case using Cons by (simp add: s h)
qed simp

section \<open>The parts of a turn\<close>

definition keyboard_ready :: "KeyboardInput \<Rightarrow> Keyboard \<Rightarrow> ChassisController" where
  "keyboard_ready inp k = fst (vt_drain_feedback (ki_can inp)
     (fst (fst (handle_keys (ki_reads inp) (ki_now inp) (kb_controller k, kb_scale k, kb_printed k)))))"

definition keyboard_step :: "(f32 \<Rightarrow> int) \<Rightarrow> KeyboardInput \<Rightarrow> Keyboard \<Rightarrow> ChassisController \<times> int \<times> i16 list" where
  "keyboard_step u inp k = chassis_step u (keyboard_ready inp k) (ki_now inp)
     (loop_dt (ki_now inp) (kb_last_loop_ms k)) (kb_currents k)"

definition keyboard_sends :: "(f32 \<Rightarrow> int) \<Rightarrow> KeyboardInput \<Rightarrow> Keyboard \<Rightarrow> i16 list" where
  "keyboard_sends u inp k = (case keyboard_step u inp k of (c, online, cur) \<Rightarrow> zero_if_offline online cur)"

lemma keyboard_turn_parts:
  "kb_controller (fst (keyboard_turn kern u inp k)) = fst (keyboard_step u inp k)"
  "kb_currents (fst (keyboard_turn kern u inp k)) = keyboard_sends u inp k"
  "kb_scale (fst (keyboard_turn kern u inp k)) =
     fst (snd (fst (handle_keys (ki_reads inp) (ki_now inp) (kb_controller k, kb_scale k, kb_printed k))))"
  "tried_frames (kb_can (fst (keyboard_turn kern u inp k))) =
     tried_frames (kb_can k) @ [command_frame (keyboard_sends u inp k)]"
  by (simp_all add: keyboard_turn_def keyboard_step_def keyboard_sends_def keyboard_ready_def Let_def
      case_prod_beta velocity_sender.send_eq)

definition keyboard_safe :: "Keyboard \<Rightarrow> bool" where
  "keyboard_safe k \<longleftrightarrow> chassis_ok (kb_controller k) \<and> scale_ok (kb_scale k) \<and> length (kb_currents k) = 5 \<and>
     (\<forall>f\<in>set (tried_frames (kb_can k)). command_frame_ok 6500 f)"

lemma keyboard_turn_safe:
  assumes "keyboard_safe k" shows "keyboard_safe (fst (keyboard_turn kern u inp k))"
proof -
  obtain c r cur where st: "keyboard_step u inp k = (c, r, cur)" by (cases "keyboard_step u inp k")
  have keys: "keys_ok (fst (handle_keys (ki_reads inp) (ki_now inp) (kb_controller k, kb_scale k, kb_printed k)))"
    by (rule handle_keys_ok) (use assms in \<open>simp add: keys_ok_def keyboard_safe_def\<close>)
  then have "chassis_ok (keyboard_ready inp k)"
    unfolding keyboard_ready_def by (intro vt_drain_ok) (simp add: keys_ok_def)
  note ok = cycle_ok [OF this _ st [unfolded keyboard_step_def]]
  show ?thesis
    using assms ok keys
    by (auto simp: keyboard_safe_def keyboard_turn_parts keyboard_sends_def st commands_within_def keys_ok_def)
qed

text \<open>Every way through \<open>main\<close>.\<close>

lemma keyboard_main_cases:
  obtains (usage) "keyboard_args (kw_argv w) = None" "keyboard_main kern u w tty = (2, [], [], tty)"
  | (no_can) "can_answer (kw_can w) (kw_argv w ! 0) < 0" "keyboard_main kern u w tty = (1, [], [], tty)"
  | (not_ready) "keyboard_main kern u w tty = (1, vt_send_zero_current kern [], [], tty)"
  | (no_terminal) t where "setup_terminal (kw_terminal w) tty = t" "fst t \<noteq> 0"
      "keyboard_main kern u w tty = (1, vt_send_zero_current kern [], [], snd t)"
  | (ran) config c t where "keyboard_args (kw_argv w) = Some config"
      "c = snd (vt_wait_for_all_feedback (kw_wait_ms w) 1500 (kw_rounds w)
         (chassis_init (kw_memory w) (Some config) (kw_init_ms w)))"
      "setup_terminal (kw_terminal w) tty = (0, t)"
      "keyboard_main kern u w tty =
         (let k = fst (keyboard_loop kern u (kw_inputs w) (keyboard_begin (kw_start_ms w) c))
          in (0, vt_send_zero_current kern (kb_can k), kb_printed k,
              restore_terminal (kw_terminal w) (restore_terminal (kw_terminal w) t)))"
proof (cases "keyboard_args (kw_argv w)")
  case None
  then show ?thesis by (intro usage) (simp_all add: keyboard_main_def)
next
  case (Some config)
  let ?wait = "vt_wait_for_all_feedback (kw_wait_ms w) 1500 (kw_rounds w)
      (chassis_init (kw_memory w) (Some config) (kw_init_ms w))"
  let ?tty = "setup_terminal (kw_terminal w) tty"
  consider "can_answer (kw_can w) (kw_argv w ! 0) < 0"
    | "\<not> can_answer (kw_can w) (kw_argv w ! 0) < 0" "fst ?wait = 0"
    | "\<not> can_answer (kw_can w) (kw_argv w ! 0) < 0" "fst ?wait \<noteq> 0" "fst ?tty \<noteq> 0"
    | "\<not> can_answer (kw_can w) (kw_argv w ! 0) < 0" "fst ?wait \<noteq> 0" "fst ?tty = 0" by blast
  then show ?thesis
  proof cases
    case 1 then show ?thesis by (intro no_can) (simp_all add: keyboard_main_def Some)
  next
    case 2 then show ?thesis by (intro not_ready) (simp add: keyboard_main_def Some case_prod_beta)
  next
    case 3 then show ?thesis
      by (intro no_terminal [of ?tty]) (simp_all add: keyboard_main_def Some case_prod_beta)
  next
    case 4 then show ?thesis
      by (intro ran [OF Some refl, of "snd ?tty"]) (simp_all add: keyboard_main_def Some case_prod_beta Let_def prod_eq_iff)
  qed
qed

section \<open>Turns without a driving key\<close>

text \<open>Keys that neither drive nor end the tool.\<close>

definition idle_key :: "int \<times> u8 \<Rightarrow> bool" where
  "idle_key r \<longleftrightarrow> \<not> key_in (read_key r) ''wWsSaAdDqQeExX''"

definition space_key :: "int \<times> u8 \<Rightarrow> bool" where
  "space_key r \<longleftrightarrow> key_in (read_key r) '' ''"

lemma key_in_append: "key_in key (cs @ ds) \<longleftrightarrow> key_in key cs \<or> key_in key ds"
  by (auto simp: key_in_def)

lemma idle_key_not:
  assumes "idle_key r" "cs \<in> {''wW'', ''sS'', ''aA'', ''dD'', ''qQ'', ''eE'', ''xX''}"
  shows "\<not> key_in (read_key r) cs"
  using assms key_in_append [of "read_key r" "''wW''" "''sSaAdDqQeExX''"]
    key_in_append [of "read_key r" "''sS''" "''aAdDqQeExX''"] key_in_append [of "read_key r" "''aA''" "''dDqQeExX''"]
    key_in_append [of "read_key r" "''dD''" "''qQeExX''"] key_in_append [of "read_key r" "''qQ''" "''eExX''"]
    key_in_append [of "read_key r" "''eE''" "''xX''"]
  by (auto simp: idle_key_def)

lemma idle_key_effect:
  assumes "idle_key r"
  shows "fst (handle_key (read_key r) c s now) = 1 \<and>
    fst (snd (handle_key (read_key r) c s now)) = c \<or> space_key r \<and>
    fst (handle_key (read_key r) c s now) = 1 \<and> fst (snd (handle_key (read_key r) c s now)) = chassis_stop c now"
  using idle_key_not [OF assms] by (simp add: handle_key_def space_key_def Let_def)

text \<open>Reads that deliver a byte each, none of them a driving key.\<close>

definition idle_reads :: "(int \<times> u8) list \<Rightarrow> bool" where
  "idle_reads rs \<longleftrightarrow> list_all (\<lambda>r. fst r = 1 \<and> idle_key r) rs"

lemma idle_reads_effect:
  assumes "idle_reads rs" "chassis_wf c"
  shows "\<exists>c' s' p'. handle_keys rs now (c, s, p) = ((c', s', p'), True) \<and> chassis_wf c' \<and>
    (c' = c \<or> cc_command c' = zero_command) \<and> (list_ex space_key rs \<longrightarrow> cc_command c' = zero_command)"
  using assms
proof (induction rs arbitrary: c s p)
  case (Cons r rs)
  obtain ret c1 s1 out where h: "handle_key (read_key r) c s now = (ret, c1, s1, out)"
    by (cases "handle_key (read_key r) c s now")
  have r: "fst r = 1" "idle_key r" "idle_reads rs" using Cons.prems(1) by (simp_all add: idle_reads_def)
  have "uint x \<noteq> - 1" for x :: u8 using uint_ge_0 [of x] by linarith
  then have eof: "read_key r \<noteq> C_EOF" using r(1) by (auto simp: read_key_def C_EOF_def split: prod.split)
  have step: "ret = 1" "c1 = c \<or> space_key r \<and> c1 = chassis_stop c now"
    using idle_key_effect [OF r(2), of c s now] by (auto simp: h)
  have space: "space_key r \<Longrightarrow> c1 = chassis_stop c now"
    using h idle_key_not [OF r(2)]
    by (auto simp: handle_key_def space_key_def Let_def key_in_def split: if_splits)
  have wf: "chassis_wf (c\<lparr>cc_last_command_ms := now\<rparr>)" using Cons.prems(2) by (simp add: chassis_wf_def)
  then have c1: "chassis_wf c1" "c1 = c \<or> cc_command c1 = zero_command"
    "space_key r \<Longrightarrow> cc_command c1 = zero_command"
    using step(2) space Cons.prems(2) by (auto simp: chassis_stop_def reset_frame)
  from Cons.IH [OF r(3) c1(1), of s1 "p @ out"] obtain c' s' p' where
    "handle_keys rs now (c1, s1, p @ out) = ((c', s', p'), True)" "chassis_wf c'"
    "c' = c1 \<or> cc_command c' = zero_command" "list_ex space_key rs \<longrightarrow> cc_command c' = zero_command"
    by blast
  then show ?case using c1 by (auto simp: eof h step(1))
qed simp

section \<open>Properties\<close>

text \<open>Whatever is typed, every frame the tool tries to write commands
  four currents of at most 6500, given an in-range configuration. No key makes a NaN: the
  scale stays between 0.1 and 1.\<close>

theorem keyboard_currents_bounded:
  assumes "chassis_wf (kw_memory w)" "\<And>config. keyboard_args (kw_argv w) = Some config \<Longrightarrow> config_ok config"
  shows "\<forall>f\<in>set (tried_frames (fst (snd (keyboard_main kern u w tty)))). command_frame_ok 6500 f"
proof -
  have zero: "command_frame_ok 6500 (command_frame (replicate 5 0))"
    by (rule command_frame_ok) (rule zero_within, simp)
  show ?thesis
  proof (cases rule: keyboard_main_cases [where kern = kern and u = u and w = w and tty = tty])
    case (ran config c t)
    have "chassis_ok c"
      unfolding ran(2) using assms(1) assms(2) [OF ran(1)] by (intro vt_wait_ok chassis_init_ok) simp_all
    then have "keyboard_safe (keyboard_begin (kw_start_ms w) c)"
      using scale_begin by (simp add: keyboard_safe_def keyboard_begin_def)
    then have "keyboard_safe (fst (keyboard_loop kern u (kw_inputs w) (keyboard_begin (kw_start_ms w) c)))"
      by (rule keyboard_turns.turns_invariant) (rule keyboard_turn_safe)
    then show ?thesis using ran(4) zero by (auto simp: velocity_zero_frames keyboard_safe_def Let_def)
  qed (use zero in \<open>auto simp: velocity_zero_frames\<close>)
qed

text \<open>C15. The dead man's switch of the keyboard: in a turn in which no driving key
  was read, the four currents sent are zero as soon as the last command is older than the
  time-out; a press of the space bar makes them zero in the same turn.\<close>

theorem keyboard_release_stops:
  assumes "chassis_wf (kb_controller k)" "length (kb_currents k) = 5" "idle_reads (ki_reads inp)"
    "command_timeout_ms (cc_config (kb_controller k)) <
       f32_of_u64 (elapsed_ms (ki_now inp) (cc_last_command_ms (kb_controller k))) \<or>
     list_ex space_key (ki_reads inp)"
  shows "tried_frames (kb_can (fst (keyboard_turn kern u inp k))) =
    tried_frames (kb_can k) @ [command_frame (replicate 5 0)]"
proof -
  obtain c' s' p' where keys: "handle_keys (ki_reads inp) (ki_now inp) (kb_controller k, kb_scale k, kb_printed k) =
      ((c', s', p'), True)" "chassis_wf c'" "c' = kb_controller k \<or> cc_command c' = zero_command"
    "list_ex space_key (ki_reads inp) \<longrightarrow> cc_command c' = zero_command"
    using idle_reads_effect [OF assms(3,1)] by blast
  let ?P = "\<lambda>c. chassis_wf c \<and> cc_command c = cc_command c' \<and> cc_config c = cc_config c' \<and>
      cc_last_command_ms c = cc_last_command_ms c'"
  have "?P (keyboard_ready inp k)"
    unfolding keyboard_ready_def keys(1) fst_conv
  proof (rule velocity_can.loop_invariant)
    show "?P (vt_feedback_frame e t)" if "?P t" for e t
      using that vt_frame_controller [of e t] by (auto simp: chassis_update_feedback_def chassis_wf_def)
  qed (simp add: keys(2))
  then have wf: "chassis_wf (keyboard_ready inp k)" and
    idle: "command_expired (keyboard_ready inp k) (ki_now inp) \<or> command_is_zero (cc_command (keyboard_ready inp k))"
    using assms(4) keys(3,4) zero_command_is_zero by (auto simp: command_expired_def)
  have "keyboard_sends u inp k = replicate 5 0"
    unfolding keyboard_sends_def keyboard_step_def step_idle [OF wf assms(2) idle]
    by (simp add: zero_if_offline_def fold_slots_set numeral_eq_Suc)
  then show ?thesis by (simp add: keyboard_turn_parts)
qed

lemma keyboard_release_stops_witness:
  "tried_frames (kb_can (fst (keyboard_turn (\<lambda>_ _. 16) (\<lambda>_. 0)
     \<lparr>ki_now = 1010, ki_reads = [(1, 104), (1, 32)], ki_can = [(PollTimeout, 1010)]\<rparr>
     (keyboard_begin 1000 demo_chassis)))) = [command_frame (replicate 5 0)]"
proof -
  have "idle_reads [(1, 104), (1, 32)]" "list_ex space_key [(1, 104), (1, 32)]" by code_simp+
  moreover have "chassis_wf demo_chassis" using demo_chassis_ok by (simp add: chassis_ok_def)
  ultimately show ?thesis
    using keyboard_release_stops [of "keyboard_begin 1000 demo_chassis"
        "\<lparr>ki_now = 1010, ki_reads = [(1, 104), (1, 32)], ki_can = [(PollTimeout, 1010)]\<rparr>" "\<lambda>_ _. 16" "\<lambda>_. 0"]
    by (simp add: keyboard_begin_def)
qed

text \<open>C36. What the tool does to the terminal outlives it. Once setting
  up has changed the attributes, either the status flags are set too, then the attributes come
  back at the end but the non-blocking flag stays; or one of the two \<open>fcntl\<close> calls fails, and
  then the tool exits with canonical input and echo left off, because \<open>restore_terminal\<close> still
  finds \<open>g_terminal_configured\<close> unset.\<close>

theorem keyboard_leaves_terminal_changed:
  assumes "keyboard_args (kw_argv w) = Some config" "0 \<le> can_answer (kw_can w) (kw_argv w ! 0)"
    "fst (vt_wait_for_all_feedback (kw_wait_ms w) 1500 (kw_rounds w)
       (chassis_init (kw_memory w) (Some config) (kw_init_ms w))) \<noteq> 0"
    "g_terminal_configured g = 0"
    "ta_tcgetattr (kw_terminal w) = 0" "ta_tcsetattr (kw_terminal w) = 0" "ta_restore (kw_terminal w) = 0"
  shows "case keyboard_main kern u w (tm, g) of (code, port, printed, term', g') \<Rightarrow>
    if 0 \<le> ta_getfl (kw_terminal w) \<and> ta_setfl (kw_terminal w) = 0
    then code = 0 \<and> tm_termios term' = tm_termios tm \<and> tm_flags term' AND O_NONBLOCK = O_NONBLOCK
    else code = 1 \<and> c_lflag (tm_termios term') AND (ICANON OR ECHO) = 0"
proof -
  have lflag: "(x AND NOT a AND NOT b) AND (a OR b) = 0" for x a b :: u32 by (auto simp: bit_eq_iff bit_simps)
  have flag: "(x OR O_NONBLOCK) AND O_NONBLOCK = O_NONBLOCK" for x :: u32
    by (auto simp: bit_eq_iff bit_simps)
  show ?thesis
    using assms
    by (auto simp: keyboard_main_def setup_terminal_def restore_terminal_def tcsetattr_def Let_def
        case_prod_beta lflag flag)
qed

text \<open>A terminal in canonical mode, the four motors at rest, and \<open>F_SETFL\<close> refused.\<close>

definition demo_keyboard_world :: "int \<Rightarrow> KeyboardWorld" where
  "demo_keyboard_world setfl = \<lparr>kw_argv = [''can0''],
     kw_can = \<lparr>ca_socket = 3, ca_ioctl = \<lambda>_. 0, ca_bind = 0\<rparr>, kw_memory = demo_blank,
     kw_init_ms = 1000, kw_wait_ms = 1000, kw_rounds = vw_rounds demo_velocity_world,
     kw_terminal = \<lparr>ta_tcgetattr = 0, ta_tcsetattr = 0, ta_getfl = 2, ta_setfl = setfl, ta_restore = 0\<rparr>,
     kw_start_ms = 1002, kw_inputs = []\<rparr>"

lemma demo_keyboard_ready:
  "fst (vt_wait_for_all_feedback 1000 1500 (vw_rounds demo_velocity_world)
     (chassis_init demo_blank (Some chassis_default_config) 1000)) = 1"
  by code_simp

lemma keyboard_leaves_terminal_changed_witness:
  "case keyboard_main (\<lambda>_ _. 16) (\<lambda>_. 0) (demo_keyboard_world (- 1))
     (\<lparr>tm_termios = \<lparr>c_iflag = 0, c_oflag = 0, c_cflag = 0, c_lflag = 10, c_cc = replicate 32 0\<rparr>, tm_flags = 2\<rparr>,
      \<lparr>g_original_termios = \<lparr>c_iflag = 0, c_oflag = 0, c_cflag = 0, c_lflag = 0, c_cc = []\<rparr>,
       g_terminal_configured = 0\<rparr>) of
     (code, port, out, term', g') \<Rightarrow> code = 1 \<and> c_lflag (tm_termios term') AND (ICANON OR ECHO) = 0"
proof -
  have args: "keyboard_args (kw_argv (demo_keyboard_world (- 1))) = Some chassis_default_config"
    by (simp add: keyboard_args_def demo_keyboard_world_def)
  show ?thesis
    using keyboard_leaves_terminal_changed [OF args, where kern = "\<lambda>_ _. 16" and u = "\<lambda>_. 0" and
        tm = "\<lparr>tm_termios = \<lparr>c_iflag = 0, c_oflag = 0, c_cflag = 0, c_lflag = 10, c_cc = replicate 32 0\<rparr>, tm_flags = 2\<rparr>" and
        g = "\<lparr>g_original_termios = \<lparr>c_iflag = 0, c_oflag = 0, c_cflag = 0, c_lflag = 0, c_cc = []\<rparr>,
          g_terminal_configured = 0\<rparr>"] demo_keyboard_ready
    by (simp add: demo_keyboard_world_def can_answer_def socketcan_open_def)
qed

end
