(* ===== verification/MotorBench.thy ===== *)
theory MotorBench
  imports ChassisVelocity
begin

text \<open>
  The two bench programs for one motor: \<open>tools/test_single_motor.c\<close> (a constant current) and
  \<open>tools/test_speed_pid.c\<close> (a closed loop). Both have the same \<open>send_currents\<close>,
  \<open>send_zero_current\<close>, \<open>drain_feedback\<close>, \<open>parse_int\<close> and \<open>parse_float\<close>, word for word; the last two
  are also those of \<open>chassis_velocity.c\<close> under other names.
\<close>

section \<open>What both share\<close>

definition BENCH_ZERO_SEND_REPEAT :: nat where "BENCH_ZERO_SEND_REPEAT = 10"
definition DEFAULT_PERIOD_MS :: int where "DEFAULT_PERIOD_MS = 10"

definition bench_send_currents :: "can_kernel \<Rightarrow> can_port \<Rightarrow> i16 list \<Rightarrow> int \<times> can_port" where
  "bench_send_currents kern port currents =
     socketcan_send kern port MOTOR3508_CMD_ID_1_TO_4
       (motor3508_pack_current_array currents (replicate 8 0)) 8"

definition bench_send_zero_current :: "can_kernel \<Rightarrow> can_port \<Rightarrow> can_port" where
  "bench_send_zero_current kern port =
     ((\<lambda>port. snd (bench_send_currents kern port (replicate 5 0))) ^^ BENCH_ZERO_SEND_REPEAT) port"

text \<open>The time stamp is the one the caller read before the drain.\<close>

definition bench_feedback_frame :: "u64 \<Rightarrow> rx_event \<Rightarrow> Motor3508Feedback list \<Rightarrow> Motor3508Feedback list" where
  "bench_feedback_frame now e feedbacks =
     (let r = drain_receive e in
      if 8 \<le> rx_dlc r
      then snd (motor3508_update_feedback (rx_can_id r) (rx_data r) fb_zero feedbacks now)
      else feedbacks)"

fun bench_drain_feedback ::
  "u64 \<Rightarrow> rx_event list \<Rightarrow> Motor3508Feedback list \<Rightarrow> Motor3508Feedback list \<times> rx_event list" where
  "bench_drain_feedback now [] feedbacks = (feedbacks, [])"
| "bench_drain_feedback now (e # es) feedbacks =
     (if rx_ret (drain_receive e) \<le> 0 then (feedbacks, es)
      else bench_drain_feedback now es (bench_feedback_frame now e feedbacks))"

interpretation bench_can: receive_loop "bench_drain_feedback now" rx_stop "bench_feedback_frame now" for now
  by unfold_locales (simp_all add: rx_stop_def)

interpretation bench_sender: current_sender "bench_send_currents kern" kern for kern
  by unfold_locales
    (simp add: bench_send_currents_def socketcan_send_8 [OF _ command_frame_def] len_simps motor_consts)

lemma bench_zero_frames:
  "tried_frames (bench_send_zero_current kern port) =
     tried_frames port @ replicate 10 (command_frame (replicate 5 0))"
  by (simp add: bench_send_zero_current_def BENCH_ZERO_SEND_REPEAT_def bench_sender.burst_frames)

text \<open>An input of a turn: the clock, and what the socket delivers.\<close>

record BenchInput =
  bi_now :: u64
  bi_can :: "rx_event list"

section \<open>A constant current\<close>

definition MAX_TEST_CURRENT :: int where "MAX_TEST_CURRENT = 5000"

text \<open>Motor, current, duration and period; \<open>None\<close> is exit code 2. \<open>argv\<close> is without the program
  name.\<close>

definition single_args :: "string list \<Rightarrow> (int \<times> int \<times> int \<times> int) option" where
  "single_args argv =
     (if length argv \<noteq> 4 \<and> length argv \<noteq> 5 then None
      else
        let (ok1, motor_id) = vt_parse_int_arg (argv ! 1) 0;
            (ok2, current) = vt_parse_int_arg (argv ! 2) 0;
            (ok3, duration_ms) = vt_parse_int_arg (argv ! 3) 0;
            (ok4, period_ms) =
              (if length argv = 5 then vt_parse_int_arg (argv ! 4) DEFAULT_PERIOD_MS else (True, DEFAULT_PERIOD_MS))
        in if \<not> ok1 \<or> \<not> ok2 \<or> \<not> ok3 \<or> \<not> ok4 then None
           else if motor_id < 1 \<or> 4 < motor_id then None
           else if current < - MAX_TEST_CURRENT \<or> MAX_TEST_CURRENT < current then None
           else if duration_ms \<le> 0 \<or> period_ms \<le> 0 then None
           else Some (motor_id, current, duration_ms, period_ms))"

record SingleTest =
  st_feedbacks :: "Motor3508Feedback list"
  st_last_print_ms :: u64
  st_can :: can_port
  st_printed :: string

definition single_line :: "Motor3508Feedback \<Rightarrow> int \<Rightarrow> u64 \<Rightarrow> string" where
  "single_line fb motor_id now =
     (if fb_online fb \<noteq> 0
      then motor3508_feedback_name (word_of_int motor_id) @
        '' rpm='' @ pad (CHR '' '') 6 (show_int (sint (fb_speed_rpm fb))) @
        '' current_fb='' @ pad (CHR '' '') 6 (show_int (sint (fb_current fb))) @
        '' temp='' @ pad (CHR '' '') 3 (show_int (sint (fb_temperature fb))) @
        ''C age='' @ show_uint (uint (now - fb_last_update_ms fb)) @ ''ms'' @ newline
      else motor3508_feedback_name (word_of_int motor_id) @ '' feedback not received yet.'' @ newline)"

definition single_turn ::
  "can_kernel \<Rightarrow> int \<Rightarrow> i16 list \<Rightarrow> int \<Rightarrow> u64 \<Rightarrow> BenchInput \<Rightarrow> SingleTest \<Rightarrow> SingleTest \<times> bool" where
  "single_turn kern motor_id currents duration_ms start_ms inp t =
     (let now = bi_now inp
      in if word_of_int duration_ms \<le> now - start_ms then (t, False)
         else
           let t = t\<lparr>st_feedbacks := fst (bench_drain_feedback now (bi_can inp) (st_feedbacks t))\<rparr>;
               (ret, port) = bench_send_currents kern (st_can t) currents;
               t = t\<lparr>st_can := port\<rparr>
           in if ret < 0 then (t, False)
              else (if 100 \<le> now - st_last_print_ms t
                    then t\<lparr>st_printed := st_printed t @
                             single_line (st_feedbacks t ! nat motor_id) motor_id now,
                           st_last_print_ms := now\<rparr>
                    else t, True))"

fun single_loop ::
  "can_kernel \<Rightarrow> int \<Rightarrow> i16 list \<Rightarrow> int \<Rightarrow> u64 \<Rightarrow> BenchInput list \<Rightarrow> SingleTest \<Rightarrow> SingleTest \<times> bool" where
  "single_loop kern motor_id currents duration_ms start_ms [] t = (t, False)"
| "single_loop kern motor_id currents duration_ms start_ms (inp # inputs) t =
     (case single_turn kern motor_id currents duration_ms start_ms inp t of
        (t, go_on) \<Rightarrow>
          if go_on then single_loop kern motor_id currents duration_ms start_ms inputs t else (t, True))"

text \<open>\<open>main\<close>: the exit code, everything written to the bus, and the lines of the loop.\<close>

definition single_main ::
  "can_kernel \<Rightarrow> string list \<Rightarrow> can_answers \<Rightarrow> u64 \<Rightarrow> BenchInput list \<Rightarrow> int \<times> can_port \<times> string" where
  "single_main kern argv answers start_ms inputs =
     (case single_args argv of
        None \<Rightarrow> (2, [], [])
      | Some (motor_id, current, duration_ms, period_ms) \<Rightarrow>
          if can_answer answers (argv ! 0) < 0 then (1, [], [])
          else
            let currents = (replicate 5 0)[nat motor_id := word_of_int current];
                t = fst (single_loop kern motor_id currents duration_ms start_ms inputs
                      \<lparr>st_feedbacks = replicate 5 fb_zero, st_last_print_ms = 0, st_can = [], st_printed = []\<rparr>)
            in (0, bench_send_zero_current kern (st_can t), st_printed t))"

interpretation single_turns: turn_loop
  "single_loop kern motor_id currents duration_ms start_ms" "single_turn kern motor_id currents duration_ms start_ms"
  for kern motor_id currents duration_ms start_ms
  by unfold_locales (simp_all add: case_prod_beta)

section \<open>A closed loop\<close>

definition DEFAULT_KP :: f32 where "DEFAULT_KP = f32_lit (9 / 5)"
definition DEFAULT_KI :: f32 where "DEFAULT_KI = 0"
definition DEFAULT_KD :: f32 where "DEFAULT_KD = 0"
definition DEFAULT_OUTPUT_LIMIT :: f32 where "DEFAULT_OUTPUT_LIMIT = f32_lit 6500"
definition DEFAULT_INTEGRAL_LIMIT :: f32 where "DEFAULT_INTEGRAL_LIMIT = f32_lit 2500"
definition DEFAULT_TARGET_LIMIT_RPM :: int where "DEFAULT_TARGET_LIMIT_RPM = 3800"

record SpeedOptions =
  so_motor_id :: int
  so_target_rpm :: int
  so_duration_ms :: int
  so_period_ms :: int
  so_kp :: f32
  so_ki :: f32
  so_kd :: f32

definition speed_args :: "string list \<Rightarrow> SpeedOptions option" where
  "speed_args argv =
     (if length argv \<noteq> 4 \<and> length argv \<noteq> 7 \<and> length argv \<noteq> 8 then None
      else
        let (ok1, motor_id) = vt_parse_int_arg (argv ! 1) 0;
            (ok2, target_rpm) = vt_parse_int_arg (argv ! 2) 0;
            (ok3, duration_ms) = vt_parse_int_arg (argv ! 3) 0;
            gains = length argv = 7 \<or> length argv = 8;
            (ok4, p) = (if gains then vt_parse_float_arg (argv ! 4) DEFAULT_KP else (True, DEFAULT_KP));
            (ok5, i) = (if gains then vt_parse_float_arg (argv ! 5) DEFAULT_KI else (True, DEFAULT_KI));
            (ok6, d) = (if gains then vt_parse_float_arg (argv ! 6) DEFAULT_KD else (True, DEFAULT_KD));
            (ok7, period_ms) =
              (if length argv = 8 then vt_parse_int_arg (argv ! 7) DEFAULT_PERIOD_MS else (True, DEFAULT_PERIOD_MS))
        in if \<not> ok1 \<or> \<not> ok2 \<or> \<not> ok3 then None
           else if \<not> ok4 \<or> \<not> ok5 \<or> \<not> ok6 then None
           else if \<not> ok7 then None
           else if motor_id < 1 \<or> 4 < motor_id then None
           else if target_rpm < - DEFAULT_TARGET_LIMIT_RPM \<or> DEFAULT_TARGET_LIMIT_RPM < target_rpm then None
           else if duration_ms \<le> 0 \<or> period_ms \<le> 0 then None
           else Some \<lparr>so_motor_id = motor_id, so_target_rpm = target_rpm, so_duration_ms = duration_ms,
                  so_period_ms = period_ms, so_kp = p, so_ki = i, so_kd = d\<rparr>)"

text \<open>
  A round of the wait: the clock read of the loop condition, the one of the drain, and what the
  socket delivers.
\<close>

fun wait_for_motor_feedback ::
  "u64 \<Rightarrow> int \<Rightarrow> int \<Rightarrow> (u64 \<times> u64 \<times> rx_event list) list \<Rightarrow> Motor3508Feedback list \<Rightarrow>
   int \<times> Motor3508Feedback list" where
  "wait_for_motor_feedback start motor_id timeout_ms [] feedbacks = (0, feedbacks)"
| "wait_for_motor_feedback start motor_id timeout_ms ((t, now, es) # rounds) feedbacks =
     (if t - start < word_of_int timeout_ms
      then let feedbacks = fst (bench_drain_feedback now es feedbacks)
           in if fb_online (feedbacks ! nat motor_id) \<noteq> 0 then (1, feedbacks)
              else wait_for_motor_feedback start motor_id timeout_ms rounds feedbacks
      else (0, feedbacks))"

text \<open>\<open>(int16_t)\<close> of a \<open>float\<close> cuts the fraction off; outside the range, and for a NaN, C leaves
  the result undefined: the parameter \<open>u\<close>.\<close>

definition f32_to_i16 :: "(f32 \<Rightarrow> i16) \<Rightarrow> f32 \<Rightarrow> i16" where
  "f32_to_i16 u x =
     (case x of
        Fin s q \<Rightarrow>
          (let n = (if q < 0 then \<lceil>q\<rceil> else \<lfloor>q\<rfloor>) in if - (2 ^ 15) \<le> n \<and> n < 2 ^ 15 then word_of_int n else u x)
      | _ \<Rightarrow> u x)"

record SpeedTest =
  sp_feedbacks :: "Motor3508Feedback list"
  sp_pid :: PIDController
  sp_currents :: "i16 list"
  sp_last_loop_ms :: u64
  sp_last_print_ms :: u64
  sp_can :: can_port
  sp_printed :: string

definition speed_line :: "int \<Rightarrow> int \<Rightarrow> Motor3508Feedback \<Rightarrow> i16 \<Rightarrow> PIDController \<Rightarrow> string" where
  "speed_line motor_id target_rpm fb current pid =
     motor3508_feedback_name (word_of_int motor_id) @
     '' target='' @ pad (CHR '' '') 6 (show_int target_rpm) @
     '' rpm='' @ pad (CHR '' '') 6 (show_int (sint (fb_speed_rpm fb))) @
     '' cmd_current='' @ pad (CHR '' '') 6 (show_int (sint current)) @
     '' fb_current='' @ pad (CHR '' '') 6 (show_int (sint (fb_current fb))) @
     '' temp='' @ pad (CHR '' '') 3 (show_int (sint (fb_temperature fb))) @
     ''C err='' @ pad (CHR '' '') 8 (show_fixed 1 (pid_error pid)) @ newline"

definition speed_turn ::
  "can_kernel \<Rightarrow> (f32 \<Rightarrow> i16) \<Rightarrow> SpeedOptions \<Rightarrow> u64 \<Rightarrow> BenchInput \<Rightarrow> SpeedTest \<Rightarrow> SpeedTest \<times> bool" where
  "speed_turn kern u opts start_ms inp t =
     (let now = bi_now inp;
          m = nat (so_motor_id opts)
      in if word_of_int (so_duration_ms opts) \<le> now - start_ms then (t, False)
         else
           let t = t\<lparr>sp_feedbacks := fst (bench_drain_feedback now (bi_can inp) (sp_feedbacks t))\<rparr>;
               fb = sp_feedbacks t ! m
           in if fb_online fb = 0 \<or> 200 < now - fb_last_update_ms fb then (t, False)
              else
                let dt_s = loop_dt now (sp_last_loop_ms t);
                    t = t\<lparr>sp_last_loop_ms := now\<rparr>;
                    (pid, out) = pid_calculate (sp_pid t) (f32_of_int (so_target_rpm opts))
                      (f32_of_int (sint (fb_speed_rpm fb))) dt_s;
                    t = t\<lparr>sp_pid := pid, sp_currents := (sp_currents t)[m := f32_to_i16 u out]\<rparr>;
                    (ret, port) = bench_send_currents kern (sp_can t) (sp_currents t);
                    t = t\<lparr>sp_can := port\<rparr>
                in if ret < 0 then (t, False)
                   else (if 100 \<le> now - sp_last_print_ms t
                         then t\<lparr>sp_printed := sp_printed t @
                                  speed_line (so_motor_id opts) (so_target_rpm opts) fb (sp_currents t ! m) (sp_pid t),
                                sp_last_print_ms := now\<rparr>
                         else t, True))"

fun speed_loop ::
  "can_kernel \<Rightarrow> (f32 \<Rightarrow> i16) \<Rightarrow> SpeedOptions \<Rightarrow> u64 \<Rightarrow> BenchInput list \<Rightarrow> SpeedTest \<Rightarrow> SpeedTest \<times> bool" where
  "speed_loop kern u opts start_ms [] t = (t, False)"
| "speed_loop kern u opts start_ms (inp # inputs) t =
     (case speed_turn kern u opts start_ms inp t of
        (t, go_on) \<Rightarrow> if go_on then speed_loop kern u opts start_ms inputs t else (t, True))"

record SpeedWorld =
  sw_argv :: "string list"
  sw_can :: can_answers
  sw_memory :: PIDController
  sw_wait_ms :: u64
  sw_rounds :: "(u64 \<times> u64 \<times> rx_event list) list"
  sw_start_ms :: u64
  sw_inputs :: "BenchInput list"

definition speed_begin :: "SpeedOptions \<Rightarrow> PIDController \<Rightarrow> u64 \<Rightarrow> Motor3508Feedback list \<Rightarrow> SpeedTest" where
  "speed_begin opts memory start_ms feedbacks =
     \<lparr>sp_feedbacks = feedbacks,
      sp_pid = pid_init memory (so_kp opts) (so_ki opts) (so_kd opts) DEFAULT_OUTPUT_LIMIT (- DEFAULT_OUTPUT_LIMIT)
        DEFAULT_INTEGRAL_LIMIT (- DEFAULT_INTEGRAL_LIMIT),
      sp_currents = replicate 5 0, sp_last_loop_ms = start_ms, sp_last_print_ms = 0, sp_can = [], sp_printed = []\<rparr>"

definition speed_main :: "can_kernel \<Rightarrow> (f32 \<Rightarrow> i16) \<Rightarrow> SpeedWorld \<Rightarrow> int \<times> can_port \<times> string" where
  "speed_main kern u w =
     (case speed_args (sw_argv w) of
        None \<Rightarrow> (2, [], [])
      | Some opts \<Rightarrow>
          if can_answer (sw_can w) (sw_argv w ! 0) < 0 then (1, [], [])
          else
            let (ready, feedbacks) = wait_for_motor_feedback (sw_wait_ms w) (so_motor_id opts) 1000 (sw_rounds w)
                  (replicate 5 fb_zero)
            in if ready = 0 then (1, bench_send_zero_current kern [], [])
               else
                 let t = fst (speed_loop kern u opts (sw_start_ms w) (sw_inputs w)
                       (speed_begin opts (sw_memory w) (sw_start_ms w) feedbacks))
                 in (0, bench_send_zero_current kern (sp_can t), sp_printed t))"

interpretation speed_turns: turn_loop "speed_loop kern u opts start_ms" "speed_turn kern u opts start_ms"
  for kern u opts start_ms
  by unfold_locales (simp_all add: case_prod_beta)

section \<open>One motor only\<close>

text \<open>Currents of which only motor \<open>m\<close> has one, and a permitted one.\<close>

definition one_motor :: "(i16 \<Rightarrow> bool) \<Rightarrow> nat \<Rightarrow> i16 list \<Rightarrow> bool" where
  "one_motor ok m cs \<longleftrightarrow> length cs = 5 \<and> (\<forall>i<5. i \<noteq> m \<longrightarrow> cs ! i = 0) \<and> ok (cs ! m)"

text \<open>The same of the four currents of a frame.\<close>

definition one_motor_frame :: "(i16 \<Rightarrow> bool) \<Rightarrow> nat \<Rightarrow> can_frame \<Rightarrow> bool" where
  "one_motor_frame ok m f \<longleftrightarrow> cf_can_id f = 0x200 \<and> cf_can_dlc f = 8 \<and>
     (\<forall>i\<in>{1, 2, 3, 4}. if i = m then ok (frame_currents f ! (i - 1)) else frame_currents f ! (i - 1) = 0)"

lemma one_motor_frame: "one_motor ok m cs \<Longrightarrow> one_motor_frame ok m (command_frame cs)"
  by (auto simp: one_motor_frame_def one_motor_def frame_currents_command) (simp_all add: command_frame_def)

lemma one_motor_zero: "ok 0 \<Longrightarrow> m < 5 \<Longrightarrow> one_motor ok m (replicate 5 0)"
  by (simp add: one_motor_def)

lemma one_motor_update: "one_motor ok' m cs \<Longrightarrow> m < 5 \<Longrightarrow> ok x \<Longrightarrow> one_motor ok m (cs[m := x])"
  by (simp add: one_motor_def)

text \<open>Currents of at most \<open>b\<close> either way.\<close>

definition at_most :: "int \<Rightarrow> i16 \<Rightarrow> bool" where
  "at_most b x \<longleftrightarrow> \<bar>sint x\<bar> \<le> b"

section \<open>The constant current\<close>

lemma single_args_range:
  assumes "single_args argv = Some (motor_id, current, duration_ms, period_ms)"
  shows "nat motor_id \<in> {1, 2, 3, 4}" "\<bar>current\<bar> \<le> 5000" "0 < duration_ms"
proof -
  have "\<not> (motor_id < 1 \<or> 4 < motor_id)" "\<not> (current < - MAX_TEST_CURRENT \<or> MAX_TEST_CURRENT < current)"
    "\<not> (duration_ms \<le> 0 \<or> period_ms \<le> 0)"
    using assms by (auto simp: single_args_def Let_def split: prod.splits if_splits)
  then show "nat motor_id \<in> {1, 2, 3, 4}" "\<bar>current\<bar> \<le> 5000" "0 < duration_ms"
    by (auto simp: MAX_TEST_CURRENT_def)
qed

lemma single_loop_frames:
  "\<exists>n\<le>length inputs. tried_frames (st_can (fst (single_loop kern m cs d start inputs t))) =
     tried_frames (st_can t) @ replicate n (command_frame cs)"
proof (induction inputs arbitrary: t)
  case (Cons inp inputs)
  obtain t' go where turn: "single_turn kern m cs d start inp t = (t', go)" by (metis surj_pair)
  have step: "\<exists>k\<le>1. tried_frames (st_can t') = tried_frames (st_can t) @ replicate k (command_frame cs)"
  proof (cases "word_of_int d \<le> bi_now inp - start")
    case True then show ?thesis using turn by (auto simp: single_turn_def Let_def intro: exI [of _ 0])
  next
    case False then show ?thesis
      using turn by (intro exI [of _ 1]) (auto simp: single_turn_def Let_def bench_sender.send_eq split: if_splits)
  qed
  then obtain k where k: "k \<le> 1" "tried_frames (st_can t') = tried_frames (st_can t) @ replicate k (command_frame cs)"
    by blast
  obtain n where n: "n \<le> length inputs" "tried_frames (st_can (fst (single_loop kern m cs d start inputs t'))) =
      tried_frames (st_can t') @ replicate n (command_frame cs)" using Cons.IH by blast
  show ?case
  proof (cases go)
    case True then show ?thesis using turn k n by (intro exI [of _ "k + n"]) (simp add: replicate_add)
  next
    case False then show ?thesis using turn k by (intro exI [of _ k]) simp
  qed
qed simp

text \<open>The bench test sends one and the same frame, with the current asked for
  (never more than 5000) on the one motor, at most once per turn, and ten zero frames at the
  end. The feedback plays no part: a motor that does not answer, or runs away, stops nothing.\<close>

theorem single_motor_constant:
  assumes "single_args argv = Some (motor_id, current, duration_ms, period_ms)"
    "0 \<le> can_answer answers (argv ! 0)"
  shows "\<exists>n frame. tried_frames (fst (snd (single_main kern argv answers start inputs))) =
      replicate n frame @ replicate 10 (command_frame (replicate 5 0)) \<and> n \<le> length inputs \<and>
      one_motor_frame (at_most 5000) (nat motor_id) frame \<and>
      sint (frame_currents frame ! (nat motor_id - 1)) = current"
proof -
  note r = single_args_range [OF assms(1)]
  let ?cs = "(replicate 5 0)[nat motor_id := word_of_int current :: i16]"
  have s: "sint (word_of_int current :: i16) = current"
    using r(2) by (simp add: sint_sbintrunc' signed_take_bit_int_eq_self)
  have m: "nat motor_id < 5" using r(1) by auto
  have "one_motor (at_most 5000) (nat motor_id) ?cs"
    by (rule one_motor_update [OF one_motor_zero [of "\<lambda>x. True"]]) (use s r(2) m in \<open>simp_all add: at_most_def\<close>)
  moreover have "frame_currents (command_frame ?cs) ! (nat motor_id - 1) = word_of_int current"
    using r(1) by (auto simp: frame_currents_command numeral_eq_Suc)
  moreover obtain n where "n \<le> length inputs"
    "tried_frames (st_can (fst (single_loop kern motor_id ?cs duration_ms start inputs
       \<lparr>st_feedbacks = replicate 5 fb_zero, st_last_print_ms = 0, st_can = [], st_printed = []\<rparr>))) =
     replicate n (command_frame ?cs)"
    using single_loop_frames [of inputs kern motor_id ?cs duration_ms start
        "\<lparr>st_feedbacks = replicate 5 fb_zero, st_last_print_ms = 0, st_can = [], st_printed = []\<rparr>"] by auto
  ultimately show ?thesis
    using assms s
    by (intro exI [of _ n] exI [of _ "command_frame ?cs"])
      (simp add: single_main_def Let_def bench_zero_frames one_motor_frame)
qed

section \<open>The closed loop\<close>

text \<open>Within the limits the conversion cuts the fraction off; only a NaN is left to the platform.\<close>

lemma f32_to_i16_bound:
  assumes "- f32_lit 6500 \<le> x" "x \<le> f32_lit 6500" shows "\<bar>sint (f32_to_i16 u x)\<bar> \<le> 6500"
proof (cases x)
  case (Fin s q)
  let ?n = "if q < 0 then \<lceil>q\<rceil> else \<lfloor>q\<rfloor>"
  have "\<bar>q\<bar> \<le> 6500" using assms by (auto simp: Fin lit_limits)
  then have n: "\<bar>?n\<bar> \<le> 6500" by (cases "q < 0") (simp_all, linarith+)
  then have "- (2 ^ 15) \<le> ?n \<and> ?n < 2 ^ 15" by (simp add: abs_le_iff)
  then have "f32_to_i16 u x = word_of_int ?n" unfolding Fin f32_to_i16_def f32.case Let_def by (rule if_P)
  moreover have "sint (word_of_int ?n :: i16) = ?n"
    by (subst sint_sbintrunc') (rule signed_take_bit_int_eq_self, use n in simp_all)
  ultimately show ?thesis using n by simp
qed (use assms in \<open>auto simp: lit_limits\<close>)

lemma f32_to_i16_NaN: "f32_to_i16 u NaN = u NaN"
  by (simp add: f32_to_i16_def)

lemma speed_args_range:
  assumes "speed_args argv = Some opts"
  shows "nat (so_motor_id opts) \<in> {1, 2, 3, 4}" "\<bar>so_target_rpm opts\<bar> \<le> 3800"
proof -
  have "\<not> (so_motor_id opts < 1 \<or> 4 < so_motor_id opts)"
    "\<not> (so_target_rpm opts < - DEFAULT_TARGET_LIMIT_RPM \<or> DEFAULT_TARGET_LIMIT_RPM < so_target_rpm opts)"
    using assms by (auto simp: speed_args_def Let_def split: prod.splits if_splits)
  then show "nat (so_motor_id opts) \<in> {1, 2, 3, 4}" "\<bar>so_target_rpm opts\<bar> \<le> 3800"
    by (auto simp: DEFAULT_TARGET_LIMIT_RPM_def)
qed

definition speed_silent :: "SpeedOptions \<Rightarrow> BenchInput \<Rightarrow> SpeedTest \<Rightarrow> bool" where
  "speed_silent opts inp t =
     (let fb = fst (bench_drain_feedback (bi_now inp) (bi_can inp) (sp_feedbacks t)) ! nat (so_motor_id opts)
      in fb_online fb = 0 \<or> 200 < bi_now inp - fb_last_update_ms fb)"

lemma speed_turn_silent:
  "speed_silent opts inp t \<Longrightarrow> \<not> snd (speed_turn kern u opts start inp t) \<and>
     sp_can (fst (speed_turn kern u opts start inp t)) = sp_can t"
  by (simp add: speed_turn_def speed_silent_def Let_def)

text \<open>A turn does nothing to the bus, or one call of the controller and one frame.\<close>

lemma speed_turn_cases:
  fixes kern u
  defines "t' \<equiv> \<lambda>opts start inp t. fst (speed_turn kern u opts start inp t)"
  obtains (leave) "sp_currents (t' opts start inp t) = sp_currents t" "sp_pid (t' opts start inp t) = sp_pid t"
      "sp_can (t' opts start inp t) = sp_can t"
  | (drive) rpm cs where
      "cs = (sp_currents t)[nat (so_motor_id opts) := f32_to_i16 u (snd (pid_calculate (sp_pid t)
         (f32_of_int (so_target_rpm opts)) (f32_of_int (sint (rpm :: i16))) (loop_dt (bi_now inp) (sp_last_loop_ms t))))]"
      "sp_currents (t' opts start inp t) = cs"
      "sp_pid (t' opts start inp t) = fst (pid_calculate (sp_pid t) (f32_of_int (so_target_rpm opts))
         (f32_of_int (sint rpm)) (loop_dt (bi_now inp) (sp_last_loop_ms t)))"
      "tried_frames (sp_can (t' opts start inp t)) = tried_frames (sp_can t) @ [command_frame cs]"
proof (cases "word_of_int (so_duration_ms opts) \<le> bi_now inp - start \<or> speed_silent opts inp t")
  case True
  then show ?thesis by (intro leave) (auto simp: t'_def speed_turn_def speed_silent_def Let_def)
next
  case False
  let ?rpm = "fb_speed_rpm (fst (bench_drain_feedback (bi_now inp) (bi_can inp) (sp_feedbacks t)) ! nat (so_motor_id opts))"
  show ?thesis
    by (rule drive [OF refl, of ?rpm])
      (use False in \<open>simp_all add: t'_def speed_turn_def speed_silent_def Let_def case_prod_beta bench_sender.send_eq\<close>)
qed

text \<open>What every turn keeps: with any gains, and with gains that are numbers of at most 16.\<close>

definition speed_frames :: "(i16 \<Rightarrow> bool) \<Rightarrow> nat \<Rightarrow> SpeedTest \<Rightarrow> bool" where
  "speed_frames ok m t \<longleftrightarrow> one_motor ok m (sp_currents t) \<and>
     (\<forall>f\<in>set (tried_frames (sp_can t)). one_motor_frame ok m f)"

definition speed_limits :: "SpeedTest \<Rightarrow> bool" where
  "speed_limits t \<longleftrightarrow> output_max (sp_pid t) = f32_lit 6500 \<and> output_min (sp_pid t) = - f32_lit 6500"

definition gains_small :: "SpeedOptions \<Rightarrow> bool" where
  "gains_small opts \<longleftrightarrow> fbnd 16 (so_kp opts) \<and> fbnd 16 (so_ki opts) \<and> fbnd 16 (so_kd opts)"

lemma speed_turn_any:
  assumes "speed_frames (\<lambda>x. at_most 6500 x \<or> x = u NaN) (nat (so_motor_id opts)) t" "speed_limits t"
    "nat (so_motor_id opts) < 5"
  shows "speed_frames (\<lambda>x. at_most 6500 x \<or> x = u NaN) (nat (so_motor_id opts)) (fst (speed_turn kern u opts start inp t)) \<and>
    speed_limits (fst (speed_turn kern u opts start inp t))"
proof (cases rule: speed_turn_cases [where kern = kern and u = u and opts = opts and start = start and inp = inp and t = t])
  case leave
  then show ?thesis using assms by (simp add: speed_frames_def speed_limits_def)
next
  case (drive rpm cs)
  let ?ok = "\<lambda>x. at_most 6500 x \<or> x = u NaN"
  let ?out = "snd (pid_calculate (sp_pid t) (f32_of_int (so_target_rpm opts)) (f32_of_int (sint rpm))
      (loop_dt (bi_now inp) (sp_last_loop_ms t)))"
  have "?out = NaN \<or> - f32_lit 6500 \<le> ?out \<and> ?out \<le> f32_lit 6500"
    using pid_out_range [of "sp_pid t"] assms(2) by (simp add: pid_calculate_out speed_limits_def lit_limits)
  then have "?ok (f32_to_i16 u ?out)"
    using f32_to_i16_bound [of ?out u] f32_to_i16_NaN [of u] by (auto simp: at_most_def)
  then have cs: "one_motor ?ok (nat (so_motor_id opts)) cs"
    using assms(1,3) unfolding drive(1) by (intro one_motor_update [where ok' = ?ok]) (simp_all add: speed_frames_def)
  then show ?thesis
    using assms(1,2) one_motor_frame [OF cs]
    by (auto simp: speed_frames_def speed_limits_def drive(2-4) pid_calculate_fields)
qed

lemma speed_turn_small:
  assumes "speed_frames (at_most 6500) (nat (so_motor_id opts)) t" "drive_ok (sp_pid t)"
    "nat (so_motor_id opts) < 5" "\<bar>so_target_rpm opts\<bar> \<le> 3800"
  shows "speed_frames (at_most 6500) (nat (so_motor_id opts)) (fst (speed_turn kern u opts start inp t)) \<and>
    drive_ok (sp_pid (fst (speed_turn kern u opts start inp t)))"
proof (cases rule: speed_turn_cases [where kern = kern and u = u and opts = opts and start = start and inp = inp and t = t])
  case leave
  then show ?thesis using assms by (simp add: speed_frames_def)
next
  case (drive rpm cs)
  let ?out = "snd (pid_calculate (sp_pid t) (f32_of_int (so_target_rpm opts)) (f32_of_int (sint rpm))
      (loop_dt (bi_now inp) (sp_last_loop_ms t)))"
  have "\<bar>of_int (so_target_rpm opts) :: rat\<bar> \<le> of_int 3800"
    using assms(4) by (simp only: of_int_abs [symmetric] of_int_le_iff)
  then have target: "fbnd (2 ^ 18) (f32_of_int (so_target_rpm opts))"
    using assms(4) f32_of_int_exact [of "so_target_rpm opts"] by simp
  have rpm: "fbnd (2 ^ 18) (f32_of_int (sint rpm))" by (rule fbnd_mono [OF i16_fbnd]) simp
  note pid = drive_ok_calculate [OF assms(2) target rpm loop_dt_ok [of "bi_now inp" "sp_last_loop_ms t"]]
  have "- f32_lit 6500 \<le> ?out \<and> ?out \<le> f32_lit 6500"
    using pid(2) by (cases ?out) (auto simp: lit_limits)
  then have "at_most 6500 (f32_to_i16 u ?out)" using f32_to_i16_bound [of ?out u] by (simp add: at_most_def)
  then have cs: "one_motor (at_most 6500) (nat (so_motor_id opts)) cs"
    using assms(1,3) unfolding drive(1) by (intro one_motor_update [where ok' = "at_most 6500"]) (simp_all add: speed_frames_def)
  then show ?thesis
    using assms(1) one_motor_frame [OF cs] pid(1) by (auto simp: speed_frames_def drive(2-4))
qed

lemma speed_begin_ok:
  assumes "m < 5" "\<And>x. at_most 6500 x \<Longrightarrow> ok x"
  shows "speed_frames ok m (speed_begin opts memory start feedbacks)"
    "speed_limits (speed_begin opts memory start feedbacks)"
    "gains_small opts \<Longrightarrow> drive_ok (sp_pid (speed_begin opts memory start feedbacks))"
proof -
  have "at_most 6500 0" by (simp add: at_most_def)
  then show "speed_frames ok m (speed_begin opts memory start feedbacks)"
    using assms one_motor_zero [of ok m] by (simp add: speed_frames_def speed_begin_def)
  show "speed_limits (speed_begin opts memory start feedbacks)"
    by (simp add: speed_limits_def speed_begin_def pid_init_def DEFAULT_OUTPUT_LIMIT_def)
  show "drive_ok (sp_pid (speed_begin opts memory start feedbacks))" if "gains_small opts"
    using that
    by (simp add: gains_small_def speed_begin_def pid_init_def drive_ok_def pid_fin_def pid_integral_ok_def
        DEFAULT_OUTPUT_LIMIT_def DEFAULT_INTEGRAL_LIMIT_def lit_limits zero_f32_def)
qed

text \<open>C16. The closed-loop test moves one motor and no other: whatever the gains, the
  feedback and the clock, each of its frames gives the three other motors zero, and the last ten
  frames are zeros. The current of the motor under test is at most 6500 either way, or, when the
  controller's output is a NaN, whatever the platform makes of \<open>(int16_t)NaN\<close> (the parameter \<open>u\<close>,
  which may be any current). With gains that are numbers of at most 16, the default ones among
  them, there is no NaN and the bound holds without exception.\<close>

theorem speed_test_one_motor:
  assumes "speed_args (sw_argv w) = Some opts" "0 \<le> can_answer (sw_can w) (sw_argv w ! 0)"
  shows "\<exists>frames. tried_frames (fst (snd (speed_main kern u w))) =
      frames @ replicate 10 (command_frame (replicate 5 0)) \<and>
    (\<forall>f\<in>set frames. one_motor_frame (\<lambda>x. at_most 6500 x \<or> x = u NaN) (nat (so_motor_id opts)) f) \<and>
    (gains_small opts \<longrightarrow> (\<forall>f\<in>set frames. one_motor_frame (at_most 6500) (nat (so_motor_id opts)) f))"
proof -
  let ?m = "nat (so_motor_id opts)" and ?ok = "\<lambda>x. at_most 6500 x \<or> x = u NaN"
  have m: "?m < 5" using speed_args_range(1) [OF assms(1)] by auto
  let ?wait = "wait_for_motor_feedback (sw_wait_ms w) (so_motor_id opts) 1000 (sw_rounds w) (replicate 5 fb_zero)"
  let ?b = "speed_begin opts (sw_memory w) (sw_start_ms w) (snd ?wait)"
  let ?t = "fst (speed_loop kern u opts (sw_start_ms w) (sw_inputs w) ?b)"
  have "speed_frames ?ok ?m ?t \<and> speed_limits ?t"
    by (rule speed_turns.turns_invariant [where P = "\<lambda>t. speed_frames ?ok ?m t \<and> speed_limits t"])
      (use speed_begin_ok(1,2) [OF m, of ?ok] speed_turn_any [OF _ _ m, of u] in auto)
  moreover have "speed_frames (at_most 6500) ?m ?t \<and> drive_ok (sp_pid ?t)" if "gains_small opts"
    by (rule speed_turns.turns_invariant [where P = "\<lambda>t. speed_frames (at_most 6500) ?m t \<and> drive_ok (sp_pid t)"])
      (use speed_begin_ok(1,3) [OF m, of "at_most 6500"] that
        speed_turn_small [OF _ _ m speed_args_range(2) [OF assms(1)]] in auto)
  ultimately show ?thesis
    using assms by (cases "fst ?wait = 0")
      (auto simp: speed_main_def case_prod_beta Let_def bench_zero_frames speed_frames_def)
qed

text \<open>Motor 1 at 500 rpm for 5 ms with the default gains: the motor answers, and one turn is made. The
  conversion of a NaN is the worst there is.\<close>

definition demo_speed_world :: SpeedWorld where
  "demo_speed_world = \<lparr>sw_argv = [''can0'', ''1'', ''500'', ''5''],
     sw_can = \<lparr>ca_socket = 3, ca_ioctl = \<lambda>_. 0, ca_bind = 0\<rparr>, sw_memory = demo_pid, sw_wait_ms = 1000,
     sw_rounds = [(1000, 1000, [ReadFrame \<lparr>cf_can_id = 0x201, cf_can_dlc = 8, cf_data = replicate 8 0\<rparr>])],
     sw_start_ms = 1001, sw_inputs = [\<lparr>bi_now = 1001, bi_can = []\<rparr>]\<rparr>"

lemma demo_speed_args:
  "map_option (\<lambda>opts. (so_motor_id opts, gains_small opts)) (speed_args (sw_argv demo_speed_world)) = Some (1, True)"
  by code_simp

lemma speed_test_one_motor_witness:
  "list_all (one_motor_frame (at_most 6500) 1)
     (take (length (tried_frames (fst (snd (speed_main (\<lambda>_ _. 16) (\<lambda>_. - 32768) demo_speed_world)))) - 10)
       (tried_frames (fst (snd (speed_main (\<lambda>_ _. 16) (\<lambda>_. - 32768) demo_speed_world)))))"
proof -
  obtain opts where o: "speed_args (sw_argv demo_speed_world) = Some opts" "so_motor_id opts = 1" "gains_small opts"
    using demo_speed_args by auto
  have "0 \<le> can_answer (sw_can demo_speed_world) (sw_argv demo_speed_world ! 0)"
    by (simp add: demo_speed_world_def can_answer_def socketcan_open_def)
  from speed_test_one_motor [OF o(1) this, of "\<lambda>_ _. 16" "\<lambda>_. - 32768"]
  show ?thesis by (auto simp: o(2,3) list_all_iff)
qed

text \<open>A motor that has been silent for more than 200 ms ends the test: that turn sends
  nothing, leaves the loop, and what follows are the ten zero frames.\<close>

theorem speed_test_stops_when_silent:
  assumes "speed_silent opts inp (fst (speed_loop kern u opts start before t))"
    "\<not> snd (speed_loop kern u opts start before t)"
  shows "snd (speed_loop kern u opts start (before @ inp # later) t) \<and>
    sp_can (fst (speed_loop kern u opts start (before @ inp # later) t)) =
      sp_can (fst (speed_loop kern u opts start before t))"
  using assms
proof (induction before arbitrary: t)
  case Nil
  then show ?case using speed_turn_silent [of opts inp t kern u start] by (simp add: case_prod_beta)
next
  case (Cons i "is")
  then show ?case by (cases "snd (speed_turn kern u opts start i t)") (simp_all add: case_prod_beta)
qed

end
