(* ===== verification/Spec2Isabelle.thy ===== *)
theory Spec2Isabelle
  imports ChassisWheels ChassisDrive PointerApi DaemonLog VelocityProps Monitor3508 ProxyProgram BridgeMessages RttUdpEcho CommandTool KeyboardTool MotorBench
begin

text \<open>
  Verification of the RK3588 chassis control software.

  The program drives a four-wheel mecanum chassis with DJI 3508 motors over CAN, from a Linux
  board (RK3588) and, in a second arrangement, from an RT-Thread core that talks to a Linux
  proxy over UDP. The parts and the theories that model them:

  \<^item> \<open>src/pid.c\<close>: \<open>Pid\<close>. A speed controller per motor, in \<open>float\<close>. The record
    \<open>PIDController\<close> has the fields of the struct (\<open>target\<close>, \<open>actual\<close>, ... carry the prefix
    \<open>pid_\<close>); \<open>pid_init\<close>, \<open>pid_reset\<close> and \<open>pid_calculate\<close> are the functions.
  \<^item> \<open>src/motor_3508.c\<close>: \<open>Motor3508\<close>. Command frames (identifier 0x200, four big-endian
    currents) and feedback frames (0x201 to 0x204).
  \<^item> \<open>src/socketcan.c\<close>: \<open>SocketCan\<close>. The CAN socket; \<open>CommandFrames\<close> has the frames of four
    currents and the interface \<open>current_sender\<close> of the functions \<open>send_currents\<close>.
  \<^item> \<open>src/chassis_control.c\<close>: \<open>Chassis\<close> (state, operations, the three outcomes of a step,
    bounds on the wheel targets), \<open>ChassisProps\<close> (reachable states, currents, stopping,
    permission to move, NaN), \<open>ChassisWheels\<close> (the mixing against the mecanum equations),
    \<open>PointerApi\<close> (the functions behind their \<open>NULL\<close> guards).
  \<^item> What the programs share: \<open>UdpSocket\<close> (\<open>open_udp_socket\<close>), \<open>CScan\<close> and \<open>CFormat\<close> (the text
    input and the output conversions of C they use), \<open>ControlCycle\<close> (the clock, the time step,
    zero currents while motors are offline), \<open>ChassisDrive\<close> (a chassis that may move does move).
  \<^item> \<open>tools/chassis_daemon.c\<close>: \<open>ChassisDaemon\<close> (arguments, command text, drains, wait for
    feedback, control loop, status lines, CSV log, every exit of \<open>main\<close>), \<open>DaemonProps\<close> and
    \<open>DaemonLog\<close> (what it keeps and what it writes down).
  \<^item> \<open>tools/can_proxy.c\<close> and \<open>include/rtt_bridge_protocol.h\<close>: \<open>BridgeWire\<close> (byte codec, packet
    header), \<open>CanProxy\<close> (state, drains, datagrams, state packets, status lines, main loop),
    \<open>CanProxyProps\<close>, \<open>ProxyProgram\<close> (the program from its arguments on) and \<open>BridgeMessages\<close>
    (the messages of the protocol file, and the proxy as an implementation of their handler).
  \<^item> \<open>rtthread_port/rtt_chassis_bridge.c\<close>: \<open>RttBridge\<close> (its own codec, packets, thread loop) and
    \<open>BridgeProps\<close> (the proxy and the bridge together).
  \<^item> \<open>rtthread_port/rtt_udp_echo.c\<close> and \<open>main_with_chassis_bridge.c\<close>: \<open>RttUdpEcho\<close> (the echo and
    beacon threads, the autostart thread, and the step relation \<open>echo_step\<close> of the accesses of
    concurrent callers and threads to the static handle).
  \<^item> \<open>tools/chassis_velocity.c\<close>: \<open>ChassisVelocity\<close> and \<open>VelocityProps\<close>; \<open>tools/monitor_3508.c\<close>:
    \<open>Monitor3508\<close>.
  \<^item> The bench programs \<open>tools/test_*.c\<close>: \<open>CommandTool\<close> (a direction for a given time; apart from its
    arguments the text of the velocity tool), \<open>KeyboardTool\<close> (the terminal, the keys, the loop),
    \<open>MotorBench\<close> (one motor under a constant current, and in a closed loop).

  Conventions. \<open>CPrelude\<close> names the C integer types: \<open>uint8_t\<close> to \<open>uint64_t\<close> are words, \<open>int8_t\<close>
  and \<open>int16_t\<close> words read by \<open>sint\<close>; \<open>int\<close> values that stay small are integers, and where a
  cast cuts bits off it is written out. \<open>Float32\<close> models \<open>float\<close>: the build sets no
  optimisation level, so on AArch64 every operation is rounded to binary32 on its own, to
  nearest even; infinities, NaN and signed zeros are values. \<open>lrintf\<close> of a NaN or of a value
  outside \<open>long\<close> is unspecified in C: it is the parameter \<open>u\<close> of every definition that calls it.
  Arrays of five motors are lists of length 5 with slot 0 unused, as in the code; the
  well-formedness predicates (\<open>chassis_wf\<close>, \<open>px_wf\<close>) say so, and every operation keeps them.
  Uninitialised stack memory is an argument where its content could matter (\<open>stack\<close>,
  \<open>dw_memory\<close>).

  The outside world. What a socket, the clock or the scheduler answers is an input: an event list
  for a receive queue (\<open>rx_event\<close>, \<open>udp_event\<close>, \<open>text_event\<close>), a number for a clock read, a
  function (\<open>kern\<close>, \<open>ukern\<close>) for the result of a write given everything written before. What
  the program writes is a log in its state. Properties hold for all of them. The receive
  loops \<open>for (;;)\<close> are recursive over their queue and all interpret \<open>receive_loop\<close> of
  \<open>EventLoop\<close>, whose lemmas (invariant, frame, last event) carry their proofs; a queue that
  runs out stands for one with nothing more to read, so no fuel is needed. The main loops run
  over a list of inputs, one per turn, of any length: the signal that ends them comes after
  the last, and a turn may leave the loop itself (a failed send, the time being up); the loops
  of the daemon and of all other tools interpret \<open>turn_loop\<close> of the same theory.
  Standard output and the CSV file are lists of lines, made with the conversions of \<open>CFormat\<close>.

  Interfaces. \<open>speed_controller\<close> (Pid) is what the chassis uses of the PID controller; \<open>byte_field\<close>
  (BridgeWire) what a packet needs of a field codec, interpreted on both copies of the codec;
  \<open>receive_loop\<close> (EventLoop) on the seven drains and \<open>turn_loop\<close> on the six main
  loops of the tools; \<open>current_sender\<close> (CommandFrames) on the four senders.

  What is shown. Shape: the arrays of the proxy and of the daemon keep what their declarations
  and their users rely on. Bounds: every current the controller, the daemon, the velocity tool
  or the proxy puts on the bus is within its limit, over whole runs. Stopping: stale and zero commands, silent motors, and
  every exit lead to zero currents. Permission: no current without a recent command and four
  live motors; none without \<open>--allow-current\<close>; none but to the motor under test; none from the
  keyboard once the keys are released. Progress: a fresh command drives every motor
  towards its target. Termination: the velocity tool is bounded by its duration, the autostart
  loop by the first thread that stays. Refinement: wheel targets follow the mecanum equations
  under one common scale; the proxy implements the message handler of the protocol; the bridge
  reads what the proxy writes. Round trips of frames, headers, packets and rows of the CSV
  log. Anti-windup, and what resets forget. The handle of the echo thread tells the truth when
  starts do not overlap. Where the code does something its documents do not say, or that it
  cannot mean, the property states what it does: NaN commands, the emergency stop that is not
  latched, the time-out that sends nothing, feedback reported offline by a wrapped age, frames
  of other kinds taken for feedback, unchecked numbers of the proxy's command line, the echo
  thread lost by two overlapping starts, the terminal the keyboard tool leaves changed.

  Assumptions on numbers: \<open>config_ok\<close> asks for speed limits of at most 32768 rpm with a
  non-negative translation limit, \<open>dt_ok\<close> for a time step that is not positive or between
  1/1024 s and \<open>2 ^ 64\<close> s, which the daemon always computes; commands are not NaN where so stated.

  Not modelled: sleeping and signal delivery (a signal ends the input list); usage texts and the
  other fixed messages; the closing of descriptors on the way out of \<open>main\<close>; the sign printed
  for a NaN; the console output of RT-Thread; the board support package that \<open>chassis_car_app\<close> calls, which
  is not in the repository (its functions are parameters); the Python tools, shell scripts and
  unit files.
\<close>

end
